(* ===== verification/Prelude.thy ===== *)
theory Prelude
  imports Complex_Main "HOL-Library.Multiset"
begin

text \<open>
  Shared vocabulary of the development: results that may be an error, the rows of a
  database table as lists, guarded updates of such tables (the shape of Prisma's
  \<open>updateMany\<close> calls in the repositories), sorted lists and the generic lemmas the
  components use. Times are integers, in milliseconds since the epoch, as
  \<open>Date.getTime()\<close> gives them; the code's \<open>bigint\<close> values are \<open>int\<close>.
\<close>

named_theorems scope_simps \<open>tenant scope checks\<close>
named_theorems store_simps \<open>reads and guarded writes of tables\<close>
named_theorems repo_simps \<open>repository operations\<close>

type_synonym merchant_id = string
type_synonym time = int

abbreviation ms_per_hour :: int where "ms_per_hour \<equiv> 3600000"
abbreviation ms_per_day :: int where "ms_per_day \<equiv> 86400000"

section \<open>Results\<close>

text \<open>A computation that may throw is a sum, \<open>Inl\<close> the thrown value.\<close>

fun rbind :: "'e + 'a \<Rightarrow> ('a \<Rightarrow> 'e + 'b) \<Rightarrow> 'e + 'b" where
  "rbind (Inl e) f = Inl e"
| "rbind (Inr x) f = f x"

fun is_error :: "'e + 'a \<Rightarrow> bool" where
  "is_error (Inl _) = True"
| "is_error (Inr _) = False"

lemma rbind_Inr_iff [simp]:
  "rbind r f = Inr y \<longleftrightarrow> (\<exists>x. r = Inr x \<and> f x = Inr y)"
  by (cases r) auto

lemma rbind_Inl_iff:
  "rbind r f = Inl e \<longleftrightarrow> r = Inl e \<or> (\<exists>x. r = Inr x \<and> f x = Inl e)"
  by (cases r) auto

lemma is_error_iff: "is_error r \<longleftrightarrow> (\<exists>e. r = Inl e)"
  by (cases r) auto

lemma sum_case_Inr_iff:
  "(case r of Inl e \<Rightarrow> Inl (g e) | Inr x \<Rightarrow> f x) = Inr y \<longleftrightarrow> (\<exists>x. r = Inr x \<and> f x = Inr y)"
  by (cases r) auto

lemma case_Some_Inr:
  "(case x of Some (s, Inr t) \<Rightarrow> P s t | _ \<Rightarrow> False) \<longleftrightarrow> (\<exists>s t. x = Some (s, Inr t) \<and> P s t)"
proof (cases x)
  case (Some p)
  then show ?thesis by (cases p, cases "snd p") auto
qed simp

lemma case_Inr_Some:
  "(case x of Inr (s, Some t) \<Rightarrow> P s t | _ \<Rightarrow> False) \<longleftrightarrow> (\<exists>s t. x = Inr (s, Some t) \<and> P s t)"
proof (cases x)
  case (Inr p)
  then show ?thesis by (cases p, cases "snd p") auto
qed simp

lemma case_Inr_pair:
  "(case x of Inr (s, t) \<Rightarrow> P s t | Inl _ \<Rightarrow> False) \<longleftrightarrow> (\<exists>s t. x = Inr (s, t) \<and> P s t)"
proof (cases x)
  case (Inr p)
  then show ?thesis by (cases p) auto
qed simp

section \<open>Tables\<close>

text \<open>
  A table is the list of its rows. \<open>find_row\<close> is a read by a unique key,
  \<open>update_many\<close> changes every row that satisfies the \<open>where\<close> clause and
  \<open>update_count\<close> is the \<open>count\<close> that \<open>updateMany\<close> returns.
\<close>

definition find_row :: "('r \<Rightarrow> bool) \<Rightarrow> 'r list \<Rightarrow> 'r option" where
  "find_row p rows = List.find p rows"

definition update_many :: "('r \<Rightarrow> bool) \<Rightarrow> ('r \<Rightarrow> 'r) \<Rightarrow> 'r list \<Rightarrow> 'r list" where
  "update_many p f rows = map (\<lambda>r. if p r then f r else r) rows"

definition update_count :: "('r \<Rightarrow> bool) \<Rightarrow> 'r list \<Rightarrow> nat" where
  "update_count p rows = length (filter p rows)"

lemma find_row_Nil [simp, store_simps]: "find_row p [] = None"
  by (simp add: find_row_def)

lemma find_row_Cons [store_simps]:
  "find_row p (r # rows) = (if p r then Some r else find_row p rows)"
  by (simp add: find_row_def)

lemma find_row_Some_D: "find_row p rows = Some r \<Longrightarrow> r \<in> set rows \<and> p r"
  by (auto simp: find_row_def find_Some_iff)

lemma find_row_None_iff: "find_row p rows = None \<longleftrightarrow> (\<forall>r \<in> set rows. \<not> p r)"
  by (auto simp: find_row_def find_None_iff)

lemma find_row_append:
  "find_row p (xs @ ys) = (case find_row p xs of Some r \<Rightarrow> Some r | None \<Rightarrow> find_row p ys)"
  by (induction xs) (auto simp: find_row_Cons)

lemma find_row_cong:
  "(\<And>r. r \<in> set rows \<Longrightarrow> p r = q r) \<Longrightarrow> find_row p rows = find_row q rows"
  by (induction rows) (auto simp: find_row_Cons)

lemma update_many_simps [simp, store_simps]:
  "update_many p f [] = []"
  "update_many p f (r # rows) = (if p r then f r else r) # update_many p f rows"
  by (simp_all add: update_many_def)

lemma update_count_simps [simp, store_simps]:
  "update_count p [] = 0"
  "update_count p (r # rows) = (if p r then Suc (update_count p rows) else update_count p rows)"
  by (simp_all add: update_count_def)

lemma length_update_many [simp]: "length (update_many p f rows) = length rows"
  by (simp add: update_many_def)

lemma set_update_many: "set (update_many p f rows) = (\<lambda>r. if p r then f r else r) ` set rows"
  by (simp add: update_many_def)

lemma update_count_0_iff: "update_count p rows = 0 \<longleftrightarrow> (\<forall>r \<in> set rows. \<not> p r)"
  by (auto simp: update_count_def filter_empty_conv)

lemma update_count_pos_iff: "0 < update_count p rows \<longleftrightarrow> (\<exists>r \<in> set rows. p r)"
  using update_count_0_iff [of p rows] by auto

lemma update_many_none: "update_count p rows = 0 \<Longrightarrow> update_many p f rows = rows"
  by (induction rows) (auto split: if_splits)

lemma map_update_many:
  "(\<And>r. p r \<Longrightarrow> k (f r) = k r) \<Longrightarrow> map k (update_many p f rows) = map k rows"
  by (induction rows) auto

lemma image_update_many:
  "(\<And>r. p r \<Longrightarrow> k (f r) = k r) \<Longrightarrow> k ` set (update_many p f rows) = k ` set rows"
  by (metis map_update_many list.set_map)

lemma find_update_many_other:
  assumes "\<And>r. p r \<Longrightarrow> \<not> q r" and "\<And>r. p r \<Longrightarrow> \<not> q (f r)"
  shows "find_row q (update_many p f rows) = find_row q rows"
  using assms by (induction rows) (auto simp: find_row_Cons)

lemma filter_update_many_other:
  "(\<And>r. p r \<Longrightarrow> \<not> q r \<and> \<not> q (f r)) \<Longrightarrow> filter q (update_many p f rows) = filter q rows"
  by (induction rows) auto

lemma find_update_many_key:
  assumes "\<And>r. q (f r) = q r"
  shows "find_row q (update_many p f rows)
    = map_option (\<lambda>r. if p r then f r else r) (find_row q rows)"
  using assms by (induction rows) (auto simp: find_row_Cons)

lemma find_update_many_hit:
  "find_row p rows = Some r \<Longrightarrow> p (f r) \<Longrightarrow> find_row p (update_many p f rows) = Some (f r)"
  by (induction rows) (auto simp: find_row_Cons split: if_splits)

lemma find_row_unique:
  assumes "distinct (map k rows)" and "r \<in> set rows"
  shows "find_row (\<lambda>x. k x = k r) rows = Some r"
  using assms by (induction rows) (auto simp: find_row_Cons image_iff)

lemma find_row_unique_iff:
  assumes "distinct (map k rows)"
  shows "find_row (\<lambda>x. k x = a) rows = Some r \<longleftrightarrow> r \<in> set rows \<and> k r = a"
  using assms find_row_unique [OF assms] find_row_Some_D by fastforce

section \<open>Lists\<close>

lemma sorted_nth_mono':
  "sorted xs \<Longrightarrow> i \<le> j \<Longrightarrow> j < length xs \<Longrightarrow> xs ! i \<le> xs ! j"
  by (rule sorted_nth_mono)

lemma length_filter_le_index:
  assumes "sorted xs" and "i < length xs"
  shows "Suc i \<le> length (filter (\<lambda>x. x \<le> xs ! i) xs)"
proof -
  have "card {..i} \<le> card {j. j < length xs \<and> xs ! j \<le> xs ! i}"
    using assms by (intro card_mono) (auto intro: sorted_nth_mono)
  then show ?thesis by (simp add: length_filter_conv_card)
qed

lemma length_filter_less_index:
  assumes "sorted xs" and "i < length xs"
  shows "length (filter (\<lambda>x. x < xs ! i) xs) \<le> i"
proof -
  have "{j. j < length xs \<and> xs ! j < xs ! i} \<subseteq> {..<i}"
    using sorted_nth_mono [OF assms(1)] by (auto simp: leD not_less [symmetric])
  then have "card {j. j < length xs \<and> xs ! j < xs ! i} \<le> card {..<i}"
    by (intro card_mono) auto
  then show ?thesis by (simp add: length_filter_conv_card)
qed

lemma length_filter_sort [simp]: "length (filter p (sort xs)) = length (filter p xs)"
proof -
  have "mset (filter p (sort xs)) = mset (filter p xs)"
    by (simp add: mset_filter)
  then show ?thesis by (metis size_mset)
qed

lemma sum_list_sort_key: "sum_list (map f (sort_key k xs)) = (sum_list (map f xs) :: int)"
proof -
  have "mset (map f (sort_key k xs)) = mset (map f xs)" by simp
  then show ?thesis by (metis sum_mset_sum_list)
qed

lemma length_filter_compl:
  "length (filter p xs) + length (filter (\<lambda>x. \<not> p x) xs) = length xs"
  by (induction xs) auto

lemma length_filter_imp:
  "(\<And>x. x \<in> set xs \<Longrightarrow> P x \<Longrightarrow> Q x) \<Longrightarrow> length (filter P xs) \<le> length (filter Q xs)"
  by (induction xs) auto

lemma take_all_or_more: "length (take n xs) < n \<Longrightarrow> take n xs = xs"
  by (cases "length xs < n") auto

end
