(* ===== verification/JsString.thy ===== *)
theory JsString
  imports Prelude
begin

text \<open>
  The operations on JavaScript strings that the program uses: \<open>startsWith\<close>, \<open>includes\<close>,
  \<open>split\<close> and \<open>join\<close>, \<open>trim\<close>, the case of ASCII letters and the rendering of whole numbers. A
  string is the list of its characters; text outside ASCII is written as its UTF-8 bytes.
\<close>

section \<open>Characters and numbers\<close>

definition lower :: "char \<Rightarrow> bool" where
  "lower c \<longleftrightarrow> of_char c \<ge> (97::nat) \<and> of_char c \<le> (122::nat)"

definition digit :: "char \<Rightarrow> bool" where
  "digit c \<longleftrightarrow> of_char c \<ge> (48::nat) \<and> of_char c \<le> (57::nat)"

definition upper_char :: "char \<Rightarrow> char" where
  "upper_char c = (if lower c then char_of (of_char c - 32 :: nat) else c)"

definition lower_char :: "char \<Rightarrow> char" where
  "lower_char c = (if of_char c \<ge> (65::nat) \<and> of_char c \<le> (90::nat)
     then char_of (of_char c + 32 :: nat) else c)"

text \<open>\<open>String(n)\<close> for a whole number.\<close>

fun decimal_digits :: "nat \<Rightarrow> nat list" where
  "decimal_digits n = (if n div 10 = 0 then [] else decimal_digits (n div 10)) @ [n mod 10]"

declare decimal_digits.simps [simp del]

definition nat_string :: "nat \<Rightarrow> string" where
  "nat_string n = map (\<lambda>d. char_of (d + 48)) (decimal_digits n)"

definition int_string :: "int \<Rightarrow> string" where
  "int_string i = (if i < 0 then [CHR ''-''] else []) @ nat_string (nat \<bar>i\<bar>)"

lemma decimal_digits_ne [simp]: "decimal_digits n \<noteq> []"
  by (subst decimal_digits.simps) simp

lemma decimal_digits_lt: "d \<in> set (decimal_digits n) \<Longrightarrow> d < 10"
  by (induction n rule: decimal_digits.induct) (subst (asm) (2) decimal_digits.simps, auto split: if_splits)

lemma decimal_digits_value: "foldl (\<lambda>a d. 10 * a + d) 0 (decimal_digits n) = n"
proof (induction n rule: decimal_digits.induct)
  case (1 n)
  then show ?case by (subst decimal_digits.simps) auto
qed

lemma decimal_digits_inject: "decimal_digits m = decimal_digits n \<Longrightarrow> m = n"
  by (metis decimal_digits_value)

definition digit_value :: "char \<Rightarrow> nat" where
  "digit_value c = of_char c - 48"

lemma digit_values: "map digit_value (nat_string n) = decimal_digits n"
  unfolding nat_string_def map_map
proof (rule map_idI)
  fix d assume "d \<in> set (decimal_digits n)"
  then show "(digit_value \<circ> (\<lambda>d. char_of (d + 48))) d = d"
    using decimal_digits_lt [of d n] by (simp add: digit_value_def)
qed

lemma nat_string_inject: "nat_string m = nat_string n \<Longrightarrow> m = n"
  by (metis digit_values decimal_digits_inject)

lemma nat_string_digits: "c \<in> set (nat_string n) \<Longrightarrow> digit c"
  using decimal_digits_lt by (fastforce simp: nat_string_def digit_def)

lemma nat_string_ne [simp]: "nat_string n \<noteq> []"
  by (simp add: nat_string_def)

lemma int_string_ne [simp]: "int_string i \<noteq> []"
  by (simp add: int_string_def)

lemma minus_not_digit: "CHR ''-'' \<notin> set (nat_string n)"
  using nat_string_digits [of "CHR ''-''" n] by (auto simp: digit_def)

lemma no_colon: "CHR '':'' \<notin> set (int_string i)"
  using nat_string_digits [of "CHR '':''"] by (auto simp: int_string_def digit_def)

lemma int_string_inject: "int_string i = int_string j \<Longrightarrow> i = j"
proof -
  assume eq: "int_string i = int_string j"
  have "CHR ''-'' \<in> set (int_string k) \<longleftrightarrow> k < 0" for k
    using minus_not_digit by (simp add: int_string_def)
  then have sign: "i < 0 \<longleftrightarrow> j < 0" using eq by metis
  with eq have "nat \<bar>i\<bar> = nat \<bar>j\<bar>" by (intro nat_string_inject) (auto simp: int_string_def split: if_splits)
  with sign show ?thesis by linarith
qed

text \<open>White space as \<open>trim\<close> removes it, within the first 256 code points.\<close>

definition white :: "char \<Rightarrow> bool" where
  "white c \<longleftrightarrow> (let n = of_char c :: nat in 9 \<le> n \<and> n \<le> 13 \<or> n = 32 \<or> n = 160)"

definition trim :: "string \<Rightarrow> string" where
  "trim s = rev (dropWhile white (rev (dropWhile white s)))"

section \<open>Searching\<close>

fun starts_with :: "string \<Rightarrow> string \<Rightarrow> bool" where
  "starts_with [] ys = True"
| "starts_with (x # xs) [] = False"
| "starts_with (x # xs) (y # ys) = (x = y \<and> starts_with xs ys)"

text \<open>\<open>occurs_in p s\<close> is \<open>s.includes(p)\<close>.\<close>

fun occurs_in :: "string \<Rightarrow> string \<Rightarrow> bool" where
  "occurs_in p [] = (p = [])"
| "occurs_in p (y # ys) = (starts_with p (y # ys) \<or> occurs_in p ys)"

lemma starts_with_append [simp]: "starts_with p (p @ s)"
  by (induction p) auto

lemma starts_with_iff: "starts_with p s \<longleftrightarrow> (\<exists>r. s = p @ r)"
  by (induction p s rule: starts_with.induct) auto

lemma occurs_in_append: "occurs_in p s \<Longrightarrow> occurs_in p (r @ s)"
  by (induction r) auto

lemma occurs_in_drop: "occurs_in p (drop n s) \<Longrightarrow> occurs_in p s"
  by (metis append_take_drop_id occurs_in_append)

section \<open>Splitting and joining\<close>

text \<open>\<open>s.split(tok)\<close> for a separator that is not empty.\<close>

fun split_on :: "string \<Rightarrow> string \<Rightarrow> string list" where
  "split_on tok [] = [[]]"
| "split_on tok (c # cs) =
     (if starts_with tok (c # cs) then [] # split_on tok (drop (length tok - 1) cs)
      else (case split_on tok cs of [] \<Rightarrow> [[c]] | p # ps \<Rightarrow> (c # p) # ps))"

fun join :: "string \<Rightarrow> string list \<Rightarrow> string" where
  "join sep [] = []"
| "join sep [p] = p"
| "join sep (p # q # ps) = p @ sep @ join sep (q # ps)"

definition replace_all :: "string \<Rightarrow> string \<Rightarrow> string \<Rightarrow> string" where
  "replace_all tok r s = join r (split_on tok s)"

lemma split_on_ne [simp]: "split_on tok s \<noteq> []"
  by (induction tok s rule: split_on.induct) (auto split: list.splits)

lemma join_Cons: "ps \<noteq> [] \<Longrightarrow> join sep (p # ps) = p @ sep @ join sep ps"
  by (cases ps) simp_all

lemma join_head: "join sep ((c # p) # ps) = c # join sep (p # ps)"
  by (cases ps) simp_all

lemma starts_with_extend: "starts_with w x \<Longrightarrow> starts_with w (x @ y)"
  by (auto simp: starts_with_iff)

lemma occurs_in_extend: "occurs_in w x \<Longrightarrow> occurs_in w (x @ y)"
proof (induction x)
  case Nil
  then show ?case by (cases y) simp_all
next
  case (Cons a x)
  then show ?case using starts_with_extend [of w "a # x" y] by auto
qed

lemma occurs_in_join: "p \<in> set ps \<Longrightarrow> occurs_in w p \<Longrightarrow> occurs_in w (join sep ps)"
  by (induction sep ps rule: join.induct) (auto intro: occurs_in_extend occurs_in_append)

lemma replace_all_Nil [simp]: "replace_all tok r [] = []"
  by (simp add: replace_all_def)

lemma replace_all_Cons:
  "replace_all tok r (c # cs) =
     (if starts_with tok (c # cs) then r @ replace_all tok r (drop (length tok - 1) cs)
      else c # replace_all tok r cs)"
  by (cases "split_on tok cs") (simp_all add: replace_all_def join_Cons join_head)

lemma replace_all_absent: "\<not> occurs_in tok s \<Longrightarrow> replace_all tok r s = s"
  by (induction s) (simp_all add: replace_all_Cons)

text \<open>
  A word that cannot overlap the replacement, because it lacks the first character of the
  replacement and the replacement lacks the first character of the word, occurs after
  replacing only where it occurred before; the word replaced occurs nowhere.
\<close>

lemma starts_with_replaced:
  assumes "r \<noteq> []" and "hd r \<notin> set w" and "starts_with w (replace_all tok r s)"
  shows "starts_with w s"
  using assms(2,3)
proof (induction s arbitrary: w)
  case (Cons c cs)
  then show ?case using assms(1)
    by (cases w; cases r) (auto simp: replace_all_Cons split: if_splits)
qed (cases w; simp)

lemma occurs_in_apart: "\<lbrakk>w \<noteq> []; hd w \<notin> set r; occurs_in w (r @ s)\<rbrakk> \<Longrightarrow> occurs_in w s"
  by (induction r) (cases w; auto)+

lemma occurs_in_replaced:
  assumes "r \<noteq> []" and "w \<noteq> []" and "hd r \<notin> set w" and "hd w \<notin> set r"
    and "occurs_in w (replace_all tok r s)"
  shows "occurs_in w s"
  using assms(5)
proof (induction tok s rule: split_on.induct)
  case (2 tok c cs)
  show ?case
  proof (cases "starts_with tok (c # cs)")
    case True
    then have "occurs_in w (r @ replace_all tok r (drop (length tok - 1) cs))"
      using 2(3) by (simp add: replace_all_Cons)
    then have "occurs_in w (drop (length tok - 1) cs)"
      using occurs_in_apart [OF assms(2,4)] 2(1) [OF True] by blast
    then show ?thesis using occurs_in_drop by auto
  next
    case False
    then have eq: "replace_all tok r (c # cs) = c # replace_all tok r cs" by (simp add: replace_all_Cons)
    with 2(3) have "starts_with w (replace_all tok r (c # cs)) \<or> occurs_in w (replace_all tok r cs)" by simp
    then show ?thesis using starts_with_replaced [OF assms(1,3)] 2(2) [OF False] by auto
  qed
qed simp

lemma replaced_gone:
  assumes "r \<noteq> []" and "tok \<noteq> []" and "hd r \<notin> set tok" and "hd tok \<notin> set r"
  shows "\<not> occurs_in tok (replace_all tok r s)"
proof (induction s rule: length_induct)
  case (1 s)
  show ?case
  proof (cases s)
    case Nil
    then show ?thesis using assms(2) by simp
  next
    case (Cons c cs)
    show ?thesis
    proof (cases "starts_with tok (c # cs)")
      case True
      have "\<not> occurs_in tok (replace_all tok r (drop (length tok - 1) cs))" using 1 Cons by simp
      then show ?thesis
        using occurs_in_apart [OF assms(2,4)] True by (auto simp: Cons replace_all_Cons)
    next
      case False
      then have "\<not> starts_with tok (replace_all tok r s)"
        using starts_with_replaced [OF assms(1,3)] Cons by auto
      moreover have "\<not> occurs_in tok (replace_all tok r cs)" using 1 Cons by simp
      ultimately show ?thesis using False by (simp add: Cons replace_all_Cons)
    qed
  qed
qed

end
