(* ===== verification/Errors.thy ===== *)
theory Errors
  imports JsString
begin

text \<open>
  The error classes of \<open>packages/errors\<close>: the base class \<open>AppError\<close> and its
  subclasses as constructor functions, the classification helpers of \<open>classify.ts\<close>
  and the HTTP envelope of \<open>http.ts\<close>. The provider errors of \<open>packages/email\<close> and
  \<open>packages/ai\<close> extend \<open>Error\<close> directly, not \<open>AppError\<close>, and have constructors of
  their own here. The \<open>cause\<close> chain is not modelled.
\<close>

section \<open>AppError\<close>

text \<open>A value of the untyped \<open>context\<close> record.\<close>

datatype ctx_value = CtxStr string | CtxNum int | CtxNull | CtxObj "(string \<times> string) list"

record app_error =
  err_name :: string
  err_code :: string
  err_message :: string
  err_statusCode :: int
  err_retryable :: bool
  err_context :: "string \<rightharpoonup> ctx_value"
  err_exposeMessage :: bool

record app_error_options =
  opt_code :: string
  opt_message :: string
  opt_statusCode :: "int option"
  opt_retryable :: "bool option"
  opt_context :: "(string \<rightharpoonup> ctx_value) option"
  opt_exposeMessage :: "bool option"

definition DEFAULT_STATUS :: int where "DEFAULT_STATUS = 500"
definition DEFAULT_RETRYABLE :: bool where "DEFAULT_RETRYABLE = False"
definition DEFAULT_EXPOSE :: bool where "DEFAULT_EXPOSE = False"

definition or_default :: "'a option \<Rightarrow> 'a \<Rightarrow> 'a" where
  "or_default x d = (case x of None \<Rightarrow> d | Some y \<Rightarrow> y)"

lemma or_default_simps [simp]: "or_default None d = d" "or_default (Some y) d = y"
  by (simp_all add: or_default_def)

definition mk_app_error :: "string \<Rightarrow> app_error_options \<Rightarrow> app_error" where
  "mk_app_error name options = \<lparr>
     err_name = name,
     err_code = opt_code options,
     err_message = opt_message options,
     err_statusCode = or_default (opt_statusCode options) DEFAULT_STATUS,
     err_retryable = or_default (opt_retryable options) DEFAULT_RETRYABLE,
     err_context = or_default (opt_context options) Map.empty,
     err_exposeMessage = or_default (opt_exposeMessage options) DEFAULT_EXPOSE\<rparr>"

lemmas error_defaults = DEFAULT_STATUS_def DEFAULT_RETRYABLE_def DEFAULT_EXPOSE_def

section \<open>Subclasses\<close>

definition validation_error :: "string \<Rightarrow> string option \<Rightarrow> (string \<times> string) list option \<Rightarrow> app_error" where
  "validation_error message code flds = mk_app_error ''ValidationError'' \<lparr>
     opt_code = or_default code ''validation.failed'', opt_message = message,
     opt_statusCode = Some 400, opt_retryable = Some False,
     opt_context = map_option (\<lambda>fs. [''fields'' \<mapsto> CtxObj fs]) flds,
     opt_exposeMessage = Some True\<rparr>"

text \<open>The five classes whose constructors differ only in their constants.\<close>

definition simple_error ::
  "string \<Rightarrow> string \<Rightarrow> int \<Rightarrow> bool \<Rightarrow> bool \<Rightarrow> string \<Rightarrow> string option \<Rightarrow> (string \<rightharpoonup> ctx_value) option \<Rightarrow> app_error" where
  "simple_error name dflt status retry expose message code ctx = mk_app_error name \<lparr>
     opt_code = or_default code dflt, opt_message = message,
     opt_statusCode = Some status, opt_retryable = Some retry,
     opt_context = ctx, opt_exposeMessage = Some expose\<rparr>"

definition unauthorized_error :: "string option \<Rightarrow> string option \<Rightarrow> (string \<rightharpoonup> ctx_value) option \<Rightarrow> app_error" where
  "unauthorized_error message code ctx =
     simple_error ''UnauthorizedError'' ''auth.unauthorized'' 401 False True
       (or_default message ''Unauthorized'') code ctx"

definition forbidden_error :: "string option \<Rightarrow> string option \<Rightarrow> (string \<rightharpoonup> ctx_value) option \<Rightarrow> app_error" where
  "forbidden_error message code ctx =
     simple_error ''ForbiddenError'' ''auth.forbidden'' 403 False True
       (or_default message ''Forbidden'') code ctx"

definition not_found_error :: "string option \<Rightarrow> string option \<Rightarrow> (string \<rightharpoonup> ctx_value) option \<Rightarrow> app_error" where
  "not_found_error message code ctx =
     simple_error ''NotFoundError'' ''resource.not_found'' 404 False True
       (or_default message ''Not found'') code ctx"

definition conflict_error :: "string \<Rightarrow> string option \<Rightarrow> (string \<rightharpoonup> ctx_value) option \<Rightarrow> app_error" where
  "conflict_error message code ctx =
     simple_error ''ConflictError'' ''resource.conflict'' 409 False True message code ctx"

definition timeout_error :: "string option \<Rightarrow> string option \<Rightarrow> (string \<rightharpoonup> ctx_value) option \<Rightarrow> app_error" where
  "timeout_error message code ctx =
     simple_error ''TimeoutError'' ''timeout.exceeded'' 504 True False
       (or_default message ''Operation timed out'') code ctx"

definition transient_error :: "string \<Rightarrow> string option \<Rightarrow> (string \<rightharpoonup> ctx_value) option \<Rightarrow> app_error" where
  "transient_error message code ctx =
     simple_error ''TransientError'' ''transient.failed'' 503 True False message code ctx"

definition fatal_error :: "string \<Rightarrow> string option \<Rightarrow> (string \<rightharpoonup> ctx_value) option \<Rightarrow> app_error" where
  "fatal_error message code ctx =
     simple_error ''FatalError'' ''fatal.unrecoverable'' 500 False False message code ctx"

definition rate_limit_error ::
  "string option \<Rightarrow> string option \<Rightarrow> int option \<Rightarrow> (string \<rightharpoonup> ctx_value) option \<Rightarrow> app_error" where
  "rate_limit_error message code retryAfterSeconds ctx =
     (let c = or_default ctx Map.empty;
          c' = (case retryAfterSeconds of None \<Rightarrow> c
                | Some n \<Rightarrow> c(''retryAfterSeconds'' \<mapsto> CtxNum n))
      in simple_error ''RateLimitError'' ''rate_limit.exceeded'' 429 True False
           (or_default message ''Rate limited'') code (Some c'))"

definition integration_error ::
  "string \<Rightarrow> string option \<Rightarrow> string option \<Rightarrow> int option \<Rightarrow> bool option \<Rightarrow> (string \<rightharpoonup> ctx_value) option \<Rightarrow> app_error" where
  "integration_error message code provider providerStatus retryable ctx =
     (let c = or_default ctx Map.empty;
          c1 = (case provider of None \<Rightarrow> c | Some p \<Rightarrow> c(''provider'' \<mapsto> CtxStr p));
          c2 = (case providerStatus of None \<Rightarrow> c1 | Some n \<Rightarrow> c1(''providerStatus'' \<mapsto> CtxNum n))
      in simple_error ''IntegrationError'' ''integration.failed'' 502 (or_default retryable True) False
           message code (Some c2))"

text \<open>\<open>TenantScopeError\<close> of \<open>packages/db/src/errors.ts\<close>.\<close>

definition tenant_scope_error :: "string \<Rightarrow> (string \<rightharpoonup> ctx_value) option \<Rightarrow> app_error" where
  "tenant_scope_error message ctx = mk_app_error ''TenantScopeError'' \<lparr>
     opt_code = ''db.tenant_scope_violation'', opt_message = message,
     opt_statusCode = Some 500, opt_retryable = Some False,
     opt_context = ctx, opt_exposeMessage = Some False\<rparr>"

lemmas error_constructors =
  mk_app_error_def validation_error_def simple_error_def unauthorized_error_def
  forbidden_error_def not_found_error_def conflict_error_def timeout_error_def
  transient_error_def fatal_error_def rate_limit_error_def integration_error_def
  tenant_scope_error_def Let_def error_defaults

section \<open>Thrown values\<close>

datatype email_error_code =
  EmailRateLimit | EmailTransient | EmailAuth | EmailInvalidRequest
| EmailAccountSuspended | EmailRecipientSuppressed

fun email_retryable :: "email_error_code \<Rightarrow> bool" where
  "email_retryable EmailRateLimit = True"
| "email_retryable EmailTransient = True"
| "email_retryable EmailAuth = False"
| "email_retryable EmailInvalidRequest = False"
| "email_retryable EmailAccountSuspended = False"
| "email_retryable EmailRecipientSuppressed = False"

fun email_code_string :: "email_error_code \<Rightarrow> string" where
  "email_code_string EmailRateLimit = ''email_rate_limit''"
| "email_code_string EmailTransient = ''email_transient''"
| "email_code_string EmailAuth = ''email_auth''"
| "email_code_string EmailInvalidRequest = ''email_invalid_request''"
| "email_code_string EmailAccountSuspended = ''email_account_suspended''"
| "email_code_string EmailRecipientSuppressed = ''email_recipient_suppressed''"

datatype ai_error_code = AiRateLimit | AiTransient | AiContentBlocked | AiAuth | AiInvalidRequest

fun ai_retryable :: "ai_error_code \<Rightarrow> bool" where
  "ai_retryable AiRateLimit = True"
| "ai_retryable AiTransient = True"
| "ai_retryable AiContentBlocked = False"
| "ai_retryable AiAuth = False"
| "ai_retryable AiInvalidRequest = False"

fun ai_code_string :: "ai_error_code \<Rightarrow> string" where
  "ai_code_string AiRateLimit = ''rate_limit''"
| "ai_code_string AiTransient = ''transient''"
| "ai_code_string AiContentBlocked = ''content_blocked''"
| "ai_code_string AiAuth = ''auth''"
| "ai_code_string AiInvalidRequest = ''invalid_request''"

text \<open>
  What a \<open>throw\<close> may carry: an \<open>AppError\<close>, a provider error, any other \<open>Error\<close>
  (a Prisma, Zod or plain JavaScript error, by its message) or a value that is not an
  \<open>Error\<close>, by its \<open>String(...)\<close> rendering.
\<close>

datatype exn =
    AppErr app_error
  | EmailErr email_error_code string
  | AiErr ai_error_code string
  | PlainErr string
  | NonErr string

text \<open>\<open>err instanceof Error ? err.message : String(err)\<close>\<close>

fun exn_message :: "exn \<Rightarrow> string" where
  "exn_message (AppErr e) = err_message e"
| "exn_message (EmailErr c m) = m"
| "exn_message (AiErr c m) = m"
| "exn_message (PlainErr m) = m"
| "exn_message (NonErr s) = s"

section \<open>Classification\<close>

fun is_app_error :: "exn \<Rightarrow> bool" where
  "is_app_error (AppErr _) = True"
| "is_app_error _ = False"

fun is_client_error :: "exn \<Rightarrow> bool" where
  "is_client_error (AppErr e) = (err_statusCode e \<ge> 400 \<and> err_statusCode e < 500)"
| "is_client_error _ = False"

fun is_server_error :: "exn \<Rightarrow> bool" where
  "is_server_error (AppErr e) = (err_statusCode e \<ge> 500)"
| "is_server_error _ = True"

fun is_retryable :: "exn \<Rightarrow> bool" where
  "is_retryable (AppErr e) = err_retryable e"
| "is_retryable _ = True"

record from_unknown_defaults =
  fd_code :: "string option"
  fd_message :: "string option"
  fd_statusCode :: "int option"
  fd_retryable :: "bool option"

definition no_defaults :: from_unknown_defaults where
  "no_defaults = \<lparr>fd_code = None, fd_message = None, fd_statusCode = None, fd_retryable = None\<rparr>"

fun from_unknown :: "exn \<Rightarrow> from_unknown_defaults \<Rightarrow> app_error" where
  "from_unknown (AppErr e) d = e"
| "from_unknown (NonErr s) d = mk_app_error ''AppError'' \<lparr>
     opt_code = or_default (fd_code d) ''internal.unknown'',
     opt_message = or_default (fd_message d) ''Unknown error'',
     opt_statusCode = Some (or_default (fd_statusCode d) 500),
     opt_retryable = Some (or_default (fd_retryable d) True),
     opt_context = None, opt_exposeMessage = None\<rparr>"
| "from_unknown err d = mk_app_error ''AppError'' \<lparr>
     opt_code = or_default (fd_code d) ''internal.unknown'',
     opt_message = or_default (fd_message d) (exn_message err),
     opt_statusCode = Some (or_default (fd_statusCode d) 500),
     opt_retryable = Some (or_default (fd_retryable d) True),
     opt_context = None, opt_exposeMessage = None\<rparr>"

definition wrap ::
  "exn \<Rightarrow> string \<Rightarrow> string \<Rightarrow> int option \<Rightarrow> bool option \<Rightarrow> (string \<rightharpoonup> ctx_value) option \<Rightarrow> app_error" where
  "wrap err code message status retryable ctx = mk_app_error ''AppError'' \<lparr>
     opt_code = code, opt_message = message, opt_statusCode = status,
     opt_retryable = retryable, opt_context = ctx, opt_exposeMessage = None\<rparr>"

section \<open>The HTTP envelope\<close>

record http_error_body =
  hb_code :: string
  hb_message :: string
  hb_requestId :: "string option"
  hb_fields :: "(string \<times> string) list option"

definition GENERIC_MESSAGE :: string where "GENERIC_MESSAGE = ''Internal server error''"
definition UNKNOWN_CODE :: string where "UNKNOWN_CODE = ''internal.unknown''"

definition context_fields :: "app_error \<Rightarrow> (string \<times> string) list option" where
  "context_fields e = (case err_context e ''fields'' of Some (CtxObj fs) \<Rightarrow> Some fs | _ \<Rightarrow> None)"

fun to_http :: "exn \<Rightarrow> string option \<Rightarrow> string option \<Rightarrow> int \<times> http_error_body" where
  "to_http (AppErr e) requestId safeMessage =
     (err_statusCode e,
      \<lparr>hb_code = err_code e,
       hb_message = (if err_exposeMessage e then err_message e
                     else or_default safeMessage GENERIC_MESSAGE),
       hb_requestId = requestId,
       hb_fields = context_fields e\<rparr>)"
| "to_http _ requestId safeMessage =
     (500,
      \<lparr>hb_code = UNKNOWN_CODE,
       hb_message = or_default safeMessage GENERIC_MESSAGE,
       hb_requestId = requestId,
       hb_fields = None\<rparr>)"

section \<open>Properties of the classes\<close>

text \<open>
  The error classes that \<open>subclasses.ts\<close> exports. \<open>declared_error e\<close> holds for the
  errors one of the constructors can build.
\<close>

inductive declared_error :: "app_error \<Rightarrow> bool" where
  "declared_error (validation_error m c f)"
| "declared_error (unauthorized_error mo c x)"
| "declared_error (forbidden_error mo c x)"
| "declared_error (not_found_error mo c x)"
| "declared_error (conflict_error m c x)"
| "declared_error (rate_limit_error mo c n x)"
| "declared_error (timeout_error mo c x)"
| "declared_error (integration_error m c p ps (Some r) x)"
| "declared_error (integration_error m c p ps None x)"
| "declared_error (transient_error m c x)"
| "declared_error (fatal_error m c x)"
| "declared_error (tenant_scope_error m x)"

text \<open>
  No declared class both exposes its message and reports a server error, and none both
  exposes its message and is retried: the two flags and the status are consistent.
\<close>

lemma declared_error_flags:
  "declared_error e \<Longrightarrow>
    (err_exposeMessage e \<longrightarrow> err_statusCode e < 500 \<and> \<not> err_retryable e)
    \<and> 400 \<le> err_statusCode e \<and> err_statusCode e < 600"
  by (induction rule: declared_error.induct) (auto simp: error_constructors)

lemma client_xor_server:
  "declared_error e \<Longrightarrow> is_client_error (AppErr e) \<noteq> is_server_error (AppErr e)"
  using declared_error_flags [of e] by auto

text \<open>\<open>fromUnknown\<close> keeps the retry decision the drainer would take on the raw error.\<close>

lemma from_unknown_retryable:
  "is_retryable (AppErr (from_unknown e no_defaults)) = is_retryable e"
  by (cases e) (simp_all add: mk_app_error_def no_defaults_def)

lemma from_unknown_idem: "from_unknown (AppErr (from_unknown e d)) d' = from_unknown e d"
  by simp

text \<open>
  A message reaches the client only if its class exposes it; otherwise the body carries
  the caller's safe message or the generic one, whatever the error says.
\<close>

lemma to_http_hides_message:
  assumes "\<forall>e. x = AppErr e \<longrightarrow> \<not> err_exposeMessage e"
  shows "hb_message (snd (to_http x rid safe)) = or_default safe GENERIC_MESSAGE"
  using assms by (cases x) auto

lemma to_http_independent:
  assumes "\<not> err_exposeMessage e" and "\<not> err_exposeMessage e'"
    and "err_code e = err_code e'" and "err_statusCode e = err_statusCode e'"
    and "context_fields e = context_fields e'"
  shows "to_http (AppErr e) rid safe = to_http (AppErr e') rid safe"
  using assms by simp

end
