(* ===== verification/AiTone.thy ===== *)
theory AiTone
  imports Errors
begin

text \<open>
  The merchant's AI tone (\<open>packages/contracts/src/ai-tone.ts\<close>): the strict Zod schema
  as a checker on JSON values, with its defaults, and \<open>parseAiTone\<close>. JSON objects are
  association lists; \<open>JUndef\<close> is a property whose value is \<open>undefined\<close>. Lengths
  count characters of the model's strings, where JavaScript counts UTF-16 units.
\<close>

datatype json =
    JNull | JUndef | JBool bool | JNum int | JStr string
  | JArr "json list" | JObj "(string \<times> json) list"

datatype ai_style = Formal | Casual | Playful | Professional
datatype ai_emoji = EmojiNone | EmojiMinimal | EmojiLiberal

record ai_tone =
  at_style :: ai_style
  at_avoid :: "string list"
  at_emphasize :: "string list"
  at_emojiPolicy :: ai_emoji
  at_brandVoiceSample :: "string option"
  at_customInstructions :: "string option"

fun style_string :: "ai_style \<Rightarrow> string" where
  "style_string Formal = ''formal''"
| "style_string Casual = ''casual''"
| "style_string Playful = ''playful''"
| "style_string Professional = ''professional''"

fun emoji_string :: "ai_emoji \<Rightarrow> string" where
  "emoji_string EmojiNone = ''none''"
| "emoji_string EmojiMinimal = ''minimal''"
| "emoji_string EmojiLiberal = ''liberal''"

text \<open>A property of an object, \<open>undefined\<close> when it is absent.\<close>

definition jget :: "(string \<times> json) list \<Rightarrow> string \<Rightarrow> json" where
  "jget kvs k = (case map_of kvs k of None \<Rightarrow> JUndef | Some v \<Rightarrow> v)"

fun parse_style :: "json \<Rightarrow> ai_style option" where
  "parse_style (JStr s) = List.find (\<lambda>x. style_string x = s) [Formal, Casual, Playful, Professional]"
| "parse_style _ = None"

fun parse_emoji :: "json \<Rightarrow> ai_emoji option" where
  "parse_emoji (JStr s) = List.find (\<lambda>x. emoji_string x = s) [EmojiNone, EmojiMinimal, EmojiLiberal]"
| "parse_emoji JUndef = Some EmojiMinimal"
| "parse_emoji _ = None"

text \<open>\<open>z.array(z.string().min(1).max(100)).max(50).default([])\<close>\<close>

fun parse_phrases_aux :: "json list \<Rightarrow> string list option" where
  "parse_phrases_aux [] = Some []"
| "parse_phrases_aux (JStr s # js) =
     (if 1 \<le> length s \<and> length s \<le> 100
      then map_option ((#) s) (parse_phrases_aux js) else None)"
| "parse_phrases_aux (_ # js) = None"

fun parse_phrases :: "json \<Rightarrow> string list option" where
  "parse_phrases (JArr js) = (if length js \<le> 50 then parse_phrases_aux js else None)"
| "parse_phrases JUndef = Some []"
| "parse_phrases _ = None"

text \<open>\<open>z.string().max(2000).optional()\<close>\<close>

fun parse_sample :: "json \<Rightarrow> string option option" where
  "parse_sample (JStr s) = (if length s \<le> 2000 then Some (Some s) else None)"
| "parse_sample JUndef = Some None"
| "parse_sample _ = None"

definition ai_tone_keys :: "string list" where
  "ai_tone_keys = [''style'', ''avoid'', ''emphasize'', ''emojiPolicy'',
     ''brandVoiceSample'', ''customInstructions'']"

fun ai_tone_schema :: "json \<Rightarrow> ai_tone option" where
  "ai_tone_schema (JObj kvs) =
     (if \<not> list_all (\<lambda>(k, _). List.member ai_tone_keys k) kvs then None else
      case (parse_style (jget kvs ''style''), parse_phrases (jget kvs ''avoid''),
            parse_phrases (jget kvs ''emphasize''), parse_emoji (jget kvs ''emojiPolicy''),
            parse_sample (jget kvs ''brandVoiceSample''),
            parse_sample (jget kvs ''customInstructions'')) of
        (Some st, Some av, Some em, Some ep, Some bv, Some ci) \<Rightarrow>
          Some \<lparr>at_style = st, at_avoid = av, at_emphasize = em, at_emojiPolicy = ep,
                at_brandVoiceSample = bv, at_customInstructions = ci\<rparr>
      | _ \<Rightarrow> None)"
| "ai_tone_schema _ = None"

text \<open>The value the parsed tone has as JSON: what a write of it stores.\<close>

definition ai_tone_json :: "ai_tone \<Rightarrow> json" where
  "ai_tone_json t = JObj
    ([(''style'', JStr (style_string (at_style t))),
      (''avoid'', JArr (map JStr (at_avoid t))),
      (''emphasize'', JArr (map JStr (at_emphasize t))),
      (''emojiPolicy'', JStr (emoji_string (at_emojiPolicy t)))]
     @ (case at_brandVoiceSample t of None \<Rightarrow> [] | Some s \<Rightarrow> [(''brandVoiceSample'', JStr s)])
     @ (case at_customInstructions t of None \<Rightarrow> [] | Some s \<Rightarrow> [(''customInstructions'', JStr s)]))"

definition zod_error :: exn where "zod_error = PlainErr ''ZodError''"

fun parse_ai_tone :: "json \<Rightarrow> exn + ai_tone option" where
  "parse_ai_tone JNull = Inr None"
| "parse_ai_tone JUndef = Inr None"
| "parse_ai_tone v = (case ai_tone_schema v of None \<Rightarrow> Inl zod_error | Some t \<Rightarrow> Inr (Some t))"

section \<open>The bounds the schema enforces, and the round trip\<close>

definition tone_ok :: "ai_tone \<Rightarrow> bool" where
  "tone_ok t \<longleftrightarrow>
     length (at_avoid t) \<le> 50 \<and> length (at_emphasize t) \<le> 50
     \<and> list_all (\<lambda>s. 1 \<le> length s \<and> length s \<le> 100) (at_avoid t)
     \<and> list_all (\<lambda>s. 1 \<le> length s \<and> length s \<le> 100) (at_emphasize t)
     \<and> (case at_brandVoiceSample t of None \<Rightarrow> True | Some s \<Rightarrow> length s \<le> 2000)
     \<and> (case at_customInstructions t of None \<Rightarrow> True | Some s \<Rightarrow> length s \<le> 2000)"

lemma parse_phrases_aux_ok:
  "parse_phrases_aux js = Some ss \<Longrightarrow>
    length ss = length js \<and> list_all (\<lambda>s. 1 \<le> length s \<and> length s \<le> 100) ss"
  by (induction js arbitrary: ss rule: parse_phrases_aux.induct) (auto split: if_splits)

lemma parse_phrases_ok:
  "parse_phrases j = Some ss \<Longrightarrow>
    length ss \<le> 50 \<and> list_all (\<lambda>s. 1 \<le> length s \<and> length s \<le> 100) ss"
  by (cases j) (auto split: if_splits dest: parse_phrases_aux_ok)

lemma parse_sample_ok:
  "parse_sample j = Some so \<Longrightarrow> (case so of None \<Rightarrow> True | Some s \<Rightarrow> length s \<le> 2000)"
  by (cases j) (auto split: if_splits)

lemma ai_tone_schema_ok: "ai_tone_schema j = Some t \<Longrightarrow> tone_ok t"
  by (cases j) (auto simp: tone_ok_def split: if_splits option.splits
      dest!: parse_phrases_ok parse_sample_ok)

lemma parse_style_string [simp]: "parse_style (JStr (style_string s)) = Some s"
  by (cases s) simp_all

lemma parse_emoji_string [simp]: "parse_emoji (JStr (emoji_string e)) = Some e"
  by (cases e) simp_all

lemma parse_phrases_aux_JStr:
  "list_all (\<lambda>s. Suc 0 \<le> length s \<and> length s \<le> 100) ss \<Longrightarrow>
    parse_phrases_aux (map JStr ss) = Some ss"
  by (induction ss) auto

lemma parse_phrases_JStr:
  "list_all (\<lambda>s. Suc 0 \<le> length s \<and> length s \<le> 100) ss \<Longrightarrow> length ss \<le> 50 \<Longrightarrow>
    parse_phrases (JArr (map JStr ss)) = Some ss"
  by (simp add: parse_phrases_aux_JStr)

lemma ai_tone_schema_json:
  assumes "tone_ok t" shows "ai_tone_schema (ai_tone_json t) = Some t"
  using assms
  by (cases "at_brandVoiceSample t"; cases "at_customInstructions t")
     (simp_all add: ai_tone_json_def tone_ok_def ai_tone_keys_def jget_def parse_phrases_JStr
       del: parse_phrases.simps parse_style.simps parse_emoji.simps)

end
