(* ===== verification/TenantScope.thy ===== *)
theory TenantScope
  imports AiTone
begin

text \<open>
  Tenant isolation (\<open>packages/db/src/tenant-scope.ts\<close>,
  \<open>packages/db/src/extensions/hooks.ts\<close> and \<open>winback-extension.ts\<close>): the active
  scope, the checks on it, and the hooks that rewrite the arguments of every Prisma
  call. The scope store is an argument of type \<open>tenant_scope option\<close>, \<open>None\<close> outside
  any scope. The last section says which rows a rewritten call can touch.
\<close>

section \<open>Scopes\<close>

datatype tenant_scope = Tenant merchant_id | System string

definition TENANT_SCOPED_MODELS :: "string list" where
  "TENANT_SCOPED_MODELS =
    [''MerchantSettings'', ''BillingSubscription'', ''Customer'', ''CustomerScore'',
     ''Product'', ''ProductVariant'', ''Order'', ''OrderLineItem'', ''OutboxEvent'',
     ''IdempotencyKey'', ''BackfillJob'', ''AiGeneration'', ''Message'', ''AiSpendBucket'',
     ''Campaign'', ''CampaignTarget'', ''Suppression'', ''MessageEvent'', ''MessageQuotaBucket'']"

definition TENANT_OPTIONAL_READ_MODELS :: "string list" where
  "TENANT_OPTIONAL_READ_MODELS = [''WebhookLog'', ''AuditLog'']"

definition SOFT_DELETE_MODELS :: "string list" where
  "SOFT_DELETE_MODELS = [''Customer'', ''Product'', ''ProductVariant'']"

definition UNSCOPED_MODELS :: "string list" where
  "UNSCOPED_MODELS = [''Session'']"

definition scope_error :: "string \<Rightarrow> exn" where
  "scope_error message = AppErr (tenant_scope_error message None)"

text \<open>
  \<open>withTenantScope\<close> runs its body under the tenant's scope, unless another tenant's
  scope is active. A body is a function of the active scope.
\<close>

definition with_tenant_scope ::
  "tenant_scope option \<Rightarrow> merchant_id \<Rightarrow> (tenant_scope option \<Rightarrow> exn + 'a) \<Rightarrow> exn + 'a" where
  "with_tenant_scope parent m body =
     (case parent of
        Some (Tenant m') \<Rightarrow>
          (if m' \<noteq> m then Inl (scope_error (''Nested tenant scope mismatch: outer='' @ m' @ '', inner='' @ m))
           else body (Some (Tenant m)))
      | _ \<Rightarrow> body (Some (Tenant m)))"

text \<open>\<open>/^[a-z][a-z_]*\.[a-z][a-z_0-9]*$/\<close>\<close>

definition system_reason_ok :: "string \<Rightarrow> bool" where
  "system_reason_ok s =
     (let cat = takeWhile (\<lambda>c. c \<noteq> CHR ''.'') s;
          rest = dropWhile (\<lambda>c. c \<noteq> CHR ''.'') s
      in cat \<noteq> [] \<and> lower (hd cat) \<and> list_all (\<lambda>c. lower c \<or> c = CHR ''_'') cat
         \<and> (case rest of
              d # a # as \<Rightarrow> lower a \<and> list_all (\<lambda>c. lower c \<or> digit c \<or> c = CHR ''_'') as
            | _ \<Rightarrow> False))"

definition with_system_scope ::
  "string \<Rightarrow> (tenant_scope option \<Rightarrow> exn + 'a) \<Rightarrow> exn + 'a" where
  "with_system_scope reason body =
     (if \<not> system_reason_ok reason
      then Inl (scope_error ''withSystemScope reason must match format category.action'')
      else body (Some (System reason)))"

definition assert_scope_matches_merchant :: "tenant_scope option \<Rightarrow> merchant_id \<Rightarrow> exn + unit" where
  "assert_scope_matches_merchant sc m =
     (case sc of
        None \<Rightarrow> Inl (scope_error (''Operation on merchant='' @ m @ '' attempted with no active scope.''))
      | Some (System _) \<Rightarrow> Inr ()
      | Some (Tenant m') \<Rightarrow>
          (if m' \<noteq> m then Inl (scope_error (''Tenant scope mismatch: scope='' @ m' @ '', claimed='' @ m))
           else Inr ()))"

lemma assert_scope_simps [simp, scope_simps]:
  "assert_scope_matches_merchant (Some (Tenant m)) m' = Inr () \<longleftrightarrow> m = m'"
  "assert_scope_matches_merchant (Some (System r)) m' = Inr ()"
  "assert_scope_matches_merchant None m' \<noteq> Inr ()"
  by (auto simp: assert_scope_matches_merchant_def)

lemma assert_scope_same [simp]: "assert_scope_matches_merchant (Some (Tenant m)) m = Inr ()"
  by (simp add: assert_scope_matches_merchant_def)

section \<open>Arguments of Prisma calls\<close>

text \<open>
  A \<open>where\<close> clause and a row of data are partial maps from field names to values, as the
  \<open>Record<string, unknown>\<close> of the code; \<open>VUndef\<close> is a property present with value
  \<open>undefined\<close>.
\<close>

datatype pval = VStr string | VNum int | VNull | VUndef | VJson json

type_synonym prow = "string \<rightharpoonup> pval"

datatype data_like = OneRow prow | ManyRows "prow list"

record read_args =
  ra_where :: "prow option"

record write_args =
  wa_where :: "prow option"
  wa_data :: "data_like option"
  wa_create :: "data_like option"
  wa_update :: "data_like option"

text \<open>A property read, with \<open>undefined\<close> as \<open>None\<close>.\<close>

definition prop_of :: "prow \<Rightarrow> string \<Rightarrow> pval option" where
  "prop_of r k = (case r k of Some VUndef \<Rightarrow> None | x \<Rightarrow> x)"

definition where_or_empty :: "prow option \<Rightarrow> prow" where
  "where_or_empty w = (case w of None \<Rightarrow> Map.empty | Some r \<Rightarrow> r)"

definition tenant_model :: "string \<Rightarrow> bool" where
  "tenant_model model \<longleftrightarrow>
     List.member TENANT_SCOPED_MODELS model \<or> List.member TENANT_OPTIONAL_READ_MODELS model"

section \<open>Read hooks\<close>

definition enforce_tenant_scope_on_read ::
  "tenant_scope option \<Rightarrow> string \<Rightarrow> read_args \<Rightarrow> bool \<Rightarrow> exn + read_args" where
  "enforce_tenant_scope_on_read sc model args isFindUnique =
     (case sc of
        None \<Rightarrow> Inl (scope_error (''Read on '' @ model @ '' attempted with no active scope.''))
      | Some (System _) \<Rightarrow> Inr args
      | Some (Tenant m) \<Rightarrow>
          (if model = ''Merchant'' then
             (case Option.bind (ra_where args) (\<lambda>w. prop_of w ''id'') of
                None \<Rightarrow> Inl (scope_error (''Unscoped Merchant read in tenant scope ('' @ m @ '')''))
              | Some i \<Rightarrow>
                  (if i \<noteq> VStr m then Inl (scope_error (''Cross-tenant Merchant read: scope='' @ m))
                   else Inr args))
           else if \<not> tenant_model model then Inr args
           else if isFindUnique then Inr args
           else
             (let w = where_or_empty (ra_where args) in
              case prop_of w ''merchantId'' of
                None \<Rightarrow> Inr (args\<lparr>ra_where := Some (w(''merchantId'' \<mapsto> VStr m))\<rparr>)
              | Some v \<Rightarrow>
                  (if v \<noteq> VStr m then Inl (scope_error (''Tenant scope mismatch on '' @ model))
                   else Inr args))))"

definition apply_soft_delete_filter :: "string \<Rightarrow> read_args \<Rightarrow> read_args" where
  "apply_soft_delete_filter model args =
     (if \<not> List.member SOFT_DELETE_MODELS model then args
      else let w = where_or_empty (ra_where args) in
        if w ''deletedAt'' \<noteq> None then args
        else args\<lparr>ra_where := Some (w(''deletedAt'' \<mapsto> VNull))\<rparr>)"

definition apply_read_hooks ::
  "tenant_scope option \<Rightarrow> string \<Rightarrow> read_args \<Rightarrow> bool \<Rightarrow> exn + read_args" where
  "apply_read_hooks sc model args findUnique =
     (if List.member UNSCOPED_MODELS model then Inr args
      else rbind (enforce_tenant_scope_on_read sc model args findUnique)
             (\<lambda>a. Inr (apply_soft_delete_filter model a)))"

section \<open>Write hooks\<close>

definition inject_into_row :: "string \<Rightarrow> prow \<Rightarrow> merchant_id \<Rightarrow> exn + prow" where
  "inject_into_row model row m =
     (case prop_of row ''merchantId'' of
        None \<Rightarrow> Inr (row(''merchantId'' \<mapsto> VStr m))
      | Some v \<Rightarrow>
          (if v \<noteq> VStr m
           then Inl (scope_error (''Write data on '' @ model @ '' carries cross-tenant merchantId''))
           else Inr row))"

fun inject_rows :: "string \<Rightarrow> prow list \<Rightarrow> merchant_id \<Rightarrow> exn + prow list" where
  "inject_rows model [] m = Inr []"
| "inject_rows model (r # rs) m =
     rbind (inject_into_row model r m)
       (\<lambda>r'. rbind (inject_rows model rs m) (\<lambda>rs'. Inr (r' # rs')))"

fun inject_merchant_id_into_data :: "string \<Rightarrow> data_like option \<Rightarrow> merchant_id \<Rightarrow> exn + data_like option" where
  "inject_merchant_id_into_data model None m = Inr None"
| "inject_merchant_id_into_data model (Some (ManyRows rs)) m =
     rbind (inject_rows model rs m) (\<lambda>rs'. Inr (Some (ManyRows rs')))"
| "inject_merchant_id_into_data model (Some (OneRow r)) m =
     rbind (inject_into_row model r m) (\<lambda>r'. Inr (Some (OneRow r')))"

text \<open>A named property of a data block; an array has none.\<close>

fun data_prop :: "data_like option \<Rightarrow> string \<Rightarrow> pval option" where
  "data_prop (Some (OneRow r)) k = prop_of r k"
| "data_prop _ k = None"

text \<open>\<open>where?.id ?? data?.id\<close>: the second operand when the first is null or undefined.\<close>

definition merchant_write_target :: "write_args \<Rightarrow> pval option" where
  "merchant_write_target args =
     (case Option.bind (wa_where args) (\<lambda>w. prop_of w ''id'') of
        Some v \<Rightarrow> (if v = VNull then data_prop (wa_data args) ''id'' else Some v)
      | None \<Rightarrow> data_prop (wa_data args) ''id'')"

definition scope_where_on_write :: "string \<Rightarrow> merchant_id \<Rightarrow> write_args \<Rightarrow> exn + write_args" where
  "scope_where_on_write model m args =
     (case wa_where args of
        None \<Rightarrow> Inr args
      | Some w \<Rightarrow>
          (case prop_of w ''merchantId'' of
             None \<Rightarrow> Inr (args\<lparr>wa_where := Some (w(''merchantId'' \<mapsto> VStr m))\<rparr>)
           | Some v \<Rightarrow>
               (if v \<noteq> VStr m then Inl (scope_error (''Tenant scope mismatch on '' @ model))
                else Inr args)))"

definition check_update_block :: "string \<Rightarrow> merchant_id \<Rightarrow> write_args \<Rightarrow> exn + unit" where
  "check_update_block model m args =
     (case data_prop (wa_update args) ''merchantId'' of
        None \<Rightarrow> Inr ()
      | Some v \<Rightarrow>
          (if v \<noteq> VStr m
           then Inl (scope_error (''Upsert update block carries cross-tenant merchantId on '' @ model))
           else Inr ()))"

definition enforce_tenant_scope_on_write ::
  "tenant_scope option \<Rightarrow> string \<Rightarrow> write_args \<Rightarrow> string \<Rightarrow> exn + write_args" where
  "enforce_tenant_scope_on_write sc model args operation =
     (case sc of
        None \<Rightarrow> Inl (scope_error (''Write on '' @ model @ '' ('' @ operation @ '') attempted with no active scope.''))
      | Some (System _) \<Rightarrow> Inr args
      | Some (Tenant m) \<Rightarrow>
          (if model = ''Merchant'' then
             (case merchant_write_target args of
                None \<Rightarrow> Inr args
              | Some t \<Rightarrow>
                  (if t \<noteq> VStr m then Inl (scope_error (''Cross-tenant Merchant write: scope='' @ m))
                   else Inr args))
           else if \<not> tenant_model model then Inr args
           else
             rbind (inject_merchant_id_into_data model (wa_data args) m) (\<lambda>d.
             rbind (inject_merchant_id_into_data model (wa_create args) m) (\<lambda>c.
             rbind (check_update_block model m args) (\<lambda>_.
             scope_where_on_write model m (args\<lparr>wa_data := d, wa_create := c\<rparr>))))))"

text \<open>
  The model-specific validation: an \<open>aiTone\<close> that is present and not null must satisfy
  the schema, and is replaced by the parsed value.
\<close>

definition validate_ai_tone_in_row :: "prow \<Rightarrow> exn + prow" where
  "validate_ai_tone_in_row row =
     (case row ''aiTone'' of
        None \<Rightarrow> Inr row
      | Some VNull \<Rightarrow> Inr row
      | Some (VJson JNull) \<Rightarrow> Inr row
      | Some v \<Rightarrow>
          (case (case v of VJson j \<Rightarrow> ai_tone_schema j | _ \<Rightarrow> None) of
             None \<Rightarrow> Inl (AppErr (validation_error ''Invalid aiTone configuration''
                            (Some ''merchant_settings.ai_tone_invalid'') (Some [])))
           | Some t \<Rightarrow> Inr (row(''aiTone'' \<mapsto> VJson (ai_tone_json t)))))"

fun validate_rows :: "prow list \<Rightarrow> exn + prow list" where
  "validate_rows [] = Inr []"
| "validate_rows (r # rs) =
     rbind (validate_ai_tone_in_row r) (\<lambda>r'. rbind (validate_rows rs) (\<lambda>rs'. Inr (r' # rs')))"

fun validate_ai_tone_in_write_block :: "data_like option \<Rightarrow> exn + data_like option" where
  "validate_ai_tone_in_write_block None = Inr None"
| "validate_ai_tone_in_write_block (Some (ManyRows rs)) =
     rbind (validate_rows rs) (\<lambda>rs'. Inr (Some (ManyRows rs')))"
| "validate_ai_tone_in_write_block (Some (OneRow r)) =
     rbind (validate_ai_tone_in_row r) (\<lambda>r'. Inr (Some (OneRow r')))"

definition validate_model_specific :: "string \<Rightarrow> write_args \<Rightarrow> exn + write_args" where
  "validate_model_specific model args =
     (if model \<noteq> ''MerchantSettings'' then Inr args
      else
        rbind (validate_ai_tone_in_write_block (wa_data args)) (\<lambda>d.
        rbind (validate_ai_tone_in_write_block (wa_create args)) (\<lambda>c.
        rbind (validate_ai_tone_in_write_block (wa_update args)) (\<lambda>u.
        Inr (args\<lparr>wa_data := d, wa_create := c, wa_update := u\<rparr>)))))"

definition apply_write_hooks ::
  "tenant_scope option \<Rightarrow> string \<Rightarrow> write_args \<Rightarrow> string \<Rightarrow> exn + write_args" where
  "apply_write_hooks sc model args operation =
     (if List.member UNSCOPED_MODELS model then Inr args
      else rbind (enforce_tenant_scope_on_write sc model args operation)
             (validate_model_specific model))"

section \<open>The rows a call can touch\<close>

text \<open>
  How Prisma evaluates one field of a \<open>where\<close> clause on a row is its own code: the
  parameter \<open>match\<close>. What the hooks rely on is its documented behaviour: the fields of a
  clause are a conjunction, an \<open>undefined\<close> field is no constraint, and a string (or
  \<open>null\<close>) is equality.
\<close>

definition row_matches :: "(string \<Rightarrow> pval \<Rightarrow> pval option \<Rightarrow> bool) \<Rightarrow> prow option \<Rightarrow> prow \<Rightarrow> bool" where
  "row_matches match w r \<longleftrightarrow>
     (\<forall>k v. where_or_empty w k = Some v \<longrightarrow> v \<noteq> VUndef \<longrightarrow> match k v (r k))"

lemma where_or_empty_Some [simp]: "where_or_empty (Some w) = w"
  by (simp add: where_or_empty_def)

lemma where_or_empty_None [simp]: "where_or_empty None = Map.empty"
  by (simp add: where_or_empty_def)

lemma row_matches_D:
  "row_matches match w r \<Longrightarrow> where_or_empty w k = Some v \<Longrightarrow> v \<noteq> VUndef \<Longrightarrow> match k v (r k)"
  by (simp add: row_matches_def)

lemma prop_of_Some_D: "prop_of w k = Some v \<Longrightarrow> w k = Some v \<and> v \<noteq> VUndef"
  by (auto simp: prop_of_def split: option.splits pval.splits)

lemma prop_of_upd: "prop_of (w(k \<mapsto> VStr s)) k' = (if k' = k then Some (VStr s) else prop_of w k')"
  by (simp add: prop_of_def)

locale where_semantics =
  fixes match :: "string \<Rightarrow> pval \<Rightarrow> pval option \<Rightarrow> bool"
  assumes match_str: "match k (VStr s) x \<longleftrightarrow> x = Some (VStr s)"
    and match_null: "match k VNull x \<longleftrightarrow> x = Some VNull"
begin

lemma matches_str:
  "row_matches match w r \<Longrightarrow> prop_of (where_or_empty w) k = Some (VStr s) \<Longrightarrow> r k = Some (VStr s)"
  using match_str by (auto dest!: prop_of_Some_D row_matches_D)

lemma matches_null:
  "row_matches match w r \<Longrightarrow> where_or_empty w k = Some VNull \<Longrightarrow> r k = Some VNull"
  using match_null by (auto dest!: row_matches_D)

lemma scoped_read_rows:
  assumes "enforce_tenant_scope_on_read (Some (Tenant m)) model args False = Inr args'"
    and "tenant_model model" and "model \<noteq> ''Merchant''"
    and "row_matches match (ra_where args') r"
  shows "r ''merchantId'' = Some (VStr m)"
proof -
  have "prop_of (where_or_empty (ra_where args')) ''merchantId'' = Some (VStr m)"
    using assms(1-3) by (auto simp: enforce_tenant_scope_on_read_def Let_def prop_of_upd
        where_or_empty_def split: option.splits if_splits)
  with assms(4) show ?thesis by (rule matches_str)
qed

lemma scoped_write_rows:
  assumes "scope_where_on_write model m args = Inr args'" and "wa_where args \<noteq> None"
    and "row_matches match (wa_where args') r"
  shows "r ''merchantId'' = Some (VStr m)"
proof -
  have "prop_of (where_or_empty (wa_where args')) ''merchantId'' = Some (VStr m)"
    using assms(1,2) by (auto simp: scope_where_on_write_def prop_of_upd where_or_empty_def
        split: option.splits if_splits)
  with assms(3) show ?thesis by (rule matches_str)
qed

end

text \<open>
  The instance of the parameter the witnesses use: equality on every value. (The
  extension is evaluated by Prisma itself; this is its behaviour on scalar filters.)
\<close>

definition scalar_match :: "string \<Rightarrow> pval \<Rightarrow> pval option \<Rightarrow> bool" where
  "scalar_match k v x \<longleftrightarrow> x = Some v"

interpretation scalar: where_semantics scalar_match
  by unfold_locales (simp_all add: scalar_match_def)

lemma soft_delete_keeps_tenant:
  "prop_of (where_or_empty (ra_where (apply_soft_delete_filter model args))) ''merchantId''
    = prop_of (where_or_empty (ra_where args)) ''merchantId''"
  by (simp add: apply_soft_delete_filter_def Let_def where_or_empty_def prop_of_def)

lemma soft_delete_filter_extends:
  "where_or_empty (ra_where args) k = Some v \<Longrightarrow>
    where_or_empty (ra_where (apply_soft_delete_filter model args)) k = Some v"
  by (cases "k = ''deletedAt''") (simp_all add: apply_soft_delete_filter_def Let_def)

lemma matches_soft_delete_filter:
  "row_matches match (ra_where (apply_soft_delete_filter model args)) r
    \<Longrightarrow> row_matches match (ra_where args) r"
  unfolding row_matches_def by (metis soft_delete_filter_extends)

lemma inject_into_row_tenant:
  "inject_into_row model row m = Inr row' \<Longrightarrow> prop_of row' ''merchantId'' = Some (VStr m)"
  by (auto simp: inject_into_row_def prop_of_def split: option.splits if_splits pval.splits)

lemma inject_rows_tenant:
  "inject_rows model rs m = Inr rs' \<Longrightarrow>
    list_all (\<lambda>row. prop_of row ''merchantId'' = Some (VStr m)) rs'"
  by (induction rs arbitrary: rs') (auto dest: inject_into_row_tenant)

text \<open>Every row of a data block belongs to the tenant.\<close>

fun block_of_tenant :: "merchant_id \<Rightarrow> data_like option \<Rightarrow> bool" where
  "block_of_tenant m None = True"
| "block_of_tenant m (Some (OneRow r)) = (prop_of r ''merchantId'' = Some (VStr m))"
| "block_of_tenant m (Some (ManyRows rs)) = list_all (\<lambda>r. prop_of r ''merchantId'' = Some (VStr m)) rs"

lemma inject_block_tenant:
  "inject_merchant_id_into_data model d m = Inr d' \<Longrightarrow> block_of_tenant m d'"
  by (induction model d m rule: inject_merchant_id_into_data.induct)
     (auto dest: inject_into_row_tenant inject_rows_tenant)

lemma validate_row_cases:
  "validate_ai_tone_in_row row = Inr row' \<Longrightarrow>
    row' = row \<or> (\<exists>t. row' = row(''aiTone'' \<mapsto> VJson (ai_tone_json t)))"
  by (auto simp: validate_ai_tone_in_row_def simp del: ai_tone_schema.simps
      split: option.splits pval.splits json.splits)

lemma validate_row_tenant:
  "validate_ai_tone_in_row row = Inr row' \<Longrightarrow> prop_of row' ''merchantId'' = prop_of row ''merchantId''"
  by (drule validate_row_cases) (auto simp: prop_of_def)

lemma validate_rows_tenant:
  "validate_rows rs = Inr rs' \<Longrightarrow>
    list_all (\<lambda>row. prop_of row ''merchantId'' = Some (VStr m)) rs \<Longrightarrow>
    list_all (\<lambda>row. prop_of row ''merchantId'' = Some (VStr m)) rs'"
  by (induction rs arbitrary: rs') (auto dest: validate_row_tenant)

lemma validate_block_tenant:
  "validate_ai_tone_in_write_block d = Inr d' \<Longrightarrow> block_of_tenant m d \<Longrightarrow> block_of_tenant m d'"
  by (induction d rule: validate_ai_tone_in_write_block.induct)
     (auto dest: validate_row_tenant validate_rows_tenant)

lemma validate_model_where:
  "validate_model_specific model args = Inr args' \<Longrightarrow> wa_where args' = wa_where args"
  by (auto simp: validate_model_specific_def split: if_splits)

lemma validate_model_blocks:
  "validate_model_specific model args = Inr args' \<Longrightarrow>
    block_of_tenant m (wa_data args) \<Longrightarrow> block_of_tenant m (wa_create args) \<Longrightarrow>
    block_of_tenant m (wa_data args') \<and> block_of_tenant m (wa_create args')"
  by (auto simp: validate_model_specific_def split: if_splits dest: validate_block_tenant)

lemma tenant_model_not_special:
  "tenant_model model \<Longrightarrow> model \<noteq> ''Merchant'' \<and> \<not> List.member UNSCOPED_MODELS model"
  by (auto simp: tenant_model_def TENANT_SCOPED_MODELS_def TENANT_OPTIONAL_READ_MODELS_def
      UNSCOPED_MODELS_def)

lemma check_update_block_D:
  "check_update_block model m args = Inr () \<Longrightarrow>
    data_prop (wa_update args) ''merchantId'' \<in> {None, Some (VStr m)}"
  by (auto simp: check_update_block_def split: option.splits if_splits)

lemma validate_block_merchant:
  "validate_ai_tone_in_write_block d = Inr d' \<Longrightarrow>
    data_prop d' ''merchantId'' = data_prop d ''merchantId''"
  by (induction d rule: validate_ai_tone_in_write_block.induct) (auto dest: validate_row_tenant)

lemma validate_model_update:
  "validate_model_specific model args = Inr args' \<Longrightarrow>
    data_prop (wa_update args') ''merchantId'' = data_prop (wa_update args) ''merchantId''"
  by (auto simp: validate_model_specific_def split: if_splits dest: validate_block_merchant)

lemma enforce_write_tenant_D:
  assumes "enforce_tenant_scope_on_write (Some (Tenant m)) model args op = Inr args'"
    and "tenant_model model"
  shows "block_of_tenant m (wa_data args') \<and> block_of_tenant m (wa_create args')
    \<and> data_prop (wa_update args') ''merchantId'' \<in> {None, Some (VStr m)}
    \<and> (\<exists>a. scope_where_on_write model m a = Inr args' \<and> wa_where a = wa_where args)"
proof -
  from assms tenant_model_not_special [OF assms(2)] obtain d c where
    d: "inject_merchant_id_into_data model (wa_data args) m = Inr d" and
    c: "inject_merchant_id_into_data model (wa_create args) m = Inr c" and
    u: "check_update_block model m args = Inr ()" and
    w: "scope_where_on_write model m (args\<lparr>wa_data := d, wa_create := c\<rparr>) = Inr args'"
    by (auto simp: enforce_tenant_scope_on_write_def)
  from w have "wa_data args' = d \<and> wa_create args' = c" and same: "wa_update args' = wa_update args"
    by (auto simp: scope_where_on_write_def split: option.splits if_splits)
  moreover have "data_prop (wa_update args') ''merchantId'' \<in> {None, Some (VStr m)}"
    unfolding same by (rule check_update_block_D [OF u])
  ultimately show ?thesis
    using w inject_block_tenant [OF d] inject_block_tenant [OF c]
    by (metis write_args.select_convs(1) write_args.surjective write_args.update_convs(2,3))
qed

section \<open>Properties\<close>

text \<open>
  C4. Read isolation. In a tenant scope, whatever rows a rewritten many-row read of a
  tenant model (\<open>findMany\<close>, \<open>findFirst\<close>, \<open>count\<close>, \<open>aggregate\<close>, \<open>groupBy\<close>) can return
  belong to the active merchant, and rows of a soft-delete model that the caller did not
  ask for explicitly are live. Prisma's evaluation of a filter is the parameter.
\<close>

theorem tenant_read_isolated:
  assumes "where_semantics match"
    and "apply_read_hooks (Some (Tenant m)) model args False = Inr args'"
    and "tenant_model model"
    and "row_matches match (ra_where args') r"
  shows "r ''merchantId'' = Some (VStr m)
    \<and> (List.member SOFT_DELETE_MODELS model \<and> where_or_empty (ra_where args) ''deletedAt'' = None
        \<longrightarrow> r ''deletedAt'' = Some VNull)"
proof -
  have model: "model \<noteq> ''Merchant''" "\<not> List.member UNSCOPED_MODELS model"
    using tenant_model_not_special [OF assms(3)] by auto
  with assms(2) obtain a where
    a: "enforce_tenant_scope_on_read (Some (Tenant m)) model args False = Inr a"
    and args': "args' = apply_soft_delete_filter model a"
    by (auto simp: apply_read_hooks_def)
  have del: "where_or_empty (ra_where a) ''deletedAt'' = where_or_empty (ra_where args) ''deletedAt''"
    using a model by (auto simp: enforce_tenant_scope_on_read_def Let_def where_or_empty_def
        split: option.splits if_splits)
  have "r ''merchantId'' = Some (VStr m)"
    using where_semantics.scoped_read_rows [OF assms(1) a assms(3) model(1)] assms(4) args'
    by (auto dest: matches_soft_delete_filter)
  moreover have "r ''deletedAt'' = Some VNull"
    if "List.member SOFT_DELETE_MODELS model" "where_or_empty (ra_where args) ''deletedAt'' = None"
  proof (rule where_semantics.matches_null [OF assms(1) assms(4)])
    show "where_or_empty (ra_where args') ''deletedAt'' = Some VNull"
      using that del
      by (simp add: args' apply_soft_delete_filter_def Let_def)
  qed
  ultimately show ?thesis by blast
qed

lemma tenant_read_isolated_witness:
  "[''merchantId'' \<mapsto> VStr ''m1'', ''deletedAt'' \<mapsto> VNull] ''merchantId'' = Some (VStr ''m1'')"
proof -
  let ?args = "\<lparr>ra_where = None\<rparr>"
  let ?r = "[''merchantId'' \<mapsto> VStr ''m1'', ''deletedAt'' \<mapsto> VNull]"
  have hooks: "apply_read_hooks (Some (Tenant ''m1'')) ''Customer'' ?args False
    = Inr \<lparr>ra_where = Some ?r\<rparr>"
    by (simp add: apply_read_hooks_def UNSCOPED_MODELS_def enforce_tenant_scope_on_read_def
        tenant_model_def TENANT_SCOPED_MODELS_def where_or_empty_def prop_of_def
        apply_soft_delete_filter_def SOFT_DELETE_MODELS_def)
  have model: "tenant_model ''Customer''"
    by (simp add: tenant_model_def TENANT_SCOPED_MODELS_def)
  have matches: "row_matches scalar_match (Some ?r) ?r"
    by (simp add: row_matches_def scalar_match_def where_or_empty_def)
  show ?thesis
    using tenant_read_isolated [OF scalar.where_semantics_axioms hooks model] matches by simp
qed

text \<open>
  C5. Write isolation. In a tenant scope, a rewritten write of a tenant model that has a
  \<open>where\<close> clause can only touch rows of the active merchant, every row of its \<open>data\<close> and
  \<open>create\<close> blocks carries the active merchant's id, and the \<open>update\<close> block of an upsert
  names no other merchant, so no row is moved to another tenant.
\<close>

theorem tenant_write_isolated:
  assumes "where_semantics match"
    and "apply_write_hooks (Some (Tenant m)) model args op = Inr args'"
    and "tenant_model model"
  shows "block_of_tenant m (wa_data args') \<and> block_of_tenant m (wa_create args')
    \<and> data_prop (wa_update args') ''merchantId'' \<in> {None, Some (VStr m)}
    \<and> (wa_where args \<noteq> None \<and> row_matches match (wa_where args') r
        \<longrightarrow> r ''merchantId'' = Some (VStr m))"
proof -
  from assms(2,3) obtain a where
    a: "enforce_tenant_scope_on_write (Some (Tenant m)) model args op = Inr a"
    and v: "validate_model_specific model a = Inr args'"
    using tenant_model_not_special by (auto simp: apply_write_hooks_def)
  from enforce_write_tenant_D [OF a assms(3)] obtain b where
    blocks: "block_of_tenant m (wa_data a)" "block_of_tenant m (wa_create a)"
    and u: "data_prop (wa_update a) ''merchantId'' \<in> {None, Some (VStr m)}"
    and b: "scope_where_on_write model m b = Inr a" "wa_where b = wa_where args"
    by blast
  from u have "data_prop (wa_update args') ''merchantId'' \<in> {None, Some (VStr m)}"
    by (simp only: validate_model_update [OF v])
  then show ?thesis
    using validate_model_blocks [OF v blocks] validate_model_where [OF v] b
      where_semantics.scoped_write_rows [OF assms(1) b(1)] by auto
qed

lemma tenant_write_isolated_witness:
  "\<exists>args'. apply_write_hooks (Some (Tenant ''m1'')) ''Message''
      \<lparr>wa_where = Some [''id'' \<mapsto> VStr ''x''], wa_data = None, wa_create = None, wa_update = None\<rparr>
      ''deleteMany'' = Inr args' \<and> block_of_tenant ''m1'' (wa_data args')"
proof -
  let ?args = "\<lparr>wa_where = Some [''id'' \<mapsto> VStr ''x''], wa_data = None, wa_create = None, wa_update = None\<rparr>"
  have model: "tenant_model ''Message''"
    by (simp add: tenant_model_def TENANT_SCOPED_MODELS_def)
  have "apply_write_hooks (Some (Tenant ''m1'')) ''Message'' ?args ''deleteMany''
    = Inr (?args\<lparr>wa_where := Some [''id'' \<mapsto> VStr ''x'', ''merchantId'' \<mapsto> VStr ''m1'']\<rparr>)"
    by (simp add: apply_write_hooks_def UNSCOPED_MODELS_def enforce_tenant_scope_on_write_def
        model check_update_block_def scope_where_on_write_def prop_of_def validate_model_specific_def)
  then show ?thesis
    using tenant_write_isolated [OF scalar.where_semantics_axioms _ model] by blast
qed

text \<open>
  The gap in the write hooks. A bulk write without a \<open>where\<close> clause passes the
  hooks in a tenant scope with no filter added, so it matches the rows of every tenant
  (and an \<open>updateMany\<close> moves them to the active merchant, whose id is injected into its
  data); likewise a write to \<open>Merchant\<close> that names its row by anything but \<open>id\<close> passes
  unchanged, where the read hook refuses the same clause.
\<close>

theorem unfiltered_writes_pass:
  assumes "tenant_model model" and "model \<noteq> ''MerchantSettings''"
  shows "apply_write_hooks (Some (Tenant m)) model
      \<lparr>wa_where = None, wa_data = Some (OneRow d), wa_create = None, wa_update = None\<rparr> ''updateMany''
    = (if prop_of d ''merchantId'' = None then
         Inr \<lparr>wa_where = None, wa_data = Some (OneRow (d(''merchantId'' \<mapsto> VStr m))),
              wa_create = None, wa_update = None\<rparr>
       else if prop_of d ''merchantId'' = Some (VStr m) then
         Inr \<lparr>wa_where = None, wa_data = Some (OneRow d), wa_create = None, wa_update = None\<rparr>
       else Inl (scope_error (''Write data on '' @ model @ '' carries cross-tenant merchantId'')))
    \<and> row_matches match (None :: prow option) r
    \<and> apply_write_hooks (Some (Tenant m)) ''Merchant''
        \<lparr>wa_where = Some [''shop'' \<mapsto> VStr s], wa_data = None, wa_create = None, wa_update = None\<rparr> ''updateMany''
      = Inr \<lparr>wa_where = Some [''shop'' \<mapsto> VStr s], wa_data = None, wa_create = None, wa_update = None\<rparr>
    \<and> is_error (apply_read_hooks (Some (Tenant m)) ''Merchant'' \<lparr>ra_where = Some [''shop'' \<mapsto> VStr s]\<rparr> fu)"
  using assms tenant_model_not_special [OF assms(1)]
  by (auto simp: apply_write_hooks_def enforce_tenant_scope_on_write_def inject_into_row_def
      check_update_block_def scope_where_on_write_def validate_model_specific_def row_matches_def
      where_or_empty_def merchant_write_target_def prop_of_def UNSCOPED_MODELS_def
      apply_read_hooks_def enforce_tenant_scope_on_read_def split: option.splits pval.splits)

lemma unfiltered_writes_pass_witness:
  "is_error (apply_read_hooks (Some (Tenant ''m1'')) ''Merchant'' \<lparr>ra_where = Some [''shop'' \<mapsto> VStr ''s'']\<rparr> True)"
  using unfiltered_writes_pass [of "''Order''" "''m1''" "Map.empty" scalar_match "Map.empty" "''s''" True]
  by (simp add: tenant_model_def TENANT_SCOPED_MODELS_def)

text \<open>
  \<open>findUnique\<close> on a tenant model is passed through without a tenant check, on the
  grounds that its unique key includes the merchant; a read by the row's own \<open>id\<close> is
  not tenant-filtered.
\<close>

lemma find_unique_not_filtered:
  "tenant_model model \<Longrightarrow> \<not> List.member SOFT_DELETE_MODELS model \<Longrightarrow>
    apply_read_hooks (Some (Tenant m)) model args True = Inr args"
  using tenant_model_not_special [of model]
  by (auto simp: apply_read_hooks_def enforce_tenant_scope_on_read_def apply_soft_delete_filter_def)

text \<open>Outside any scope every call on a scoped model is refused.\<close>

lemma no_scope_refused:
  "\<not> List.member UNSCOPED_MODELS model \<Longrightarrow>
    is_error (apply_read_hooks None model ra fu) \<and> is_error (apply_write_hooks None model wa op)"
  by (simp add: apply_read_hooks_def apply_write_hooks_def enforce_tenant_scope_on_read_def
      enforce_tenant_scope_on_write_def)

text \<open>A nested tenant scope runs its body only for the same tenant.\<close>

lemma nested_scope_same_tenant:
  "with_tenant_scope (Some (Tenant m)) m' body = Inr x \<Longrightarrow> m' = m \<and> body (Some (Tenant m)) = Inr x"
  by (auto simp: with_tenant_scope_def split: if_splits)

end
