(* ===== verification/Contracts.thy ===== *)
theory Contracts
  imports Prelude
begin

text \<open>
  The registries of \<open>packages/contracts\<close>: the outbox event types and their wire
  strings (\<open>events.ts\<close>), the queue names (\<open>queues.ts\<close>), the resources of a backfill
  (\<open>backfill.ts\<close>), and the enums of \<open>packages/db/prisma/schema.prisma\<close> that the
  repositories use.
\<close>

section \<open>Outbox events\<close>

datatype outbox_event_type =
    MerchantInstalled | MerchantUninstalled | MerchantNeedsReauth
  | MerchantShopDetailsFetched | MerchantBackfillCompleted | MerchantScopesUpdated
  | CustomerCreated | CustomerUpdated | CustomerDeleted | CustomerRedacted
  | CustomerStateChanged
  | OrderPlaced | OrderUpdated | OrderCancelled | OrderRefunded
  | ProductCreated | ProductUpdated | ProductDeleted
  | GdprCustomerDataRequested | GdprCustomerRedacted | GdprShopRedacted

fun event_string :: "outbox_event_type \<Rightarrow> string" where
  "event_string MerchantInstalled = ''merchant.installed''"
| "event_string MerchantUninstalled = ''merchant.uninstalled''"
| "event_string MerchantNeedsReauth = ''merchant.needs_reauth''"
| "event_string MerchantShopDetailsFetched = ''merchant.shop_details_fetched''"
| "event_string MerchantBackfillCompleted = ''merchant.backfill_completed''"
| "event_string MerchantScopesUpdated = ''merchant.scopes_updated''"
| "event_string CustomerCreated = ''customer.created''"
| "event_string CustomerUpdated = ''customer.updated''"
| "event_string CustomerDeleted = ''customer.deleted''"
| "event_string CustomerRedacted = ''customer.redacted''"
| "event_string CustomerStateChanged = ''customer.state_changed''"
| "event_string OrderPlaced = ''order.placed''"
| "event_string OrderUpdated = ''order.updated''"
| "event_string OrderCancelled = ''order.cancelled''"
| "event_string OrderRefunded = ''order.refunded''"
| "event_string ProductCreated = ''product.created''"
| "event_string ProductUpdated = ''product.updated''"
| "event_string ProductDeleted = ''product.deleted''"
| "event_string GdprCustomerDataRequested = ''gdpr.customer_data_requested''"
| "event_string GdprCustomerRedacted = ''gdpr.customer_redacted''"
| "event_string GdprShopRedacted = ''gdpr.shop_redacted''"

definition all_outbox_event_types :: "outbox_event_type list" where
  "all_outbox_event_types =
    [MerchantInstalled, MerchantUninstalled, MerchantNeedsReauth,
     MerchantShopDetailsFetched, MerchantBackfillCompleted, MerchantScopesUpdated,
     CustomerCreated, CustomerUpdated, CustomerDeleted, CustomerRedacted,
     CustomerStateChanged,
     OrderPlaced, OrderUpdated, OrderCancelled, OrderRefunded,
     ProductCreated, ProductUpdated, ProductDeleted,
     GdprCustomerDataRequested, GdprCustomerRedacted, GdprShopRedacted]"

text \<open>
  \<open>ALL_OUTBOX_EVENT_TYPES.has(type)\<close> together with the narrowing of a raw string to
  the union type that the drainer performs after the check.
\<close>

definition parse_event_type :: "string \<Rightarrow> outbox_event_type option" where
  "parse_event_type s = List.find (\<lambda>t. event_string t = s) all_outbox_event_types"

definition MAX_OUTBOX_ATTEMPTS :: nat where
  "MAX_OUTBOX_ATTEMPTS = 10"

lemma all_outbox_event_types_complete: "t \<in> set all_outbox_event_types"
  by (cases t) (simp_all add: all_outbox_event_types_def)

lemma event_string_distinct: "distinct (map event_string all_outbox_event_types)"
  by (simp add: all_outbox_event_types_def)

lemma event_string_inject: "event_string a = event_string b \<Longrightarrow> a = b"
  using event_string_distinct all_outbox_event_types_complete [of a]
    all_outbox_event_types_complete [of b]
  by (auto simp: distinct_map dest: inj_onD)

lemma parse_event_string [simp]: "parse_event_type (event_string t) = Some t"
  using find_row_unique [OF event_string_distinct all_outbox_event_types_complete [of t]]
  by (simp add: parse_event_type_def find_row_def)

lemma parse_event_type_Some_D: "parse_event_type s = Some t \<Longrightarrow> event_string t = s"
  by (auto simp: parse_event_type_def find_Some_iff)

section \<open>Queues\<close>

datatype queue_name = OutboxDrain | CronRollup | CronSweep | AiGenerate | CampaignDispatch

fun queue_string :: "queue_name \<Rightarrow> string" where
  "queue_string OutboxDrain = ''outbox.drain''"
| "queue_string CronRollup = ''cron.rollup''"
| "queue_string CronSweep = ''cron.sweep''"
| "queue_string AiGenerate = ''ai.generate''"
| "queue_string CampaignDispatch = ''campaign.dispatch''"

definition all_queue_names :: "string list" where
  "all_queue_names = map queue_string [OutboxDrain, CronRollup, CronSweep, AiGenerate, CampaignDispatch]"

definition is_queue_name :: "string \<Rightarrow> bool" where
  "is_queue_name s \<longleftrightarrow> List.member all_queue_names s"

record campaign_dispatch_job_payload =
  jp_merchantId :: string
  jp_messageId :: string
  jp_campaignId :: string
  jp_customerId :: string

section \<open>Schema enums\<close>

datatype customer_state = Active | Warm | AtRisk | Dormant | Lost | InsufficientData

datatype financial_status =
  FPending | FAuthorized | FPartiallyPaid | FPaid | FPartiallyRefunded | FRefunded | FVoided

datatype fulfillment_status = Fulfilled | Partial | Unfulfilled | Restocked

datatype generation_status = GPending | GCompleted | GFailed

datatype message_status = MDraft | MSent | MSuppressed | MOpened | MClicked | MBounced | MFailed

datatype consent_state = Subscribed | NotSubscribed | ConsentPending | Unsubscribed

datatype campaign_status = CDraft | CActive | CPaused | CArchived

datatype target_status = TPending | TSending | TSent | TSuppressed | TDeferred | TFailed

datatype actor_type = ActorSystem | ActorMerchant | ActorOperator

datatype audit_action =
    AuCustomerStateChanged | AuScoringInitialized | AuGenerationFailed | AuSpendCapExceeded
  | AuRateLimited | AuContentBlocked | AuDiscountCreated | AuDispatchSent | AuSuppressedBySes
  | AuGdprDataRequest | AuGdprCustomerRedact | AuGdprRedactMalformed | AuGdprRedactNoLocalRecord
  | AuGdprShopRedact | AuGdprShopRedactIdempotent
  | AuOutboxReplay | AuOutboxDeadLetterForced

text \<open>The name of a customer band, as the enum stores it.\<close>

fun state_string :: "customer_state \<Rightarrow> string" where
  "state_string Active = ''active''"
| "state_string Warm = ''warm''"
| "state_string AtRisk = ''at_risk''"
| "state_string Dormant = ''dormant''"
| "state_string Lost = ''lost''"
| "state_string InsufficientData = ''insufficient_data''"

lemma state_string_inject: "state_string a = state_string b \<Longrightarrow> a = b"
  by (cases a; cases b) simp_all

end
