(* ===== verification/ScoringMath.thy ===== *)
theory ScoringMath
  imports Contracts Errors
begin

text \<open>
  The pure scoring functions of \<open>packages/db/src/services/scoring-math.ts\<close>: quintile
  boundaries of a merchant's cohort, quintile assignment on the three axes, churn risk,
  recency bands and the two resolution branches. Counts, days and cents are \<open>int\<close>; the
  churn score is an exact rational, where the code has a double.
\<close>

definition INSUFFICIENT_COHORT_THRESHOLD :: nat where
  "INSUFFICIENT_COHORT_THRESHOLD = 5"

record cohort_row =
  cr_customerId :: string
  cr_rDays :: int
  cr_fCount :: int
  cr_mCents :: int

record resolved_score =
  rs_rDays :: int
  rs_fCount :: int
  rs_mCents :: int
  rs_rQuintile :: "int option"
  rs_fQuintile :: "int option"
  rs_mQuintile :: "int option"
  rs_churnRiskScore :: "rat option"
  rs_newState :: customer_state

type_synonym cutpoints = "int \<times> int \<times> int \<times> int"

record quintile_boundaries =
  qb_r :: cutpoints
  qb_f :: cutpoints
  qb_m :: cutpoints

section \<open>Boundaries\<close>

text \<open>
  \<open>Math.ceil(N * p) - 1\<close> for \<open>p = k / 5\<close>, clamped to the indices of the array. The
  code multiplies by the double nearest to \<open>p\<close>; the ceiling of that product is the exact
  one for every \<open>N\<close> up to 400000 (checked exhaustively), forty times the documented
  scale ceiling.
\<close>

definition percentile_index :: "nat \<Rightarrow> nat \<Rightarrow> nat" where
  "percentile_index N k = nat (max 0 (min (int N - 1) ((int N * int k + 4) div 5 - 1)))"

definition pick_percentile_positions :: "int list \<Rightarrow> cutpoints" where
  "pick_percentile_positions xs =
     (let N = length xs; pos = (\<lambda>k. xs ! percentile_index N k) in (pos 1, pos 2, pos 3, pos 4))"

definition compute_quintile_boundaries :: "cohort_row list \<Rightarrow> exn + quintile_boundaries" where
  "compute_quintile_boundaries cohort =
     (if length cohort < INSUFFICIENT_COHORT_THRESHOLD
      then Inl (PlainErr ''computeQuintileBoundaries called with insufficient cohort'')
      else Inr \<lparr>qb_r = pick_percentile_positions (sort (map cr_rDays cohort)),
                qb_f = pick_percentile_positions (sort (map cr_fCount cohort)),
                qb_m = pick_percentile_positions (sort (map cr_mCents cohort))\<rparr>)"

section \<open>Quintiles\<close>

text \<open>The cascade of comparisons: each \<open>if\<close> overwrites the rank of the ones before.\<close>

fun rank_by_ascending_boundaries :: "int \<Rightarrow> cutpoints \<Rightarrow> int" where
  "rank_by_ascending_boundaries v (b0, b1, b2, b3) =
     (let r1 = 1;
          r2 = (if v > b0 then 2 else r1);
          r3 = (if v > b1 then 3 else r2);
          r4 = (if v > b2 then 4 else r3)
      in (if v > b3 then 5 else r4))"

definition invert_rank :: "int \<Rightarrow> int" where
  "invert_rank rank = 6 - rank"

definition assign_r_quintile :: "int \<Rightarrow> cutpoints \<Rightarrow> int" where
  "assign_r_quintile rDays b = invert_rank (rank_by_ascending_boundaries rDays b)"

definition assign_f_quintile :: "int \<Rightarrow> cutpoints \<Rightarrow> int" where
  "assign_f_quintile fCount b = rank_by_ascending_boundaries fCount b"

fun assign_m_quintile :: "int \<Rightarrow> cutpoints \<Rightarrow> int" where
  "assign_m_quintile mCents (b0, b1, b2, b3) =
     (let r1 = 1;
          r2 = (if mCents > b0 then 2 else r1);
          r3 = (if mCents > b1 then 3 else r2);
          r4 = (if mCents > b2 then 4 else r3)
      in (if mCents > b3 then 5 else r4))"

definition compute_churn_risk_score :: "int \<Rightarrow> int \<Rightarrow> int \<Rightarrow> rat" where
  "compute_churn_risk_score rQ fQ mQ = 1 - of_int (rQ + fQ + mQ) / 15"

section \<open>Bands\<close>

definition state_from_recency :: "int \<Rightarrow> customer_state" where
  "state_from_recency rDays =
     (if rDays \<le> 30 then Active else if rDays \<le> 90 then Warm
      else if rDays \<le> 180 then AtRisk else if rDays \<le> 365 then Dormant else Lost)"

definition lurker_r_days :: "time \<Rightarrow> time \<Rightarrow> int" where
  "lurker_r_days referenceCreatedAt now =
     (let diffMs = now - referenceCreatedAt in
      if diffMs \<le> 0 then 0 else diffMs div ms_per_day)"

section \<open>Resolution\<close>

definition resolve_with_boundaries ::
  "cohort_row \<Rightarrow> quintile_boundaries option \<Rightarrow> bool \<Rightarrow> resolved_score" where
  "resolve_with_boundaries row boundaries isInsufficientCohort =
     (case (isInsufficientCohort, boundaries) of
        (False, Some b) \<Rightarrow>
          (let rQ = assign_r_quintile (cr_rDays row) (qb_r b);
               fQ = assign_f_quintile (cr_fCount row) (qb_f b);
               mQ = assign_m_quintile (cr_mCents row) (qb_m b)
           in \<lparr>rs_rDays = cr_rDays row, rs_fCount = cr_fCount row, rs_mCents = cr_mCents row,
               rs_rQuintile = Some rQ, rs_fQuintile = Some fQ, rs_mQuintile = Some mQ,
               rs_churnRiskScore = Some (compute_churn_risk_score rQ fQ mQ),
               rs_newState = state_from_recency (cr_rDays row)\<rparr>)
      | _ \<Rightarrow>
          \<lparr>rs_rDays = cr_rDays row, rs_fCount = cr_fCount row, rs_mCents = cr_mCents row,
           rs_rQuintile = None, rs_fQuintile = None, rs_mQuintile = None,
           rs_churnRiskScore = None, rs_newState = InsufficientData\<rparr>)"

definition resolve_scorable_customer ::
  "cohort_row \<Rightarrow> cohort_row list \<Rightarrow> bool \<Rightarrow> exn + resolved_score" where
  "resolve_scorable_customer row cohort isInsufficientCohort =
     (if isInsufficientCohort
      then Inr (resolve_with_boundaries row None isInsufficientCohort)
      else rbind (compute_quintile_boundaries cohort)
             (\<lambda>b. Inr (resolve_with_boundaries row (Some b) isInsufficientCohort)))"

definition resolve_lurker :: "time \<Rightarrow> time \<Rightarrow> bool \<Rightarrow> resolved_score" where
  "resolve_lurker referenceCreatedAt now isInsufficientCohort =
     (let rDays = lurker_r_days referenceCreatedAt now in
      \<lparr>rs_rDays = rDays, rs_fCount = 0, rs_mCents = 0,
       rs_rQuintile = None, rs_fQuintile = None, rs_mQuintile = None,
       rs_churnRiskScore = None,
       rs_newState = (if isInsufficientCohort then InsufficientData
                      else state_from_recency rDays)\<rparr>)"

section \<open>A ranking against cutpoints\<close>

text \<open>
  The contract of a quintile assignment: a function of a value and four ascending
  cutpoints that returns one more than the number of cutpoints below the value. It is
  implemented twice, once for numbers and once for bigints.
\<close>

fun ascending :: "cutpoints \<Rightarrow> bool" where
  "ascending (b0, b1, b2, b3) \<longleftrightarrow> b0 \<le> b1 \<and> b1 \<le> b2 \<and> b2 \<le> b3"

fun cut_list :: "cutpoints \<Rightarrow> int list" where
  "cut_list (b0, b1, b2, b3) = [b0, b1, b2, b3]"

locale ranking =
  fixes rank :: "int \<Rightarrow> cutpoints \<Rightarrow> int"
  assumes rank_count:
    "ascending b \<Longrightarrow> rank v b = 1 + int (length (filter (\<lambda>c. c < v) (cut_list b)))"
begin

lemma rank_range: "ascending b \<Longrightarrow> 1 \<le> rank v b \<and> rank v b \<le> 5"
  using length_filter_le [of "\<lambda>c. c < v" "cut_list b"] by (cases b) (auto simp: rank_count)

lemma rank_mono: "ascending b \<Longrightarrow> v \<le> w \<Longrightarrow> rank v b \<le> rank w b"
  by (cases b) (auto simp: rank_count)

lemma rank_top_iff: "ascending (b0, b1, b2, b3) \<Longrightarrow> rank v (b0, b1, b2, b3) = 5 \<longleftrightarrow> b3 < v"
  by (auto simp: rank_count)

lemma rank_bottom_iff: "ascending (b0, b1, b2, b3) \<Longrightarrow> rank v (b0, b1, b2, b3) = 1 \<longleftrightarrow> v \<le> b0"
  by (auto simp: rank_count)

lemma rank_at_most_iff:
  "ascending (b0, b1, b2, b3) \<Longrightarrow> rank v (b0, b1, b2, b3) \<le> 2 \<longleftrightarrow> v \<le> b1"
  "ascending (b0, b1, b2, b3) \<Longrightarrow> rank v (b0, b1, b2, b3) \<le> 3 \<longleftrightarrow> v \<le> b2"
  "ascending (b0, b1, b2, b3) \<Longrightarrow> rank v (b0, b1, b2, b3) \<le> 4 \<longleftrightarrow> v \<le> b3"
  by (auto simp: rank_count)

end

interpretation number_rank: ranking rank_by_ascending_boundaries
proof
  fix b :: cutpoints and v
  assume "ascending b"
  then show "rank_by_ascending_boundaries v b = 1 + int (length (filter (\<lambda>c. c < v) (cut_list b)))"
    by (cases b) (auto simp: Let_def)
qed

interpretation bigint_rank: ranking assign_m_quintile
proof
  fix b :: cutpoints and v
  assume "ascending b"
  then show "assign_m_quintile v b = 1 + int (length (filter (\<lambda>c. c < v) (cut_list b)))"
    by (cases b) (auto simp: Let_def)
qed

declare rank_by_ascending_boundaries.simps [simp del] assign_m_quintile.simps [simp del]

section \<open>Boundaries of a sorted array\<close>

lemma percentile_index_bound: "0 < N \<Longrightarrow> percentile_index N k < N"
  by (simp add: percentile_index_def)

lemma percentile_index_mono: "j \<le> k \<Longrightarrow> percentile_index N j \<le> percentile_index N k"
  unfolding percentile_index_def
  by (intro nat_mono max.mono min.mono diff_mono zdiv_mono1 add_mono mult_left_mono) auto

lemma percentile_index_bound5: "5 \<le> N \<Longrightarrow> percentile_index N k < N"
  by (rule percentile_index_bound) linarith

lemma fifths_in_range:
  fixes n k :: int
  assumes "5 \<le> n" and "k = 1 \<or> k = 2 \<or> k = 3 \<or> k = 4"
  shows "1 \<le> (n * k + 4) div 5" and "(n * k + 4) div 5 \<le> n"
  using assms by (elim disjE; simp)+

lemma percentile_index_exact:
  assumes "5 \<le> N" and "1 \<le> k" and "k \<le> 4"
  shows "int (percentile_index N k) = (int N * int k + 4) div 5 - 1"
proof -
  have "int k = 1 \<or> int k = 2 \<or> int k = 3 \<or> int k = 4" using assms(2,3) by linarith
  with assms(1) fifths_in_range [of "int N" "int k"] show ?thesis
    unfolding percentile_index_def by simp
qed

lemma percentile_index_fifths:
  assumes "5 \<le> N" and "1 \<le> k" and "k \<le> 4"
  shows "k * N \<le> 5 * Suc (percentile_index N k)" and "5 * percentile_index N k < k * N"
proof -
  have "int (k * N) \<le> int (5 * Suc (percentile_index N k))"
    and "int (5 * percentile_index N k) < int (k * N)"
    using percentile_index_exact [OF assms] by (simp_all add: mult.commute)
  then show "k * N \<le> 5 * Suc (percentile_index N k)" and "5 * percentile_index N k < k * N"
    by (simp_all only: of_nat_le_iff of_nat_less_iff)
qed

lemma pick_percentile_ascending:
  assumes "sorted xs" and "xs \<noteq> []"
  shows "ascending (pick_percentile_positions xs)"
  using assms by (auto simp: pick_percentile_positions_def Let_def
      intro!: sorted_nth_mono percentile_index_mono percentile_index_bound)

lemma boundaries_ascending:
  assumes "compute_quintile_boundaries cohort = Inr b"
  shows "ascending (qb_r b) \<and> ascending (qb_f b) \<and> ascending (qb_m b)"
proof -
  from assms have "cohort \<noteq> []"
    by (auto simp: compute_quintile_boundaries_def INSUFFICIENT_COHORT_THRESHOLD_def split: if_splits)
  then have "sort (map f cohort) \<noteq> []" for f :: "cohort_row \<Rightarrow> int"
    by (metis length_0_conv length_map length_sort)
  with assms show ?thesis
    by (auto simp: compute_quintile_boundaries_def split: if_splits
        intro!: pick_percentile_ascending)
qed

text \<open>At least \<open>k\<close> fifths of a sample are at or below its \<open>k\<close>-th cutpoint.\<close>

lemma at_most_cutpoint:
  assumes "5 \<le> length xs" and "1 \<le> k" and "k \<le> 4"
  shows "k * length xs \<le> 5 * length (filter (\<lambda>x. x \<le> sort xs ! percentile_index (length xs) k) xs)"
proof -
  let ?i = "percentile_index (length xs) k"
  have "?i < length (sort xs)" using assms(1) by (simp add: percentile_index_bound5)
  then have "Suc ?i \<le> length (filter (\<lambda>x. x \<le> sort xs ! ?i) xs)"
    using length_filter_le_index [of "sort xs" ?i] by simp
  with percentile_index_fifths(1) [OF assms] show ?thesis by (meson le_trans mult_le_mono2)
qed

text \<open>Fewer than \<open>k\<close> fifths of a sample are strictly below its \<open>k\<close>-th cutpoint.\<close>

lemma below_cutpoint:
  assumes "5 \<le> length xs" and "1 \<le> k" and "k \<le> 4"
  shows "5 * length (filter (\<lambda>x. x < sort xs ! percentile_index (length xs) k) xs) < k * length xs"
proof -
  let ?i = "percentile_index (length xs) k"
  have "?i < length (sort xs)" using assms(1) by (simp add: percentile_index_bound5)
  then have "length (filter (\<lambda>x. x < sort xs ! ?i) xs) \<le> ?i"
    using length_filter_less_index [of "sort xs" ?i] by simp
  with percentile_index_fifths(2) [OF assms] show ?thesis by (meson le_less_trans mult_le_mono2)
qed

text \<open>A value is at or below the \<open>k\<close>-th cutpoint when fewer than \<open>k\<close> fifths are below the value.\<close>

lemma under_cutpoint_iff:
  assumes "5 \<le> length xs" and "1 \<le> k" and "k \<le> 4"
  shows "v \<le> sort xs ! percentile_index (length xs) k
    \<longleftrightarrow> 5 * length (filter (\<lambda>x. x < v) xs) < k * length xs"
proof
  let ?c = "sort xs ! percentile_index (length xs) k"
  assume "v \<le> ?c"
  then have "length (filter (\<lambda>x. x < v) xs) \<le> length (filter (\<lambda>x. x < ?c) xs)"
    by (intro length_filter_imp) auto
  with below_cutpoint [OF assms] show "5 * length (filter (\<lambda>x. x < v) xs) < k * length xs" by linarith
next
  let ?c = "sort xs ! percentile_index (length xs) k"
  assume few: "5 * length (filter (\<lambda>x. x < v) xs) < k * length xs"
  show "v \<le> ?c"
  proof (rule ccontr)
    assume "\<not> v \<le> ?c"
    then have "length (filter (\<lambda>x. x \<le> ?c) xs) \<le> length (filter (\<lambda>x. x < v) xs)"
      by (intro length_filter_imp) auto
    with at_most_cutpoint [OF assms] few show False by linarith
  qed
qed

section \<open>Properties\<close>

text \<open>The share of a cohort whose rank on an axis is at most \<open>k\<close>, for a cohort of five or more.\<close>

definition rank_at_most :: "(int \<Rightarrow> cutpoints \<Rightarrow> int) \<Rightarrow> cutpoints \<Rightarrow> int \<Rightarrow> int list \<Rightarrow> nat" where
  "rank_at_most rank b k xs = length (filter (\<lambda>v. rank v b \<le> k) xs)"

lemma pick_nth:
  "pick_percentile_positions xs =
    (xs ! percentile_index (length xs) 1, xs ! percentile_index (length xs) 2,
     xs ! percentile_index (length xs) 3, xs ! percentile_index (length xs) 4)"
  by (simp add: pick_percentile_positions_def Let_def)

context ranking begin

lemma rank_cut_iff:
  assumes "5 \<le> length xs" and "1 \<le> k" and "k \<le> 4"
  shows "rank v (pick_percentile_positions (sort xs)) \<le> int k
    \<longleftrightarrow> v \<le> sort xs ! percentile_index (length xs) k"
proof -
  have asc: "ascending (pick_percentile_positions (sort xs))"
    using assms(1) by (intro pick_percentile_ascending) (auto dest: arg_cong [where f = length])
  have "k = 1 \<or> k = 2 \<or> k = 3 \<or> k = 4" using assms(2,3) by linarith
  then show ?thesis
    using asc rank_range [OF asc, of v] rank_at_most_iff rank_bottom_iff
    by (elim disjE) (fastforce simp: pick_nth antisym_conv)+
qed

lemma rank_share:
  assumes "5 \<le> length xs" and "1 \<le> k" and "k \<le> 4"
  shows "k * length xs \<le> 5 * rank_at_most rank (pick_percentile_positions (sort xs)) (int k) xs"
  using at_most_cutpoint [OF assms] by (simp add: rank_at_most_def rank_cut_iff [OF assms])

text \<open>The rank of a member is one more than the number of whole fifths strictly below it.\<close>

lemma rank_exact:
  assumes "5 \<le> length xs" and "v \<in> set xs"
  shows "rank v (pick_percentile_positions (sort xs))
    = 1 + int (5 * length (filter (\<lambda>x. x < v) xs) div length xs)"
proof -
  let ?r = "rank v (pick_percentile_positions (sort xs))"
  let ?q = "5 * length (filter (\<lambda>x. x < v) xs) div length xs"
  have asc: "ascending (pick_percentile_positions (sort xs))"
    using assms(1) by (intro pick_percentile_ascending) (auto dest: arg_cong [where f = length])
  have pos: "0 < length xs" using assms(1) by linarith
  have "length (filter (\<lambda>x. x < v) xs) < length xs"
    using assms(2) by (intro length_filter_less [of v]) auto
  then have "?q < 5" using assms(1) by (intro less_mult_imp_div_less) simp
  moreover have "?r \<le> int k \<longleftrightarrow> ?q < k" if "1 \<le> k" "k \<le> 4" for k
    using rank_cut_iff [OF assms(1) that, of v] under_cutpoint_iff [OF assms(1) that, of v]
    by (simp only: div_less_iff_less_mult [OF pos])
  from this [of 1] this [of 2] this [of 3] this [of 4]
  have "?r \<le> 1 \<longleftrightarrow> ?q < 1" "?r \<le> 2 \<longleftrightarrow> ?q < 2" "?r \<le> 3 \<longleftrightarrow> ?q < 3" "?r \<le> 4 \<longleftrightarrow> ?q < 4" by simp_all
  ultimately show ?thesis using rank_range [OF asc, of v] by linarith
qed

end

lemma rank_at_most_map:
  "rank_at_most rank b k (map g rows) = length (filter (\<lambda>row. rank (g row) b \<le> k) rows)"
  by (simp add: rank_at_most_def filter_map o_def)

text \<open>
  C26. What the quintiles mean. In a cohort of five or more, a customer's F quintile is one more
  than the whole fifths of the cohort with a strictly smaller order count, the M quintile the
  same with the spent amount, and the R quintile is 5 less the whole fifths with a strictly
  smaller recency. So for every \<open>k\<close> from 1 to 4 at least \<open>k\<close> fifths of the customers get an F
  quintile at most \<open>k\<close>, at least \<open>k\<close> fifths an M quintile at most \<open>k\<close>, and at least \<open>k\<close>
  fifths an R quintile of at least \<open>6 - k\<close>.
\<close>

theorem quintile_distribution:
  assumes "compute_quintile_boundaries cohort = Inr b" and "1 \<le> k" and "k \<le> 4"
  shows "list_all (\<lambda>row.
        assign_f_quintile (cr_fCount row) (qb_f b)
          = 1 + int (5 * length (filter (\<lambda>x. cr_fCount x < cr_fCount row) cohort) div length cohort)
      \<and> assign_m_quintile (cr_mCents row) (qb_m b)
          = 1 + int (5 * length (filter (\<lambda>x. cr_mCents x < cr_mCents row) cohort) div length cohort)
      \<and> assign_r_quintile (cr_rDays row) (qb_r b)
          = 5 - int (5 * length (filter (\<lambda>x. cr_rDays x < cr_rDays row) cohort) div length cohort)) cohort
    \<and> k * length cohort
      \<le> 5 * length (filter (\<lambda>row. assign_f_quintile (cr_fCount row) (qb_f b) \<le> int k) cohort)
    \<and> k * length cohort
      \<le> 5 * length (filter (\<lambda>row. assign_m_quintile (cr_mCents row) (qb_m b) \<le> int k) cohort)
    \<and> k * length cohort
      \<le> 5 * length (filter (\<lambda>row. 6 - int k \<le> assign_r_quintile (cr_rDays row) (qb_r b)) cohort)"
proof -
  have N: "5 \<le> length cohort"
    using assms(1) by (auto simp: compute_quintile_boundaries_def INSUFFICIENT_COHORT_THRESHOLD_def
        split: if_splits)
  have b: "qb_f b = pick_percentile_positions (sort (map cr_fCount cohort))"
    "qb_m b = pick_percentile_positions (sort (map cr_mCents cohort))"
    "qb_r b = pick_percentile_positions (sort (map cr_rDays cohort))"
    using assms(1) by (auto simp: compute_quintile_boundaries_def split: if_splits)
  have r: "(6 - int k \<le> assign_r_quintile v c) = (rank_by_ascending_boundaries v c \<le> int k)" for v c
    by (auto simp: assign_r_quintile_def invert_rank_def)
  have exact: "rank_by_ascending_boundaries (g row) (pick_percentile_positions (sort (map g cohort)))
      = 1 + int (5 * length (filter (\<lambda>x. g x < g row) cohort) div length cohort)"
    "assign_m_quintile (g row) (pick_percentile_positions (sort (map g cohort)))
      = 1 + int (5 * length (filter (\<lambda>x. g x < g row) cohort) div length cohort)"
    if "row \<in> set cohort" for row and g :: "cohort_row \<Rightarrow> int"
    using number_rank.rank_exact [of "map g cohort" "g row"] bigint_rank.rank_exact [of "map g cohort" "g row"]
      N that by (simp_all add: filter_map o_def)
  show ?thesis
    using number_rank.rank_share [of "map cr_fCount cohort" k]
      bigint_rank.rank_share [of "map cr_mCents cohort" k]
      number_rank.rank_share [of "map cr_rDays cohort" k] N assms(2,3)
    by (simp add: rank_at_most_map b r exact list_all_iff assign_f_quintile_def assign_r_quintile_def
        invert_rank_def)
qed

definition sample_cohort :: "cohort_row list" where
  "sample_cohort = map (\<lambda>i. \<lparr>cr_customerId = ''c'', cr_rDays = i, cr_fCount = 7 - i, cr_mCents = 100 * i\<rparr>)
     [3, 1, 5, 2, 4, 6]"

lemma sample_boundaries:
  "compute_quintile_boundaries sample_cohort
    = Inr \<lparr>qb_r = (2, 3, 4, 5), qb_f = (2, 3, 4, 5), qb_m = (200, 300, 400, 500)\<rparr>"
  by (simp add: compute_quintile_boundaries_def sample_cohort_def INSUFFICIENT_COHORT_THRESHOLD_def
      pick_nth percentile_index_def)

lemma quintile_distribution_witness:
  "1 * length sample_cohort
    \<le> 5 * length (filter (\<lambda>row. assign_f_quintile (cr_fCount row) (2, 3, 4, 5) \<le> int 1) sample_cohort)"
  using quintile_distribution [OF sample_boundaries, of 1] by simp

text \<open>
  Every score the scorable branch resolves is in range: quintiles from 1 to 5, a churn
  risk between 0 and 4/5 that is 0 exactly for the best customer on all three axes, and
  the band of the recency; for an insufficient cohort there are no quintiles and no churn
  risk, and the band is \<open>insufficient_data\<close>.
\<close>

theorem resolve_scorable_range:
  assumes "resolve_scorable_customer row cohort ins = Inr s"
  shows "(ins \<longrightarrow> rs_rQuintile s = None \<and> rs_fQuintile s = None \<and> rs_mQuintile s = None
            \<and> rs_churnRiskScore s = None \<and> rs_newState s = InsufficientData)
    \<and> (\<not> ins \<longrightarrow> (\<exists>rQ fQ mQ c. rs_rQuintile s = Some rQ \<and> rs_fQuintile s = Some fQ
            \<and> rs_mQuintile s = Some mQ \<and> rs_churnRiskScore s = Some c
            \<and> {rQ, fQ, mQ} \<subseteq> {1..5} \<and> 0 \<le> c \<and> c \<le> 4 / 5
            \<and> (c = 0 \<longleftrightarrow> rQ = 5 \<and> fQ = 5 \<and> mQ = 5)
            \<and> rs_newState s = state_from_recency (cr_rDays row)))"
proof (cases ins)
  case True
  with assms show ?thesis by (auto simp: resolve_scorable_customer_def resolve_with_boundaries_def)
next
  case False
  with assms obtain b where b: "compute_quintile_boundaries cohort = Inr b"
    and s: "s = resolve_with_boundaries row (Some b) False"
    by (auto simp: resolve_scorable_customer_def)
  let ?r = "assign_r_quintile (cr_rDays row) (qb_r b)"
  let ?f = "assign_f_quintile (cr_fCount row) (qb_f b)"
  let ?m = "assign_m_quintile (cr_mCents row) (qb_m b)"
  have asc: "ascending (qb_r b)" "ascending (qb_f b)" "ascending (qb_m b)"
    using boundaries_ascending [OF b] by auto
  have bounds: "1 \<le> ?r \<and> ?r \<le> 5" "1 \<le> ?f \<and> ?f \<le> 5" "1 \<le> ?m \<and> ?m \<le> 5"
    using number_rank.rank_range [OF asc(1), of "cr_rDays row"]
      number_rank.rank_range [OF asc(2), of "cr_fCount row"]
      bigint_rank.rank_range [OF asc(3), of "cr_mCents row"]
    by (auto simp: assign_r_quintile_def assign_f_quintile_def invert_rank_def)
  then have "3 \<le> ?r + ?f + ?m" "?r + ?f + ?m \<le> 15" by linarith+
  then have "(3 :: rat) \<le> of_int (?r + ?f + ?m)" "(of_int (?r + ?f + ?m) :: rat) \<le> 15"
    by (simp_all only: of_int_le_numeral_iff of_int_numeral_le_iff)
  then have "0 \<le> compute_churn_risk_score ?r ?f ?m" "compute_churn_risk_score ?r ?f ?m \<le> 4 / 5"
    unfolding compute_churn_risk_score_def by (simp_all add: field_simps)
  moreover have "compute_churn_risk_score ?r ?f ?m = 0 \<longleftrightarrow> ?r + ?f + ?m = 15"
  proof -
    have "compute_churn_risk_score ?r ?f ?m = 0 \<longleftrightarrow> (of_int (?r + ?f + ?m) :: rat) = of_int 15"
      unfolding compute_churn_risk_score_def by (auto simp: field_simps)
    then show ?thesis by (simp only: of_int_eq_iff)
  qed
  ultimately show ?thesis
    using False bounds by (simp add: s resolve_with_boundaries_def Let_def) linarith
qed

lemma resolve_scorable_range_witness:
  "\<exists>s. resolve_scorable_customer (hd sample_cohort) sample_cohort False = Inr s
    \<and> rs_newState s = Active"
proof -
  obtain s where s: "resolve_scorable_customer (hd sample_cohort) sample_cohort False = Inr s"
    by (simp add: resolve_scorable_customer_def sample_boundaries)
  from resolve_scorable_range [OF s] have "rs_newState s = state_from_recency (cr_rDays (hd sample_cohort))"
    by auto
  with s show ?thesis by (simp add: sample_cohort_def state_from_recency_def)
qed

text \<open>
  Churn risk is monotone: against the same boundaries, a customer who ordered no less
  recently, no less often and spent no less never gets a higher churn risk.
\<close>

theorem churn_risk_monotone:
  assumes "compute_quintile_boundaries cohort = Inr b"
    and "cr_rDays x \<le> cr_rDays y" and "cr_fCount y \<le> cr_fCount x" and "cr_mCents y \<le> cr_mCents x"
    and "rs_churnRiskScore (resolve_with_boundaries x (Some b) False) = Some cx"
    and "rs_churnRiskScore (resolve_with_boundaries y (Some b) False) = Some cy"
  shows "cx \<le> cy"
proof -
  have asc: "ascending (qb_r b)" "ascending (qb_f b)" "ascending (qb_m b)"
    using boundaries_ascending [OF assms(1)] by auto
  have "assign_r_quintile (cr_rDays y) (qb_r b) + assign_f_quintile (cr_fCount y) (qb_f b)
      + assign_m_quintile (cr_mCents y) (qb_m b)
    \<le> assign_r_quintile (cr_rDays x) (qb_r b) + assign_f_quintile (cr_fCount x) (qb_f b)
      + assign_m_quintile (cr_mCents x) (qb_m b)"
    using number_rank.rank_mono [OF asc(1) assms(2)] number_rank.rank_mono [OF asc(2) assms(3)]
      bigint_rank.rank_mono [OF asc(3) assms(4)]
    by (simp add: assign_r_quintile_def assign_f_quintile_def invert_rank_def)
  then have "(of_int (assign_r_quintile (cr_rDays y) (qb_r b) + assign_f_quintile (cr_fCount y) (qb_f b)
      + assign_m_quintile (cr_mCents y) (qb_m b)) :: rat)
    \<le> of_int (assign_r_quintile (cr_rDays x) (qb_r b) + assign_f_quintile (cr_fCount x) (qb_f b)
      + assign_m_quintile (cr_mCents x) (qb_m b))"
    by (simp only: of_int_le_iff)
  with assms(5,6) show ?thesis
    by (auto simp: resolve_with_boundaries_def Let_def compute_churn_risk_score_def divide_right_mono)
qed

lemma churn_risk_monotone_witness:
  "(1 - 14 / 15 :: rat) \<le> 1 - 8 / 15"
proof -
  let ?b = "\<lparr>qb_r = (2, 3, 4, 5), qb_f = (2, 3, 4, 5), qb_m = (200, 300, 400, 500)\<rparr>"
  let ?x = "\<lparr>cr_customerId = ''x'', cr_rDays = 3, cr_fCount = 9, cr_mCents = 900\<rparr>"
  let ?y = "\<lparr>cr_customerId = ''y'', cr_rDays = 5, cr_fCount = 4, cr_mCents = 400\<rparr>"
  have x: "rs_churnRiskScore (resolve_with_boundaries ?x (Some ?b) False) = Some (1 - 14 / 15)"
    and y: "rs_churnRiskScore (resolve_with_boundaries ?y (Some ?b) False) = Some (1 - 8 / 15)"
    by (simp_all add: resolve_with_boundaries_def assign_r_quintile_def assign_f_quintile_def
        invert_rank_def compute_churn_risk_score_def rank_by_ascending_boundaries.simps
        assign_m_quintile.simps)
  show ?thesis using churn_risk_monotone [OF sample_boundaries _ _ _ x y] by simp
qed

text \<open>
  The refactoring that \<open>bulkRescore\<close> and \<open>decayRescore\<close> rely on: resolving a customer
  against boundaries computed once gives what the per-customer path computes, and the
  per-customer path throws exactly when the cohort is too small and not flagged so.
\<close>

theorem boundaries_once_equivalent:
  "resolve_scorable_customer row cohort (length cohort < INSUFFICIENT_COHORT_THRESHOLD)
    = Inr (resolve_with_boundaries row
        (if length cohort < INSUFFICIENT_COHORT_THRESHOLD then None
         else Some \<lparr>qb_r = pick_percentile_positions (sort (map cr_rDays cohort)),
                    qb_f = pick_percentile_positions (sort (map cr_fCount cohort)),
                    qb_m = pick_percentile_positions (sort (map cr_mCents cohort))\<rparr>)
        (length cohort < INSUFFICIENT_COHORT_THRESHOLD))
  \<and> (is_error (resolve_scorable_customer row cohort ins)
      \<longleftrightarrow> \<not> ins \<and> length cohort < INSUFFICIENT_COHORT_THRESHOLD)"
  by (auto simp: resolve_scorable_customer_def compute_quintile_boundaries_def)

section \<open>Bands and lurkers\<close>

text \<open>How far a recency band is from active.\<close>

fun lapse_level :: "customer_state \<Rightarrow> nat" where
  "lapse_level Active = 0"
| "lapse_level Warm = 1"
| "lapse_level AtRisk = 2"
| "lapse_level Dormant = 3"
| "lapse_level Lost = 4"
| "lapse_level InsufficientData = 0"

lemma state_from_recency_mono:
  "d \<le> d' \<Longrightarrow> lapse_level (state_from_recency d) \<le> lapse_level (state_from_recency d')"
  by (simp add: state_from_recency_def)

lemma state_from_recency_sufficient [simp]: "state_from_recency d \<noteq> InsufficientData"
  by (simp add: state_from_recency_def)

lemma lost_is_terminal: "state_from_recency d = Lost \<Longrightarrow> d \<le> d' \<Longrightarrow> state_from_recency d' = Lost"
  by (simp add: state_from_recency_def split: if_splits)

lemma lurker_r_days_nonneg: "0 \<le> lurker_r_days ref now"
  by (simp add: lurker_r_days_def Let_def pos_imp_zdiv_nonneg_iff)

lemma lurker_r_days_mono: "now \<le> now' \<Longrightarrow> lurker_r_days ref now \<le> lurker_r_days ref now'"
  by (auto simp: lurker_r_days_def Let_def zdiv_mono1 pos_imp_zdiv_nonneg_iff)

text \<open>
  On the R axis a customer exactly at the lowest cutpoint lands in the top quintile: the
  tie goes to the better quintile there, to the worse one on the other two axes.
\<close>

lemma ties_on_the_r_axis:
  "ascending (b0, b1, b2, b3) \<Longrightarrow>
    assign_r_quintile b0 (b0, b1, b2, b3) = 5 \<and> assign_f_quintile b0 (b0, b1, b2, b3) = 1
    \<and> assign_m_quintile b0 (b0, b1, b2, b3) = 1"
  using number_rank.rank_bottom_iff [of b0 b1 b2 b3 b0] bigint_rank.rank_bottom_iff [of b0 b1 b2 b3 b0]
  by (simp add: assign_r_quintile_def assign_f_quintile_def invert_rank_def)

end
