(* ===== verification/Store.thy ===== *)
theory Store
  imports ScoringMath TenantScope "HOL-Library.Char_ord" "HOL-Library.List_Lexorder"
begin

text \<open>
  The database the repositories work on: one record per Prisma model of
  \<open>packages/db/prisma/schema.prisma\<close>, with the columns the modelled code reads or writes,
  and the record of all tables. A table is the list of its rows. The helpers below are the
  queries the code issues through the tenant-scoping extension: \<open>in_scope\<close> is the filter
  that the hooks of theory TenantScope add to every many-row read and every write.
\<close>

section \<open>Rows\<close>

datatype billing_status = Trialing | BillingActive | PastDue | Cancelled | BillingPaused

record merchant_row =
  me_id :: merchant_id
  me_shop :: string
  me_name :: "string option"
  me_currency :: "string option"
  me_timezone :: "string option"
  me_uninstalledAt :: "time option"
  me_tokenRevokedAt :: "time option"
  me_scoringInitializedAt :: "time option"
  me_installedAt :: time
  me_email :: "string option"
  me_country :: "string option"
  me_shopifyPlan :: "string option"
  me_shopDetailsFetchedAt :: "time option"

record settings_row =
  se_merchantId :: merchant_id
  se_attributionDirectWindowDays :: int
  se_attributionAssistedWindowDays :: int
  se_sendTimeStartHour :: int
  se_sendTimeEndHour :: int
  se_defaultCooldownHours :: int
  se_maxDailySendsPerCustomer :: int
  se_dailySendCap :: int
  se_monthlySendsCap :: int
  se_monthlyAiSpendCapCents :: int
  se_hourlyGenerationCap :: int
  se_winbackDiscountEnabled :: bool
  se_winbackDiscountPercent :: int
  se_aiTone :: json

record billing_row =
  bi_merchantId :: merchant_id
  bi_status :: billing_status

record customer_row =
  cu_id :: string
  cu_merchantId :: merchant_id
  cu_shopifyCustomerId :: string
  cu_email :: "string option"
  cu_firstName :: "string option"
  cu_lastName :: "string option"
  cu_consent :: consent_state
  cu_state :: customer_state
  cu_shopifyCreatedAt :: "time option"
  cu_createdAt :: time
  cu_deletedAt :: "time option"
  cu_phone :: "string option"
  cu_acceptsMarketing :: bool
  cu_acceptsSms :: bool
  cu_ordersCount :: int
  cu_tags :: "string list"
  cu_shopifyUpdatedAt :: "time option"

record score_row =
  sc_merchantId :: merchant_id
  sc_customerId :: string
  sc_rDays :: int
  sc_fCount :: int
  sc_mCents :: int
  sc_currency :: string
  sc_rQuintile :: "int option"
  sc_fQuintile :: "int option"
  sc_mQuintile :: "int option"
  sc_churnRiskScore :: "rat option"
  sc_computedAt :: time

record order_row =
  or_merchantId :: merchant_id
  or_customerId :: "string option"
  or_financialStatus :: "financial_status option"
  or_isTest :: bool
  or_totalAmountCents :: int
  or_placedAt :: time
  or_shopifyProcessedAt :: "time option"
  or_id :: string
  or_shopifyOrderId :: string
  or_shopifyOrderNumber :: "string option"
  or_fulfillmentStatus :: "fulfillment_status option"
  or_currency :: string
  or_presentmentCurrency :: "string option"
  or_subtotalAmountCents :: int
  or_totalTaxCents :: int
  or_totalDiscountCents :: int
  or_presentmentTotalCents :: "int option"
  or_cancelledAt :: "time option"
  or_shopifyUpdatedAt :: "time option"

record line_item_row =
  li_merchantId :: merchant_id
  li_orderId :: string
  li_shopifyLineItemId :: string
  li_productId :: "string option"
  li_productVariantId :: "string option"
  li_title :: string
  li_quantity :: int
  li_unitPriceCents :: int
  li_currency :: string

record product_row =
  pr_id :: string
  pr_merchantId :: merchant_id
  pr_shopifyProductId :: string
  pr_deletedAt :: "time option"

record variant_row =
  va_id :: string
  va_merchantId :: merchant_id
  va_productId :: string
  va_shopifyVariantId :: string
  va_deletedAt :: "time option"

record rfm_score =
  rf_rDays :: int
  rf_fCount :: int
  rf_mCents :: int
  rf_rQuintile :: "int option"
  rf_fQuintile :: "int option"
  rf_mQuintile :: "int option"

record state_changed_payload =
  pl_merchantId :: merchant_id
  pl_customerId :: string
  pl_shopifyCustomerId :: string
  pl_oldState :: customer_state
  pl_newState :: customer_state
  pl_computedAt :: time
  pl_rfmScore :: rfm_score

datatype outbox_payload = StateChangedPayload state_changed_payload | JsonPayload json

record outbox_row =
  ob_id :: string
  ob_merchantId :: merchant_id
  ob_type :: string
  ob_payload :: outbox_payload
  ob_createdAt :: time
  ob_processedAt :: "time option"
  ob_attempts :: nat
  ob_lastError :: "string option"
  ob_deadLetteredAt :: "time option"
  ob_deferredFailedAt :: "time option"

datatype audit_value =
  ANull | AStr string | AStrs "string list" | AInt int | AOptInt "int option" | AOptRat "rat option" | AState customer_state | ABool bool

record audit_row =
  au_merchantId :: "merchant_id option"
  au_shop :: "string option"
  au_actorType :: actor_type
  au_actorId :: string
  au_action :: audit_action
  au_targetType :: string
  au_targetId :: string
  au_context :: "(string \<times> audit_value) list"

record generation_row =
  ge_id :: string
  ge_merchantId :: merchant_id
  ge_customerId :: string
  ge_triggerState :: customer_state
  ge_previousState :: customer_state
  ge_rDays :: int
  ge_fCount :: int
  ge_mCents :: int
  ge_currency :: string
  ge_provider :: string
  ge_modelId :: string
  ge_systemPrompt :: string
  ge_userPrompt :: string
  ge_discountValuePercent :: "int option"
  ge_status :: generation_status
  ge_generatedText :: "string option"
  ge_inputTokens :: "int option"
  ge_outputTokens :: "int option"
  ge_costMicrocents :: "int option"
  ge_discountCode :: "string option"
  ge_shopifyDiscountId :: "string option"
  ge_lastError :: "string option"
  ge_createdAt :: time
  ge_completedAt :: "time option"
  ge_failedAt :: "time option"
  ge_churnRiskScore :: "rat option"
  ge_totalTokens :: "int option"
  ge_latencyMs :: "int option"

record message_row =
  ms_id :: string
  ms_merchantId :: merchant_id
  ms_customerId :: string
  ms_aiGenerationId :: string
  ms_generatedText :: string
  ms_status :: message_status
  ms_sentAt :: "time option"
  ms_provider :: "string option"
  ms_providerMessageId :: "string option"

record campaign_row =
  ca_id :: string
  ca_merchantId :: merchant_id
  ca_status :: campaign_status
  ca_triggerStates :: "string list"
  ca_createdAt :: time

record target_row =
  tg_merchantId :: merchant_id
  tg_campaignId :: string
  tg_messageId :: string
  tg_customerId :: string
  tg_status :: target_status
  tg_suppressedByGate :: "string option"
  tg_sentAt :: "time option"
  tg_sendStartedAt :: "time option"
  tg_createdAt :: time

record suppression_row =
  su_merchantId :: merchant_id
  su_customerId :: string

record message_event_row =
  mv_id :: string
  mv_merchantId :: merchant_id
  mv_messageId :: string

record idempotency_row =
  ik_merchantId :: merchant_id
  ik_key :: string
  ik_expiresAt :: time

record session_row =
  ss_id :: string
  ss_shop :: string
  ss_accessToken :: string

datatype backfill_resource = BackfillCustomers | BackfillOrders
datatype backfill_status = BfPending | BfRunning | BfCompleted | BfPaused | BfFailed

record backfill_row =
  bf_merchantId :: merchant_id
  bf_resource :: backfill_resource
  bf_status :: backfill_status
  bf_cursor :: "string option"
  bf_pageSize :: int
  bf_itemsProcessed :: int
  bf_pagesProcessed :: int
  bf_attempts :: int
  bf_lastError :: "string option"
  bf_startedAt :: "time option"
  bf_completedAt :: "time option"

record quota_row =
  qu_merchantId :: merchant_id
  qu_date :: time
  qu_sentCount :: int

record spend_row =
  sp_merchantId :: merchant_id
  sp_date :: time
  sp_spentMicrocents :: int
  sp_generationCount :: int

section \<open>The database\<close>

record db =
  merchants :: "merchant_row list"
  settings :: "settings_row list"
  billing :: "billing_row list"
  customers :: "customer_row list"
  scores :: "score_row list"
  orders :: "order_row list"
  outbox :: "outbox_row list"
  audits :: "audit_row list"
  generations :: "generation_row list"
  messages :: "message_row list"
  campaigns :: "campaign_row list"
  targets :: "target_row list"
  suppressions :: "suppression_row list"
  quota_buckets :: "quota_row list"
  spend_buckets :: "spend_row list"
  line_items :: "line_item_row list"
  products :: "product_row list"
  variants :: "variant_row list"
  message_events :: "message_event_row list"
  idempotency_keys :: "idempotency_row list"
  sessions :: "session_row list"
  backfill_jobs :: "backfill_row list"

definition empty_db :: db where
  "empty_db = \<lparr>merchants = [], settings = [], billing = [], customers = [], scores = [],
     orders = [], outbox = [], audits = [], generations = [], messages = [], campaigns = [],
     targets = [], suppressions = [], quota_buckets = [], spend_buckets = [], line_items = [],
     products = [], variants = [], message_events = [], idempotency_keys = [], sessions = [],
     backfill_jobs = []\<rparr>"

text \<open>
  A transaction body takes the database to a new one and a result, or throws. An
  interactive transaction commits the new database, or on a throw leaves the old one.
\<close>

type_synonym 'a tx = "db \<Rightarrow> exn + db \<times> 'a"

definition transaction :: "'a tx \<Rightarrow> db \<Rightarrow> db \<times> (exn + 'a)" where
  "transaction body s = (case body s of Inl e \<Rightarrow> (s, Inl e) | Inr (s', x) \<Rightarrow> (s', Inr x))"

lemma transaction_simps [simp, store_simps]:
  "body s = Inl e \<Longrightarrow> transaction body s = (s, Inl e)"
  "body s = Inr (s', x) \<Longrightarrow> transaction body s = (s', Inr x)"
  by (simp_all add: transaction_def)

section \<open>Scoped queries\<close>

text \<open>The filter \<open>merchantId = scope\<close> that the extension adds in a tenant scope.\<close>

fun in_scope :: "tenant_scope \<Rightarrow> merchant_id \<Rightarrow> bool" where
  "in_scope (Tenant m) m' = (m' = m)"
| "in_scope (System r) m' = True"

text \<open>A row as the extension's hooks see it, for the columns they look at.\<close>

definition hook_row :: "merchant_id \<Rightarrow> time option \<Rightarrow> prow" where
  "hook_row m deletedAt = [''merchantId'' \<mapsto> VStr m,
     ''deletedAt'' \<mapsto> (case deletedAt of None \<Rightarrow> VNull | Some t \<Rightarrow> VNum t)]"

text \<open>
  \<open>in_scope\<close> (and the live-row test) is what the read hooks inject: a row satisfies the
  rewritten empty clause exactly if it is in scope and, for a soft-delete model, live.
\<close>

definition scope_clause :: "tenant_scope \<Rightarrow> string \<Rightarrow> prow option" where
  "scope_clause sc model =
     (let soft = List.member SOFT_DELETE_MODELS model in
      case sc of
        Tenant m \<Rightarrow> Some (if soft then [''merchantId'' \<mapsto> VStr m, ''deletedAt'' \<mapsto> VNull]
                          else [''merchantId'' \<mapsto> VStr m])
      | System r \<Rightarrow> (if soft then Some [''deletedAt'' \<mapsto> VNull] else None))"

lemma hooks_give_scope_clause:
  "tenant_model model \<Longrightarrow>
    apply_read_hooks (Some sc) model \<lparr>ra_where = None\<rparr> False = Inr \<lparr>ra_where = scope_clause sc model\<rparr>"
  using tenant_model_not_special [of model]
  by (cases sc) (auto simp: apply_read_hooks_def enforce_tenant_scope_on_read_def prop_of_def Let_def
      apply_soft_delete_filter_def scope_clause_def)

lemma in_scope_is_hook_filter:
  assumes "where_semantics match"
  shows "row_matches match (scope_clause sc model) (hook_row m' deletedAt)
    \<longleftrightarrow> in_scope sc m' \<and> (List.member SOFT_DELETE_MODELS model \<longrightarrow> deletedAt = None)"
  using where_semantics.match_str [OF assms] where_semantics.match_null [OF assms]
  by (cases sc) (auto simp: row_matches_def scope_clause_def hook_row_def Let_def split: option.splits)

definition record_not_found :: exn where "record_not_found = PlainErr ''P2025''"
definition unique_violation :: exn where "unique_violation = PlainErr ''P2002''"

section \<open>Guarded updates\<close>

text \<open>
  Every status change of the repositories is an \<open>updateMany\<close> whose \<open>where\<close> names a row by
  its key and admits some statuses: a compare-and-set. The contract, for a table with keys
  \<open>key\<close>, statuses \<open>stat\<close> and such an update \<open>upd\<close> of the row \<open>k\<close> from the statuses \<open>from\<close>
  to the status \<open>to\<close>: other rows keep their place and their contents, and the row changes
  only if its status admits it. Every client fact is derived from that.
\<close>

locale guarded_update =
  fixes key :: "'r \<Rightarrow> 'k" and stat :: "'r \<Rightarrow> 'st" and own :: "'r \<Rightarrow> bool"
    and change :: "'r \<Rightarrow> 'r" and admitted :: "'st set" and target :: 'st and k :: 'k
  assumes change_key: "key (change r) = key r"
    and change_stat: "stat (change r) = target"
begin

abbreviation guard :: "'r \<Rightarrow> bool" where
  "guard r \<equiv> key r = k \<and> stat r \<in> admitted \<and> own r"

abbreviation step :: "'r list \<Rightarrow> 'r list" where
  "step rows \<equiv> update_many guard change rows"

lemma keys_preserved: "map key (step rows) = map key rows"
  by (rule map_update_many) (simp add: change_key)

lemma distinct_preserved: "distinct (map key rows) \<Longrightarrow> distinct (map key (step rows))"
  by (simp add: keys_preserved)

lemma other_rows: "k' \<noteq> k \<Longrightarrow> find_row (\<lambda>r. key r = k') (step rows) = find_row (\<lambda>r. key r = k') rows"
  by (rule find_update_many_other) (auto simp: change_key)

lemma this_row:
  "find_row (\<lambda>r. key r = k) (step rows)
    = map_option (\<lambda>r. if guard r then change r else r) (find_row (\<lambda>r. key r = k) rows)"
  by (rule find_update_many_key) (simp add: change_key)

lemma count_zero_no_change: "update_count guard rows = 0 \<Longrightarrow> step rows = rows"
  by (rule update_many_none)

lemma count_unique:
  assumes "distinct (map key rows)"
  shows "update_count guard rows
    = (case find_row (\<lambda>r. key r = k) rows of None \<Rightarrow> 0 | Some r \<Rightarrow> if guard r then 1 else 0)"
  using assms
proof (induction rows)
  case (Cons r rows)
  show ?case
  proof (cases "key r = k")
    case True
    with Cons.prems have "\<forall>r' \<in> set rows. key r' \<noteq> k" by (auto simp: image_iff)
    then have "update_count guard rows = 0" by (auto simp: update_count_0_iff)
    with True show ?thesis by (simp add: find_row_Cons)
  next
    case False
    with Cons show ?thesis by (simp add: find_row_Cons)
  qed
qed simp

text \<open>The compare-and-set wins at most once while the target is not admitted.\<close>

lemma second_update_misses:
  assumes "target \<notin> admitted" and "distinct (map key rows)" and "update_count guard rows > 0"
  shows "update_count guard (step rows) = 0"
proof -
  have d: "distinct (map key (step rows))" using assms(2) by (rule distinct_preserved)
  from assms(3) obtain r where "find_row (\<lambda>r. key r = k) rows = Some r" "guard r"
    by (auto simp: count_unique [OF assms(2)] split: option.splits if_splits)
  then show ?thesis using assms(1)
    by (simp add: count_unique [OF d] this_row change_stat)
qed

lemma status_after:
  assumes "find_row (\<lambda>r. key r = k') (step rows) = Some r'"
  shows "\<exists>r. find_row (\<lambda>r. key r = k') rows = Some r
    \<and> (stat r' = stat r \<or> (k' = k \<and> stat r \<in> admitted \<and> stat r' = target))"
  using assms this_row [of rows] other_rows [of k' rows]
  by (cases "k' = k") (auto simp: change_stat split: if_splits)

end

section \<open>Reads the services share\<close>

definition find_merchant :: "db \<Rightarrow> merchant_id \<Rightarrow> merchant_row option" where
  "find_merchant s m = find_row (\<lambda>r. me_id r = m) (merchants s)"

text \<open>\<open>customer.findUnique({ where: { id } })\<close>: live rows only, no tenant filter.\<close>

definition find_live_customer :: "db \<Rightarrow> string \<Rightarrow> customer_row option" where
  "find_live_customer s cid = find_row (\<lambda>r. cu_id r = cid \<and> cu_deletedAt r = None) (customers s)"

definition find_settings :: "db \<Rightarrow> merchant_id \<Rightarrow> settings_row option" where
  "find_settings s m = find_row (\<lambda>r. se_merchantId r = m) (settings s)"

text \<open>
  \<open>AuditLogRepository.append\<close>: the row is written as given; in a tenant scope the write
  hook refuses another merchant's id.
\<close>

definition append_audit :: "tenant_scope \<Rightarrow> audit_row \<Rightarrow> unit tx" where
  "append_audit sc row s =
     (case au_merchantId row of
        Some m \<Rightarrow> (if in_scope sc m then Inr (s\<lparr>audits := audits s @ [row]\<rparr>, ())
                   else Inl (scope_error ''Write data on AuditLog carries cross-tenant merchantId''))
      | None \<Rightarrow> (case sc of System _ \<Rightarrow> Inr (s\<lparr>audits := audits s @ [row]\<rparr>, ())
                 | Tenant m \<Rightarrow> Inl (scope_error ''Write data on AuditLog carries cross-tenant merchantId'')))"

lemma append_audit_D:
  "append_audit sc row s = Inr (s', u) \<Longrightarrow> s' = s\<lparr>audits := audits s @ [row]\<rparr>"
  by (auto simp: append_audit_def split: option.splits if_splits tenant_scope.splits)

end
