(* ===== verification/ScoreService.thy ===== *)
theory ScoreService
  imports Store
begin

text \<open>
  \<open>CustomerScoreRepository\<close> and \<open>CustomerScoreService\<close> of \<open>packages/db\<close>: the cohort
  query, the score upsert, and the three methods that own a customer's band
  (\<open>recompute\<close>, \<open>bulkRescore\<close>, \<open>decayRescore\<close>), with the payload builder of
  \<open>events/customer-state-changed.ts\<close>. All run in a tenant scope; ids of new outbox rows
  come from the caller, log lines are left out.
\<close>

section \<open>The cohort query\<close>

definition WINDOW_MS :: int where "WINDOW_MS = 365 * 24 * 60 * 60 * 1000"

text \<open>\<open>COALESCE("shopifyProcessedAt", "placedAt")\<close>\<close>

definition order_recency :: "order_row \<Rightarrow> time" where
  "order_recency o1 = (case or_shopifyProcessedAt o1 of Some t \<Rightarrow> t | None \<Rightarrow> or_placedAt o1)"

definition in_cohort_window :: "merchant_id \<Rightarrow> time \<Rightarrow> order_row \<Rightarrow> bool" where
  "in_cohort_window m now o1 \<longleftrightarrow> or_merchantId o1 = m \<and> or_financialStatus o1 = Some FPaid
     \<and> \<not> or_isTest o1 \<and> or_placedAt o1 \<ge> now - WINDOW_MS \<and> or_customerId o1 \<noteq> None"

text \<open>
  One row per customer with a qualifying order. SQL leaves the order of the groups open;
  the model lists them by first appearance, and no result below depends on it.
\<close>

definition cohort_row_of :: "time \<Rightarrow> order_row list \<Rightarrow> string \<Rightarrow> cohort_row" where
  "cohort_row_of now os c =
     (let mine = filter (\<lambda>o1. or_customerId o1 = Some c) os in
      \<lparr>cr_customerId = c,
       cr_rDays = (now - Max (set (map order_recency mine))) div ms_per_day,
       cr_fCount = int (length mine),
       cr_mCents = sum_list (map or_totalAmountCents mine)\<rparr>)"

definition read_cohort :: "tenant_scope \<Rightarrow> merchant_id \<Rightarrow> time \<Rightarrow> db \<Rightarrow> exn + cohort_row list" where
  "read_cohort sc m now s =
     rbind (assert_scope_matches_merchant (Some sc) m) (\<lambda>_.
       let os = filter (in_cohort_window m now) (orders s)
       in Inr (map (cohort_row_of now os) (remdups (map (\<lambda>o1. the (or_customerId o1)) os))))"

section \<open>The score upsert\<close>

definition mk_score_row :: "merchant_id \<Rightarrow> string \<Rightarrow> resolved_score \<Rightarrow> string \<Rightarrow> time \<Rightarrow> score_row" where
  "mk_score_row m cid rs currency computedAt =
     \<lparr>sc_merchantId = m, sc_customerId = cid,
      sc_rDays = rs_rDays rs, sc_fCount = rs_fCount rs, sc_mCents = rs_mCents rs,
      sc_currency = currency,
      sc_rQuintile = rs_rQuintile rs, sc_fQuintile = rs_fQuintile rs,
      sc_mQuintile = rs_mQuintile rs, sc_churnRiskScore = rs_churnRiskScore rs,
      sc_computedAt = computedAt\<rparr>"

definition upsert_score ::
  "tenant_scope \<Rightarrow> merchant_id \<Rightarrow> string \<Rightarrow> resolved_score \<Rightarrow> string \<Rightarrow> time \<Rightarrow> bool tx" where
  "upsert_score sc m cid rs currency computedAt s =
     rbind (assert_scope_matches_merchant (Some sc) m) (\<lambda>_.
       let existing = find_row (\<lambda>r. sc_customerId r = cid) (scores s);
           row = mk_score_row m cid rs currency computedAt;
           mine = (\<lambda>r. sc_customerId r = cid \<and> in_scope sc (sc_merchantId r))
       in if update_count mine (scores s) > 0
          then Inr (s\<lparr>scores := update_many mine
                     (\<lambda>r. row\<lparr>sc_merchantId := sc_merchantId r\<rparr>) (scores s)\<rparr>, existing = None)
          else if existing \<noteq> None then Inl unique_violation
          else Inr (s\<lparr>scores := scores s @ [row]\<rparr>, True))"

section \<open>The state-changed payload\<close>

definition quintile_ok :: "int option \<Rightarrow> bool" where
  "quintile_ok q = (case q of None \<Rightarrow> True | Some n \<Rightarrow> 1 \<le> n \<and> n \<le> 5)"

definition rfm_score_schema :: "rfm_score \<Rightarrow> bool" where
  "rfm_score_schema r \<longleftrightarrow> 0 \<le> rf_rDays r \<and> 0 \<le> rf_fCount r \<and> 0 \<le> rf_mCents r
     \<and> quintile_ok (rf_rQuintile r) \<and> quintile_ok (rf_fQuintile r) \<and> quintile_ok (rf_mQuintile r)"

definition payload_schema :: "state_changed_payload \<Rightarrow> bool" where
  "payload_schema p \<longleftrightarrow> pl_merchantId p \<noteq> [] \<and> pl_customerId p \<noteq> []
     \<and> starts_with ''gid://shopify/Customer/'' (pl_shopifyCustomerId p)
     \<and> rfm_score_schema (pl_rfmScore p)"

definition build_state_changed_payload ::
  "merchant_id \<Rightarrow> customer_row \<Rightarrow> customer_state \<Rightarrow> time \<Rightarrow> resolved_score \<Rightarrow> exn + state_changed_payload" where
  "build_state_changed_payload m c newState computedAt rs =
     (let p = \<lparr>pl_merchantId = m, pl_customerId = cu_id c,
               pl_shopifyCustomerId = cu_shopifyCustomerId c,
               pl_oldState = cu_state c, pl_newState = newState, pl_computedAt = computedAt,
               pl_rfmScore = \<lparr>rf_rDays = rs_rDays rs, rf_fCount = rs_fCount rs, rf_mCents = rs_mCents rs,
                 rf_rQuintile = rs_rQuintile rs, rf_fQuintile = rs_fQuintile rs,
                 rf_mQuintile = rs_mQuintile rs\<rparr>\<rparr>
      in if payload_schema p then Inr p else Inl zod_error)"

section \<open>Writing a band\<close>

text \<open>\<open>customer.update({ where: { id }, data: { state } })\<close>\<close>

definition update_customer_state :: "tenant_scope \<Rightarrow> string \<Rightarrow> customer_state \<Rightarrow> unit tx" where
  "update_customer_state sc cid st s =
     (let mine = (\<lambda>r. cu_id r = cid \<and> in_scope sc (cu_merchantId r)) in
      if update_count mine (customers s) = 0 then Inl record_not_found
      else Inr (s\<lparr>customers := update_many mine (\<lambda>r. r\<lparr>cu_state := st\<rparr>) (customers s)\<rparr>, ()))"

definition create_outbox ::
  "tenant_scope \<Rightarrow> string \<Rightarrow> merchant_id \<Rightarrow> string \<Rightarrow> outbox_payload \<Rightarrow> time \<Rightarrow> unit tx" where
  "create_outbox sc eid m ty payload createdAt s =
     (if \<not> in_scope sc m then Inl (scope_error ''Write data on OutboxEvent carries cross-tenant merchantId'')
      else Inr (s\<lparr>outbox := outbox s @ [\<lparr>ob_id = eid, ob_merchantId = m, ob_type = ty,
        ob_payload = payload, ob_createdAt = createdAt, ob_processedAt = None, ob_attempts = 0,
        ob_lastError = None, ob_deadLetteredAt = None, ob_deferredFailedAt = None\<rparr>]\<rparr>, ()))"

definition currency_of :: "merchant_row \<Rightarrow> string" where
  "currency_of mr = map upper_char (or_default (me_currency mr) ''USD'')"

definition reference_created_at :: "customer_row \<Rightarrow> time" where
  "reference_created_at c = or_default (cu_shopifyCreatedAt c) (cu_createdAt c)"

text \<open>
  The audit row and the outbox row of a band change, as \<open>recompute\<close> and \<open>decayRescore\<close>
  write them after the band itself.
\<close>

definition transition_context ::
  "customer_row \<Rightarrow> resolved_score \<Rightarrow> string \<Rightarrow> nat \<Rightarrow> bool \<Rightarrow> (string \<times> audit_value) list" where
  "transition_context c rs currency cohortSize scorable =
     [(''oldState'', AState (cu_state c)), (''newState'', AState (rs_newState rs)),
      (''rDays'', AInt (rs_rDays rs)), (''fCount'', AInt (rs_fCount rs)),
      (''mCents'', AInt (rs_mCents rs)), (''rQuintile'', AOptInt (rs_rQuintile rs)),
      (''fQuintile'', AOptInt (rs_fQuintile rs)), (''mQuintile'', AOptInt (rs_mQuintile rs)),
      (''churnRiskScore'', AOptRat (rs_churnRiskScore rs)), (''currency'', AStr currency),
      (''cohortSize'', AInt (int cohortSize)),
      (''branch'', AStr (if scorable then ''scorable'' else ''lurker''))]"

definition emit_transition ::
  "tenant_scope \<Rightarrow> string \<Rightarrow> merchant_row \<Rightarrow> string \<Rightarrow> customer_row \<Rightarrow> resolved_score \<Rightarrow>
   (string \<times> audit_value) list \<Rightarrow> time \<Rightarrow> unit tx" where
  "emit_transition sc eid mr actor c rs ctx now s =
     rbind (append_audit sc \<lparr>au_merchantId = Some (me_id mr), au_shop = Some (me_shop mr),
              au_actorType = ActorSystem, au_actorId = actor, au_action = AuCustomerStateChanged,
              au_targetType = ''customer'', au_targetId = cu_id c, au_context = ctx\<rparr> s) (\<lambda>(s1, _).
     rbind (build_state_changed_payload (me_id mr) c (rs_newState rs) now rs) (\<lambda>p.
     create_outbox sc eid (me_id mr) (event_string CustomerStateChanged) (StateChangedPayload p) now s1))"

section \<open>recompute\<close>

record recompute_result =
  rr_isNewScore :: bool
  rr_score :: resolved_score
  rr_previousState :: customer_state
  rr_stateChanged :: bool
  rr_scorable :: bool
  rr_cohortSize :: nat

text \<open>Step 4: the branch on cohort membership.\<close>

definition resolve_customer ::
  "customer_row \<Rightarrow> cohort_row list \<Rightarrow> time \<Rightarrow> exn + resolved_score \<times> bool" where
  "resolve_customer c cohort now =
     (let ins = length cohort < INSUFFICIENT_COHORT_THRESHOLD in
      case find_row (\<lambda>r. cr_customerId r = cu_id c) cohort of
        Some row \<Rightarrow> rbind (resolve_scorable_customer row cohort ins) (\<lambda>rs. Inr (rs, True))
      | None \<Rightarrow> Inr (resolve_lurker (reference_created_at c) now ins, False))"

text \<open>Step 6: the band, and, once the first scoring pass is over, its reactions.\<close>

definition apply_transition ::
  "tenant_scope \<Rightarrow> string \<Rightarrow> merchant_row \<Rightarrow> customer_row \<Rightarrow> resolved_score \<Rightarrow> nat \<Rightarrow> bool \<Rightarrow> time \<Rightarrow> unit tx" where
  "apply_transition sc eid mr c rs cohortSize scorable now s =
     (if cu_state c = rs_newState rs then Inr (s, ())
      else rbind (update_customer_state sc (cu_id c) (rs_newState rs) s) (\<lambda>(s1, _).
        if me_scoringInitializedAt mr = None then Inr (s1, ())
        else emit_transition sc eid mr ''drainer'' c rs
               (transition_context c rs (currency_of mr) cohortSize scorable) now s1))"

definition recompute ::
  "tenant_scope \<Rightarrow> string \<Rightarrow> merchant_id \<Rightarrow> string \<Rightarrow> time \<Rightarrow> recompute_result option tx" where
  "recompute sc eid m cid now s =
     rbind (assert_scope_matches_merchant (Some sc) m) (\<lambda>_.
     case find_live_customer s cid of
       None \<Rightarrow> Inr (s, None)
     | Some c \<Rightarrow>
         (case find_merchant s m of
            None \<Rightarrow> Inl (PlainErr ''CustomerScoreService.recompute: merchant not found'')
          | Some mr \<Rightarrow>
              rbind (read_cohort sc m now s) (\<lambda>cohort.
              rbind (resolve_customer c cohort now) (\<lambda>(rs, scorable).
              rbind (upsert_score sc m cid rs (currency_of mr) now s) (\<lambda>(s1, isNew).
              rbind (apply_transition sc eid mr c rs (length cohort) scorable now s1) (\<lambda>(s2, _).
                Inr (s2, Some \<lparr>rr_isNewScore = isNew, rr_score = rs,
                       rr_previousState = cu_state c,
                       rr_stateChanged = (cu_state c \<noteq> rs_newState rs),
                       rr_scorable = scorable, rr_cohortSize = length cohort\<rparr>)))))))"

section \<open>Pages of customers\<close>

text \<open>
  \<open>findMany\<close> with \<open>orderBy id\<close>, \<open>take\<close> and, after the first page, \<open>cursor\<close> with
  \<open>skip: 1\<close>. The filter and the order are the code's; how Prisma positions a page after a
  cursor is its own code, the parameter \<open>page\<close> (the matching rows in order, the cursor,
  the page size). Prisma documents that a page starts after the cursor's record; it leaves
  open what happens when that record is no longer among the matching rows.
\<close>

type_synonym pager = "customer_row list \<Rightarrow> string option \<Rightarrow> nat \<Rightarrow> customer_row list"

definition matching_customers :: "merchant_id \<Rightarrow> (customer_row \<Rightarrow> bool) \<Rightarrow> db \<Rightarrow> customer_row list" where
  "matching_customers m wh s =
     sort_key cu_id (filter (\<lambda>c. cu_merchantId c = m \<and> cu_deletedAt c = None \<and> wh c) (customers s))"

locale cursor_pager =
  fixes page :: pager
  assumes page_first: "page rows None n = take n rows"
    and page_after: "sorted (map cu_id rows) \<Longrightarrow> distinct (map cu_id rows) \<Longrightarrow> k \<in> cu_id ` set rows \<Longrightarrow>
      page rows (Some k) n = take n (filter (\<lambda>c. k < cu_id c) rows)"

text \<open>
  Two behaviours the documentation allows: seeking past the cursor's id, and an offset
  (\<open>id >= cursor\<close>, then skip the first row whatever it is).
\<close>

definition seek_page :: pager where
  "seek_page rows k n =
     (case k of None \<Rightarrow> take n rows | Some k \<Rightarrow> take n (filter (\<lambda>c. k < cu_id c) rows))"

definition offset_page :: pager where
  "offset_page rows k n =
     (case k of None \<Rightarrow> take n rows | Some k \<Rightarrow> take n (drop 1 (filter (\<lambda>c. k \<le> cu_id c) rows)))"

section \<open>bulkRescore and decayRescore\<close>

record batch_result =
  br_count :: nat
  br_lastId :: "string option"
  br_transitions :: nat
  br_emitted :: nat

record pass_totals =
  pt_customers :: nat
  pt_transitions :: nat
  pt_emitted :: nat
  pt_batches :: nat

definition no_totals :: pass_totals where
  "no_totals = \<lparr>pt_customers = 0, pt_transitions = 0, pt_emitted = 0, pt_batches = 0\<rparr>"

definition add_batch :: "pass_totals \<Rightarrow> batch_result \<Rightarrow> pass_totals" where
  "add_batch t b = \<lparr>pt_customers = pt_customers t + br_count b,
     pt_transitions = pt_transitions t + br_transitions b,
     pt_emitted = pt_emitted t + br_emitted b,
     pt_batches = Suc (pt_batches t)\<rparr>"

text \<open>The resolution of a customer against boundaries computed once for the pass.\<close>

definition resolve_in_pass ::
  "cohort_row list \<Rightarrow> quintile_boundaries option \<Rightarrow> time \<Rightarrow> customer_row \<Rightarrow> resolved_score" where
  "resolve_in_pass cohort boundaries now c =
     (let ins = length cohort < INSUFFICIENT_COHORT_THRESHOLD in
      case find_row (\<lambda>r. cr_customerId r = cu_id c) cohort of
        Some row \<Rightarrow> resolve_with_boundaries row boundaries ins
      | None \<Rightarrow> resolve_lurker (reference_created_at c) now ins)"

definition pass_boundaries :: "cohort_row list \<Rightarrow> exn + quintile_boundaries option" where
  "pass_boundaries cohort =
     (if length cohort < INSUFFICIENT_COHORT_THRESHOLD then Inr None
      else rbind (compute_quintile_boundaries cohort) (\<lambda>b. Inr (Some b)))"

text \<open>The body of \<open>bulkRescore\<close> for one customer: score and band, no reactions.\<close>

definition bulk_customer ::
  "tenant_scope \<Rightarrow> merchant_id \<Rightarrow> (customer_row \<Rightarrow> resolved_score) \<Rightarrow> string \<Rightarrow> time \<Rightarrow> customer_row \<Rightarrow> unit tx" where
  "bulk_customer sc m resolve currency now c s =
     (let rs = resolve c in
      rbind (upsert_score sc m (cu_id c) rs currency now s) (\<lambda>(s1, _).
      if cu_state c \<noteq> rs_newState rs then update_customer_state sc (cu_id c) (rs_newState rs) s1
      else Inr (s1, ())))"

fun bulk_customers ::
  "tenant_scope \<Rightarrow> merchant_id \<Rightarrow> (customer_row \<Rightarrow> resolved_score) \<Rightarrow> string \<Rightarrow> time \<Rightarrow> customer_row list \<Rightarrow> unit tx" where
  "bulk_customers sc m resolve currency now [] s = Inr (s, ())"
| "bulk_customers sc m resolve currency now (c # cs) s =
     rbind (bulk_customer sc m resolve currency now c s)
       (\<lambda>(s1, _). bulk_customers sc m resolve currency now cs s1)"

definition last_id :: "customer_row list \<Rightarrow> string option" where
  "last_id cs = (if cs = [] then None else Some (cu_id (last cs)))"

definition bulk_batch ::
  "pager \<Rightarrow> tenant_scope \<Rightarrow> merchant_id \<Rightarrow> (customer_row \<Rightarrow> resolved_score) \<Rightarrow> string \<Rightarrow> time \<Rightarrow>
   nat \<Rightarrow> string option \<Rightarrow> batch_result tx" where
  "bulk_batch page sc m resolve currency now batchSize cursor s =
     (let cs = page (matching_customers m (\<lambda>c. True) s) cursor batchSize in
      rbind (bulk_customers sc m resolve currency now cs s) (\<lambda>(s1, _).
        Inr (s1, \<lparr>br_count = length cs, br_lastId = last_id cs, br_transitions = 0, br_emitted = 0\<rparr>)))"

text \<open>
  The pagination loop that both passes have: one transaction per batch, the batches before
  a failing one stay committed, and a batch that is not full ends the pass. The fuel bounds
  the number of batches; \<open>None\<close> is running out of it.
\<close>

fun rescore_loop ::
  "nat \<Rightarrow> (string option \<Rightarrow> batch_result tx) \<Rightarrow> nat \<Rightarrow> string option \<Rightarrow> pass_totals \<Rightarrow> db \<Rightarrow>
   (db \<times> (exn + pass_totals)) option" where
  "rescore_loop 0 batch batchSize cursor t s = None"
| "rescore_loop (Suc fuel) batch batchSize cursor t s =
     (case transaction (batch cursor) s of
        (s1, Inl e) \<Rightarrow> Some (s1, Inl e)
      | (s1, Inr b) \<Rightarrow>
          (if br_count b < batchSize \<or> br_lastId b = None then Some (s1, Inr (add_batch t b))
           else rescore_loop fuel batch batchSize (br_lastId b) (add_batch t b) s1))"

text \<open>The final transaction: the gate opens and the pass is audited.\<close>

definition finish_bulk ::
  "tenant_scope \<Rightarrow> merchant_row \<Rightarrow> string \<Rightarrow> time \<Rightarrow> cohort_row list \<Rightarrow> pass_totals \<Rightarrow> unit tx" where
  "finish_bulk sc mr actorId now cohort t s =
     (if update_count (\<lambda>r. me_id r = me_id mr) (merchants s) = 0 then Inl record_not_found
      else append_audit sc \<lparr>au_merchantId = Some (me_id mr), au_shop = Some (me_shop mr),
             au_actorType = ActorSystem, au_actorId = actorId, au_action = AuScoringInitialized,
             au_targetType = ''merchant'', au_targetId = me_id mr,
             au_context = [(''customersScored'', AInt (int (pt_customers t))),
               (''batches'', AInt (int (pt_batches t))),
               (''cohortSize'', AInt (int (length cohort))),
               (''insufficientCohort'', ABool (length cohort < INSUFFICIENT_COHORT_THRESHOLD))]\<rparr>
             (s\<lparr>merchants := update_many (\<lambda>r. me_id r = me_id mr)
                  (\<lambda>r. r\<lparr>me_scoringInitializedAt := Some now\<rparr>) (merchants s)\<rparr>))"

definition uow_scope_error :: exn where
  "uow_scope_error = scope_error ''UnitOfWork.run requires an active tenant scope (withTenantScope).''"

definition bulk_rescore ::
  "nat \<Rightarrow> pager \<Rightarrow> tenant_scope \<Rightarrow> merchant_id \<Rightarrow> string \<Rightarrow> time \<Rightarrow> nat \<Rightarrow> db \<Rightarrow> (db \<times> (exn + pass_totals)) option" where
  "bulk_rescore fuel page sc m actorId now batchSize s =
     (case assert_scope_matches_merchant (Some sc) m of Inl e \<Rightarrow> Some (s, Inl e) | Inr _ \<Rightarrow>
      case find_merchant s m of None \<Rightarrow> Some (s, Inl (PlainErr ''bulkRescore: merchant not found''))
      | Some mr \<Rightarrow>
      case sc of System _ \<Rightarrow> Some (s, Inl uow_scope_error) | Tenant _ \<Rightarrow>
      case read_cohort sc m now s of Inl e \<Rightarrow> Some (s, Inl e) | Inr cohort \<Rightarrow>
      case pass_boundaries cohort of Inl e \<Rightarrow> Some (s, Inl e) | Inr bs \<Rightarrow>
      case rescore_loop fuel
             (bulk_batch page sc m (resolve_in_pass cohort bs now) (currency_of mr) now batchSize)
             batchSize None no_totals s of
        None \<Rightarrow> None
      | Some (s1, Inl e) \<Rightarrow> Some (s1, Inl e)
      | Some (s1, Inr t) \<Rightarrow>
          (case transaction (finish_bulk sc mr actorId now cohort t) s1 of
             (s2, Inl e) \<Rightarrow> Some (s2, Inl e)
           | (s2, Inr _) \<Rightarrow> Some (s2, Inr t)))"

text \<open>\<open>decayRescore\<close>: the working set, and a body that emits behind the gate.\<close>

definition in_working_set :: "customer_row \<Rightarrow> bool" where
  "in_working_set c \<longleftrightarrow> cu_state c = Active \<or> cu_state c = Warm \<or> cu_state c = AtRisk \<or> cu_state c = Dormant"

definition decay_customer ::
  "tenant_scope \<Rightarrow> (string \<Rightarrow> string) \<Rightarrow> merchant_row \<Rightarrow> string \<Rightarrow> cohort_row list \<Rightarrow>
   (customer_row \<Rightarrow> resolved_score) \<Rightarrow> time \<Rightarrow> customer_row \<Rightarrow> (nat \<times> nat) tx" where
  "decay_customer sc fresh mr actorId cohort resolve now c s =
     (let rs = resolve c; scorable = (find_row (\<lambda>r. cr_customerId r = cu_id c) cohort \<noteq> None) in
      rbind (upsert_score sc (me_id mr) (cu_id c) rs (currency_of mr) now s) (\<lambda>(s1, _).
      if cu_state c = rs_newState rs then Inr (s1, (0, 0))
      else rbind (update_customer_state sc (cu_id c) (rs_newState rs) s1) (\<lambda>(s2, _).
        if me_scoringInitializedAt mr = None then Inr (s2, (1, 0))
        else rbind (emit_transition sc (fresh (cu_id c)) mr actorId c rs
               (transition_context c rs (currency_of mr) (length cohort) scorable
                  @ [(''trigger'', AStr ''decay_sweep'')]) now s2)
             (\<lambda>(s3, _). Inr (s3, (1, 1))))))"

fun decay_customers ::
  "tenant_scope \<Rightarrow> (string \<Rightarrow> string) \<Rightarrow> merchant_row \<Rightarrow> string \<Rightarrow> cohort_row list \<Rightarrow>
   (customer_row \<Rightarrow> resolved_score) \<Rightarrow> time \<Rightarrow> customer_row list \<Rightarrow> (nat \<times> nat) tx" where
  "decay_customers sc fresh mr actorId cohort resolve now [] s = Inr (s, (0, 0))"
| "decay_customers sc fresh mr actorId cohort resolve now (c # cs) s =
     rbind (decay_customer sc fresh mr actorId cohort resolve now c s) (\<lambda>(s1, (tr, em)).
     rbind (decay_customers sc fresh mr actorId cohort resolve now cs s1) (\<lambda>(s2, (tr', em')).
       Inr (s2, (tr + tr', em + em'))))"

definition decay_batch ::
  "pager \<Rightarrow> tenant_scope \<Rightarrow> (string \<Rightarrow> string) \<Rightarrow> merchant_row \<Rightarrow> string \<Rightarrow> cohort_row list \<Rightarrow>
   (customer_row \<Rightarrow> resolved_score) \<Rightarrow> time \<Rightarrow> nat \<Rightarrow> string option \<Rightarrow> batch_result tx" where
  "decay_batch page sc fresh mr actorId cohort resolve now batchSize cursor s =
     (let cs = page (matching_customers (me_id mr) in_working_set s) cursor batchSize in
      rbind (decay_customers sc fresh mr actorId cohort resolve now cs s) (\<lambda>(s1, (tr, em)).
        Inr (s1, \<lparr>br_count = length cs, br_lastId = last_id cs, br_transitions = tr, br_emitted = em\<rparr>)))"

definition decay_rescore ::
  "nat \<Rightarrow> pager \<Rightarrow> tenant_scope \<Rightarrow> (string \<Rightarrow> string) \<Rightarrow> merchant_id \<Rightarrow> string \<Rightarrow> time \<Rightarrow> nat \<Rightarrow> db \<Rightarrow>
   (db \<times> (exn + pass_totals)) option" where
  "decay_rescore fuel page sc fresh m actorId now batchSize s =
     (case assert_scope_matches_merchant (Some sc) m of Inl e \<Rightarrow> Some (s, Inl e) | Inr _ \<Rightarrow>
      case find_merchant s m of None \<Rightarrow> Some (s, Inl (PlainErr ''decayRescore: merchant not found''))
      | Some mr \<Rightarrow>
      case sc of System _ \<Rightarrow> Some (s, Inl uow_scope_error) | Tenant _ \<Rightarrow>
      case read_cohort sc m now s of Inl e \<Rightarrow> Some (s, Inl e) | Inr cohort \<Rightarrow>
      case pass_boundaries cohort of Inl e \<Rightarrow> Some (s, Inl e) | Inr bs \<Rightarrow>
      rescore_loop fuel
        (decay_batch page sc fresh mr actorId cohort (resolve_in_pass cohort bs now) now batchSize)
        batchSize None no_totals s)"

end
