(* ===== verification/RecomputeFacts.thy ===== *)
theory RecomputeFacts
  imports ScoreFacts
begin

text \<open>
  What one \<open>recompute\<close> writes: the score, the band, and the reactions behind the gate of
  the first scoring pass; that a recompute repeated on its own result changes nothing; and
  that an order dated in the future makes it fail.
\<close>

section \<open>The steps of a successful recompute\<close>

lemma recompute_parts:
  assumes "recompute sc eid m cid now s = Inr (s', Some r)"
  obtains c mr where "find_live_customer s cid = Some c" and "find_merchant s m = Some mr"
  using assms by (auto simp: recompute_def split: option.splits)

lemma recompute_D:
  assumes "recompute sc eid m cid now s = Inr (s', Some r)"
    and "find_merchant s m = Some mr" and "find_live_customer s cid = Some c"
  obtains cohort rs scorable s1 isNew where "assert_scope_matches_merchant (Some sc) m = Inr ()"
    and "read_cohort sc m now s = Inr cohort" and "resolve_customer c cohort now = Inr (rs, scorable)"
    and "upsert_score sc m cid rs (currency_of mr) now s = Inr (s1, isNew)"
    and "apply_transition sc eid mr c rs (length cohort) scorable now s1 = Inr (s', ())"
    and "r = \<lparr>rr_isNewScore = isNew, rr_score = rs, rr_previousState = cu_state c,
           rr_stateChanged = (cu_state c \<noteq> rs_newState rs), rr_scorable = scorable,
           rr_cohortSize = length cohort\<rparr>"
  using assms by (auto simp: recompute_def)

lemma find_live_customer_id: "find_live_customer s cid = Some c \<Longrightarrow> cu_id c = cid \<and> c \<in> set (customers s)"
  by (auto simp: find_live_customer_def dest: find_row_Some_D)

lemma find_merchant_id: "find_merchant s m = Some mr \<Longrightarrow> me_id mr = m"
  by (auto simp: find_merchant_def dest: find_row_Some_D)

definition set_band :: "tenant_scope \<Rightarrow> string \<Rightarrow> customer_state \<Rightarrow> customer_row list \<Rightarrow> customer_row list" where
  "set_band sc cid st cs =
     update_many (\<lambda>x. cu_id x = cid \<and> in_scope sc (cu_merchantId x)) (\<lambda>x. x\<lparr>cu_state := st\<rparr>) cs"

lemma apply_transition_cases:
  assumes "apply_transition sc eid mr c rs n scorable now s = Inr (s', u)"
  obtains (same) "cu_state c = rs_newState rs" and "s' = s"
  | (quiet) "cu_state c \<noteq> rs_newState rs" and "me_scoringInitializedAt mr = None"
      and "\<exists>x \<in> set (customers s). cu_id x = cu_id c \<and> in_scope sc (cu_merchantId x)"
      and "s' = s\<lparr>customers := set_band sc (cu_id c) (rs_newState rs) (customers s)\<rparr>"
  | (emitted) p a where "cu_state c \<noteq> rs_newState rs" and "me_scoringInitializedAt mr \<noteq> None"
      and "\<exists>x \<in> set (customers s). cu_id x = cu_id c \<and> in_scope sc (cu_merchantId x)"
      and "build_state_changed_payload (me_id mr) c (rs_newState rs) now rs = Inr p"
      and "au_action a = AuCustomerStateChanged"
      and "s' = s\<lparr>customers := set_band sc (cu_id c) (rs_newState rs) (customers s),
              audits := audits s @ [a],
              outbox := outbox s @ [transition_event eid (me_id mr) p now]\<rparr>"
proof (cases "cu_state c = rs_newState rs")
  case True
  with assms show ?thesis by (intro same) (simp_all add: apply_transition_def)
next
  case False
  then obtain s1 where
    u: "update_customer_state sc (cu_id c) (rs_newState rs) s = Inr (s1, ())"
    and rest: "(if me_scoringInitializedAt mr = None then Inr (s1, ())
        else emit_transition sc eid mr ''drainer'' c rs
               (transition_context c rs (currency_of mr) n scorable) now s1) = Inr (s', u)"
    using assms by (auto simp: apply_transition_def)
  have s1: "s1 = s\<lparr>customers := set_band sc (cu_id c) (rs_newState rs) (customers s)\<rparr>"
    using update_customer_state_D [OF u] by (simp add: set_band_def)
  have hit: "\<exists>x \<in> set (customers s). cu_id x = cu_id c \<and> in_scope sc (cu_merchantId x)"
    using u by (auto simp: update_customer_state_def Let_def update_count_0_iff split: if_splits)
  show ?thesis
  proof (cases "me_scoringInitializedAt mr = None")
    case True
    with rest s1 False hit show ?thesis by (intro quiet) simp_all
  next
    case gate: False
    with rest have "emit_transition sc eid mr ''drainer'' c rs
               (transition_context c rs (currency_of mr) n scorable) now s1 = Inr (s', u)" by simp
    from emit_transition_D [OF this] obtain p a where
      "build_state_changed_payload (me_id mr) c (rs_newState rs) now rs = Inr p"
      "au_action a = AuCustomerStateChanged"
      "s' = s1\<lparr>audits := audits s1 @ [a], outbox := outbox s1 @ [transition_event eid (me_id mr) p now]\<rparr>"
      by auto
    with False gate hit show ?thesis by (intro emitted [of p a]) (simp_all add: s1)
  qed
qed

text \<open>The columns of a score row that the code writes from a resolved score.\<close>

definition holds_score :: "resolved_score \<Rightarrow> string \<Rightarrow> time \<Rightarrow> score_row \<Rightarrow> bool" where
  "holds_score rs cur now row \<longleftrightarrow>
     sc_rDays row = rs_rDays rs \<and> sc_fCount row = rs_fCount rs \<and> sc_mCents row = rs_mCents rs
     \<and> sc_rQuintile row = rs_rQuintile rs \<and> sc_fQuintile row = rs_fQuintile rs
     \<and> sc_mQuintile row = rs_mQuintile rs \<and> sc_churnRiskScore row = rs_churnRiskScore rs
     \<and> sc_currency row = cur \<and> sc_computedAt row = now"

lemma holds_mk_score_row: "holds_score rs cur now (mk_score_row m cid rs cur now)"
  "holds_score rs cur now ((mk_score_row m cid rs cur now)\<lparr>sc_merchantId := m'\<rparr>)"
  by (simp_all add: holds_score_def mk_score_row_def)

lemma upsert_score_stored:
  assumes "upsert_score sc m cid rs cur now s = Inr (s', b)"
  shows "\<exists>row. find_row (\<lambda>x. sc_customerId x = cid \<and> in_scope sc (sc_merchantId x)) (scores s') = Some row
      \<and> holds_score rs cur now row" (is "\<exists>row. find_row ?mine _ = _ \<and> _")
    and "filter (\<lambda>x. \<not> (sc_customerId x = cid \<and> in_scope sc (sc_merchantId x))) (scores s')
      = filter (\<lambda>x. \<not> (sc_customerId x = cid \<and> in_scope sc (sc_merchantId x))) (scores s)"
proof -
  let ?row = "mk_score_row m cid rs cur now"
  have scope: "in_scope sc m" using assms
    by (cases sc) (auto simp: upsert_score_def assert_scope_matches_merchant_def split: if_splits)
  consider "0 < update_count ?mine (scores s)" and
      "scores s' = update_many ?mine (\<lambda>r. ?row\<lparr>sc_merchantId := sc_merchantId r\<rparr>) (scores s)"
    | "update_count ?mine (scores s) = 0" and "scores s' = scores s @ [?row]"
    using assms by (auto simp: upsert_score_def Let_def split: if_splits)
  then have "(\<exists>row. find_row ?mine (scores s') = Some row \<and> holds_score rs cur now row)
    \<and> filter (\<lambda>x. \<not> ?mine x) (scores s') = filter (\<lambda>x. \<not> ?mine x) (scores s)"
  proof cases
    case 1
    then obtain r where r: "find_row ?mine (scores s) = Some r"
      by (cases "find_row ?mine (scores s)") (auto simp: update_count_pos_iff find_row_None_iff)
    then have "?mine r" by (auto dest: find_row_Some_D)
    with r have "find_row ?mine (scores s') = Some (?row\<lparr>sc_merchantId := sc_merchantId r\<rparr>)"
      unfolding 1(2) by (intro find_update_many_hit) (simp_all add: mk_score_row_def)
    moreover have "filter (\<lambda>x. \<not> ?mine x) (scores s') = filter (\<lambda>x. \<not> ?mine x) (scores s)"
      unfolding 1(2) by (rule filter_update_many_other) (simp add: mk_score_row_def)
    ultimately show ?thesis by (simp add: holds_mk_score_row)
  next
    case 2
    from 2(1) have "find_row ?mine (scores s) = None" by (auto simp: update_count_0_iff find_row_None_iff)
    moreover have "?mine ?row" using scope by (simp add: mk_score_row_def)
    ultimately show ?thesis unfolding 2(2)
      by (simp add: find_row_append find_row_Cons holds_mk_score_row)
  qed
  then show "\<exists>row. find_row ?mine (scores s') = Some row \<and> holds_score rs cur now row"
    and "filter (\<lambda>x. \<not> ?mine x) (scores s') = filter (\<lambda>x. \<not> ?mine x) (scores s)" by blast+
qed

text \<open>
  C6. The emission gate. A recompute that returns has resolved the customer's score from the
  merchant's cohort of that instant and has stored it, every column of it, in the customer's
  row and no other; it has set the customer's band to the resolved one, and touches no other
  table, except that a band
  change of a merchant whose first scoring pass is over adds exactly one state-changed event
  (with the old and the new band) and one audit row.
\<close>

theorem recompute_effects:
  assumes "recompute sc eid m cid now s = Inr (s', Some r)"
    and "find_merchant s m = Some mr" and "find_live_customer s cid = Some c"
  shows "rr_previousState r = cu_state c
    \<and> rr_stateChanged r = (cu_state c \<noteq> rs_newState (rr_score r))
    \<and> (\<exists>cohort. read_cohort sc m now s = Inr cohort \<and> resolve_customer c cohort now = Inr (rr_score r, rr_scorable r))
    \<and> (\<exists>row. find_row (\<lambda>x. sc_customerId x = cid \<and> in_scope sc (sc_merchantId x)) (scores s') = Some row
        \<and> holds_score (rr_score r) (currency_of mr) now row)
    \<and> filter (\<lambda>x. \<not> (sc_customerId x = cid \<and> in_scope sc (sc_merchantId x))) (scores s')
        = filter (\<lambda>x. \<not> (sc_customerId x = cid \<and> in_scope sc (sc_merchantId x))) (scores s)
    \<and> customers s' = (if rr_stateChanged r
        then update_many (\<lambda>x. cu_id x = cid \<and> in_scope sc (cu_merchantId x))
               (\<lambda>x. x\<lparr>cu_state := rs_newState (rr_score r)\<rparr>) (customers s)
        else customers s)
    \<and> (if rr_stateChanged r \<and> me_scoringInitializedAt mr \<noteq> None
       then \<exists>p a. outbox s' = outbox s @ [transition_event eid m p now]
          \<and> pl_customerId p = cid \<and> pl_oldState p = cu_state c
          \<and> pl_newState p = rs_newState (rr_score r)
          \<and> audits s' = audits s @ [a] \<and> au_action a = AuCustomerStateChanged
       else outbox s' = outbox s \<and> audits s' = audits s)
    \<and> s' = s\<lparr>customers := customers s', scores := scores s', outbox := outbox s', audits := audits s'\<rparr>"
proof -
  obtain cohort :: "cohort_row list" and rs scorable s1 isNew where
    c: "read_cohort sc m now s = Inr cohort" "resolve_customer c cohort now = Inr (rs, scorable)"
    and u: "upsert_score sc m cid rs (currency_of mr) now s = Inr (s1, isNew)"
    and t: "apply_transition sc eid mr c rs (length cohort) scorable now s1 = Inr (s', ())"
    and r: "r = \<lparr>rr_isNewScore = isNew, rr_score = rs, rr_previousState = cu_state c,
           rr_stateChanged = (cu_state c \<noteq> rs_newState rs), rr_scorable = scorable,
           rr_cohortSize = length cohort\<rparr>" by (rule recompute_D [OF assms]) (erule (4) that)
  obtain ss where s1: "s1 = s\<lparr>scores := ss\<rparr>" using upsert_score_frame [OF u] by blast
  note stored = upsert_score_stored [OF u]
  have ids: "cu_id c = cid" "me_id mr = m"
    using find_live_customer_id [OF assms(3)] find_merchant_id [OF assms(2)] by auto
  have eq: "rr_score r = rs" "rr_scorable r = scorable" using r by simp_all
  have sc': "scores s' = scores s1" using t
    by (cases rule: apply_transition_cases) (simp_all add: s1)
  have frame: "rr_previousState r = cu_state c
    \<and> rr_stateChanged r = (cu_state c \<noteq> rs_newState (rr_score r))
    \<and> customers s' = (if rr_stateChanged r
        then update_many (\<lambda>x. cu_id x = cid \<and> in_scope sc (cu_merchantId x))
               (\<lambda>x. x\<lparr>cu_state := rs_newState (rr_score r)\<rparr>) (customers s)
        else customers s)
    \<and> (if rr_stateChanged r \<and> me_scoringInitializedAt mr \<noteq> None
       then \<exists>p a. outbox s' = outbox s @ [transition_event eid m p now]
          \<and> pl_customerId p = cid \<and> pl_oldState p = cu_state c
          \<and> pl_newState p = rs_newState (rr_score r)
          \<and> audits s' = audits s @ [a] \<and> au_action a = AuCustomerStateChanged
       else outbox s' = outbox s \<and> audits s' = audits s)
    \<and> s' = s\<lparr>customers := customers s', scores := scores s', outbox := outbox s', audits := audits s'\<rparr>"
    using t
  proof (cases rule: apply_transition_cases)
    case (emitted p a)
    from build_payload_D [OF emitted(4)] emitted show ?thesis
      by (auto simp: r s1 ids set_band_def)
  qed (simp_all add: r s1 ids set_band_def)
  show ?thesis using frame stored c unfolding sc' [symmetric] eq [symmetric] by blast
qed

section \<open>A small database\<close>

definition sample_merchant :: merchant_row where
  "sample_merchant = \<lparr>me_id = ''m'', me_shop = ''a.myshopify.com'', me_name = None,
     me_currency = Some ''eur'', me_timezone = None, me_uninstalledAt = None,
     me_tokenRevokedAt = None, me_scoringInitializedAt = Some 1,
       me_installedAt = 0, me_email = None, me_country = None, me_shopifyPlan = None,
       me_shopDetailsFetchedAt = None\<rparr>"

definition sample_customer :: "string \<Rightarrow> customer_state \<Rightarrow> customer_row" where
  "sample_customer cid st = \<lparr>cu_id = cid, cu_merchantId = ''m'',
     cu_shopifyCustomerId = ''gid://shopify/Customer/1'', cu_email = Some ''c@x.org'',
     cu_firstName = None, cu_lastName = None, cu_consent = Subscribed, cu_state = st,
     cu_shopifyCreatedAt = None, cu_createdAt = 0, cu_deletedAt = None,
       cu_phone = None, cu_acceptsMarketing = True, cu_acceptsSms = False, cu_ordersCount = 0, cu_tags = [],
       cu_shopifyUpdatedAt = None\<rparr>"

definition sample_db :: db where
  "sample_db = empty_db\<lparr>merchants := [sample_merchant],
     customers := [sample_customer ''c'' Active, sample_customer ''d'' Warm]\<rparr>"

lemma sample_recompute:
  "case recompute (Tenant ''m'') ''e1'' ''m'' ''c'' (40 * ms_per_day) sample_db of
     Inr (s', Some r) \<Rightarrow> length (outbox s') = 1 | _ \<Rightarrow> False"
  by code_simp

lemma sample_recompute_ok:
  obtains s' r where "recompute (Tenant ''m'') ''e1'' ''m'' ''c'' (40 * ms_per_day) sample_db = Inr (s', Some r)"
    and "length (outbox s') = 1"
  using sample_recompute by (auto split: sum.splits option.splits)

lemma recompute_effects_witness:
  "\<exists>s' r p. recompute (Tenant ''m'') ''e1'' ''m'' ''c'' (40 * ms_per_day) sample_db = Inr (s', Some r)
    \<and> outbox s' = [transition_event ''e1'' ''m'' p (40 * ms_per_day)] \<and> pl_oldState p = Active"
proof -
  obtain s' r where r: "recompute (Tenant ''m'') ''e1'' ''m'' ''c'' (40 * ms_per_day) sample_db = Inr (s', Some r)"
    and l: "length (outbox s') = 1" by (rule sample_recompute_ok)
  have m: "find_merchant sample_db ''m'' = Some sample_merchant" by code_simp
  have c: "find_live_customer sample_db ''c'' = Some (sample_customer ''c'' Active)" by code_simp
  have o: "outbox sample_db = []" "me_scoringInitializedAt sample_merchant \<noteq> None"
    "cu_state (sample_customer ''c'' Active) = Active" by code_simp+
  from recompute_effects [OF r m c] l o show ?thesis
    unfolding r by (auto split: if_splits)
qed

section \<open>Repeating a recompute\<close>

lemma resolve_customer_state [simp]:
  "resolve_customer (c\<lparr>cu_state := st\<rparr>) cohort now = resolve_customer c cohort now"
  by (simp add: resolve_customer_def reference_created_at_def Let_def split: option.split)

lemma update_many_idem:
  assumes "\<And>r. p r \<Longrightarrow> p (f r)" and "\<And>r. p r \<Longrightarrow> f (f r) = f r"
  shows "update_many p f (update_many p f rows) = update_many p f rows"
  using assms by (induction rows) auto

lemma upsert_score_again:
  assumes "upsert_score sc m cid rs cur now s = Inr (s1, b)"
    and "scores s2 = scores s1" and "assert_scope_matches_merchant (Some sc) m = Inr ()"
  shows "upsert_score sc m cid rs cur now s2 = Inr (s2, False)"
proof -
  let ?row = "mk_score_row m cid rs cur now"
  let ?mine = "\<lambda>r. sc_customerId r = cid \<and> in_scope sc (sc_merchantId r)"
  let ?f = "\<lambda>r. ?row\<lparr>sc_merchantId := sc_merchantId r\<rparr>"
  have m: "in_scope sc m" using assms(3) by (cases sc) auto
  have row: "sc_customerId ?row = cid" "sc_merchantId ?row = m" by (simp_all add: mk_score_row_def)
  consider "update_count ?mine (scores s) > 0" "scores s1 = update_many ?mine ?f (scores s)"
    | "update_count ?mine (scores s) = 0" "scores s1 = scores s @ [?row]"
    using assms(1) by (auto simp: upsert_score_def Let_def split: if_splits)
  then have "update_count ?mine (scores s1) > 0 \<and> update_many ?mine ?f (scores s1) = scores s1
    \<and> find_row (\<lambda>r. sc_customerId r = cid) (scores s1) \<noteq> None"
  proof cases
    case 1
    then obtain r where "r \<in> set (scores s)" "?mine r"
      by (auto simp: update_count_0_iff simp flip: neq0_conv)
    then have "?f r \<in> set (scores s1)" "?mine (?f r)"
      unfolding 1(2) set_update_many by (auto simp: row)
    then have "\<exists>r \<in> set (scores s1). ?mine r" by blast
    then have "update_count ?mine (scores s1) > 0"
      and "find_row (\<lambda>r. sc_customerId r = cid) (scores s1) \<noteq> None"
      by (auto simp: find_row_None_iff update_count_0_iff simp flip: neq0_conv)
    moreover have "update_many ?mine ?f (scores s1) = scores s1"
      unfolding 1(2) by (rule update_many_idem) (simp_all add: row)
    ultimately show ?thesis by simp
  next
    case 2
    have "update_many ?mine ?f (scores s @ [?row]) = update_many ?mine ?f (scores s) @ [?row]"
      using row by (simp add: update_many_def)
    with 2 m row show ?thesis
      by (auto simp: update_many_none update_count_0_iff find_row_None_iff simp flip: neq0_conv)
  qed
  with assms(2) show ?thesis
    by (auto simp: upsert_score_def Let_def assms(3))
qed

lemma find_live_after_band:
  assumes "distinct (map cu_id cs)" and "c \<in> set cs" and "cu_deletedAt c = None"
    and "\<exists>x \<in> set cs. cu_id x = cu_id c \<and> in_scope sc (cu_merchantId x)"
  shows "find_row (\<lambda>r. cu_id r = cu_id c \<and> cu_deletedAt r = None) (set_band sc (cu_id c) st cs)
    = Some (c\<lparr>cu_state := st\<rparr>)"
proof -
  have "x = c" if "x \<in> set cs" "cu_id x = cu_id c" for x
    using assms(1,2) that by (auto simp: distinct_map inj_on_def)
  with assms(4) have "in_scope sc (cu_merchantId c)" by blast
  with assms(1-3) show ?thesis
    by (induction cs) (auto simp: set_band_def find_row_Cons image_iff)
qed

lemma recompute_again:
  assumes "recompute sc eid m cid now s = Inr (s', Some r)"
    and "distinct (map cu_id (customers s))"
  shows "recompute sc eid' m cid now s' = Inr (s', Some (r\<lparr>rr_isNewScore := False,
      rr_previousState := rs_newState (rr_score r), rr_stateChanged := False\<rparr>))"
proof -
  obtain c mr where c: "find_live_customer s cid = Some c" and mr: "find_merchant s m = Some mr"
    by (rule recompute_parts [OF assms(1)])
  obtain cohort :: "cohort_row list" and rs scorable s1 isNew where
    sc: "assert_scope_matches_merchant (Some sc) m = Inr ()"
    and co: "read_cohort sc m now s = Inr cohort"
    and re: "resolve_customer c cohort now = Inr (rs, scorable)"
    and u: "upsert_score sc m cid rs (currency_of mr) now s = Inr (s1, isNew)"
    and t: "apply_transition sc eid mr c rs (length cohort) scorable now s1 = Inr (s', ())"
    and r: "r = \<lparr>rr_isNewScore = isNew, rr_score = rs, rr_previousState = cu_state c,
           rr_stateChanged = (cu_state c \<noteq> rs_newState rs), rr_scorable = scorable,
           rr_cohortSize = length cohort\<rparr>"
    by (rule recompute_D [OF assms(1) mr c]) (erule (5) that)
  obtain ss where s1: "s1 = s\<lparr>scores := ss\<rparr>" using upsert_score_frame [OF u] by blast
  have id: "cu_id c = cid" and cin: "c \<in> set (customers s)" and live: "cu_deletedAt c = None"
    using c by (auto simp: find_live_customer_def dest: find_row_Some_D)
  let ?c = "c\<lparr>cu_state := rs_newState rs\<rparr>"
  have "find_live_customer s' cid = Some ?c \<and> merchants s' = merchants s \<and> orders s' = orders s
    \<and> scores s' = scores s1"
    using t
  proof (cases rule: apply_transition_cases)
    case same
    then have "?c = c" by simp
    with same c show ?thesis by (simp add: s1 find_live_customer_def)
  qed (use find_live_after_band [OF assms(2) cin live] in \<open>simp_all add: s1 find_live_customer_def id\<close>)
  then have c': "find_live_customer s' cid = Some ?c" and mr': "find_merchant s' m = Some mr"
    and co': "read_cohort sc m now s' = Inr cohort" and sco: "scores s' = scores s1"
    using mr co by (auto simp: find_merchant_def read_cohort_def)
  have u': "upsert_score sc m cid rs (currency_of mr) now s' = Inr (s', False)"
    by (rule upsert_score_again [OF u sco sc])
  show ?thesis
    by (simp add: recompute_def sc c' mr' co' re u' apply_transition_def r)
qed

text \<open>
  A recompute settles. Run again at the same instant on the database it left, it
  succeeds with the same score, reports no new score and no band change, and leaves the
  database as it is: a redelivered trigger adds no event, audit row or score.
\<close>

theorem recompute_settles:
  assumes "recompute sc eid m cid now s = Inr (s', Some r)"
    and "distinct (map cu_id (customers s))"
  shows "recompute sc eid' m cid now s' = Inr (s', Some (r\<lparr>rr_isNewScore := False,
      rr_previousState := rs_newState (rr_score r), rr_stateChanged := False\<rparr>))"
  by (rule recompute_again [OF assms])

lemma recompute_settles_witness:
  "\<exists>s' r. recompute (Tenant ''m'') ''e1'' ''m'' ''c'' (40 * ms_per_day) sample_db = Inr (s', Some r)
    \<and> (\<exists>r'. recompute (Tenant ''m'') ''e2'' ''m'' ''c'' (40 * ms_per_day) s' = Inr (s', Some r')
        \<and> \<not> rr_stateChanged r')"
proof -
  obtain s' r where r: "recompute (Tenant ''m'') ''e1'' ''m'' ''c'' (40 * ms_per_day) sample_db = Inr (s', Some r)"
    by (rule sample_recompute_ok)
  have d: "distinct (map cu_id (customers sample_db))" by code_simp
  from recompute_settles [OF r d] r show ?thesis by fastforce
qed

section \<open>Orders dated in the future\<close>

text \<open>
  When a customer's latest qualifying order is dated after the instant of the
  recompute (its \<open>rDays\<close> is negative), a recompute that would change the band of a customer
  of a merchant past the first scoring pass throws: the event's schema refuses a negative
  \<open>rDays\<close>, and the transaction rolls the score and the band back.
\<close>

theorem recompute_future_order_fails:
  assumes "find_live_customer s cid = Some c" and "find_merchant s m = Some mr"
    and "me_scoringInitializedAt mr \<noteq> None"
    and "read_cohort sc m now s = Inr cohort"
    and "resolve_customer c cohort now = Inr (rs, scorable)"
    and "rs_rDays rs < 0" and "cu_state c \<noteq> rs_newState rs"
  shows "is_error (recompute sc eid m cid now s) \<and> fst (transaction (recompute sc eid m cid now) s) = s"
proof -
  have "recompute sc eid m cid now s \<noteq> Inr (s', r)" for s' r
  proof
    assume ok: "recompute sc eid m cid now s = Inr (s', r)"
    with assms(1,2) obtain r' where "r = Some r'" by (auto simp: recompute_def)
    with ok have ok: "recompute sc eid m cid now s = Inr (s', Some r')" by simp
    obtain n s1 where t: "apply_transition sc eid mr c rs n scorable now s1 = Inr (s', ())"
      using assms(4,5) by (rule_tac recompute_D [OF ok assms(2,1)]) auto
    then obtain p where "build_state_changed_payload (me_id mr) c (rs_newState rs) now rs = Inr p"
      by (cases rule: apply_transition_cases) (use assms(3,7) in auto)
    from build_payload_D [OF this] assms(6) show False
      by (auto simp: payload_schema_def rfm_score_schema_def)
  qed
  then have e: "is_error (recompute sc eid m cid now s)"
    by (cases "recompute sc eid m cid now s") auto
  then show ?thesis by (auto simp: is_error_iff)
qed

definition future_orders :: "order_row list" where
  "future_orders = map (\<lambda>(c, t). sample_order c t)
     [(''c'', 9 * ms_per_day), (''d'', 1), (''e'', 1), (''f'', 1), (''g'', 1)]"

lemma recompute_future_order_fails_witness:
  "is_error (recompute (Tenant ''m'') ''e1'' ''m'' ''c'' (5 * ms_per_day)
     (sample_db\<lparr>customers := [sample_customer ''c'' Lost], orders := future_orders\<rparr>))"
proof -
  let ?s = "sample_db\<lparr>customers := [sample_customer ''c'' Lost], orders := future_orders\<rparr>"
  let ?now = "5 * ms_per_day :: int"
  have "case read_cohort (Tenant ''m'') ''m'' ?now ?s of Inl _ \<Rightarrow> False | Inr cohort \<Rightarrow>
      (case resolve_customer (sample_customer ''c'' Lost) cohort ?now of
         Inl _ \<Rightarrow> False | Inr (rs, b) \<Rightarrow> rs_rDays rs < 0 \<and> rs_newState rs = Active)"
    by code_simp
  then obtain cohort rs b where *: "read_cohort (Tenant ''m'') ''m'' ?now ?s = Inr cohort"
    "resolve_customer (sample_customer ''c'' Lost) cohort ?now = Inr (rs, b)"
    "rs_rDays rs < 0" "rs_newState rs = Active"
    by (auto split: sum.splits)
  have "find_live_customer ?s ''c'' = Some (sample_customer ''c'' Lost)"
    "find_merchant ?s ''m'' = Some sample_merchant"
    "me_scoringInitializedAt sample_merchant \<noteq> None"
    "cu_state (sample_customer ''c'' Lost) = Lost" by code_simp+
  with recompute_future_order_fails [of ?s "''c''" "sample_customer ''c'' Lost" "''m''" sample_merchant
      "Tenant ''m''" ?now cohort rs b "''e1''"] * show ?thesis by simp
qed

end
