(* ===== verification/RescoreFacts.thy ===== *)
theory RescoreFacts
  imports RecomputeFacts
begin

text \<open>
  The merchant-wide passes. \<open>bulkRescore\<close> pages through a set of customers that its own
  writes do not change, so for any behaviour of the database's cursor that the documentation
  allows it reaches every live customer once and ends. \<open>decayRescore\<close> pages through a set its
  writes do shrink; with an offset-style cursor a customer can be passed over.
\<close>

section \<open>The cursor\<close>

lemma filter_ge_sorted:
  assumes "sorted (map k rows)" and "distinct (map k rows)" and "x \<in> k ` set rows"
  shows "drop 1 (filter (\<lambda>c. x \<le> k c) rows) = filter (\<lambda>c. x < k c) (rows :: 'a list)"
  using assms
proof (induction rows)
  case (Cons r rows)
  show ?case
  proof (cases "k r = x")
    case True
    with Cons.prems have "\<forall>c \<in> set rows. x < k c"
      by (auto simp: image_iff order.strict_iff_order)
    with True show ?thesis
      by (auto simp: less_imp_le intro!: filter_cong)
  next
    case False
    with Cons.prems have "x \<in> k ` set rows" "k r < x" by (auto simp: order.strict_iff_order)
    with Cons False show ?thesis by (simp add: not_le not_less)
  qed
qed simp

interpretation seek: cursor_pager seek_page
  by unfold_locales (simp_all add: seek_page_def)

interpretation offset_cursor: cursor_pager offset_page
proof
  fix rows :: "customer_row list" and k n
  assume "sorted (map cu_id rows)" and "distinct (map cu_id rows)" and "k \<in> cu_id ` set rows"
  from filter_ge_sorted [OF this] show
    "offset_page rows (Some k) n = take n (filter (\<lambda>c. k < cu_id c) rows)"
    by (simp add: offset_page_def)
qed (simp add: offset_page_def)

definition after :: "string option \<Rightarrow> string \<Rightarrow> bool" where
  "after k x = (case k of None \<Rightarrow> True | Some k \<Rightarrow> k < x)"

lemma after_next_page:
  assumes "sorted (map f rows)" and "distinct (map f rows)"
    and "n \<le> length (filter (\<lambda>c. after k (f c)) rows)" and "0 < n"
  shows "filter (\<lambda>c. after (Some (f (last (take n (filter (\<lambda>c. after k (f c)) rows))))) (f c)) rows
    = drop n (filter (\<lambda>c. after k (f c)) (rows :: 'a list))"
proof -
  let ?xs = "filter (\<lambda>c. after k (f c)) rows"
  have sd: "sorted (map f ?xs)" "distinct (map f ?xs)"
    using assms(1,2) by (simp_all add: sorted_filter distinct_map_filter)
  let ?l = "f (last (take n ?xs))"
  have "take n ?xs \<noteq> []" using assms(3,4) by (cases ?xs) auto
  then have l: "?l = f (?xs ! (n - 1))"
    using assms(3,4) by (simp add: last_conv_nth min_absorb2)
  have mem: "?xs ! (n - 1) \<in> set ?xs" using assms(3,4) by (intro nth_mem) linarith
  then have up: "after k x" if "?l < x" for x
    using that unfolding l by (auto simp: after_def split: option.splits)
  have "filter (\<lambda>c. after (Some ?l) (f c)) rows = filter (\<lambda>c. ?l < f c) ?xs"
  proof -
    have "filter (\<lambda>c. after (Some l) (f c)) rows = filter (\<lambda>c. l < f c) ?xs"
      if "\<And>x. l < x \<Longrightarrow> after k x" for l
      using that by (induction rows) (auto simp: after_def)
    then show ?thesis using up by blast
  qed
  also have "\<dots> = filter (\<lambda>c. ?l < f c) (take n ?xs @ drop n ?xs)" by simp
  also have "\<dots> = filter (\<lambda>c. ?l < f c) (take n ?xs) @ filter (\<lambda>c. ?l < f c) (drop n ?xs)"
    by (rule filter_append)
  also have "filter (\<lambda>c. ?l < f c) (take n ?xs) = []"
  proof -
    have "\<not> ?l < f x" if "x \<in> set (take n ?xs)" for x
    proof -
      from that obtain i where i: "i < n" "i < length ?xs" "x = ?xs ! i"
        by (auto simp: in_set_conv_nth)
      then have "map f ?xs ! i \<le> map f ?xs ! (n - 1)"
        using assms(3,4) by (intro sorted_nth_mono [OF sd(1)]) auto
      with i assms(3,4) show ?thesis unfolding l by auto
    qed
    then show ?thesis by (simp add: filter_empty_conv)
  qed
  also have "filter (\<lambda>c. ?l < f c) (drop n ?xs) = drop n ?xs"
  proof -
    have "?l < f x" if "x \<in> set (drop n ?xs)" for x
    proof -
      from that obtain i where i: "n + i < length ?xs" "x = ?xs ! (n + i)"
        by (metis in_set_conv_nth length_drop less_diff_conv add.commute nth_drop
            less_imp_le nat_le_linear diff_is_0_eq not_less_zero)
      have "map f ?xs ! (n - 1) < map f ?xs ! (n + i)"
        using i(1) assms(4) sd by (intro sorted_wrt_nth_less [of "(<)" "map f ?xs"])
          (simp_all add: strict_sorted_iff)
      with i assms(3,4) show ?thesis unfolding l by auto
    qed
    then show ?thesis by (simp add: filter_id_conv)
  qed
  finally show ?thesis by simp
qed

section \<open>What a batch keeps\<close>

text \<open>A customer without its band: the part of the table that the passes never change.\<close>

definition bandless :: "customer_row \<Rightarrow> customer_row" where
  "bandless c = c\<lparr>cu_state := Active\<rparr>"

lemma bandless_simps [simp]:
  "cu_id (bandless c) = cu_id c" "cu_merchantId (bandless c) = cu_merchantId c"
  "cu_deletedAt (bandless c) = cu_deletedAt c" "bandless (c\<lparr>cu_state := st\<rparr>) = bandless c"
  by (simp_all add: bandless_def)

lemma bandless_set_band [simp]: "map bandless (set_band sc cid st cs) = map bandless cs"
  by (induction cs) (auto simp: set_band_def)

lemma map_insort_key:
  "(\<And>x. k (f x) = k x) \<Longrightarrow> map f (insort_key k x xs) = insort_key k (f x) (map f xs)"
  by (induction xs) auto

lemma map_sort_key:
  "(\<And>x. k (f x) = k x) \<Longrightarrow> map f (sort_key k xs) = sort_key k (map f xs)"
  by (induction xs) (simp_all add: map_insort_key)

lemma bandless_matching:
  "map bandless (matching_customers m (\<lambda>c. True) s)
    = sort_key cu_id (filter (\<lambda>c. cu_merchantId c = m \<and> cu_deletedAt c = None) (map bandless (customers s)))"
  by (simp add: matching_customers_def map_sort_key filter_map o_def)

lemma matching_ids_stable:
  assumes "map bandless (customers s') = map bandless (customers s)"
  shows "map cu_id (matching_customers m (\<lambda>c. True) s') = map cu_id (matching_customers m (\<lambda>c. True) s)"
proof -
  have "map cu_id (map bandless (matching_customers m (\<lambda>c. True) s'))
    = map cu_id (map bandless (matching_customers m (\<lambda>c. True) s))"
    unfolding bandless_matching assms ..
  then show ?thesis by (simp add: o_def)
qed

lemma customer_ids_stable:
  assumes "map bandless (customers s') = map bandless (customers s)"
  shows "map cu_id (customers s') = map cu_id (customers s)"
proof -
  have "map cu_id (map bandless (customers s')) = map cu_id (map bandless (customers s))"
    unfolding assms ..
  then show ?thesis by (simp add: o_def)
qed

lemma matching_sorted: "sorted (map cu_id (matching_customers m wh s))"
  by (simp add: matching_customers_def)

lemma matching_distinct:
  "distinct (map cu_id (customers s)) \<Longrightarrow> distinct (map cu_id (matching_customers m wh s))"
  by (simp add: matching_customers_def distinct_map distinct_filter inj_on_def)

lemma matching_set:
  "c \<in> set (matching_customers m wh s) \<longleftrightarrow>
    c \<in> set (customers s) \<and> cu_merchantId c = m \<and> cu_deletedAt c = None \<and> wh c"
  by (auto simp: matching_customers_def)

text \<open>A customer is settled: the score is stored and the band is the resolved one.\<close>

definition settled :: "merchant_id \<Rightarrow> string \<Rightarrow> time \<Rightarrow> db \<Rightarrow> string \<Rightarrow> resolved_score \<Rightarrow> bool" where
  "settled m currency now s cid rs \<longleftrightarrow>
     mk_score_row m cid rs currency now \<in> set (scores s)
     \<and> (\<forall>c \<in> set (customers s). cu_id c = cid \<longrightarrow> cu_state c = rs_newState rs)"

lemma upsert_score_stores:
  assumes "upsert_score (Tenant m) m cid rs cur now s = Inr (s', b)"
  shows "mk_score_row m cid rs cur now \<in> set (scores s')
    \<and> (\<forall>row \<in> set (scores s). sc_customerId row \<noteq> cid \<longrightarrow> row \<in> set (scores s'))
    \<and> s' = s\<lparr>scores := scores s'\<rparr>"
proof -
  let ?mine = "\<lambda>r. sc_customerId r = cid \<and> sc_merchantId r = m"
  consider "\<exists>r \<in> set (scores s). ?mine r"
      "scores s' = update_many ?mine (\<lambda>r. (mk_score_row m cid rs cur now)\<lparr>sc_merchantId := sc_merchantId r\<rparr>) (scores s)"
    | "scores s' = scores s @ [mk_score_row m cid rs cur now]"
    using assms by (auto simp: upsert_score_def Let_def update_count_0_iff simp flip: neq0_conv split: if_splits)
  then show ?thesis
  proof cases
    case 1
    then obtain r where r: "r \<in> set (scores s)" "?mine r" by blast
    then have "mk_score_row m cid rs cur now
      = (mk_score_row m cid rs cur now)\<lparr>sc_merchantId := sc_merchantId r\<rparr>"
      by (simp add: mk_score_row_def)
    with r have "mk_score_row m cid rs cur now \<in> set (scores s')"
      unfolding 1(2) set_update_many by (auto intro!: image_eqI [of _ _ r])
    moreover have "row \<in> set (scores s')" if "row \<in> set (scores s)" "sc_customerId row \<noteq> cid" for row
      unfolding 1(2) set_update_many using that by (auto intro!: image_eqI [of _ _ row])
    ultimately show ?thesis using upsert_score_frame [OF assms] by blast
  next
    case 2
    with upsert_score_frame [OF assms] show ?thesis by auto
  qed
qed

text \<open>Everything but the two tables that a pass writes.\<close>

definition pass_frame :: "db \<Rightarrow> db" where
  "pass_frame s = s\<lparr>customers := [], scores := []\<rparr>"

lemma pass_frame_simps [simp]:
  "pass_frame (s\<lparr>customers := cs\<rparr>) = pass_frame s" "pass_frame (s\<lparr>scores := ss\<rparr>) = pass_frame s"
  by (simp_all add: pass_frame_def)

lemma pass_frame_D:
  "pass_frame s' = pass_frame s \<Longrightarrow> outbox s' = outbox s \<and> audits s' = audits s
    \<and> merchants s' = merchants s \<and> orders s' = orders s"
  by (auto simp: pass_frame_def dest: arg_cong [where f = outbox] arg_cong [where f = audits]
      arg_cong [where f = merchants] arg_cong [where f = orders])

lemma bulk_customers_frame:
  "bulk_customers sc m resolve cur now cs s = Inr (s', u) \<Longrightarrow> pass_frame s' = pass_frame s"
proof (induction cs arbitrary: s)
  case (Cons c cs)
  from Cons.prems obtain s1 u1 where one: "bulk_customer sc m resolve cur now c s = Inr (s1, u1)"
    and more: "bulk_customers sc m resolve cur now cs s1 = Inr (s', u)" by auto
  from one obtain s0 b where up: "upsert_score sc m (cu_id c) (resolve c) cur now s = Inr (s0, b)"
    and st: "s1 = s0 \<or> update_customer_state sc (cu_id c) (rs_newState (resolve c)) s0 = Inr (s1, u1)"
    by (auto simp: bulk_customer_def Let_def split: if_splits)
  obtain ss where "s0 = s\<lparr>scores := ss\<rparr>" using upsert_score_frame [OF up] by blast
  moreover have "pass_frame s1 = pass_frame s0"
    using st by (auto dest!: update_customer_state_D)
  ultimately show ?case using Cons.IH [OF more] by simp
qed simp

lemma set_band_other:
  "cu_id c \<noteq> cid \<Longrightarrow> c \<in> set (set_band sc cid st cs) \<longleftrightarrow> c \<in> set cs"
  by (auto simp: set_band_def set_update_many image_iff)

lemma bulk_customer_D:
  assumes "bulk_customer (Tenant m) m resolve cur now c s = Inr (s', u)"
    and "c \<in> set (customers s)" and "cu_merchantId c = m" and "distinct (map cu_id (customers s))"
  shows "map bandless (customers s') = map bandless (customers s)
    \<and> settled m cur now s' (cu_id c) (resolve c)
    \<and> (\<forall>x. cu_id x \<noteq> cu_id c \<longrightarrow> (x \<in> set (customers s') \<longleftrightarrow> x \<in> set (customers s)))
    \<and> (\<forall>cid rs. cid \<noteq> cu_id c \<longrightarrow> settled m cur now s cid rs \<longrightarrow> settled m cur now s' cid rs)"
proof -
  let ?rs = "resolve c"
  obtain s1 b where up: "upsert_score (Tenant m) m (cu_id c) ?rs cur now s = Inr (s1, b)"
    and rest: "(if cu_state c \<noteq> rs_newState ?rs then update_customer_state (Tenant m) (cu_id c) (rs_newState ?rs) s1
      else Inr (s1, ())) = Inr (s', u)"
    using assms(1) by (auto simp: bulk_customer_def Let_def)
  have st: "mk_score_row m (cu_id c) ?rs cur now \<in> set (scores s1)"
      "\<forall>row \<in> set (scores s). sc_customerId row \<noteq> cu_id c \<longrightarrow> row \<in> set (scores s1)"
    and "s1 = s\<lparr>scores := scores s1\<rparr>" using upsert_score_stores [OF up] by blast+
  then obtain ss where s1: "s1 = s\<lparr>scores := ss\<rparr>" by blast
  have only: "x = c" if "x \<in> set (customers s)" "cu_id x = cu_id c" for x
    using assms(2,4) that by (auto simp: distinct_map inj_on_def)
  have cs: "scores s' = scores s1 \<and> customers s' =
    (if cu_state c \<noteq> rs_newState ?rs then set_band (Tenant m) (cu_id c) (rs_newState ?rs) (customers s) else customers s)"
    using rest by (cases "cu_state c = rs_newState ?rs")
      (auto simp: s1 set_band_def dest!: update_customer_state_D)
  have band: "cu_state x = rs_newState ?rs" if "x \<in> set (customers s')" "cu_id x = cu_id c" for x
    using that cs only assms(3) by (auto simp: set_band_def set_update_many split: if_splits)
  have other: "x \<in> set (customers s') \<longleftrightarrow> x \<in> set (customers s)" if "cu_id x \<noteq> cu_id c" for x
    using cs set_band_other [OF that] by auto
  have kept: "settled m cur now s' cid rs" if "cid \<noteq> cu_id c" "settled m cur now s cid rs" for cid rs
  proof -
    have "mk_score_row m cid rs cur now \<in> set (scores s')"
      using that st cs by (auto simp: settled_def mk_score_row_def)
    moreover have "cu_state x = rs_newState rs" if "x \<in> set (customers s')" "cu_id x = cid" for x
      using that \<open>cid \<noteq> cu_id c\<close> \<open>settled m cur now s cid rs\<close> other [of x] by (auto simp: settled_def)
    ultimately show ?thesis by (auto simp: settled_def)
  qed
  have "mk_score_row m (cu_id c) ?rs cur now \<in> set (scores s')" using st(1) cs by simp
  then have "settled m cur now s' (cu_id c) ?rs" unfolding settled_def using band by blast
  moreover have "map bandless (customers s') = map bandless (customers s)" using cs by simp
  ultimately show ?thesis using other kept by blast
qed

lemma bulk_customers_D:
  assumes "bulk_customers (Tenant m) m resolve cur now cs s = Inr (s', u)"
    and "set cs \<subseteq> set (customers s)" and "\<forall>c \<in> set cs. cu_merchantId c = m"
    and "distinct (map cu_id (customers s))" and "distinct (map cu_id cs)"
  shows "map bandless (customers s') = map bandless (customers s)
    \<and> (\<forall>c \<in> set cs. settled m cur now s' (cu_id c) (resolve c))
    \<and> (\<forall>x. cu_id x \<notin> cu_id ` set cs \<longrightarrow> (x \<in> set (customers s') \<longleftrightarrow> x \<in> set (customers s)))
    \<and> (\<forall>cid rs. cid \<notin> cu_id ` set cs \<longrightarrow> settled m cur now s cid rs \<longrightarrow> settled m cur now s' cid rs)"
  using assms
proof (induction cs arbitrary: s)
  case (Cons c cs)
  from Cons.prems(1) obtain s1 u1 where one: "bulk_customer (Tenant m) m resolve cur now c s = Inr (s1, u1)"
    and more: "bulk_customers (Tenant m) m resolve cur now cs s1 = Inr (s', u)" by auto
  have D: "map bandless (customers s1) = map bandless (customers s)"
    "settled m cur now s1 (cu_id c) (resolve c)"
    "\<forall>x. cu_id x \<noteq> cu_id c \<longrightarrow> (x \<in> set (customers s1) \<longleftrightarrow> x \<in> set (customers s))"
    "\<forall>cid rs. cid \<noteq> cu_id c \<longrightarrow> settled m cur now s cid rs \<longrightarrow> settled m cur now s1 cid rs"
    using bulk_customer_D [OF one] Cons.prems by simp_all
  have "set cs \<subseteq> set (customers s1)"
  proof
    fix x assume "x \<in> set cs"
    then have "x \<in> set (customers s)" using Cons.prems(2) by auto
    moreover have "cu_id x \<noteq> cu_id c" using \<open>x \<in> set cs\<close> Cons.prems(5) by (metis distinct.simps(2) image_eqI list.set_map list.simps(9))
    ultimately show "x \<in> set (customers s1)" using D(3) by blast
  qed
  moreover have "distinct (map cu_id (customers s1))"
    using Cons.prems(4) customer_ids_stable [OF D(1)] by simp
  ultimately have E: "map bandless (customers s') = map bandless (customers s1)"
    "\<forall>c \<in> set cs. settled m cur now s' (cu_id c) (resolve c)"
    "\<forall>x. cu_id x \<notin> cu_id ` set cs \<longrightarrow> (x \<in> set (customers s') \<longleftrightarrow> x \<in> set (customers s1))"
    "\<forall>cid rs. cid \<notin> cu_id ` set cs \<longrightarrow> settled m cur now s1 cid rs \<longrightarrow> settled m cur now s' cid rs"
    using Cons.IH [OF more] Cons.prems by simp_all
  have c: "settled m cur now s' (cu_id c) (resolve c)" using D(2) E(4) Cons.prems(5) by auto
  have rows: "x \<in> set (customers s') \<longleftrightarrow> x \<in> set (customers s)" if "cu_id x \<notin> cu_id ` set (c # cs)" for x
    using that D(3) E(3) by simp
  have kept: "settled m cur now s' cid rs" if "cid \<notin> cu_id ` set (c # cs)" "settled m cur now s cid rs" for cid rs
    using that D(4) E(4) by simp
  have all: "\<forall>x \<in> set (c # cs). settled m cur now s' (cu_id x) (resolve x)" using c E(2) by simp
  show ?case using D(1) E(1) rows kept all by (metis (no_types))
qed simp

section \<open>The loop of bulkRescore\<close>

text \<open>What is left of the pass when the cursor stands at \<open>k\<close>.\<close>

definition pending_customers :: "merchant_id \<Rightarrow> string option \<Rightarrow> db \<Rightarrow> customer_row list" where
  "pending_customers m k s = filter (\<lambda>c. after k (cu_id c)) (matching_customers m (\<lambda>c. True) s)"

lemma pending_bandless:
  "map bandless (pending_customers m k s)
    = filter (\<lambda>c. after k (cu_id c)) (map bandless (matching_customers m (\<lambda>c. True) s))"
  by (simp add: pending_customers_def filter_map o_def)

text \<open>What the whole loop does with the customers that are pending when it starts.\<close>

definition bulk_done ::
  "merchant_id \<Rightarrow> (customer_row \<Rightarrow> resolved_score) \<Rightarrow> string \<Rightarrow> time \<Rightarrow> string option \<Rightarrow>
   pass_totals \<Rightarrow> db \<Rightarrow> pass_totals \<Rightarrow> db \<Rightarrow> bool" where
  "bulk_done m resolve cur now k t s t' s' \<longleftrightarrow>
     map bandless (customers s') = map bandless (customers s)
     \<and> pass_frame s' = pass_frame s
     \<and> pt_customers t' = pt_customers t + length (pending_customers m k s)
     \<and> (\<forall>c \<in> set (pending_customers m k s). settled m cur now s' (cu_id c) (resolve c))
     \<and> (\<forall>cid rs. cid \<notin> cu_id ` set (pending_customers m k s) \<longrightarrow>
          settled m cur now s cid rs \<longrightarrow> settled m cur now s' cid rs)"

context cursor_pager begin

lemma page_eq:
  assumes "sorted (map cu_id rows)" and "distinct (map cu_id rows)"
    and "k = None \<or> the k \<in> cu_id ` set rows"
  shows "page rows k n = take n (filter (\<lambda>c. after k (cu_id c)) rows)"
proof (cases k)
  case None
  then show ?thesis by (simp add: page_first after_def)
next
  case (Some k')
  with assms page_after [of rows k' n] show ?thesis by (simp add: after_def)
qed

text \<open>
  One round of the loop: the batch is the next \<open>n\<close> pending customers; it fails, or it settles
  them, and then either none is left or the cursor stands where the rest begins.
\<close>

lemma bulk_round:
  assumes "distinct (map cu_id (customers s))" and "0 < n"
    and "k = None \<or> the k \<in> cu_id ` set (matching_customers m (\<lambda>c. True) s)"
  obtains (fails) e where "bulk_batch page (Tenant m) m resolve cur now n k s = Inl e"
  | (batch) s1 b where "bulk_batch page (Tenant m) m resolve cur now n k s = Inr (s1, b)"
    and "br_count b = length (take n (pending_customers m k s))"
    and "br_lastId b = last_id (take n (pending_customers m k s))"
    and "bulk_customers (Tenant m) m resolve cur now (take n (pending_customers m k s)) s = Inr (s1, ())"
    and "map bandless (customers s1) = map bandless (customers s)"
    and "\<forall>c \<in> set (take n (pending_customers m k s)). settled m cur now s1 (cu_id c) (resolve c)"
    and "\<forall>cid rs. cid \<notin> cu_id ` set (take n (pending_customers m k s)) \<longrightarrow>
      settled m cur now s cid rs \<longrightarrow> settled m cur now s1 cid rs"
proof -
  let ?rows = "matching_customers m (\<lambda>c. True) s"
  let ?cs = "take n (pending_customers m k s)"
  have srt: "sorted (map cu_id ?rows)" and dst: "distinct (map cu_id ?rows)"
    using matching_sorted matching_distinct [OF assms(1)] by blast+
  have page: "page ?rows k n = ?cs"
    using page_eq [OF srt dst assms(3)] by (simp add: pending_customers_def)
  obtain b where b: "br_count b = length ?cs" "br_lastId b = last_id ?cs"
    and eq: "bulk_batch page (Tenant m) m resolve cur now n k s
      = rbind (bulk_customers (Tenant m) m resolve cur now ?cs s) (\<lambda>(s1, _). Inr (s1, b))"
    by (rule that [of "\<lparr>br_count = length ?cs, br_lastId = last_id ?cs, br_transitions = 0, br_emitted = 0\<rparr>"])
      (simp_all only: bulk_batch_def page Let_def batch_result.select_convs)
  show ?thesis
  proof (cases "bulk_customers (Tenant m) m resolve cur now ?cs s")
    case (Inl e)
    with eq show ?thesis by (intro fails [of e]) simp
  next
    case (Inr su)
    then obtain s1 where bc: "bulk_customers (Tenant m) m resolve cur now ?cs s = Inr (s1, ())"
      by (cases su) simp
    have sub: "set ?cs \<subseteq> set ?rows" by (auto simp: pending_customers_def dest: in_set_takeD)
    have "distinct (map cu_id (pending_customers m k s))"
      using dst by (simp add: pending_customers_def distinct_map_filter)
    then have dcs: "distinct (map cu_id ?cs)" by (simp add: take_map [symmetric])
    have "map bandless (customers s1) = map bandless (customers s)
      \<and> (\<forall>c \<in> set ?cs. settled m cur now s1 (cu_id c) (resolve c))
      \<and> (\<forall>x. cu_id x \<notin> cu_id ` set ?cs \<longrightarrow> (x \<in> set (customers s1) \<longleftrightarrow> x \<in> set (customers s)))
      \<and> (\<forall>cid rs. cid \<notin> cu_id ` set ?cs \<longrightarrow> settled m cur now s cid rs \<longrightarrow> settled m cur now s1 cid rs)"
      using sub by (intro bulk_customers_D [OF bc _ _ assms(1) dcs]) (auto simp: matching_set)
    moreover have "bulk_batch page (Tenant m) m resolve cur now n k s = Inr (s1, b)"
      by (simp only: eq bc rbind.simps prod.case)
    ultimately show ?thesis using b bc by (intro batch [of s1 b]) blast+
  qed
qed

text \<open>After a full batch the rest of the customers is pending, in the new database too.\<close>

lemma next_round:
  assumes "distinct (map cu_id (customers s))" and "0 < n"
    and "map bandless (customers s1) = map bandless (customers s)"
    and "\<not> (length (take n (pending_customers m k s)) < n \<or> last_id (take n (pending_customers m k s)) = None)"
  shows "map bandless (pending_customers m (last_id (take n (pending_customers m k s))) s1)
      = map bandless (drop n (pending_customers m k s))"
    and "the (last_id (take n (pending_customers m k s))) \<in> cu_id ` set (matching_customers m (\<lambda>c. True) s1)"
    and "distinct (map cu_id (customers s1))" and "n \<le> length (pending_customers m k s)"
proof -
  let ?rows = "matching_customers m (\<lambda>c. True) s"
  let ?pend = "pending_customers m k s" and ?cs = "take n (pending_customers m k s)"
  have ne: "?cs \<noteq> []" and full: "n \<le> length ?pend"
    using assms(4) by (auto simp: last_id_def split: if_splits)
  have k: "last_id ?cs = Some (cu_id (last ?cs))" using ne by (simp add: last_id_def)
  have "map bandless (pending_customers m (last_id ?cs) s1) = map bandless (pending_customers m (last_id ?cs) s)"
    by (simp only: pending_bandless bandless_matching assms(3))
  also have "pending_customers m (last_id ?cs) s = drop n ?pend"
    using full assms(2) unfolding k unfolding pending_customers_def
    by (intro after_next_page [OF matching_sorted matching_distinct [OF assms(1)]])
  finally show "map bandless (pending_customers m (last_id ?cs) s1) = map bandless (drop n ?pend)" .
  have "last ?cs \<in> set ?rows"
    using last_in_set [OF ne] by (auto simp: pending_customers_def dest: in_set_takeD)
  then show "the (last_id ?cs) \<in> cu_id ` set (matching_customers m (\<lambda>c. True) s1)"
    using matching_ids_stable [OF assms(3), of m] by (metis image_eqI k list.set_map option.sel)
  show "distinct (map cu_id (customers s1))" using assms(1) customer_ids_stable [OF assms(3)] by simp
  show "n \<le> length ?pend" by (rule full)
qed

lemma rescore_loop_round:
  assumes "batch k s = Inr (s1, b)"
  shows "rescore_loop (Suc fuel) batch n k t s
    = (if br_count b < n \<or> br_lastId b = None then Some (s1, Inr (add_batch t b))
       else rescore_loop fuel batch n (br_lastId b) (add_batch t b) s1)"
  by (simp only: assms transaction_def rescore_loop.simps prod.case sum.case)

lemma bulk_done_compose:
  assumes "bulk_done m resolve cur now k1 t1 s1 t' s'"
    and "distinct (map cu_id pend)" and "pend = pending_customers m k s"
    and "map bandless (pending_customers m k1 s1) = map bandless (drop n pend)"
    and "map bandless (customers s1) = map bandless (customers s)" and "pass_frame s1 = pass_frame s"
    and "pt_customers t1 = pt_customers t + length (take n pend)"
    and "\<forall>c \<in> set (take n pend). settled m cur now s1 (cu_id c) (resolve c)"
    and "\<forall>cid rs. cid \<notin> cu_id ` set (take n pend) \<longrightarrow> settled m cur now s cid rs \<longrightarrow> settled m cur now s1 cid rs"
    and "\<And>c c'. bandless c = bandless c' \<Longrightarrow> resolve c = resolve c'"
  shows "bulk_done m resolve cur now k t s t' s'"
proof -
  note I = assms(1) [unfolded bulk_done_def]
  have "map cu_id (pending_customers m k1 s1) = map cu_id (drop n pend)"
    using arg_cong [OF assms(4), of "map cu_id"] by (simp add: o_def)
  then have ids: "cu_id ` set (pending_customers m k1 s1) = cu_id ` set (drop n pend)"
    and len: "length (pending_customers m k1 s1) = length (drop n pend)"
    by (metis list.set_map, metis length_map)
  have split: "set pend = set (take n pend) \<union> set (drop n pend)"
    by (metis append_take_drop_id set_append)
  have apart: "cu_id ` set (take n pend) \<inter> cu_id ` set (drop n pend) = {}"
    using assms(2) by (metis append_take_drop_id distinct_append map_append list.set_map)
  have fin: "settled m cur now s' (cu_id c) (resolve c)" if c: "c \<in> set pend" for c
  proof (cases "c \<in> set (take n pend)")
    case True
    then have "cu_id c \<notin> cu_id ` set (pending_customers m k1 s1)" using apart ids by auto
    with True assms(8) I show ?thesis by blast
  next
    case False
    with c split have "c \<in> set (drop n pend)" by blast
    then have "bandless c \<in> set (map bandless (pending_customers m k1 s1))"
      using assms(4) by (simp del: list.set_map)
    then obtain c' where "c' \<in> set (pending_customers m k1 s1)" "bandless c' = bandless c" by auto
    with I assms(10) [of c' c] show ?thesis by (metis bandless_simps(1))
  qed
  have kept: "settled m cur now s' cid rs"
    if "cid \<notin> cu_id ` set pend" "settled m cur now s cid rs" for cid rs
    using that assms(9) I split ids by (auto simp: image_Un)
  have "pt_customers t' = pt_customers t + length pend" using I len assms(7) by simp
  then show ?thesis using I assms(3,5,6) fin kept by (simp add: bulk_done_def)
qed

lemma bulk_loop:
  assumes "rescore_loop fuel (bulk_batch page (Tenant m) m resolve cur now n) n k t s = Some (s', Inr t')"
    and "distinct (map cu_id (customers s))" and "0 < n"
    and "k = None \<or> the k \<in> cu_id ` set (matching_customers m (\<lambda>c. True) s)"
    and "\<And>c c'. bandless c = bandless c' \<Longrightarrow> resolve c = resolve c'"
  shows "bulk_done m resolve cur now k t s t' s'"
  using assms(1,2,4)
proof (induction fuel arbitrary: k t s)
  case (Suc fuel)
  let ?cs = "take n (pending_customers m k s)"
  from Suc.prems(2) assms(3) Suc.prems(3) show ?case
  proof (cases rule: bulk_round [where resolve = resolve and cur = cur and now = now])
    case (fails e)
    with Suc.prems(1) show ?thesis by (simp add: transaction_def)
  next
    case (batch s1 b)
    note run = Suc.prems(1) [unfolded rescore_loop_round [where batch = "bulk_batch page (Tenant m) m resolve cur now n", OF batch(1)] batch(2,3)]
    have count: "pt_customers (add_batch t b) = pt_customers t + length ?cs"
      by (simp only: add_batch_def batch(2) pass_totals.select_convs)
    have fr: "pass_frame s1 = pass_frame s" by (rule bulk_customers_frame [OF batch(4)])
    show ?thesis
    proof (cases "length ?cs < n \<or> last_id ?cs = None")
      case True
      then have "?cs = pending_customers m k s"
        using \<open>0 < n\<close> by (auto simp: last_id_def dest: take_all_or_more split: if_splits)
      with True run batch count fr show ?thesis by (auto simp: bulk_done_def)
    next
      case False
      note nxt = next_round [OF Suc.prems(2) assms(3) batch(5) False]
      have "distinct (map cu_id (pending_customers m k s))"
        using matching_distinct [OF Suc.prems(2)] by (simp add: pending_customers_def distinct_map_filter)
      with Suc.IH [OF run [unfolded if_not_P [OF False]] nxt(3) disjI2 [OF nxt(2)]]
      show ?thesis
        by (rule bulk_done_compose [OF _ _ refl nxt(1) batch(5) fr count batch(6,7) assms(5)])
    qed
  qed
qed simp

lemma bulk_loop_ends:
  assumes "distinct (map cu_id (customers s))" and "0 < n"
    and "k = None \<or> the k \<in> cu_id ` set (matching_customers m (\<lambda>c. True) s)"
    and "length (pending_customers m k s) < fuel"
  shows "rescore_loop fuel (bulk_batch page (Tenant m) m resolve cur now n) n k t s \<noteq> None"
  using assms(1,3,4)
proof (induction fuel arbitrary: k t s)
  case (Suc fuel)
  let ?cs = "take n (pending_customers m k s)"
  from Suc.prems(1) assms(2) Suc.prems(2) show ?case
  proof (cases rule: bulk_round [where resolve = resolve and cur = cur and now = now])
    case (fails e)
    then show ?thesis by (simp add: transaction_def)
  next
    case (batch s1 b)
    show ?thesis
    proof (cases "length ?cs < n \<or> last_id ?cs = None")
      case True
      then show ?thesis unfolding rescore_loop_round [where batch = "bulk_batch page (Tenant m) m resolve cur now n", OF batch(1)] batch(2,3) if_P [OF True] by simp
    next
      case False
      note nxt = next_round [OF Suc.prems(1) assms(2) batch(5) False]
      have "length (pending_customers m (last_id ?cs) s1) < fuel"
        using arg_cong [OF nxt(1), of length] Suc.prems(3) nxt(4) assms(2) by simp
      with Suc.IH [OF nxt(3) disjI2 [OF nxt(2)]] show ?thesis
        unfolding rescore_loop_round [where batch = "bulk_batch page (Tenant m) m resolve cur now n", OF batch(1)] batch(2,3) if_not_P [OF False] by blast
    qed
  qed
qed simp

end

section \<open>bulkRescore\<close>

lemma resolve_in_pass_bandless:
  assumes "bandless c = bandless c'"
  shows "resolve_in_pass cohort bs now c = resolve_in_pass cohort bs now c'"
proof -
  have "resolve_in_pass cohort bs now (bandless c) = resolve_in_pass cohort bs now c" for c
    by (simp add: resolve_in_pass_def bandless_def reference_created_at_def Let_def split: option.split)
  with assms show ?thesis by metis
qed

lemma bulk_rescore_D:
  assumes "bulk_rescore fuel page (Tenant m) m actorId now n s = Some (s', Inr t)"
  obtains mr cohort bs s1 where "find_merchant s m = Some mr"
    and "read_cohort (Tenant m) m now s = Inr cohort" and "pass_boundaries cohort = Inr bs"
    and "rescore_loop fuel (bulk_batch page (Tenant m) m (resolve_in_pass cohort bs now) (currency_of mr) now n)
      n None no_totals s = Some (s1, Inr t)"
    and "finish_bulk (Tenant m) mr actorId now cohort t s1 = Inr (s', ())"
  using assms
  by (auto simp: bulk_rescore_def transaction_def split: option.splits sum.splits prod.splits)

lemma finish_bulk_frame:
  assumes "finish_bulk sc mr actorId now cohort t s = Inr (s', u)"
  shows "customers s' = customers s \<and> scores s' = scores s \<and> outbox s' = outbox s
    \<and> (\<forall>r \<in> set (merchants s'). me_id r = me_id mr \<longrightarrow> me_scoringInitializedAt r = Some now)
    \<and> length (audits s') = Suc (length (audits s))"
  using assms by (auto simp: finish_bulk_def set_update_many split: if_splits dest!: append_audit_D)

text \<open>
  C25. The first scoring pass is complete, whatever the database's cursor does within its
  documentation. When \<open>bulkRescore\<close> reports success, the number of customers it reports is
  the number of live customers of the merchant; each of them has the score computed against
  the boundaries of the pass and the band of that score; no event was emitted; and the gate
  is open.
\<close>

theorem bulk_rescore_covers:
  assumes "cursor_pager page"
    and "bulk_rescore fuel page (Tenant m) m actorId now n s = Some (s', Inr t)"
    and "distinct (map cu_id (customers s))" and "0 < n"
    and "read_cohort (Tenant m) m now s = Inr cohort" and "pass_boundaries cohort = Inr bs"
    and "find_merchant s m = Some mr"
  shows "pt_customers t
      = length (filter (\<lambda>c. cu_merchantId c = m \<and> cu_deletedAt c = None) (customers s))
    \<and> (\<forall>c \<in> set (customers s). cu_merchantId c = m \<and> cu_deletedAt c = None \<longrightarrow>
         mk_score_row m (cu_id c) (resolve_in_pass cohort bs now c) (currency_of mr) now \<in> set (scores s')
         \<and> (\<forall>c' \<in> set (customers s'). cu_id c' = cu_id c \<longrightarrow>
              cu_state c' = rs_newState (resolve_in_pass cohort bs now c)))
    \<and> outbox s' = outbox s
    \<and> (\<forall>r \<in> set (merchants s'). me_id r = m \<longrightarrow> me_scoringInitializedAt r = Some now)"
proof -
  let ?res = "resolve_in_pass cohort bs now"
  obtain s1 where loop: "rescore_loop fuel (bulk_batch page (Tenant m) m ?res (currency_of mr) now n)
      n None no_totals s = Some (s1, Inr t)"
    and fin: "finish_bulk (Tenant m) mr actorId now cohort t s1 = Inr (s', ())"
    by (rule bulk_rescore_D [OF assms(2)]) (use assms(5-7) in auto)
  have "bulk_done m ?res (currency_of mr) now None no_totals s t s1"
    by (rule cursor_pager.bulk_loop [OF assms(1) loop assms(3,4)]) (simp, erule resolve_in_pass_bandless)
  moreover have "pending_customers m None s = matching_customers m (\<lambda>c. True) s"
    by (simp add: pending_customers_def after_def)
  ultimately have "pt_customers t = length (matching_customers m (\<lambda>c. True) s)"
    and "\<forall>c \<in> set (matching_customers m (\<lambda>c. True) s). settled m (currency_of mr) now s1 (cu_id c) (?res c)"
    and "pass_frame s1 = pass_frame s"
    by (simp_all add: bulk_done_def no_totals_def)
  moreover have "me_id mr = m" by (rule find_merchant_id [OF assms(7)])
  ultimately show ?thesis using finish_bulk_frame [OF fin] pass_frame_D [of s1 s]
    by (auto simp: matching_set settled_def) (simp add: matching_customers_def)
qed

text \<open>
  C36. The pass ends: with as many rounds as there are live customers, and one more,
  \<open>bulkRescore\<close> returns (a result or an error), for any batch size that is not zero.
\<close>

theorem bulk_rescore_ends:
  assumes "cursor_pager page" and "distinct (map cu_id (customers s))" and "0 < n"
    and "length (filter (\<lambda>c. cu_merchantId c = m \<and> cu_deletedAt c = None) (customers s)) < fuel"
  shows "\<exists>s' r. bulk_rescore fuel page (Tenant m) m actorId now n s = Some (s', r)"
proof -
  have "length (pending_customers m None s) < fuel"
    using assms(4) by (simp add: pending_customers_def after_def matching_customers_def)
  then have "rescore_loop fuel (bulk_batch page (Tenant m) m res cur now n) n None no_totals s \<noteq> None"
    for res cur
    by (intro cursor_pager.bulk_loop_ends [OF assms(1-3)]) simp_all
  then show ?thesis
    unfolding bulk_rescore_def by (cases "find_merchant s m"; cases "read_cohort (Tenant m) m now s";
      cases "pass_boundaries (projr (read_cohort (Tenant m) m now s))")
      (auto split: option.split sum.split prod.split)
qed

lemma bulk_rescore_ends_witness:
  "\<exists>s' r. bulk_rescore 3 offset_page (Tenant ''m'') ''m'' ''worker'' 10 1 sample_db = Some (s', r)"
proof -
  have "distinct (map cu_id (customers sample_db))"
    "length (filter (\<lambda>c. cu_merchantId c = ''m'' \<and> cu_deletedAt c = None) (customers sample_db)) < 3"
    by code_simp+
  with bulk_rescore_ends [OF offset_cursor.cursor_pager_axioms, of sample_db 1 "''m''" 3] show ?thesis
    by simp
qed

lemma bulk_rescore_covers_witness:
  "\<exists>s' t. bulk_rescore 3 seek_page (Tenant ''m'') ''m'' ''worker'' 10 1 sample_db = Some (s', Inr t)
    \<and> pt_customers t = 2"
proof -
  have "case bulk_rescore 3 seek_page (Tenant ''m'') ''m'' ''worker'' 10 1 sample_db of
      Some (s', Inr t) \<Rightarrow> True | _ \<Rightarrow> False" by code_simp
  then obtain s' t where run: "bulk_rescore 3 seek_page (Tenant ''m'') ''m'' ''worker'' 10 1 sample_db = Some (s', Inr t)"
    unfolding case_Some_Inr by blast
  have d: "distinct (map cu_id (customers sample_db))"
    "length (filter (\<lambda>c. cu_merchantId c = ''m'' \<and> cu_deletedAt c = None) (customers sample_db)) = 2"
    by code_simp+
  have mr: "find_merchant sample_db ''m'' = Some sample_merchant"
    "read_cohort (Tenant ''m'') ''m'' 10 sample_db = Inr []" "pass_boundaries [] = Inr None"
    by (simp_all add: find_merchant_def find_row_Cons sample_db_def sample_merchant_def read_cohort_def
      empty_db_def pass_boundaries_def INSUFFICIENT_COHORT_THRESHOLD_def)
  from bulk_rescore_covers [OF seek.cursor_pager_axioms run d(1) _ mr(2,3,1)] run d(2) show ?thesis
    by auto
qed

section \<open>decayRescore\<close>

text \<open>
  The nightly pass is not complete for every cursor: with an offset-style cursor
  a customer whose band leaves the working set in one batch makes the
  next page skip the customer that took its place. Here \<open>b\<close> keeps the band \<open>Warm\<close>, while a
  cursor that seeks past the id settles both; every lurker of a small cohort belongs to
  \<open>InsufficientData\<close>.
\<close>

theorem decay_rescore_can_skip:
  "(\<exists>s' t. decay_rescore 9 offset_page (Tenant ''m'') (\<lambda>c. c) ''m'' ''w'' 10 1 sample_db = Some (s', Inr t)
      \<and> pt_customers t = 1 \<and> map cu_state (customers s') = [InsufficientData, Warm])
   \<and> (\<exists>s' t. decay_rescore 9 seek_page (Tenant ''m'') (\<lambda>c. c) ''m'' ''w'' 10 1 sample_db = Some (s', Inr t)
      \<and> pt_customers t = 2 \<and> map cu_state (customers s') = [InsufficientData, InsufficientData])"
proof -
  have "case decay_rescore 9 offset_page (Tenant ''m'') (\<lambda>c. c) ''m'' ''w'' 10 1 sample_db of
      Some (s', Inr t) \<Rightarrow> pt_customers t = 1 \<and> map cu_state (customers s') = [InsufficientData, Warm]
    | _ \<Rightarrow> False" by code_simp
  moreover have "case decay_rescore 9 seek_page (Tenant ''m'') (\<lambda>c. c) ''m'' ''w'' 10 1 sample_db of
      Some (s', Inr t) \<Rightarrow> pt_customers t = 2 \<and> map cu_state (customers s') = [InsufficientData, InsufficientData]
    | _ \<Rightarrow> False" by code_simp
  ultimately show ?thesis unfolding case_Some_Inr by blast
qed

end
