(* ===== verification/Outbox.thy ===== *)
theory Outbox
  imports ScoreService
begin

text \<open>
  The transactional outbox: \<open>OutboxRepository\<close> (\<open>packages/db\<close>) and the drainer's tick,
  event router and ordering policy (\<open>apps/drainer/src/drainer.ts\<close>, \<open>dispatch.ts\<close>,
  \<open>ordering.ts\<close>). The handlers are a parameter: each runs its own transactions against the
  database, on another connection than the drainer's, so its effects stay when the
  drainer's transaction rolls back. The claimed rows are locked until that transaction
  commits; the drainer's marks are therefore collected and applied to them at the commit.
\<close>

section \<open>OutboxRepository\<close>

definition require_system :: "tenant_scope \<Rightarrow> string \<Rightarrow> exn + unit" where
  "require_system sc what =
     (case sc of System _ \<Rightarrow> Inr ()
      | Tenant _ \<Rightarrow> Inl (PlainErr (''OutboxRepository.'' @ what @ '' requires system scope'')))"

definition publish_standalone ::
  "tenant_scope \<Rightarrow> string \<Rightarrow> merchant_id \<Rightarrow> outbox_event_type \<Rightarrow> outbox_payload \<Rightarrow> time \<Rightarrow> unit tx" where
  "publish_standalone sc eid m ty payload now s =
     rbind (assert_scope_matches_merchant (Some sc) m) (\<lambda>_.
       create_outbox sc eid m (event_string ty) payload now s)"

definition claimable :: "outbox_row \<Rightarrow> bool" where
  "claimable r \<longleftrightarrow> ob_processedAt r = None \<and> ob_deadLetteredAt r = None"

text \<open>
  \<open>FOR UPDATE SKIP LOCKED\<close>: the rows that another transaction holds are the parameter
  \<open>locked\<close>.
\<close>

definition claim_batch ::
  "tenant_scope \<Rightarrow> (string \<Rightarrow> bool) \<Rightarrow> nat \<Rightarrow> db \<Rightarrow> exn + outbox_row list" where
  "claim_batch sc locked limit s =
     rbind (require_system sc ''claimBatch'') (\<lambda>_.
       Inr (take limit (sort_key ob_createdAt
         (filter (\<lambda>r. claimable r \<and> \<not> locked (ob_id r)) (outbox s)))))"

text \<open>\<open>outboxEvent.update({ where: { id }, data })\<close>\<close>

definition update_event :: "string \<Rightarrow> (outbox_row \<Rightarrow> outbox_row) \<Rightarrow> unit tx" where
  "update_event eid f s =
     (if update_count (\<lambda>r. ob_id r = eid) (outbox s) = 0 then Inl record_not_found
      else Inr (s\<lparr>outbox := update_many (\<lambda>r. ob_id r = eid) f (outbox s)\<rparr>, ()))"

definition mark_processed :: "tenant_scope \<Rightarrow> time \<Rightarrow> string \<Rightarrow> unit tx" where
  "mark_processed sc now eid s =
     rbind (require_system sc ''markProcessed'') (\<lambda>_.
       update_event eid (\<lambda>r. r\<lparr>ob_processedAt := Some now\<rparr>) s)"

definition fail_change :: "string \<Rightarrow> outbox_row \<Rightarrow> outbox_row" where
  "fail_change err r = r\<lparr>ob_attempts := ob_attempts r + 1, ob_lastError := Some (take 1000 err)\<rparr>"

definition mark_failed :: "tenant_scope \<Rightarrow> string \<Rightarrow> string \<Rightarrow> unit tx" where
  "mark_failed sc eid err s =
     rbind (require_system sc ''markFailed'') (\<lambda>_. update_event eid (fail_change err) s)"

definition dead_change :: "time \<Rightarrow> string \<Rightarrow> outbox_row \<Rightarrow> outbox_row" where
  "dead_change now err r = r\<lparr>ob_deadLetteredAt := Some now, ob_attempts := ob_attempts r + 1,
     ob_lastError := Some (take 1000 err)\<rparr>"

text \<open>The result is \<open>wasAlreadyDeadLettered\<close>.\<close>

definition mark_dead_lettered :: "tenant_scope \<Rightarrow> time \<Rightarrow> string \<Rightarrow> string \<Rightarrow> bool tx" where
  "mark_dead_lettered sc now eid err s =
     rbind (require_system sc ''markDeadLettered'') (\<lambda>_.
       let guard = (\<lambda>r. ob_id r = eid \<and> ob_deadLetteredAt r = None) in
       Inr (s\<lparr>outbox := update_many guard (dead_change now err) (outbox s)\<rparr>,
            update_count guard (outbox s) = 0))"

definition mark_deferred_failed :: "tenant_scope \<Rightarrow> time \<Rightarrow> string \<Rightarrow> string \<Rightarrow> unit tx" where
  "mark_deferred_failed sc now eid err s =
     rbind (require_system sc ''markDeferredFailed'') (\<lambda>_.
       update_event eid (\<lambda>r. r\<lparr>ob_deferredFailedAt := Some now, ob_lastError := Some (take 1000 err)\<rparr>) s)"

definition requeue_change :: "outbox_row \<Rightarrow> outbox_row" where
  "requeue_change r = r\<lparr>ob_deadLetteredAt := None, ob_attempts := 0, ob_lastError := None\<rparr>"

text \<open>The result is \<open>wasDeadLettered\<close>.\<close>

definition requeue_dead_lettered :: "tenant_scope \<Rightarrow> string \<Rightarrow> bool tx" where
  "requeue_dead_lettered sc eid s =
     rbind (require_system sc ''requeueDeadLettered'') (\<lambda>_.
       let guard = (\<lambda>r. ob_id r = eid \<and> ob_deadLetteredAt r \<noteq> None) in
       Inr (s\<lparr>outbox := update_many guard requeue_change (outbox s)\<rparr>,
            update_count guard (outbox s) > 0))"

section \<open>Routing\<close>

text \<open>The handlers the router can call; those of one group share a function.\<close>

datatype handler = HMerchantInstalled | HMerchantUninstalled | HNoop | HCustomerCreated
  | HCustomerUpdated | HCustomerDeleted | HCustomerStateChanged | HOrderPlaced | HOrderUpdated
  | HOrderNoop | HDataRequested | HCustomerRedacted | HShopRedacted

fun route :: "outbox_event_type \<Rightarrow> handler" where
  "route MerchantInstalled = HMerchantInstalled"
| "route MerchantUninstalled = HMerchantUninstalled"
| "route MerchantNeedsReauth = HNoop"
| "route MerchantShopDetailsFetched = HNoop"
| "route MerchantBackfillCompleted = HNoop"
| "route MerchantScopesUpdated = HNoop"
| "route CustomerCreated = HCustomerCreated"
| "route CustomerUpdated = HCustomerUpdated"
| "route CustomerDeleted = HCustomerDeleted"
| "route CustomerRedacted = HNoop"
| "route CustomerStateChanged = HCustomerStateChanged"
| "route OrderPlaced = HOrderPlaced"
| "route OrderUpdated = HOrderUpdated"
| "route OrderCancelled = HOrderNoop"
| "route OrderRefunded = HOrderNoop"
| "route ProductCreated = HNoop"
| "route ProductUpdated = HNoop"
| "route ProductDeleted = HNoop"
| "route GdprCustomerDataRequested = HDataRequested"
| "route GdprCustomerRedacted = HCustomerRedacted"
| "route GdprShopRedacted = HShopRedacted"

type_synonym handlers = "handler \<Rightarrow> outbox_row \<Rightarrow> db \<Rightarrow> db \<times> (exn + unit)"

definition dispatch_event :: "handlers \<Rightarrow> outbox_row \<Rightarrow> db \<Rightarrow> db \<times> (exn + unit)" where
  "dispatch_event hs row s =
     (case parse_event_type (ob_type row) of
        None \<Rightarrow> (s, Inl (AppErr (validation_error (''Unknown outbox event type: '' @ ob_type row) None
                 (Some [(''type'', ob_type row), (''eventId'', ob_id row)]))))
      | Some ty \<Rightarrow> hs (route ty) row s)"

definition MARK_BEFORE_INVOKE_EVENTS :: "outbox_event_type list" where
  "MARK_BEFORE_INVOKE_EVENTS = [GdprShopRedacted, MerchantInstalled]"

definition mark_before_invoke :: "string \<Rightarrow> bool" where
  "mark_before_invoke ty = List.member (map event_string MARK_BEFORE_INVOKE_EVENTS) ty"

section \<open>The tick\<close>

datatype mark = Processed | Failed string | DeadLettered string

definition run_mark :: "tenant_scope \<Rightarrow> time \<Rightarrow> string \<times> mark \<Rightarrow> unit tx" where
  "run_mark sc now im s =
     (case im of (eid, k) \<Rightarrow> (case k of
        Processed \<Rightarrow> mark_processed sc now eid s
      | Failed e \<Rightarrow> mark_failed sc eid e s
      | DeadLettered e \<Rightarrow> rbind (mark_dead_lettered sc now eid e s) (\<lambda>(s1, _). Inr (s1, ()))))"

fun run_marks :: "tenant_scope \<Rightarrow> time \<Rightarrow> (string \<times> mark) list \<Rightarrow> unit tx" where
  "run_marks sc now [] s = Inr (s, ())"
| "run_marks sc now (k # ks) s = rbind (run_mark sc now k s) (\<lambda>(s1, _). run_marks sc now ks s1)"

definition failure_mark :: "outbox_row \<Rightarrow> exn \<Rightarrow> mark" where
  "failure_mark row err =
     (let nextAttempts = ob_attempts row + 1;
          shouldDeadLetter = (\<not> is_retryable err \<or> nextAttempts \<ge> MAX_OUTBOX_ATTEMPTS)
      in if shouldDeadLetter then DeadLettered (exn_message err) else Failed (exn_message err))"

text \<open>The loop over the claimed rows: the marks to write and the rows to run after the commit.\<close>

type_synonym dispatcher = "outbox_row \<Rightarrow> db \<Rightarrow> db \<times> (exn + unit)"

fun drain_rows :: "dispatcher \<Rightarrow> outbox_row list \<Rightarrow> db \<Rightarrow> db \<times> (string \<times> mark) list \<times> outbox_row list" where
  "drain_rows dispatch [] s = (s, [], [])"
| "drain_rows dispatch (row # rows) s =
     (if mark_before_invoke (ob_type row)
      then (case drain_rows dispatch rows s of (s', ms, ds) \<Rightarrow> (s', (ob_id row, Processed) # ms, row # ds))
      else (case dispatch row s of (s1, r) \<Rightarrow>
        (case drain_rows dispatch rows s1 of (s', ms, ds) \<Rightarrow>
          (s', (ob_id row, case r of Inr _ \<Rightarrow> Processed | Inl err \<Rightarrow> failure_mark row err) # ms, ds))))"

fun run_deferred :: "dispatcher \<Rightarrow> tenant_scope \<Rightarrow> time \<Rightarrow> outbox_row list \<Rightarrow> db \<Rightarrow> db" where
  "run_deferred dispatch sc now [] s = s"
| "run_deferred dispatch sc now (row # rows) s =
     (case dispatch row s of
        (s1, Inr _) \<Rightarrow> run_deferred dispatch sc now rows s1
      | (s1, Inl err) \<Rightarrow> run_deferred dispatch sc now rows
          (fst (transaction (mark_deferred_failed sc now (ob_id row) (exn_message err)) s1)))"

record tick_result =
  ti_claimed :: nat
  ti_hasMore :: bool

text \<open>The transaction of the tick: claim, dispatch, mark, commit.\<close>

definition drain_tx ::
  "dispatcher \<Rightarrow> (string \<Rightarrow> bool) \<Rightarrow> nat \<Rightarrow> time \<Rightarrow> db \<Rightarrow> db \<times> (exn + outbox_row list \<times> outbox_row list)" where
  "drain_tx dispatch locked batchSize now s =
     (let sc = System ''outbox.drain'' in
      case claim_batch sc locked batchSize s of
        Inl e \<Rightarrow> (s, Inl e)
      | Inr rows \<Rightarrow>
          (case drain_rows dispatch rows s of (s1, ms, ds) \<Rightarrow>
            (case transaction (run_marks sc now ms) s1 of
               (s2, Inl e) \<Rightarrow> (s2, Inl e)
             | (s2, Inr _) \<Rightarrow> (s2, Inr (rows, ds)))))"

definition run_drain_tick ::
  "dispatcher \<Rightarrow> (string \<Rightarrow> bool) \<Rightarrow> nat \<Rightarrow> time \<Rightarrow> db \<Rightarrow> db \<times> (exn + tick_result)" where
  "run_drain_tick dispatch locked batchSize now s =
     (case drain_tx dispatch locked batchSize now s of
        (s2, Inl e) \<Rightarrow> (s2, Inl e)
      | (s2, Inr (rows, ds)) \<Rightarrow>
          (run_deferred dispatch (System ''outbox.drain'') now ds s2,
           Inr \<lparr>ti_claimed = length rows, ti_hasMore = (length rows = batchSize)\<rparr>))"

section \<open>The updates as compare-and-sets\<close>

interpretation dead_letter: guarded_update ob_id "\<lambda>r. ob_deadLetteredAt r \<noteq> None" "\<lambda>r. True"
  "dead_change now err" "{False}" True eid for now err eid
  by unfold_locales (simp_all add: dead_change_def)

interpretation requeue: guarded_update ob_id "\<lambda>r. ob_deadLetteredAt r \<noteq> None" "\<lambda>r. True"
  requeue_change "{True}" False eid for eid
  by unfold_locales (simp_all add: requeue_change_def)

end
