(* ===== verification/OutboxFacts.thy ===== *)
theory OutboxFacts
  imports Outbox
begin

text \<open>
  What a drainer tick does to the outbox: the order of claims, the fate of every claimed
  row, the bound on delivery attempts as an invariant of all interleavings of publishing,
  ticking and requeueing, and the dead-letter round trip.
\<close>

section \<open>Claims\<close>

lemma claim_batch_D:
  "claim_batch sc locked n s = Inr rows \<Longrightarrow>
    rows = take n (sort_key ob_createdAt (filter (\<lambda>r. claimable r \<and> \<not> locked (ob_id r)) (outbox s)))"
  by (auto simp: claim_batch_def)

lemma claim_batch_set:
  assumes "claim_batch sc locked n s = Inr rows" and "r \<in> set rows"
  shows "r \<in> set (outbox s)" and "claimable r" and "\<not> locked (ob_id r)"
  using assms by (auto dest!: claim_batch_D in_set_takeD)

lemma claim_batch_distinct:
  assumes "claim_batch sc locked n s = Inr rows" and "distinct (map ob_id (outbox s))"
  shows "distinct (map ob_id rows)"
proof -
  have "distinct (map ob_id (sort_key ob_createdAt (filter (\<lambda>r. claimable r \<and> \<not> locked (ob_id r)) (outbox s))))"
    using assms(2) by (auto simp: distinct_map inj_on_def)
  then show ?thesis unfolding claim_batch_D [OF assms(1)] take_map [symmetric] by (rule distinct_take)
qed

text \<open>
  The drainer claims the oldest deliverable rows: never a processed, a dead-lettered
  or a locked one, at most the batch size, in the order of creation, and any deliverable row
  it leaves behind is no older than the ones it took, which then fill the batch.
\<close>

theorem claims_are_oldest_first:
  assumes "claim_batch sc locked n s = Inr rows"
  shows "length rows \<le> n \<and> sorted (map ob_createdAt rows)
    \<and> (\<forall>r \<in> set rows. r \<in> set (outbox s) \<and> ob_processedAt r = None \<and> ob_deadLetteredAt r = None
          \<and> \<not> locked (ob_id r))
    \<and> (\<forall>r' \<in> set (outbox s). claimable r' \<and> \<not> locked (ob_id r') \<and> r' \<notin> set rows \<longrightarrow>
          length rows = n \<and> (\<forall>r \<in> set rows. ob_createdAt r \<le> ob_createdAt r'))"
proof -
  let ?all = "sort_key ob_createdAt (filter (\<lambda>r. claimable r \<and> \<not> locked (ob_id r)) (outbox s))"
  have rows: "rows = take n ?all" by (rule claim_batch_D [OF assms])
  have s: "sorted (map ob_createdAt ?all)" by simp
  have left: "length rows = n \<and> (\<forall>r \<in> set rows. ob_createdAt r \<le> ob_createdAt r')"
    if r': "r' \<in> set (outbox s)" "claimable r'" "\<not> locked (ob_id r')" "r' \<notin> set rows" for r'
  proof -
    have "r' \<in> set (take n ?all @ drop n ?all)" using r' by simp
    then have r: "r' \<in> set (drop n ?all)" using r'(4) unfolding set_append rows by blast
    then have "length rows = n" unfolding rows by (cases "length ?all \<le> n") auto
    moreover have "sorted (map ob_createdAt (take n ?all) @ map ob_createdAt (drop n ?all))"
      using s by (simp only: map_append [symmetric] append_take_drop_id)
    then have "\<forall>r \<in> set (take n ?all). \<forall>r' \<in> set (drop n ?all). ob_createdAt r \<le> ob_createdAt r'"
      unfolding sorted_append by auto
    with r have "\<forall>r \<in> set (take n ?all). ob_createdAt r \<le> ob_createdAt r'" by blast
    ultimately show ?thesis by (simp only: rows [symmetric] simp_thms)
  qed
  have "sorted (map ob_createdAt rows)" unfolding rows take_map [symmetric] by (intro sorted_wrt_take s)
  moreover have "length rows \<le> n" unfolding rows by simp
  ultimately show ?thesis using left claim_batch_set [OF assms] by (auto simp: claimable_def)
qed

section \<open>Marks\<close>

fun mark_row :: "time \<Rightarrow> mark \<Rightarrow> outbox_row \<Rightarrow> outbox_row" where
  "mark_row now Processed r = r\<lparr>ob_processedAt := Some now\<rparr>"
| "mark_row now (Failed e) r = fail_change e r"
| "mark_row now (DeadLettered e) r = (if ob_deadLetteredAt r = None then dead_change now e r else r)"

lemma mark_row_id [simp]: "ob_id (mark_row now k r) = ob_id r"
  by (cases k) (simp_all add: fail_change_def dead_change_def)

lemma require_system_simp [simp]: "require_system (System q) w = Inr ()"
  by (simp add: require_system_def)

lemma run_mark_eq:
  assumes "eid \<in> ob_id ` set (outbox s)"
  shows "run_mark (System q) now (eid, k) s
    = Inr (s\<lparr>outbox := update_many (\<lambda>r. ob_id r = eid) (mark_row now k) (outbox s)\<rparr>, ())"
proof -
  have "update_count (\<lambda>r. ob_id r = eid) (outbox s) \<noteq> 0" using assms by (auto simp: update_count_0_iff)
  then show ?thesis
    by (cases k) (auto simp: run_mark_def mark_processed_def mark_failed_def mark_dead_lettered_def
        update_event_def update_many_def Let_def fail_change_def)
qed

lemma run_marks_eq:
  assumes "fst ` set ms \<subseteq> ob_id ` set (outbox s)" and "distinct (map fst ms)"
  shows "run_marks (System q) now ms s
    = Inr (s\<lparr>outbox := map (\<lambda>r. case map_of ms (ob_id r) of None \<Rightarrow> r | Some k \<Rightarrow> mark_row now k r) (outbox s)\<rparr>, ())"
  using assms
proof (induction ms arbitrary: s)
  case (Cons im ms)
  obtain eid k where im: "im = (eid, k)" by (cases im)
  let ?s = "s\<lparr>outbox := update_many (\<lambda>r. ob_id r = eid) (mark_row now k) (outbox s)\<rparr>"
  have ids: "ob_id ` set (outbox ?s) = ob_id ` set (outbox s)"
    by (simp add: image_update_many)
  from Cons.prems have "run_mark (System q) now im s = Inr (?s, ())"
    unfolding im by (intro run_mark_eq) auto
  moreover have "run_marks (System q) now ms ?s = Inr (?s\<lparr>outbox :=
      map (\<lambda>r. case map_of ms (ob_id r) of None \<Rightarrow> r | Some k \<Rightarrow> mark_row now k r) (outbox ?s)\<rparr>, ())"
  proof (rule Cons.IH)
    show "fst ` set ms \<subseteq> ob_id ` set (outbox ?s)" unfolding ids using Cons.prems(1) by simp
    show "distinct (map fst ms)" using Cons.prems(2) by simp
  qed
  moreover have "map_of ms eid = None" using Cons.prems(2) by (auto simp: im map_of_eq_None_iff)
  ultimately show ?case
    by (simp add: im update_many_def o_def)
qed simp

section \<open>The transaction\<close>

text \<open>
  What the drainer relies on in a handler: it does not touch rows of the outbox that exist
  (those of the batch are locked), the rows it adds are new and undelivered. The handler of a
  mark-before-invoke event may delete rows.
\<close>

definition fresh_event :: "outbox_row \<Rightarrow> bool" where
  "fresh_event r \<longleftrightarrow> ob_attempts r = 0 \<and> claimable r"

definition good_dispatch :: "dispatcher \<Rightarrow> bool" where
  "good_dispatch d \<longleftrightarrow> (\<forall>row s.
     (if mark_before_invoke (ob_type row)
      then \<forall>r \<in> set (outbox (fst (d row s))). r \<in> set (outbox s) \<or> fresh_event r
      else \<exists>new. outbox (fst (d row s)) = outbox s @ new \<and> (\<forall>r \<in> set new. fresh_event r))
     \<and> (distinct (map ob_id (outbox s)) \<longrightarrow> distinct (map ob_id (outbox (fst (d row s))))))"

lemma good_dispatch_appends:
  "good_dispatch d \<Longrightarrow> \<not> mark_before_invoke (ob_type row) \<Longrightarrow>
    \<exists>new. outbox (fst (d row s)) = outbox s @ new \<and> (\<forall>r \<in> set new. fresh_event r)"
  unfolding good_dispatch_def by (elim allE [of _ row] allE [of _ s]) simp

lemma good_dispatch_distinct:
  "good_dispatch d \<Longrightarrow> distinct (map ob_id (outbox s)) \<Longrightarrow> distinct (map ob_id (outbox (fst (d row s))))"
  unfolding good_dispatch_def by blast

text \<open>The mark that a row gets, from the result of its handler.\<close>

definition row_mark :: "dispatcher \<Rightarrow> outbox_row \<Rightarrow> db \<Rightarrow> mark" where
  "row_mark d row s = (if mark_before_invoke (ob_type row) then Processed
     else case snd (d row s) of Inr _ \<Rightarrow> Processed | Inl err \<Rightarrow> failure_mark row err)"

lemma drain_rows_spec:
  assumes "good_dispatch d" and "drain_rows d rows s = (s', ms, ds)"
    and "distinct (map ob_id (outbox s))"
  shows "(\<exists>new. outbox s' = outbox s @ new \<and> (\<forall>r \<in> set new. fresh_event r))
    \<and> distinct (map ob_id (outbox s')) \<and> map fst ms = map ob_id rows
    \<and> ds = filter (\<lambda>r. mark_before_invoke (ob_type r)) rows
    \<and> list_all2 (\<lambda>r im. \<exists>sr. snd im = row_mark d r sr) rows ms"
  using assms(2,3)
proof (induction rows arbitrary: s s' ms ds)
  case (Cons row rows)
  show ?case
  proof (cases "mark_before_invoke (ob_type row)")
    case True
    obtain s2 ms2 ds2 where rec: "drain_rows d rows s = (s2, ms2, ds2)" by (cases "drain_rows d rows s")
    with Cons.prems(1) True have eq: "s' = s2" "ms = (ob_id row, Processed) # ms2" "ds = row # ds2" by simp_all
    from Cons.IH [OF rec Cons.prems(2)] show ?thesis by (simp add: eq True row_mark_def)
  next
    case False
    obtain s1 r where d: "d row s = (s1, r)" by (cases "d row s")
    obtain s2 ms2 ds2 where rec: "drain_rows d rows s1 = (s2, ms2, ds2)" by (cases "drain_rows d rows s1")
    from Cons.prems(1) False d rec have eq: "s' = s2" "ds = ds2"
      "ms = (ob_id row, row_mark d row s) # ms2" by (simp_all add: row_mark_def)
    have "distinct (map ob_id (outbox s1))"
      using good_dispatch_distinct [OF assms(1) Cons.prems(2), of row] d by simp
    from Cons.IH [OF rec this] good_dispatch_appends [OF assms(1) False, of s] d show ?thesis
      by (auto simp: eq False)
  qed
qed simp

lemma drain_tx_spec:
  assumes "good_dispatch d" and "distinct (map ob_id (outbox s))"
  obtains rows s1 ms new where
    "claim_batch (System ''outbox.drain'') locked n s = Inr rows"
    and "drain_tx d locked n now s
      = (s1\<lparr>outbox := map (\<lambda>r. case map_of ms (ob_id r) of None \<Rightarrow> r | Some k \<Rightarrow> mark_row now k r)
           (outbox s @ new)\<rparr>,
         Inr (rows, filter (\<lambda>r. mark_before_invoke (ob_type r)) rows))"
    and "\<forall>r \<in> set new. fresh_event r" and "distinct (map ob_id (outbox s @ new))"
    and "map fst ms = map ob_id rows"
    and "list_all2 (\<lambda>r im. \<exists>sr. snd im = row_mark d r sr) rows ms"
proof -
  let ?q = "''outbox.drain''"
  obtain rows where claim: "claim_batch (System ?q) locked n s = Inr rows"
    by (auto simp: claim_batch_def)
  obtain s1 ms ds where dr: "drain_rows d rows s = (s1, ms, ds)" by (cases "drain_rows d rows s")
  obtain new where new: "outbox s1 = outbox s @ new" "\<forall>r \<in> set new. fresh_event r"
    and rest: "distinct (map ob_id (outbox s1))" "map fst ms = map ob_id rows"
      "ds = filter (\<lambda>r. mark_before_invoke (ob_type r)) rows"
      "list_all2 (\<lambda>r im. \<exists>sr. snd im = row_mark d r sr) rows ms"
    using drain_rows_spec [OF assms(1) dr assms(2)] by blast
  have sub: "fst ` set ms \<subseteq> ob_id ` set (outbox s1)"
    using claim_batch_set(1) [OF claim] arg_cong [OF rest(2), of set] new(1) by auto
  have dist: "distinct (map fst ms)" using claim_batch_distinct [OF claim assms(2)] rest(2) by simp
  have "drain_tx d locked n now s
      = (s1\<lparr>outbox := map (\<lambda>r. case map_of ms (ob_id r) of None \<Rightarrow> r | Some k \<Rightarrow> mark_row now k r) (outbox s1)\<rparr>,
         Inr (rows, ds))"
    using run_marks_eq [OF sub dist, of ?q now]
    by (simp add: drain_tx_def claim dr transaction_def)
  with that [OF claim] new rest show thesis by simp
qed

lemma list_all2_map_of:
  assumes "list_all2 P rows ms" and "map fst ms = map f rows" and "distinct (map f rows)" and "r \<in> set rows"
  shows "\<exists>k. map_of ms (f r) = Some k \<and> P r (f r, k)"
  using assms
proof (induction rows ms rule: list_all2_induct)
  case (Cons x xs y ys)
  then show ?case by (cases y) (auto simp: image_iff)
qed simp

text \<open>
  C7. The fate of a claimed row. The tick's transaction always commits, and after it every
  claimed row is processed if its type is marked before invoking (then its handler runs
  after the commit) or its handler succeeded; if the handler threw, the row is dead-lettered
  when the error is not retryable or this was the last attempt, and otherwise has one more
  attempt and stays deliverable. One failing row does not keep the others from their fate,
  and no other row of the outbox changes.
\<close>

theorem drain_fate:
  assumes "good_dispatch d" and "distinct (map ob_id (outbox s))"
    and "claim_batch (System ''outbox.drain'') locked n s = Inr rows"
  shows "\<exists>s2 ds. drain_tx d locked n now s = (s2, Inr (rows, ds))
    \<and> (\<forall>r \<in> set rows.
        if mark_before_invoke (ob_type r)
        then r \<in> set ds \<and> r\<lparr>ob_processedAt := Some now\<rparr> \<in> set (outbox s2)
        else \<exists>sr. (case snd (d r sr) of
            Inr _ \<Rightarrow> r\<lparr>ob_processedAt := Some now\<rparr> \<in> set (outbox s2)
          | Inl e \<Rightarrow> (if is_retryable e \<and> ob_attempts r + 1 < 10
                    then fail_change (exn_message e) r \<in> set (outbox s2)
                    else dead_change now (exn_message e) r \<in> set (outbox s2))))
    \<and> (\<forall>r \<in> set (outbox s). r \<notin> set rows \<longrightarrow> r \<in> set (outbox s2))"
proof -
  obtain s2 ms new where
    tx: "drain_tx d locked n now s
      = (s2, Inr (rows, filter (\<lambda>r. mark_before_invoke (ob_type r)) rows))" (is "_ = (_, Inr (_, ?ds))")
    and s2: "outbox s2 = map (\<lambda>r. case map_of ms (ob_id r) of None \<Rightarrow> r | Some k \<Rightarrow> mark_row now k r)
           (outbox s @ new)"
    and ids: "map fst ms = map ob_id rows"
    and marks: "list_all2 (\<lambda>r im. \<exists>sr. snd im = row_mark d r sr) rows ms"
    by (rule drain_tx_spec [OF assms(1,2), of locked n now]) (use assms(3) in auto)
  have dist: "distinct (map ob_id rows)" by (rule claim_batch_distinct [OF assms(3,2)])
  have hit: "\<exists>sr. mark_row now (row_mark d r sr) r \<in> set (outbox s2)" if "r \<in> set rows" for r
  proof -
    from list_all2_map_of [OF marks ids dist that] obtain sr where
      "map_of ms (ob_id r) = Some (row_mark d r sr)" by auto
    then have "mark_row now (row_mark d r sr) r \<in> set (outbox s2)"
      using claim_batch_set(1) [OF assms(3) that] by (auto simp: s2 intro!: image_eqI [of _ _ r])
    then show ?thesis ..
  qed
  have live: "ob_deadLetteredAt r = None" if "r \<in> set rows" for r
    using claim_batch_set(2) [OF assms(3) that] by (simp add: claimable_def)
  have fate: "if mark_before_invoke (ob_type r)
        then r \<in> set ?ds \<and> r\<lparr>ob_processedAt := Some now\<rparr> \<in> set (outbox s2)
        else \<exists>sr. (case snd (d r sr) of
            Inr _ \<Rightarrow> r\<lparr>ob_processedAt := Some now\<rparr> \<in> set (outbox s2)
          | Inl e \<Rightarrow> (if is_retryable e \<and> ob_attempts r + 1 < 10
                    then fail_change (exn_message e) r \<in> set (outbox s2)
                    else dead_change now (exn_message e) r \<in> set (outbox s2)))"
    if r: "r \<in> set rows" for r
  proof -
    obtain sr where "mark_row now (row_mark d r sr) r \<in> set (outbox s2)" using hit [OF r] ..
    then show ?thesis
      using r live [OF r] by (cases "snd (d r sr)")
        (auto simp: row_mark_def failure_mark_def MAX_OUTBOX_ATTEMPTS_def Let_def not_less
          intro!: exI [of _ sr] split: if_splits)
  qed
  have keep: "r \<in> set (outbox s2)" if "r \<in> set (outbox s)" "r \<notin> set rows" for r
  proof -
    have "ob_id r \<notin> ob_id ` set rows"
      using that assms(2) claim_batch_set(1) [OF assms(3)] by (auto simp: distinct_map inj_on_def)
    then have "map_of ms (ob_id r) = None"
      using arg_cong [OF ids, of set] by (simp add: map_of_eq_None_iff)
    with that(1) show ?thesis by (auto simp: s2 intro!: image_eqI [of _ _ r])
  qed
  show ?thesis using tx fate keep by blast
qed

text \<open>A dispatcher for examples: events of type \<open>customer.updated\<close> fail, the others succeed.\<close>

definition sample_dispatch :: dispatcher where
  "sample_dispatch row s =
     (s, if ob_type row = ''customer.updated'' then Inl (PlainErr ''boom'') else Inr ())"

lemma sample_dispatch_good: "good_dispatch sample_dispatch"
  by (simp add: good_dispatch_def sample_dispatch_def)

definition sample_event :: "string \<Rightarrow> string \<Rightarrow> nat \<Rightarrow> outbox_row" where
  "sample_event eid ty n = \<lparr>ob_id = eid, ob_merchantId = ''m'', ob_type = ty,
     ob_payload = JsonPayload JNull, ob_createdAt = int n, ob_processedAt = None, ob_attempts = n,
     ob_lastError = None, ob_deadLetteredAt = None, ob_deferredFailedAt = None\<rparr>"

definition sample_outbox :: db where
  "sample_outbox = empty_db\<lparr>outbox :=
     [sample_event ''a'' ''customer.updated'' 9, sample_event ''b'' ''order.placed'' 0,
      sample_event ''c'' ''customer.updated'' 3]\<rparr>"

lemma sample_claim:
  "claim_batch (System ''outbox.drain'') (\<lambda>_. False) 2 sample_outbox
    = Inr [sample_event ''b'' ''order.placed'' 0, sample_event ''c'' ''customer.updated'' 3]"
  by (simp add: claim_batch_def sample_outbox_def sample_event_def claimable_def)

lemma claims_are_oldest_first_witness:
  "claim_batch (System ''outbox.drain'') (\<lambda>_. False) 2 sample_outbox
     = Inr [sample_event ''b'' ''order.placed'' 0, sample_event ''c'' ''customer.updated'' 3]
   \<and> ob_createdAt (sample_event ''c'' ''customer.updated'' 3) \<le> ob_createdAt (sample_event ''a'' ''customer.updated'' 9)"
  using claims_are_oldest_first [OF sample_claim] sample_claim
  by (auto simp: sample_outbox_def sample_event_def claimable_def)

lemma drain_fate_witness:
  "\<exists>s2 ds. drain_tx sample_dispatch (\<lambda>_. False) 2 50 sample_outbox
     = (s2, Inr ([sample_event ''b'' ''order.placed'' 0, sample_event ''c'' ''customer.updated'' 3], ds))
   \<and> fail_change ''boom'' (sample_event ''c'' ''customer.updated'' 3) \<in> set (outbox s2)
   \<and> sample_event ''a'' ''customer.updated'' 9 \<in> set (outbox s2)"
proof -
  have d: "distinct (map ob_id (outbox sample_outbox))"
    and a: "sample_event ''a'' ''customer.updated'' 9 \<in> set (outbox sample_outbox)"
    by (simp_all add: sample_outbox_def sample_event_def)
  have c: "ob_type (sample_event ''c'' ''customer.updated'' 3) = ''customer.updated''"
    "ob_attempts (sample_event ''c'' ''customer.updated'' 3) = 3"
    "snd (sample_dispatch (sample_event ''c'' ''customer.updated'' 3) sr) = Inl (PlainErr ''boom'')" for sr
    by (simp_all add: sample_event_def sample_dispatch_def)
  have mb: "\<not> mark_before_invoke ''customer.updated''"
    by (simp add: mark_before_invoke_def MARK_BEFORE_INVOKE_EVENTS_def)
  have ne: "sample_event ''a'' ''customer.updated'' 9 \<noteq> sample_event ''c'' ''customer.updated'' 3"
    "sample_event ''a'' ''customer.updated'' 9 \<noteq> sample_event ''b'' ''order.placed'' 0"
    by (simp_all add: sample_event_def)
  obtain s2 ds where
    "drain_tx sample_dispatch (\<lambda>_. False) 2 50 sample_outbox
     = (s2, Inr ([sample_event ''b'' ''order.placed'' 0, sample_event ''c'' ''customer.updated'' 3], ds))"
    "fail_change ''boom'' (sample_event ''c'' ''customer.updated'' 3) \<in> set (outbox s2)"
    "\<forall>r \<in> set (outbox sample_outbox).
       r \<notin> set [sample_event ''b'' ''order.placed'' 0, sample_event ''c'' ''customer.updated'' 3] \<longrightarrow> r \<in> set (outbox s2)"
    using drain_fate [OF sample_dispatch_good d sample_claim, of 50] c mb by auto
  with a ne show ?thesis by auto
qed

section \<open>The attempts budget\<close>

definition attempts_ok :: "outbox_row \<Rightarrow> bool" where
  "attempts_ok r \<longleftrightarrow> ob_attempts r \<le> MAX_OUTBOX_ATTEMPTS
     \<and> (claimable r \<longrightarrow> ob_attempts r < MAX_OUTBOX_ATTEMPTS)"

definition outbox_inv :: "db \<Rightarrow> bool" where
  "outbox_inv s \<longleftrightarrow> distinct (map ob_id (outbox s)) \<and> (\<forall>r \<in> set (outbox s). attempts_ok r)"

text \<open>
  What happens to the outbox: a row is published under a new id, a drainer ticks (any
  replica, with any locks, any handlers), an operator requeues a dead letter.
\<close>

inductive outbox_step :: "db \<Rightarrow> db \<Rightarrow> bool" where
  step_publish: "publish_standalone sc eid m ty payload now s = Inr (s', u) \<Longrightarrow>
    eid \<notin> ob_id ` set (outbox s) \<Longrightarrow> outbox_step s s'"
| step_tick: "good_dispatch d \<Longrightarrow> run_drain_tick d locked n now s = (s', r) \<Longrightarrow> outbox_step s s'"
| step_requeue: "requeue_dead_lettered sc eid s = Inr (s', b) \<Longrightarrow> outbox_step s s'"

lemma fresh_ok: "fresh_event r \<Longrightarrow> attempts_ok r"
  by (simp add: fresh_event_def attempts_ok_def MAX_OUTBOX_ATTEMPTS_def)

lemma mark_row_ok:
  assumes "attempts_ok r" and "claimable r"
  shows "attempts_ok (mark_row now (row_mark d r sr) r)"
  using assms by (cases "snd (d r sr)")
    (auto simp: attempts_ok_def row_mark_def failure_mark_def claimable_def fail_change_def dead_change_def
      Let_def not_le split: if_splits)

lemma drain_tx_inv:
  assumes "good_dispatch d" and "outbox_inv s" and "drain_tx d locked n now s = (s2, Inr (rows, ds))"
  shows "outbox_inv s2" and "\<forall>r \<in> set ds. mark_before_invoke (ob_type r)"
proof -
  have dist: "distinct (map ob_id (outbox s))" using assms(2) by (simp add: outbox_inv_def)
  obtain ms new where claim: "claim_batch (System ''outbox.drain'') locked n s = Inr rows"
    and s2: "outbox s2 = map (\<lambda>r. case map_of ms (ob_id r) of None \<Rightarrow> r | Some k \<Rightarrow> mark_row now k r)
           (outbox s @ new)" (is "_ = map ?f _")
    and ds: "ds = filter (\<lambda>r. mark_before_invoke (ob_type r)) rows"
    and new: "\<forall>r \<in> set new. fresh_event r" and d2: "distinct (map ob_id (outbox s @ new))"
    and ids: "map fst ms = map ob_id rows"
    and marks: "list_all2 (\<lambda>r im. \<exists>sr. snd im = row_mark d r sr) rows ms"
    by (rule drain_tx_spec [OF assms(1) dist, of locked n now]) (use assms(3) in auto)
  show "\<forall>r \<in> set ds. mark_before_invoke (ob_type r)" by (simp add: ds)
  have dr: "distinct (map ob_id rows)" by (rule claim_batch_distinct [OF claim dist])
  have "map ob_id (map ?f (outbox s @ new)) = map ob_id (outbox s @ new)"
    by (auto split: option.splits)
  then have d3: "distinct (map ob_id (outbox s2))" unfolding s2 using d2 by (simp only:)
  have ok: "attempts_ok (?f r)" if r: "r \<in> set (outbox s @ new)" for r
  proof (cases "map_of ms (ob_id r)")
    case None
    then show ?thesis using r new assms(2) fresh_ok by (auto simp: outbox_inv_def)
  next
    case (Some k)
    then have "ob_id r \<in> ob_id ` set rows"
      using arg_cong [OF ids, of set] by (metis list.set_map map_of_SomeD image_eqI fst_conv)
    then obtain r' where r': "r' \<in> set rows" "ob_id r' = ob_id r" by auto
    then have "r' \<in> set (outbox s @ new)" using claim_batch_set(1) [OF claim] by simp
    with r' r d2 have rr: "r' = r" by (metis distinct_map inj_onD)
    with list_all2_map_of [OF marks ids dr r'(1)] Some obtain sr where "k = row_mark d r sr" by auto
    moreover have "attempts_ok r" "claimable r"
      using claim_batch_set [OF claim r'(1)] assms(2) rr by (auto simp: outbox_inv_def)
    ultimately show ?thesis using Some mark_row_ok by simp
  qed
  show "outbox_inv s2" unfolding outbox_inv_def using d3 ok s2 by auto
qed

lemma mark_deferred_inv:
  "outbox_inv s \<Longrightarrow> outbox_inv (fst (transaction (mark_deferred_failed sc now eid err) s))"
  by (cases sc) (auto simp: transaction_def mark_deferred_failed_def require_system_def update_event_def
      outbox_inv_def set_update_many attempts_ok_def claimable_def map_update_many)

lemma run_deferred_inv:
  assumes "good_dispatch d" and "\<forall>r \<in> set ds. mark_before_invoke (ob_type r)" and "outbox_inv s"
  shows "outbox_inv (run_deferred d sc now ds s)"
  using assms(2,3)
proof (induction ds arbitrary: s)
  case (Cons row ds)
  obtain s1 r where d: "d row s = (s1, r)" by (cases "d row s")
  have "\<forall>x \<in> set (outbox s1). x \<in> set (outbox s) \<or> fresh_event x"
    using assms(1) Cons.prems(1) d unfolding good_dispatch_def
    by (elim allE [of _ row] allE [of _ s]) simp
  moreover have "distinct (map ob_id (outbox s1))"
    using good_dispatch_distinct [OF assms(1), of s row] Cons.prems(2) d by (simp add: outbox_inv_def)
  ultimately have "outbox_inv s1" using Cons.prems(2) fresh_ok by (auto simp: outbox_inv_def)
  with Cons d show ?case by (cases r) (simp_all add: mark_deferred_inv)
qed simp

lemma outbox_step_inv: "outbox_step s s' \<Longrightarrow> outbox_inv s \<Longrightarrow> outbox_inv s'"
proof (induction rule: outbox_step.induct)
  case (step_publish sc eid m ty payload now s s' u)
  then show ?case
    by (auto simp: publish_standalone_def create_outbox_def outbox_inv_def attempts_ok_def
        MAX_OUTBOX_ATTEMPTS_def split: if_splits)
next
  case (step_tick d locked n now s s' r)
  have dist: "distinct (map ob_id (outbox s))" using step_tick(3) by (simp add: outbox_inv_def)
  obtain rows ds s2 where tx: "drain_tx d locked n now s = (s2, Inr (rows, ds))"
    by (rule drain_tx_spec [OF step_tick(1) dist, of locked n now]) (rule that, assumption)
  with step_tick(2) have "s' = run_deferred d (System ''outbox.drain'') now ds s2"
    by (simp add: run_drain_tick_def)
  with run_deferred_inv [OF step_tick(1)] drain_tx_inv [OF step_tick(1,3) tx] show ?case by simp
next
  case (step_requeue sc eid s s' b)
  then show ?case
    by (auto simp: requeue_dead_lettered_def Let_def outbox_inv_def set_update_many attempts_ok_def
        requeue_change_def map_update_many MAX_OUTBOX_ATTEMPTS_def)
qed

text \<open>
  C22. The attempts budget holds in every state that publishing, ticking and requeueing can
  reach from an empty outbox, in any order and with any handlers: no row has more than ten
  attempts, and every deliverable row has fewer. So a row that keeps failing is claimed at
  most ten times before it is dead-lettered, unless an operator requeues it.
\<close>

theorem attempts_bounded:
  assumes "outbox_step\<^sup>*\<^sup>* empty_db s" and "r \<in> set (outbox s)"
  shows "ob_attempts r \<le> 10
    \<and> (ob_processedAt r = None \<and> ob_deadLetteredAt r = None \<longrightarrow> ob_attempts r < 10)"
proof -
  from assms(1) have "outbox_inv s"
    by (induction rule: rtranclp_induct) (auto simp: outbox_step_inv, simp add: outbox_inv_def empty_db_def)
  with assms(2) show ?thesis by (auto simp: outbox_inv_def attempts_ok_def claimable_def MAX_OUTBOX_ATTEMPTS_def)
qed

lemma attempts_bounded_witness:
  "\<exists>s r. outbox_step\<^sup>*\<^sup>* empty_db s \<and> r \<in> set (outbox s) \<and> ob_attempts r < 10"
proof -
  obtain s1 where s1: "publish_standalone (Tenant ''m'') ''e'' ''m'' OrderPlaced (JsonPayload JNull) 1 empty_db
      = Inr (s1, ())" and o1: "outbox s1 = [sample_event ''e'' ''order.placed'' 0\<lparr>ob_createdAt := 1\<rparr>]"
    by (simp add: publish_standalone_def create_outbox_def empty_db_def sample_event_def)
  have "outbox_step empty_db s1" by (rule step_publish [OF s1]) (simp add: empty_db_def)
  then have r: "outbox_step\<^sup>*\<^sup>* empty_db s1" ..
  have "sample_event ''e'' ''order.placed'' 0\<lparr>ob_createdAt := 1\<rparr> \<in> set (outbox s1)" using o1 by simp
  moreover from attempts_bounded [OF r this]
  have "ob_attempts (sample_event ''e'' ''order.placed'' 0\<lparr>ob_createdAt := 1\<rparr>) < 10"
    by (simp add: sample_event_def)
  ultimately show ?thesis using r by blast
qed

section \<open>Dead letters\<close>

text \<open>
  The dead-letter round trip. Requeueing a row makes it deliverable again with the
  whole attempts budget, reports that it was dead-lettered, and reports no dead letter when
  repeated; dead-lettering a row twice keeps the first marker and the first error.
\<close>

theorem requeue_round_trip:
  assumes "distinct (map ob_id (outbox s))" and "r \<in> set (outbox s)" and "claimable r"
  shows "\<exists>s1 s2. mark_dead_lettered (System q) now (ob_id r) err s = Inr (s1, False)
    \<and> mark_dead_lettered (System q) now' (ob_id r) err' s1 = Inr (s1, True)
    \<and> requeue_dead_lettered (System q) (ob_id r) s1 = Inr (s2, True)
    \<and> requeue_dead_lettered (System q) (ob_id r) s2 = Inr (s2, False)
    \<and> find_row (\<lambda>x. ob_id x = ob_id r) (outbox s2)
        = Some (r\<lparr>ob_attempts := 0, ob_lastError := None\<rparr>)"
proof -
  let ?k = "ob_id r"
  let ?dead = "\<lambda>x. ob_id x = ?k \<and> ob_deadLetteredAt x = None"
  let ?again = "\<lambda>x. ob_id x = ?k \<and> ob_deadLetteredAt x \<noteq> None"
  let ?o1 = "update_many ?dead (dead_change now err) (outbox s)"
  let ?o2 = "update_many ?again requeue_change ?o1"
  have f0: "find_row (\<lambda>x. ob_id x = ?k) (outbox s) = Some r" by (rule find_row_unique [OF assms(1,2)])
  have live: "ob_deadLetteredAt r = None" "ob_processedAt r = None" using assms(3) by (auto simp: claimable_def)
  have "find_row (\<lambda>x. ob_id x = ?k) ?o1
    = map_option (\<lambda>x. if ?dead x then dead_change now err x else x) (find_row (\<lambda>x. ob_id x = ?k) (outbox s))"
    by (rule find_update_many_key) (simp add: dead_change_def)
  then have f1: "find_row (\<lambda>x. ob_id x = ?k) ?o1 = Some (dead_change now err r)"
    unfolding f0 using live by simp
  have "find_row (\<lambda>x. ob_id x = ?k) ?o2
    = map_option (\<lambda>x. if ?again x then requeue_change x else x) (find_row (\<lambda>x. ob_id x = ?k) ?o1)"
    by (rule find_update_many_key) (simp add: requeue_change_def)
  then have f2: "find_row (\<lambda>x. ob_id x = ?k) ?o2 = Some (requeue_change (dead_change now err r))"
    unfolding f1 by (simp add: dead_change_def)
  have d1: "distinct (map ob_id ?o1)"
    using dead_letter.distinct_preserved [where eid = ?k, OF assms(1)] by simp
  have d2: "distinct (map ob_id ?o2)"
    using requeue.distinct_preserved [where eid = ?k, OF d1] by simp
  have c0: "update_count ?dead (outbox s) \<noteq> 0"
    using dead_letter.count_unique [where eid = ?k, OF assms(1)] f0 live by simp
  have c1: "update_count ?dead ?o1 = 0"
    using dead_letter.count_unique [where eid = ?k, OF d1] f1 by (simp add: dead_change_def)
  have c1': "update_count ?again ?o1 > 0"
    using requeue.count_unique [where eid = ?k, OF d1] f1 by (simp add: dead_change_def)
  have c2: "update_count ?again ?o2 = 0"
    using requeue.second_update_misses [where eid = ?k, OF _ d1] c1' by simp
  let ?s1 = "s\<lparr>outbox := ?o1\<rparr>" and ?s2 = "s\<lparr>outbox := ?o2\<rparr>"
  have o2: "outbox ?s2 = ?o2" by simp
  have "mark_dead_lettered (System q) now ?k err s = Inr (?s1, False)"
    using c0 by (simp add: mark_dead_lettered_def Let_def)
  moreover have "mark_dead_lettered (System q) now' ?k err' ?s1 = Inr (?s1, True)"
    using c1 by (simp add: mark_dead_lettered_def Let_def update_many_none)
  moreover have "requeue_dead_lettered (System q) ?k ?s1 = Inr (?s2, True)"
    using c1' by (simp add: requeue_dead_lettered_def Let_def)
  moreover have "requeue_dead_lettered (System q) ?k ?s2 = Inr (?s2, False)"
    using c2 by (simp add: requeue_dead_lettered_def Let_def update_many_none)
  moreover have "requeue_change (dead_change now err r) = r\<lparr>ob_attempts := 0, ob_lastError := None\<rparr>"
    using live by (simp add: requeue_change_def dead_change_def)
  then have "find_row (\<lambda>x. ob_id x = ?k) (outbox ?s2) = Some (r\<lparr>ob_attempts := 0, ob_lastError := None\<rparr>)"
    using f2 o2 by (simp only:)
  ultimately show ?thesis by (intro exI conjI) assumption+
qed

lemma requeue_round_trip_witness:
  "\<exists>s1. mark_dead_lettered (System ''cli.x'') 5 ''c'' ''e'' sample_outbox = Inr (s1, False)"
proof -
  let ?r = "sample_event ''c'' ''customer.updated'' 3"
  have d: "distinct (map ob_id (outbox sample_outbox))" and r: "?r \<in> set (outbox sample_outbox)"
    and c: "claimable ?r" and i: "ob_id ?r = ''c''"
    by (simp_all add: sample_outbox_def sample_event_def claimable_def)
  from requeue_round_trip [OF d r c, where q = "''cli.x''" and now = 5 and err = "''e''"]
  show ?thesis unfolding i by blast
qed

end
