(* ===== verification/UtcDates.thy ===== *)
theory UtcDates
  imports Prelude
begin

text \<open>
  Days and months in UTC, as the spend and quota buckets count them (\<open>toUtcMidnight\<close>,
  \<open>toUtcMonthStart\<close>, \<open>utcMidnight\<close>, \<open>utcFirstOfMonth\<close>).
\<close>

section \<open>Dates\<close>

definition utc_midnight :: "time \<Rightarrow> time" where
  "utc_midnight now = now - now mod ms_per_day"

text \<open>
  The day of the month, from the number of days since 1970-01-01, in the proleptic Gregorian
  calendar that \<open>Date\<close> uses: \<open>doe\<close> is the day in its era of 400 years, \<open>doy\<close> the day in
  its year counted from March 1.
\<close>

definition utc_date :: "time \<Rightarrow> int" where
  "utc_date now =
     (let z = now div ms_per_day + 719468;
          doe = z mod 146097;
          yoe = (doe - doe div 1460 + doe div 36524 - doe div 146096) div 365;
          doy = doe - (365 * yoe + yoe div 4 - yoe div 100);
          mp = (5 * doy + 2) div 153
      in doy - (153 * mp + 2) div 5 + 1)"

definition utc_first_of_month :: "time \<Rightarrow> time" where
  "utc_first_of_month now = utc_midnight now - (utc_date now - 1) * ms_per_day"

lemma utc_midnight_le: "utc_midnight now \<le> now"
  by (simp add: utc_midnight_def)

lemma utc_midnight_idem [simp]: "utc_midnight (utc_midnight now) = utc_midnight now"
  by (simp add: utc_midnight_def)

lemma utc_first_of_month_midnight [simp]: "utc_first_of_month (utc_midnight now) = utc_first_of_month now"
proof -
  have "utc_midnight now div ms_per_day = now div ms_per_day"
    by (simp add: utc_midnight_def minus_mod_eq_mult_div)
  then show ?thesis unfolding utc_first_of_month_def utc_date_def utc_midnight_idem by (simp only:)
qed

end
