(* ===== verification/CampaignRepo.thy ===== *)
theory CampaignRepo
  imports ScoreService UtcDates "HOL-Library.Product_Lexorder"
begin

text \<open>
  \<open>CampaignRepository\<close> and \<open>MessageRepository\<close> (\<open>packages/db/src/repositories\<close>): the queries
  and the compare-and-set operations of the dispatch path. The enum \<open>MessageChannel\<close> has the
  one value \<open>email\<close>, so channels are left out of the rows and the filters.
\<close>

section \<open>Drafts ready for dispatch\<close>

record dispatch_item =
  di_messageId :: string
  di_customerId :: string
  di_campaignId :: string

text \<open>The campaigns a draft joins, in the order \<open>createdAt, id\<close> that \<open>DISTINCT ON\<close> picks from.\<close>

definition joining_campaigns :: "merchant_id \<Rightarrow> generation_row \<Rightarrow> db \<Rightarrow> campaign_row list" where
  "joining_campaigns m g s =
     sort_key (\<lambda>c. (ca_createdAt c, ca_id c))
       (filter (\<lambda>c. ca_merchantId c = m \<and> ca_status c = CActive
          \<and> List.member (ca_triggerStates c) (state_string (ge_triggerState g))) (campaigns s))"

definition draft_campaign :: "merchant_id \<Rightarrow> message_row \<Rightarrow> db \<Rightarrow> campaign_row option" where
  "draft_campaign m msg s =
     (case find_row (\<lambda>g. ge_id g = ms_aiGenerationId msg \<and> ge_merchantId g = ms_merchantId msg) (generations s) of
        None \<Rightarrow> None
      | Some g \<Rightarrow>
          if ge_status g = GCompleted then
            (case joining_campaigns m g s of [] \<Rightarrow> None | c # _ \<Rightarrow> Some c)
          else None)"

definition draft_eligible :: "merchant_id \<Rightarrow> db \<Rightarrow> message_row \<Rightarrow> bool" where
  "draft_eligible m s msg \<longleftrightarrow> ms_merchantId msg = m \<and> ms_status msg = MDraft \<and> ms_generatedText msg \<noteq> []
     \<and> (\<exists>c \<in> set (customers s). cu_id c = ms_customerId msg \<and> cu_merchantId c = m \<and> cu_deletedAt c = None)
     \<and> (\<forall>t \<in> set (targets s). tg_messageId t \<noteq> ms_id msg)
     \<and> draft_campaign m msg s \<noteq> None"

definition DEFAULT_DISPATCH_TAKE :: nat where "DEFAULT_DISPATCH_TAKE = 500"

definition find_dispatchable_drafts ::
  "tenant_scope \<Rightarrow> merchant_id \<Rightarrow> nat \<Rightarrow> db \<Rightarrow> exn + dispatch_item list" where
  "find_dispatchable_drafts sc m n s =
     rbind (assert_scope_matches_merchant (Some sc) m) (\<lambda>_.
       Inr (map (\<lambda>msg. \<lparr>di_messageId = ms_id msg, di_customerId = ms_customerId msg,
                        di_campaignId = ca_id (the (draft_campaign m msg s))\<rparr>)
         (take n (sort_key ms_id (filter (draft_eligible m s) (messages s))))))"

section \<open>Claiming a target\<close>

datatype claim_result = Claimed | AlreadyClaimed

definition foreign_key_violation :: exn where "foreign_key_violation = PlainErr ''P2003''"

definition new_target :: "campaign_dispatch_job_payload \<Rightarrow> time \<Rightarrow> target_row" where
  "new_target p now = \<lparr>tg_merchantId = jp_merchantId p, tg_campaignId = jp_campaignId p,
     tg_messageId = jp_messageId p, tg_customerId = jp_customerId p, tg_status = TPending,
     tg_suppressedByGate = None, tg_sentAt = None, tg_sendStartedAt = None, tg_createdAt = now\<rparr>"

text \<open>
  The insert fails on the unique \<open>messageId\<close> (caught) and on a missing parent row (thrown).
\<close>

definition claim_target :: "tenant_scope \<Rightarrow> campaign_dispatch_job_payload \<Rightarrow> time \<Rightarrow> claim_result tx" where
  "claim_target sc p now s =
     (if \<not> in_scope sc (jp_merchantId p)
      then Inl (scope_error ''Write data on CampaignTarget carries cross-tenant merchantId'')
      else if find_row (\<lambda>t. tg_messageId t = jp_messageId p) (targets s) \<noteq> None then Inr (s, AlreadyClaimed)
      else if find_row (\<lambda>x. ms_id x = jp_messageId p) (messages s) = None
           \<or> find_row (\<lambda>x. ca_id x = jp_campaignId p) (campaigns s) = None
           \<or> find_row (\<lambda>x. cu_id x = jp_customerId p) (customers s) = None
           \<or> find_row (\<lambda>x. me_id x = jp_merchantId p) (merchants s) = None
      then Inl foreign_key_violation
      else Inr (s\<lparr>targets := targets s @ [new_target p now]\<rparr>, Claimed))"

section \<open>The dispatch context\<close>

record dispatch_context =
  dc_targetStatus :: target_status
  dc_customerId :: string
  dc_consentState :: consent_state
  dc_generationCreatedAt :: time
  dc_timezone :: "string option"
  dc_sendTimeStartHour :: int
  dc_sendTimeEndHour :: int
  dc_defaultCooldownHours :: int
  dc_maxDailySendsPerCustomer :: int
  dc_dailySendCap :: int
  dc_monthlySendsCap :: int
  dc_customerEmail :: "string option"
  dc_shop :: string
  dc_generatedText :: string

definition find_target :: "db \<Rightarrow> string \<Rightarrow> target_row option" where
  "find_target s mid = find_row (\<lambda>t. tg_messageId t = mid) (targets s)"

definition inconsistent_result :: exn where
  "inconsistent_result = PlainErr ''Inconsistent query result: required field returned null''"

text \<open>
  One \<open>findUnique\<close> with nested selects; the nested rows are not filtered by the extension.
  The parents of a target exist by the foreign keys, \<open>settings\<close> is optional.
\<close>

definition load_dispatch_context :: "string \<Rightarrow> db \<Rightarrow> exn + dispatch_context option" where
  "load_dispatch_context mid s =
     (case find_target s mid of
        None \<Rightarrow> Inr None
      | Some t \<Rightarrow>
          (case (find_row (\<lambda>c. cu_id c = tg_customerId t) (customers s),
                 find_row (\<lambda>x. ms_id x = tg_messageId t) (messages s),
                 find_merchant s (tg_merchantId t)) of
             (Some c, Some msg, Some mr) \<Rightarrow>
               (case find_row (\<lambda>g. ge_id g = ms_aiGenerationId msg) (generations s) of
                  None \<Rightarrow> Inl inconsistent_result
                | Some g \<Rightarrow>
                    (case find_settings s (me_id mr) of
                       None \<Rightarrow> Inr None
                     | Some st \<Rightarrow> Inr (Some
                         \<lparr>dc_targetStatus = tg_status t, dc_customerId = tg_customerId t,
                          dc_consentState = cu_consent c, dc_generationCreatedAt = ge_createdAt g,
                          dc_timezone = me_timezone mr, dc_sendTimeStartHour = se_sendTimeStartHour st,
                          dc_sendTimeEndHour = se_sendTimeEndHour st,
                          dc_defaultCooldownHours = se_defaultCooldownHours st,
                          dc_maxDailySendsPerCustomer = se_maxDailySendsPerCustomer st,
                          dc_dailySendCap = se_dailySendCap st, dc_monthlySendsCap = se_monthlySendsCap st,
                          dc_customerEmail = cu_email c, dc_shop = me_shop mr,
                          dc_generatedText = ms_generatedText msg\<rparr>)))
           | _ \<Rightarrow> Inl inconsistent_result))"

definition is_suppressed :: "merchant_id \<Rightarrow> string \<Rightarrow> db \<Rightarrow> bool" where
  "is_suppressed m cid s \<longleftrightarrow>
     find_row (\<lambda>r. su_merchantId r = m \<and> su_customerId r = cid) (suppressions s) \<noteq> None"

definition get_quota_usage :: "tenant_scope \<Rightarrow> merchant_id \<Rightarrow> time \<Rightarrow> db \<Rightarrow> int \<times> int" where
  "get_quota_usage sc m now s =
     ((case find_row (\<lambda>b. qu_merchantId b = m \<and> qu_date b = utc_midnight now) (quota_buckets s) of
         None \<Rightarrow> 0 | Some b \<Rightarrow> qu_sentCount b),
      sum_list (map qu_sentCount (filter (\<lambda>b. qu_merchantId b = m \<and> qu_date b \<ge> utc_first_of_month now
        \<and> in_scope sc (qu_merchantId b)) (quota_buckets s))))"

section \<open>The compare-and-sets\<close>

text \<open>\<open>updateMany\<close> on the target of a message, admitted from some statuses.\<close>

definition cas_target ::
  "tenant_scope \<Rightarrow> string \<Rightarrow> target_status list \<Rightarrow> (target_row \<Rightarrow> target_row) \<Rightarrow> db \<Rightarrow> db \<times> nat" where
  "cas_target sc mid from f s =
     (let guard = (\<lambda>t. tg_messageId t = mid \<and> tg_status t \<in> set from \<and> in_scope sc (tg_merchantId t)) in
      (s\<lparr>targets := update_many guard f (targets s)\<rparr>, update_count guard (targets s)))"

text \<open>The same on the message itself, whose terminal writes are admitted from \<open>draft\<close>.\<close>

definition cas_draft :: "tenant_scope \<Rightarrow> string \<Rightarrow> (message_row \<Rightarrow> message_row) \<Rightarrow> db \<Rightarrow> db \<times> nat" where
  "cas_draft sc mid f s =
     (let guard = (\<lambda>x. ms_id x = mid \<and> ms_status x = MDraft \<and> in_scope sc (ms_merchantId x)) in
      (s\<lparr>messages := update_many guard f (messages s)\<rparr>, update_count guard (messages s)))"

datatype terminal_status = ToSuppressed | ToFailed

fun terminal_target :: "terminal_status \<Rightarrow> target_status" where
  "terminal_target ToSuppressed = TSuppressed"
| "terminal_target ToFailed = TFailed"

fun terminal_message :: "terminal_status \<Rightarrow> message_status" where
  "terminal_message ToSuppressed = MSuppressed"
| "terminal_message ToFailed = MFailed"

definition resolve_change :: "terminal_status \<Rightarrow> string \<Rightarrow> target_row \<Rightarrow> target_row" where
  "resolve_change st reason t = t\<lparr>tg_status := terminal_target st, tg_suppressedByGate := Some reason\<rparr>"

definition resolve_terminal ::
  "tenant_scope \<Rightarrow> string \<Rightarrow> string \<Rightarrow> terminal_status option \<Rightarrow> db \<Rightarrow> db \<times> bool" where
  "resolve_terminal sc mid reason status s =
     (let st = or_default status ToSuppressed in
      case cas_target sc mid [TPending, TDeferred, TSending] (resolve_change st reason) s of
        (s1, n) \<Rightarrow>
          (if n = 0 then (s1, False)
           else (fst (cas_draft sc mid (\<lambda>x. x\<lparr>ms_status := terminal_message st\<rparr>) s1), True)))"

datatype start_result = Started | NoopNotPending target_status | NoopTargetMissing

definition start_change :: "time \<Rightarrow> target_row \<Rightarrow> target_row" where
  "start_change now t = t\<lparr>tg_status := TSending, tg_sendStartedAt := Some now\<rparr>"

definition start_sending :: "tenant_scope \<Rightarrow> string \<Rightarrow> time \<Rightarrow> db \<Rightarrow> db \<times> start_result" where
  "start_sending sc mid now s =
     (case cas_target sc mid [TPending] (start_change now) s of
        (s1, n) \<Rightarrow>
          (s1, if n > 0 then Started
               else (case find_target s1 mid of
                       None \<Rightarrow> NoopTargetMissing | Some t \<Rightarrow> NoopNotPending (tg_status t))))"

definition revert_change :: "target_row \<Rightarrow> target_row" where
  "revert_change t = t\<lparr>tg_status := TPending, tg_sendStartedAt := None\<rparr>"

definition revert_to_pending :: "tenant_scope \<Rightarrow> string \<Rightarrow> db \<Rightarrow> db \<times> bool" where
  "revert_to_pending sc mid s =
     (case cas_target sc mid [TSending] revert_change s of (s1, n) \<Rightarrow> (s1, n > 0))"

definition defer_change :: "target_row \<Rightarrow> target_row" where
  "defer_change t = t\<lparr>tg_status := TDeferred\<rparr>"

definition defer_target :: "tenant_scope \<Rightarrow> string \<Rightarrow> db \<Rightarrow> db \<times> bool" where
  "defer_target sc mid s =
     (case cas_target sc mid [TPending, TDeferred] defer_change s of (s1, n) \<Rightarrow> (s1, n > 0))"

section \<open>The completion transaction\<close>

datatype mark_result = MarkedSent | NoopAlreadyTerminal target_status

definition CAS_MISS_MARKER :: exn where
  "CAS_MISS_MARKER = PlainErr ''__winback_dispatch_cas_miss__''"

definition sent_change :: "time \<Rightarrow> target_row \<Rightarrow> target_row" where
  "sent_change now t = t\<lparr>tg_status := TSent, tg_sentAt := Some now\<rparr>"

definition message_sent_change :: "time \<Rightarrow> string \<Rightarrow> message_row \<Rightarrow> message_row" where
  "message_sent_change now pid x = x\<lparr>ms_status := MSent, ms_sentAt := Some now,
     ms_provider := Some ''amazon-ses'', ms_providerMessageId := Some pid\<rparr>"

text \<open>\<open>INSERT ... ON CONFLICT DO NOTHING\<close>\<close>

definition ensure_bucket :: "merchant_id \<Rightarrow> time \<Rightarrow> db \<Rightarrow> db" where
  "ensure_bucket m day s =
     (if find_row (\<lambda>b. qu_merchantId b = m \<and> qu_date b = day) (quota_buckets s) \<noteq> None then s
      else s\<lparr>quota_buckets := quota_buckets s @ [\<lparr>qu_merchantId = m, qu_date = day, qu_sentCount = 0\<rparr>]\<rparr>)"

definition bump_bucket :: "tenant_scope \<Rightarrow> merchant_id \<Rightarrow> time \<Rightarrow> db \<Rightarrow> db" where
  "bump_bucket sc m day s = s\<lparr>quota_buckets :=
     update_many (\<lambda>b. qu_merchantId b = m \<and> qu_date b = day \<and> in_scope sc (qu_merchantId b))
       (\<lambda>b. b\<lparr>qu_sentCount := qu_sentCount b + 1\<rparr>) (quota_buckets s)\<rparr>"

record sent_args =
  sa_messageId :: string
  sa_merchantId :: merchant_id
  sa_shop :: string
  sa_campaignId :: string
  sa_customerId :: string
  sa_providerMessageId :: string
  sa_now :: time

definition sent_audit :: "sent_args \<Rightarrow> audit_row" where
  "sent_audit a = \<lparr>au_merchantId = Some (sa_merchantId a), au_shop = Some (sa_shop a),
     au_actorType = ActorSystem, au_actorId = ''drainer'', au_action = AuDispatchSent,
     au_targetType = ''campaign_target'', au_targetId = sa_messageId a,
     au_context = [(''campaignId'', AStr (sa_campaignId a)), (''customerId'', AStr (sa_customerId a)),
       (''providerMessageId'', AStr (sa_providerMessageId a))]\<rparr>"

definition mark_sent_body :: "tenant_scope \<Rightarrow> sent_args \<Rightarrow> unit tx" where
  "mark_sent_body sc a s =
     (let day = utc_midnight (sa_now a); s1 = ensure_bucket (sa_merchantId a) day s in
      case cas_target sc (sa_messageId a) [TSending] (sent_change (sa_now a)) s1 of
        (s2, n) \<Rightarrow>
          if n = 0 then Inl CAS_MISS_MARKER
          else (case cas_draft sc (sa_messageId a) (message_sent_change (sa_now a) (sa_providerMessageId a)) s2 of
            (s3, k) \<Rightarrow>
              if k = 0 then Inl CAS_MISS_MARKER
              else append_audit sc (sent_audit a) (bump_bucket sc (sa_merchantId a) day s3)))"

definition mark_sent_with_quota :: "tenant_scope \<Rightarrow> sent_args \<Rightarrow> db \<Rightarrow> db \<times> (exn + mark_result)" where
  "mark_sent_with_quota sc a s =
     (case transaction (mark_sent_body sc a) s of
        (s1, Inr _) \<Rightarrow> (s1, Inr MarkedSent)
      | (s1, Inl err) \<Rightarrow>
          if exn_message err = exn_message CAS_MISS_MARKER
          then (s1, Inr (NoopAlreadyTerminal
                 (case find_target s1 (sa_messageId a) of None \<Rightarrow> TSent | Some t \<Rightarrow> tg_status t)))
          else (s1, Inl err))"

section \<open>Deferred targets\<close>

record deferred_target =
  dt_messageId :: string
  dt_campaignId :: string
  dt_customerId :: string
  dt_createdAt :: time
  dt_campaignActive :: bool

definition find_deferred_targets :: "tenant_scope \<Rightarrow> merchant_id \<Rightarrow> db \<Rightarrow> deferred_target list" where
  "find_deferred_targets sc m s =
     map (\<lambda>t. \<lparr>dt_messageId = tg_messageId t, dt_campaignId = tg_campaignId t,
              dt_customerId = tg_customerId t, dt_createdAt = tg_createdAt t,
              dt_campaignActive = (case find_row (\<lambda>c. ca_id c = tg_campaignId t) (campaigns s) of
                 None \<Rightarrow> False | Some c \<Rightarrow> ca_status c = CActive)\<rparr>)
       (filter (\<lambda>t. tg_merchantId t = m \<and> tg_status t = TDeferred \<and> in_scope sc (tg_merchantId t)) (targets s))"

section \<open>MessageRepository\<close>

definition create_draft ::
  "tenant_scope \<Rightarrow> string \<Rightarrow> merchant_id \<Rightarrow> string \<Rightarrow> string \<Rightarrow> string tx" where
  "create_draft sc newId m cid gid s =
     (if \<not> in_scope sc m then Inl (scope_error ''Write data on Message carries cross-tenant merchantId'')
      else if find_row (\<lambda>x. ms_aiGenerationId x = gid) (messages s) \<noteq> None then Inl unique_violation
      else Inr (s\<lparr>messages := messages s @ [\<lparr>ms_id = newId, ms_merchantId = m, ms_customerId = cid,
        ms_aiGenerationId = gid, ms_generatedText = [], ms_status = MDraft, ms_sentAt = None,
        ms_provider = None, ms_providerMessageId = None\<rparr>]\<rparr>, newId))"

definition update_generated_text :: "tenant_scope \<Rightarrow> string \<Rightarrow> string \<Rightarrow> db \<Rightarrow> db \<times> nat" where
  "update_generated_text sc gid text s =
     (let mine = (\<lambda>x. ms_aiGenerationId x = gid \<and> in_scope sc (ms_merchantId x)) in
      (s\<lparr>messages := update_many mine (\<lambda>x. x\<lparr>ms_generatedText := text\<rparr>) (messages s)\<rparr>,
       update_count mine (messages s)))"

definition count_sent_since :: "tenant_scope \<Rightarrow> merchant_id \<Rightarrow> string \<Rightarrow> time \<Rightarrow> db \<Rightarrow> nat" where
  "count_sent_since sc m cid since s =
     length (filter (\<lambda>x. ms_merchantId x = m \<and> ms_customerId x = cid \<and> ms_status x = MSent
       \<and> (case ms_sentAt x of None \<Rightarrow> False | Some t \<Rightarrow> t \<ge> since) \<and> in_scope sc (ms_merchantId x)) (messages s))"

section \<open>The updates as compare-and-sets\<close>

interpretation resolve_target: guarded_update tg_messageId tg_status "\<lambda>t. in_scope sc (tg_merchantId t)"
  "resolve_change st reason" "{TPending, TDeferred, TSending}" "terminal_target st" mid
  for sc st reason mid
  by unfold_locales (simp_all add: resolve_change_def)

interpretation start_target: guarded_update tg_messageId tg_status "\<lambda>t. in_scope sc (tg_merchantId t)"
  "start_change now" "{TPending}" TSending mid for sc now mid
  by unfold_locales (simp_all add: start_change_def)

interpretation revert_target: guarded_update tg_messageId tg_status "\<lambda>t. in_scope sc (tg_merchantId t)"
  revert_change "{TSending}" TPending mid for sc mid
  by unfold_locales (simp_all add: revert_change_def)

interpretation deferral: guarded_update tg_messageId tg_status "\<lambda>t. in_scope sc (tg_merchantId t)"
  defer_change "{TPending, TDeferred}" TDeferred mid for sc mid
  by unfold_locales (simp_all add: defer_change_def)

interpretation sent_target: guarded_update tg_messageId tg_status "\<lambda>t. in_scope sc (tg_merchantId t)"
  "sent_change now" "{TSending}" TSent mid for sc now mid
  by unfold_locales (simp_all add: sent_change_def)

end
