(* ===== verification/GateChain.thy ===== *)
theory GateChain
  imports CampaignRepo
begin

text \<open>
  The gates of the dispatch worker (\<open>apps/drainer/src/dispatch\<close>): \<open>runGateChain\<close> with the
  send window of \<open>quiet-hours.ts\<close>, and the order query of the freshness gate. \<open>Intl\<close>'s
  formatted hour is a parameter \<open>tz\<close>: the hour it prints for a time zone, or \<open>None\<close> where
  the zone is not one it knows (it throws).
\<close>

section \<open>Quiet hours\<close>

record send_window =
  sw_inWindow :: bool
  sw_usedUtcFallback :: bool

text \<open>\<open>hour12: false\<close> prints midnight as 24 in some environments.\<close>

definition hour_in_timezone :: "(string \<Rightarrow> time \<Rightarrow> int option) \<Rightarrow> time \<Rightarrow> string \<Rightarrow> exn + int" where
  "hour_in_timezone tz now zone =
     (case tz zone now of
        None \<Rightarrow> Inl (PlainErr (''Invalid time zone specified: '' @ zone))
      | Some h \<Rightarrow> Inr (if h = 24 then 0 else h))"

definition is_within_send_window ::
  "(string \<Rightarrow> time \<Rightarrow> int option) \<Rightarrow> string option \<Rightarrow> int \<Rightarrow> int \<Rightarrow> time \<Rightarrow> exn + send_window" where
  "is_within_send_window tz timezone startHour endHour now =
     rbind (case timezone of
         None \<Rightarrow> rbind (hour_in_timezone tz now ''UTC'') (\<lambda>h. Inr (h, True))
       | Some z \<Rightarrow>
           (case hour_in_timezone tz now z of
              Inr h \<Rightarrow> Inr (h, False)
            | Inl _ \<Rightarrow> rbind (hour_in_timezone tz now ''UTC'') (\<lambda>h. Inr (h, True))))
       (\<lambda>(localHour, fallback).
         Inr \<lparr>sw_inWindow = (localHour \<ge> startHour \<and> localHour < endHour), sw_usedUtcFallback = fallback\<rparr>)"

section \<open>The freshness query\<close>

definition has_qualifying_order_since ::
  "tenant_scope \<Rightarrow> merchant_id \<Rightarrow> string \<Rightarrow> time \<Rightarrow> db \<Rightarrow> exn + bool" where
  "has_qualifying_order_since sc m cid since s =
     rbind (assert_scope_matches_merchant (Some sc) m) (\<lambda>_.
       Inr (\<exists>o1 \<in> set (orders s). or_merchantId o1 = m \<and> or_customerId o1 = Some cid \<and> \<not> or_isTest o1
         \<and> (or_financialStatus o1 = Some FPaid \<or> or_financialStatus o1 = Some FPartiallyPaid)
         \<and> order_recency o1 > since))"

section \<open>The chain\<close>

datatype terminal_gate = GSuppression | GConsent | GFreshness | GFrequency
datatype transient_gate = GQuietHours | GQuota

datatype gate_outcome = GateSuppressed terminal_gate | GateDeferred transient_gate | GatePassed

fun gate_string :: "terminal_gate \<Rightarrow> string" where
  "gate_string GSuppression = ''suppression''"
| "gate_string GConsent = ''consent''"
| "gate_string GFreshness = ''freshness''"
| "gate_string GFrequency = ''frequency''"

definition run_gate_chain ::
  "(string \<Rightarrow> time \<Rightarrow> int option) \<Rightarrow> tenant_scope \<Rightarrow> merchant_id \<Rightarrow> dispatch_context \<Rightarrow> time \<Rightarrow> db \<Rightarrow>
   exn + gate_outcome" where
  "run_gate_chain tz sc m ctx now s =
     (let cid = dc_customerId ctx in
      if is_suppressed m cid s then Inr (GateSuppressed GSuppression)
      else if dc_consentState ctx \<noteq> Subscribed then Inr (GateSuppressed GConsent)
      else rbind (has_qualifying_order_since sc m cid (dc_generationCreatedAt ctx) s) (\<lambda>bought.
        if bought then Inr (GateSuppressed GFreshness)
        else let cooldownSince = now - dc_defaultCooldownHours ctx * ms_per_hour in
          if count_sent_since sc m cid cooldownSince s > 0 then Inr (GateSuppressed GFrequency)
          else if int (count_sent_since sc m cid (utc_midnight now) s) \<ge> dc_maxDailySendsPerCustomer ctx
          then Inr (GateSuppressed GFrequency)
          else rbind (is_within_send_window tz (dc_timezone ctx) (dc_sendTimeStartHour ctx)
                       (dc_sendTimeEndHour ctx) now) (\<lambda>window.
            if \<not> sw_inWindow window then Inr (GateDeferred GQuietHours)
            else case get_quota_usage sc m now s of (day, month) \<Rightarrow>
              if day \<ge> dc_dailySendCap ctx \<or> month \<ge> dc_monthlySendsCap ctx
              then Inr (GateDeferred GQuota)
              else Inr GatePassed)))"

section \<open>What passing means\<close>

text \<open>The hour of the merchant's day, UTC where the zone is missing or unknown.\<close>

definition local_hour :: "(string \<Rightarrow> time \<Rightarrow> int option) \<Rightarrow> string option \<Rightarrow> time \<Rightarrow> int option" where
  "local_hour tz timezone now =
     (let hour = (\<lambda>z. map_option (\<lambda>h. if h = 24 then 0 else h) (tz z now)) in
      case timezone of None \<Rightarrow> hour ''UTC''
      | Some z \<Rightarrow> (case hour z of Some h \<Rightarrow> Some h | None \<Rightarrow> hour ''UTC''))"

lemma within_send_window_iff:
  "is_within_send_window tz timezone a b now = Inr w \<Longrightarrow>
    sw_inWindow w = (\<exists>h. local_hour tz timezone now = Some h \<and> a \<le> h \<and> h < b)"
  by (auto simp: is_within_send_window_def hour_in_timezone_def local_hour_def Let_def
      split: option.splits sum.splits if_splits)

lemma count_sent_since_mono:
  "a \<le> b \<Longrightarrow> count_sent_since sc m cid b s \<le> count_sent_since sc m cid a s"
  unfolding count_sent_since_def by (rule length_filter_imp) (auto split: option.splits)


lemma window_ok:
  "local_hour tz timezone now = Some h \<Longrightarrow>
    \<exists>w. is_within_send_window tz timezone a b now = Inr w"
  by (auto simp: is_within_send_window_def hour_in_timezone_def local_hour_def Let_def
      split: option.splits if_splits)

lemma window_none:
  "local_hour tz timezone now = None \<Longrightarrow> is_error (is_within_send_window tz timezone a b now)"
  by (auto simp: is_within_send_window_def hour_in_timezone_def local_hour_def Let_def is_error_iff
      split: option.splits if_splits)

text \<open>The four terminal conditions, as the policy states them.\<close>

definition reachable_customer :: "merchant_id \<Rightarrow> dispatch_context \<Rightarrow> time \<Rightarrow> db \<Rightarrow> bool" where
  "reachable_customer m ctx now s \<longleftrightarrow>
     (\<nexists>r. r \<in> set (suppressions s) \<and> su_merchantId r = m \<and> su_customerId r = dc_customerId ctx)
     \<and> dc_consentState ctx = Subscribed
     \<and> (\<nexists>o1. o1 \<in> set (orders s) \<and> or_merchantId o1 = m \<and> or_customerId o1 = Some (dc_customerId ctx)
          \<and> \<not> or_isTest o1 \<and> or_financialStatus o1 \<in> {Some FPaid, Some FPartiallyPaid}
          \<and> order_recency o1 > dc_generationCreatedAt ctx)
     \<and> (\<nexists>x. x \<in> set (messages s) \<and> ms_merchantId x = m \<and> ms_customerId x = dc_customerId ctx
          \<and> ms_status x = MSent
          \<and> (\<exists>t. ms_sentAt x = Some t \<and> t \<ge> now - dc_defaultCooldownHours ctx * ms_per_hour))
     \<and> int (length (filter (\<lambda>x. ms_merchantId x = m \<and> ms_customerId x = dc_customerId ctx
          \<and> ms_status x = MSent \<and> (\<exists>t. ms_sentAt x = Some t \<and> t \<ge> utc_midnight now)) (messages s)))
        < dc_maxDailySendsPerCustomer ctx"

lemma count_sent_since_eq:
  "count_sent_since (Tenant m) m cid since s
    = length (filter (\<lambda>x. ms_merchantId x = m \<and> ms_customerId x = cid \<and> ms_status x = MSent
        \<and> (\<exists>t. ms_sentAt x = Some t \<and> t \<ge> since)) (messages s))"
  unfolding count_sent_since_def
  by (intro arg_cong [where f = length] filter_cong refl) (auto split: option.splits)

lemma gate_chain_reachable:
  assumes "reachable_customer m ctx now s"
  shows "run_gate_chain tz (Tenant m) m ctx now s
    = rbind (is_within_send_window tz (dc_timezone ctx) (dc_sendTimeStartHour ctx)
                       (dc_sendTimeEndHour ctx) now) (\<lambda>window.
            if \<not> sw_inWindow window then Inr (GateDeferred GQuietHours)
            else case get_quota_usage (Tenant m) m now s of (day, month) \<Rightarrow>
              if day \<ge> dc_dailySendCap ctx \<or> month \<ge> dc_monthlySendsCap ctx
              then Inr (GateDeferred GQuota)
              else Inr GatePassed)"
proof -
  have "\<not> is_suppressed m (dc_customerId ctx) s" "dc_consentState ctx = Subscribed"
    "has_qualifying_order_since (Tenant m) m (dc_customerId ctx) (dc_generationCreatedAt ctx) s = Inr False"
    "count_sent_since (Tenant m) m (dc_customerId ctx) (now - dc_defaultCooldownHours ctx * ms_per_hour) s = 0"
    "int (count_sent_since (Tenant m) m (dc_customerId ctx) (utc_midnight now) s) < dc_maxDailySendsPerCustomer ctx"
    using assms by (auto simp: reachable_customer_def is_suppressed_def find_row_None_iff has_qualifying_order_since_def
        count_sent_since_eq filter_empty_conv)
  then show ?thesis by (simp add: run_gate_chain_def Let_def not_le)
qed

lemma gate_chain_unreachable:
  assumes "\<not> reachable_customer m ctx now s" and "run_gate_chain tz (Tenant m) m ctx now s = Inr outcome"
  shows "\<exists>g. outcome = GateSuppressed g"
proof (rule ccontr)
  assume no: "\<nexists>g. outcome = GateSuppressed g"
  with assms(2) have "\<not> is_suppressed m (dc_customerId ctx) s" "dc_consentState ctx = Subscribed"
    "has_qualifying_order_since (Tenant m) m (dc_customerId ctx) (dc_generationCreatedAt ctx) s = Inr False"
    "count_sent_since (Tenant m) m (dc_customerId ctx) (now - dc_defaultCooldownHours ctx * ms_per_hour) s = 0"
    "int (count_sent_since (Tenant m) m (dc_customerId ctx) (utc_midnight now) s) < dc_maxDailySendsPerCustomer ctx"
    by (auto simp: run_gate_chain_def Let_def split: if_splits)
  then have "reachable_customer m ctx now s"
    by (auto simp: reachable_customer_def is_suppressed_def find_row_None_iff has_qualifying_order_since_def
        count_sent_since_eq filter_empty_conv)
  with assms(1) show False ..
qed

text \<open>
  The six gates in the order of the code, each with the condition under which it fails (\<open>h\<close> is the
  merchant's local hour) and the outcome of that failure.
\<close>

definition gates :: "merchant_id \<Rightarrow> dispatch_context \<Rightarrow> int \<Rightarrow> time \<Rightarrow> db \<Rightarrow> (bool \<times> gate_outcome) list" where
  "gates m ctx h now s =
     [(\<exists>r \<in> set (suppressions s). su_merchantId r = m \<and> su_customerId r = dc_customerId ctx,
       GateSuppressed GSuppression),
      (dc_consentState ctx \<noteq> Subscribed, GateSuppressed GConsent),
      (\<exists>o1 \<in> set (orders s). or_merchantId o1 = m \<and> or_customerId o1 = Some (dc_customerId ctx)
         \<and> \<not> or_isTest o1 \<and> or_financialStatus o1 \<in> {Some FPaid, Some FPartiallyPaid}
         \<and> order_recency o1 > dc_generationCreatedAt ctx,
       GateSuppressed GFreshness),
      ((\<exists>x \<in> set (messages s). ms_merchantId x = m \<and> ms_customerId x = dc_customerId ctx \<and> ms_status x = MSent
         \<and> (\<exists>t. ms_sentAt x = Some t \<and> t \<ge> now - dc_defaultCooldownHours ctx * ms_per_hour))
       \<or> dc_maxDailySendsPerCustomer ctx \<le> int (length (filter (\<lambda>x. ms_merchantId x = m
           \<and> ms_customerId x = dc_customerId ctx \<and> ms_status x = MSent
           \<and> (\<exists>t. ms_sentAt x = Some t \<and> t \<ge> utc_midnight now)) (messages s))),
       GateSuppressed GFrequency),
      (h < dc_sendTimeStartHour ctx \<or> dc_sendTimeEndHour ctx \<le> h, GateDeferred GQuietHours),
      (dc_dailySendCap ctx \<le> fst (get_quota_usage (Tenant m) m now s)
       \<or> dc_monthlySendsCap ctx \<le> snd (get_quota_usage (Tenant m) m now s), GateDeferred GQuota)]"

definition first_failure :: "(bool \<times> gate_outcome) list \<Rightarrow> gate_outcome" where
  "first_failure gs = (case List.find fst gs of None \<Rightarrow> GatePassed | Some g \<Rightarrow> snd g)"

lemma first_failure_simps [simp]:
  "first_failure [] = GatePassed"
  "first_failure ((b, x) # gs) = (if b then x else first_failure gs)"
  by (simp_all add: first_failure_def)

lemma gate_chain_first_failure:
  assumes w: "is_within_send_window tz (dc_timezone ctx) (dc_sendTimeStartHour ctx)
      (dc_sendTimeEndHour ctx) now = Inr w"
    and inw: "sw_inWindow w \<longleftrightarrow> dc_sendTimeStartHour ctx \<le> h \<and> h < dc_sendTimeEndHour ctx"
  shows "run_gate_chain tz (Tenant m) m ctx now s = Inr (first_failure (gates m ctx h now s))"
proof -
  have suppressed: "is_suppressed m (dc_customerId ctx) s \<longleftrightarrow>
      (\<exists>r \<in> set (suppressions s). su_merchantId r = m \<and> su_customerId r = dc_customerId ctx)"
    by (auto simp: is_suppressed_def find_row_None_iff)
  have bought: "has_qualifying_order_since (Tenant m) m (dc_customerId ctx) (dc_generationCreatedAt ctx) s =
      Inr (\<exists>o1 \<in> set (orders s). or_merchantId o1 = m \<and> or_customerId o1 = Some (dc_customerId ctx)
         \<and> \<not> or_isTest o1 \<and> or_financialStatus o1 \<in> {Some FPaid, Some FPartiallyPaid}
         \<and> order_recency o1 > dc_generationCreatedAt ctx)"
    by (simp add: has_qualifying_order_since_def)
  have some: "length (filter P xs) > 0 \<longleftrightarrow> (\<exists>x \<in> set xs. P x)" for P :: "message_row \<Rightarrow> bool" and xs
    by (auto simp: filter_empty_conv)
  show ?thesis
    unfolding run_gate_chain_def Let_def gates_def first_failure_simps suppressed bought some
      count_sent_since_eq
    by (auto simp: w inw case_prod_unfold not_le simp del: length_greater_0_conv)
qed

text \<open>
  C24. The gate chain decides the sending policy. A target passes exactly if its customer is
  reachable (not suppressed, subscribed, no qualifying order since the text was generated,
  no message in the cooldown, fewer messages today than the daily limit), the merchant's
  local hour is inside the send window and both quotas have room; it is deferred exactly if
  only the window or a quota stands in the way, and suppressed otherwise. On every branch the
  outcome is that of the first gate that fails in the order suppression, consent, freshness,
  frequency, quiet hours, quota.
\<close>

theorem gate_chain_policy:
  assumes "local_hour tz (dc_timezone ctx) now = Some h"
  shows "\<exists>outcome. run_gate_chain tz (Tenant m) m ctx now s = Inr outcome
    \<and> outcome = first_failure (gates m ctx h now s)
    \<and> (outcome = GatePassed \<longleftrightarrow> reachable_customer m ctx now s
         \<and> dc_sendTimeStartHour ctx \<le> h \<and> h < dc_sendTimeEndHour ctx
         \<and> fst (get_quota_usage (Tenant m) m now s) < dc_dailySendCap ctx
         \<and> snd (get_quota_usage (Tenant m) m now s) < dc_monthlySendsCap ctx)
    \<and> ((\<exists>g. outcome = GateDeferred g) \<longleftrightarrow> reachable_customer m ctx now s
         \<and> \<not> (dc_sendTimeStartHour ctx \<le> h \<and> h < dc_sendTimeEndHour ctx
             \<and> fst (get_quota_usage (Tenant m) m now s) < dc_dailySendCap ctx
             \<and> snd (get_quota_usage (Tenant m) m now s) < dc_monthlySendsCap ctx))
    \<and> ((\<exists>g. outcome = GateSuppressed g) \<longleftrightarrow> \<not> reachable_customer m ctx now s)"
proof -
  obtain w where w: "is_within_send_window tz (dc_timezone ctx) (dc_sendTimeStartHour ctx)
      (dc_sendTimeEndHour ctx) now = Inr w"
    using window_ok [OF assms] by blast
  have inw: "sw_inWindow w \<longleftrightarrow> dc_sendTimeStartHour ctx \<le> h \<and> h < dc_sendTimeEndHour ctx"
    using within_send_window_iff [OF w] assms by simp
  obtain day month where q: "get_quota_usage (Tenant m) m now s = (day, month)" by fastforce
  note first = gate_chain_first_failure [OF w inw, of m s]
  have policy: "\<exists>outcome. run_gate_chain tz (Tenant m) m ctx now s = Inr outcome
    \<and> (outcome = GatePassed \<longleftrightarrow> reachable_customer m ctx now s
         \<and> dc_sendTimeStartHour ctx \<le> h \<and> h < dc_sendTimeEndHour ctx
         \<and> fst (get_quota_usage (Tenant m) m now s) < dc_dailySendCap ctx
         \<and> snd (get_quota_usage (Tenant m) m now s) < dc_monthlySendsCap ctx)
    \<and> ((\<exists>g. outcome = GateDeferred g) \<longleftrightarrow> reachable_customer m ctx now s
         \<and> \<not> (dc_sendTimeStartHour ctx \<le> h \<and> h < dc_sendTimeEndHour ctx
             \<and> fst (get_quota_usage (Tenant m) m now s) < dc_dailySendCap ctx
             \<and> snd (get_quota_usage (Tenant m) m now s) < dc_monthlySendsCap ctx))
    \<and> ((\<exists>g. outcome = GateSuppressed g) \<longleftrightarrow> \<not> reachable_customer m ctx now s)"
  proof (cases "reachable_customer m ctx now s")
    case True
    show ?thesis using True inw by (auto simp: gate_chain_reachable [OF True] w q not_less)
  next
    case False
    have "\<not> is_error (run_gate_chain tz (Tenant m) m ctx now s)"
      by (simp add: run_gate_chain_def Let_def has_qualifying_order_since_def w q)
    then obtain outcome where run: "run_gate_chain tz (Tenant m) m ctx now s = Inr outcome"
      by (cases "run_gate_chain tz (Tenant m) m ctx now s") auto
    with gate_chain_unreachable [OF False run] False show ?thesis by auto
  qed
  then show ?thesis unfolding first by (simp only: sum.inject ex_simps) blast
qed

definition sample_context :: dispatch_context where
  "sample_context = \<lparr>dc_targetStatus = TPending, dc_customerId = ''c'', dc_consentState = Subscribed,
     dc_generationCreatedAt = 0, dc_timezone = None, dc_sendTimeStartHour = 9, dc_sendTimeEndHour = 18,
     dc_defaultCooldownHours = 168, dc_maxDailySendsPerCustomer = 1, dc_dailySendCap = 100,
     dc_monthlySendsCap = 1000, dc_customerEmail = Some ''c@x.org'', dc_shop = ''a'', dc_generatedText = ''hi''\<rparr>"

definition utc_clock :: "string \<Rightarrow> time \<Rightarrow> int option" where
  "utc_clock zone now = (if zone = ''UTC'' then Some (now mod ms_per_day div ms_per_hour) else None)"

lemma gate_chain_policy_witness:
  "\<exists>outcome. run_gate_chain utc_clock (Tenant ''m'') ''m'' sample_context (10 * ms_per_hour) empty_db = Inr outcome
    \<and> outcome = GatePassed"
proof -
  have "local_hour utc_clock (dc_timezone sample_context) (10 * ms_per_hour) = Some 10"
    by code_simp
  from gate_chain_policy [OF this, of "''m''" empty_db]
  show ?thesis
    by (simp add: reachable_customer_def get_quota_usage_def empty_db_def sample_context_def)
qed

end
