(* ===== verification/EmailProvider.thy ===== *)
theory EmailProvider
  imports Errors TenantScope ScoringMath "HOL-Library.Char_ord"
begin

text \<open>
  The Amazon SES provider (\<open>packages/email\<close>): the request it builds, the mapping of SDK
  errors to the typed provider errors and the treatment of a response without a message id.
  The SDK call itself is a parameter.
\<close>

record email_send_args =
  ea_from :: string
  ea_to :: string
  ea_subject :: string
  ea_html :: string
  ea_text :: "string option"
  ea_correlationId :: string
  ea_configurationSetName :: "string option"

record send_email_input =
  si_from :: string
  si_to :: "string list"
  si_subject :: string
  si_html :: string
  si_text :: "string option"
  si_tags :: "(string \<times> string) list"
  si_configurationSet :: "string option"

text \<open>An optional string that is absent or empty is left out of the request.\<close>

definition present :: "string option \<Rightarrow> string option" where
  "present x = (case x of None \<Rightarrow> None | Some s \<Rightarrow> if s = [] then None else Some s)"

definition build_send_email_input :: "email_send_args \<Rightarrow> send_email_input" where
  "build_send_email_input a =
     \<lparr>si_from = ea_from a, si_to = [ea_to a], si_subject = ea_subject a, si_html = ea_html a,
      si_text = present (ea_text a), si_tags = [(''wbk_target'', ea_correlationId a)],
      si_configurationSet = present (ea_configurationSetName a)\<rparr>"

text \<open>
  What the SDK call throws: its exception classes, or anything else with the HTTP status of
  its metadata, if it has one.
\<close>

datatype sdk_error =
    TooManyRequestsException string
  | AccountSuspendedException string
  | SendingPausedException string
  | MailFromDomainNotVerifiedException string
  | MessageRejected string
  | BadRequestException string
  | OtherSdkError "int option" string

text \<open>\<open>/blacklist|suppressed|suppression/i.test(text)\<close>\<close>

definition mentions_suppression :: "string \<Rightarrow> bool" where
  "mentions_suppression text =
     (let t = map lower_char text in
      occurs_in ''blacklist'' t \<or> occurs_in ''suppressed'' t \<or> occurs_in ''suppression'' t)"

fun map_ses_error :: "sdk_error \<Rightarrow> exn" where
  "map_ses_error (TooManyRequestsException m) = EmailErr EmailRateLimit (''SES rate limit: '' @ m)"
| "map_ses_error (AccountSuspendedException m) = EmailErr EmailAccountSuspended
     (''SES account-level failure (AccountSuspendedException): '' @ m)"
| "map_ses_error (SendingPausedException m) = EmailErr EmailAccountSuspended
     (''SES account-level failure (SendingPausedException): '' @ m)"
| "map_ses_error (MailFromDomainNotVerifiedException m) = EmailErr EmailAccountSuspended
     (''SES account-level failure (MailFromDomainNotVerifiedException): '' @ m)"
| "map_ses_error (MessageRejected m) =
     (if mentions_suppression m then EmailErr EmailRecipientSuppressed (''SES recipient suppressed: '' @ m)
      else EmailErr EmailInvalidRequest (''SES message rejected: '' @ m))"
| "map_ses_error (BadRequestException m) = EmailErr EmailInvalidRequest (''SES bad request: '' @ m)"
| "map_ses_error (OtherSdkError status m) =
     (case status of
        None \<Rightarrow> EmailErr EmailTransient (''SES transport/unknown error: '' @ m)
      | Some c \<Rightarrow>
          if c = 401 \<or> c = 403 then EmailErr EmailAuth (''SES auth failed ('' @ int_string c @ ''): '' @ m)
          else if c = 429 then EmailErr EmailRateLimit (''SES rate limit ('' @ int_string c @ ''): '' @ m)
          else if 500 \<le> c \<and> c < 600 then EmailErr EmailTransient (''SES server error ('' @ int_string c @ ''): '' @ m)
          else if 400 \<le> c \<and> c < 500 then EmailErr EmailInvalidRequest (''SES unmapped 4xx ('' @ int_string c @ ''): '' @ m)
          else EmailErr EmailTransient (''SES transport/unknown error: '' @ m))"

text \<open>The SDK call's outcome: it throws, or answers with an optional message id.\<close>

definition ses_send :: "sdk_error + string option \<Rightarrow> exn + string" where
  "ses_send response =
     (case response of
        Inl err \<Rightarrow> Inl (map_ses_error err)
      | Inr mid \<Rightarrow>
          (case present mid of
             None \<Rightarrow> Inl (EmailErr EmailTransient ''SES SendEmail returned 200 with no MessageId'')
           | Some pid \<Rightarrow> Inr pid))"

text \<open>Every failure of the provider is one of the typed errors.\<close>

lemma map_ses_error_typed: "\<exists>c m. map_ses_error e = EmailErr c m"
  by (cases e) (auto split: option.splits)

lemma ses_send_typed: "ses_send r = Inl e \<Longrightarrow> \<exists>c m. e = EmailErr c m"
  using map_ses_error_typed by (fastforce simp: ses_send_def split: sum.splits option.splits)

text \<open>Only a throttled, failed or unrecognised call is retried; what SES rejected is not.\<close>

lemma rejected_not_retried:
  "map_ses_error e = EmailErr c m \<Longrightarrow> email_retryable c \<Longrightarrow>
    (\<exists>t. e = TooManyRequestsException t) \<or> (\<exists>st t. e = OtherSdkError st t)"
  by (cases e) (auto split: if_splits)

end
