(* ===== verification/DispatchWorker.thy ===== *)
theory DispatchWorker
  imports GateChain EmailProvider
begin

text \<open>
  The dispatch worker (\<open>apps/drainer/src/workers/dispatch.worker.ts\<close>): one job claims a
  target, replays or gates it, and on a pass sends the mail between two committed writes, the
  tombstone \<open>sending\<close> and the completion transaction. The world is the database and the
  messages SES has accepted, by their correlation id; the SDK call is a parameter that says
  whether SES took the message and what the caller sees. Faults of the database in the
  completion transaction are a parameter by attempt.
\<close>

record world =
  wd_db :: db
  wd_accepted :: "string list"

type_synonym sdk_call = "send_email_input \<Rightarrow> bool \<times> (sdk_error + string option)"

record dispatch_env =
  de_tz :: "string \<Rightarrow> time \<Rightarrow> int option"
  de_sdk :: sdk_call
  de_from :: string
  de_configurationSetName :: "string option"
  de_fault :: "nat \<Rightarrow> exn option"

definition COMPLETION_TX_RETRIES :: nat where "COMPLETION_TX_RETRIES = 3"

definition derive_subject :: string where "derive_subject = ''We miss you''"

text \<open>The send: SES may take the message whatever the caller is told.\<close>

definition email_send :: "sdk_call \<Rightarrow> email_send_args \<Rightarrow> world \<Rightarrow> world \<times> (exn + string)" where
  "email_send sdk a w =
     (case sdk (build_send_email_input a) of
        (taken, response) \<Rightarrow>
          (if taken then w\<lparr>wd_accepted := wd_accepted w @ [ea_correlationId a]\<rparr> else w, ses_send response))"

fun completion_loop ::
  "(nat \<Rightarrow> exn option) \<Rightarrow> tenant_scope \<Rightarrow> sent_args \<Rightarrow> nat list \<Rightarrow> db \<Rightarrow> db \<times> mark_result option" where
  "completion_loop fault sc a [] s = (s, None)"
| "completion_loop fault sc a (attempt # rest) s =
     (case fault attempt of
        Some e \<Rightarrow> completion_loop fault sc a rest s
      | None \<Rightarrow>
          (case mark_sent_with_quota sc a s of
             (s1, Inr r) \<Rightarrow> (s1, Some r)
           | (s1, Inl e) \<Rightarrow> completion_loop fault sc a rest s1))"

definition completion_attempts :: "nat list" where
  "completion_attempts = [1..<Suc COMPLETION_TX_RETRIES]"

definition ses_suppressed_audit :: "campaign_dispatch_job_payload \<Rightarrow> string \<Rightarrow> email_error_code \<Rightarrow> audit_row" where
  "ses_suppressed_audit p shop code = \<lparr>au_merchantId = Some (jp_merchantId p), au_shop = Some shop,
     au_actorType = ActorSystem, au_actorId = ''drainer'', au_action = AuSuppressedBySes,
     au_targetType = ''campaign_target'', au_targetId = jp_messageId p,
     au_context = [(''campaignId'', AStr (jp_campaignId p)), (''customerId'', AStr (jp_customerId p)),
       (''errorCode'', AStr (email_code_string code))]\<rparr>"

definition handle_ses_error ::
  "tenant_scope \<Rightarrow> campaign_dispatch_job_payload \<Rightarrow> string \<Rightarrow> exn \<Rightarrow> db \<Rightarrow> db \<times> (exn + unit)" where
  "handle_ses_error sc p shop err s =
     (let mid = jp_messageId p in
      case err of
        EmailErr code msg \<Rightarrow>
          if email_retryable code then (fst (revert_to_pending sc mid s), Inl err)
          else if code = EmailRecipientSuppressed then
            (let s1 = fst (resolve_terminal sc mid ''ses_suppressed'' (Some ToSuppressed) s) in
             case append_audit sc (ses_suppressed_audit p shop code) s1 of
               Inl e \<Rightarrow> (s1, Inl e) | Inr (s2, _) \<Rightarrow> (s2, Inr ()))
          else (fst (resolve_terminal sc mid (email_code_string code) (Some ToFailed) s), Inr ())
      | _ \<Rightarrow> (fst (revert_to_pending sc mid s), Inl err))"

text \<open>Step 5: tombstone, send, and completion or error handling.\<close>

definition send_phase ::
  "dispatch_env \<Rightarrow> tenant_scope \<Rightarrow> campaign_dispatch_job_payload \<Rightarrow> dispatch_context \<Rightarrow> string \<Rightarrow> time \<Rightarrow>
   world \<Rightarrow> world \<times> (exn + unit)" where
  "send_phase env sc p ctx to_email now w =
     (let mid = jp_messageId p in
      case start_sending sc mid now (wd_db w) of
        (s1, Started) \<Rightarrow>
          (case email_send (de_sdk env)
                 \<lparr>ea_from = de_from env, ea_to = to_email, ea_subject = derive_subject,
                  ea_html = dc_generatedText ctx, ea_text = None, ea_correlationId = mid,
                  ea_configurationSetName = de_configurationSetName env\<rparr> (w\<lparr>wd_db := s1\<rparr>) of
             (w2, Inl err) \<Rightarrow>
               (case handle_ses_error sc p (dc_shop ctx) err (wd_db w2) of
                  (s3, r) \<Rightarrow> (w2\<lparr>wd_db := s3\<rparr>, r))
           | (w2, Inr pid) \<Rightarrow>
               (case completion_loop (de_fault env) sc
                       \<lparr>sa_messageId = mid, sa_merchantId = jp_merchantId p, sa_shop = dc_shop ctx,
                        sa_campaignId = jp_campaignId p, sa_customerId = jp_customerId p,
                        sa_providerMessageId = pid, sa_now = now\<rparr> completion_attempts (wd_db w2) of
                  (s3, _) \<Rightarrow> (w2\<lparr>wd_db := s3\<rparr>, Inr ())))
      | (s1, _) \<Rightarrow> (w\<lparr>wd_db := s1\<rparr>, Inr ()))"

definition process_campaign_dispatch_job ::
  "dispatch_env \<Rightarrow> campaign_dispatch_job_payload \<Rightarrow> time \<Rightarrow> time \<Rightarrow> time \<Rightarrow> world \<Rightarrow> world \<times> (exn + unit)" where
  "process_campaign_dispatch_job env p claimedAt gatedAt now w =
     (let sc = Tenant (jp_merchantId p); mid = jp_messageId p in
      case claim_target sc p claimedAt (wd_db w) of
        Inl e \<Rightarrow> (w, Inl e)
      | Inr (s1, _) \<Rightarrow>
          (case load_dispatch_context mid s1 of
             Inl e \<Rightarrow> (w\<lparr>wd_db := s1\<rparr>, Inl e)
           | Inr None \<Rightarrow> (w\<lparr>wd_db := s1\<rparr>, Inr ())
           | Inr (Some ctx) \<Rightarrow>
               if dc_targetStatus ctx \<in> {TSuppressed, TSent, TFailed, TSending} then (w\<lparr>wd_db := s1\<rparr>, Inr ())
               else (case run_gate_chain (de_tz env) sc (jp_merchantId p) ctx gatedAt s1 of
                  Inl e \<Rightarrow> (w\<lparr>wd_db := s1\<rparr>, Inl e)
                | Inr (GateSuppressed g) \<Rightarrow>
                    (w\<lparr>wd_db := fst (resolve_terminal sc mid (gate_string g) None s1)\<rparr>, Inr ())
                | Inr (GateDeferred g) \<Rightarrow> (w\<lparr>wd_db := fst (defer_target sc mid s1)\<rparr>, Inr ())
                | Inr GatePassed \<Rightarrow>
                    (case present (dc_customerEmail ctx) of
                       None \<Rightarrow> (w\<lparr>wd_db := fst (defer_target sc mid s1)\<rparr>, Inr ())
                     | Some to_email \<Rightarrow> send_phase env sc p ctx to_email now (w\<lparr>wd_db := s1\<rparr>)))))"

end
