(* ===== verification/DispatchSystem.thy ===== *)
theory DispatchSystem
  imports DispatchWorker
begin

text \<open>
  The dispatch path under concurrency: any number of workers, sweeps and replayed jobs whose
  committed writes interleave, with workers crashing between any two of them. Proved of all
  reachable states: SES accepts a message at most once if a failed send means that SES did
  not take it, a deferred target is never sent, and (as runs of the worker) what happens when
  the answer of SES is lost.
\<close>

section \<open>The status of a message's target\<close>

text \<open>The abstraction: the target table as a map from messages to statuses.\<close>

definition target_stat :: "db \<Rightarrow> string \<Rightarrow> target_status option" where
  "target_stat s mid = map_option tg_status (find_target s mid)"

definition unique_targets :: "db \<Rightarrow> bool" where
  "unique_targets s \<longleftrightarrow> distinct (map tg_messageId (targets s))"

lemma target_stat_cong: "targets s' = targets s \<Longrightarrow> target_stat s' = target_stat s"
  by (simp add: target_stat_def find_target_def fun_eq_iff)

lemma cas_target_stat:
  assumes "cas_target sc mid from f s = (s', n)"
    and "\<And>t. tg_messageId (f t) = tg_messageId t" and "\<And>t. tg_status (f t) = to_st"
  shows "(target_stat s' = target_stat s \<and> (unique_targets s \<longrightarrow> n = 0))
    \<or> (\<exists>st \<in> set from. target_stat s mid = Some st \<and> target_stat s' = (target_stat s)(mid \<mapsto> to_st))"
    and "map tg_messageId (targets s') = map tg_messageId (targets s)"
    and "s' = s\<lparr>targets := targets s'\<rparr>"
proof -
  let ?g = "\<lambda>t. tg_messageId t = mid \<and> tg_status t \<in> set from \<and> in_scope sc (tg_merchantId t)"
  have eq: "s' = s\<lparr>targets := update_many ?g f (targets s)\<rparr>" "n = update_count ?g (targets s)"
    using assms(1) by (auto simp: cas_target_def Let_def)
  show "map tg_messageId (targets s') = map tg_messageId (targets s)"
    by (simp add: eq map_update_many assms(2))
  show "s' = s\<lparr>targets := targets s'\<rparr>" by (simp add: eq)
  have gu: "guarded_update tg_messageId tg_status f to_st"
    by unfold_locales (simp_all add: assms(2,3))
  have other: "find_target s' k = find_target s k" if "k \<noteq> mid" for k
    using that guarded_update.other_rows [OF gu, of k mid "set from" "\<lambda>t. in_scope sc (tg_merchantId t)"]
    by (simp add: eq find_target_def)
  have here: "find_target s' mid = map_option (\<lambda>t. if ?g t then f t else t) (find_target s mid)"
    using guarded_update.this_row [OF gu, of mid "set from" "\<lambda>t. in_scope sc (tg_merchantId t)"]
    by (simp add: eq find_target_def)
  show "(target_stat s' = target_stat s \<and> (unique_targets s \<longrightarrow> n = 0))
    \<or> (\<exists>st \<in> set from. target_stat s mid = Some st \<and> target_stat s' = (target_stat s)(mid \<mapsto> to_st))"
  proof (cases "\<exists>t. find_target s mid = Some t \<and> ?g t")
    case True
    then obtain t where t: "find_target s mid = Some t" "?g t" by blast
    then have "target_stat s' = (target_stat s)(mid \<mapsto> to_st)"
      using other here by (auto simp: target_stat_def fun_eq_iff assms(3))
    with t show ?thesis by (auto simp: target_stat_def)
  next
    case False
    then have "find_target s' mid = find_target s mid" using here by (cases "find_target s mid") auto
    then have "find_target s' k = find_target s k" for k using other by (cases "k = mid") simp_all
    then have "target_stat s' = target_stat s" by (simp add: target_stat_def fun_eq_iff)
    moreover have "n = 0" if "unique_targets s"
      using guarded_update.count_unique [OF gu that [unfolded unique_targets_def], of mid "set from"
          "\<lambda>t. in_scope sc (tg_merchantId t)"] False
      by (auto simp: eq find_target_def split: option.splits)
    ultimately show ?thesis by blast
  qed
qed

text \<open>The moves each operation makes on the abstract map.\<close>

definition same_targets :: "db \<Rightarrow> db \<Rightarrow> bool" where
  "same_targets s s' \<longleftrightarrow> target_stat s' = target_stat s
     \<and> map tg_messageId (targets s') = map tg_messageId (targets s)"

definition moves :: "string \<Rightarrow> target_status set \<Rightarrow> target_status \<Rightarrow> db \<Rightarrow> db \<Rightarrow> bool" where
  "moves mid from to_st s s' \<longleftrightarrow> (\<exists>st \<in> from. target_stat s mid = Some st)
     \<and> target_stat s' = (target_stat s)(mid \<mapsto> to_st)
     \<and> map tg_messageId (targets s') = map tg_messageId (targets s)"

lemma cas_draft_targets: "targets (fst (cas_draft sc mid f s)) = targets s"
  by (simp add: cas_draft_def Let_def)

lemma cas_target_moves:
  assumes "cas_target sc mid from f s = (s', n)"
    and "\<And>t. tg_messageId (f t) = tg_messageId t" and "\<And>t. tg_status (f t) = to_st"
  shows "(same_targets s s' \<and> (unique_targets s \<longrightarrow> n = 0)) \<or> moves mid (set from) to_st s s'"
proof -
  note st = cas_target_stat(1) [OF assms] and keys = cas_target_stat(2) [OF assms]
  from st show ?thesis
  proof
    assume "target_stat s' = target_stat s \<and> (unique_targets s \<longrightarrow> n = 0)"
    with keys show ?thesis by (simp add: same_targets_def)
  next
    assume "\<exists>st \<in> set from. target_stat s mid = Some st \<and> target_stat s' = (target_stat s)(mid \<mapsto> to_st)"
    then obtain st where "st \<in> set from" "target_stat s mid = Some st"
      "target_stat s' = (target_stat s)(mid \<mapsto> to_st)" by blast
    with keys have "moves mid (set from) to_st s s'" unfolding moves_def by (intro conjI bexI [of _ st])
    then show ?thesis ..
  qed
qed

lemma same_targets_refl: "targets s' = targets s \<Longrightarrow> same_targets s s'"
  using target_stat_cong [of s' s] by (simp add: same_targets_def)

lemma resolve_terminal_moves:
  assumes "resolve_terminal sc mid reason st s = (s', b)"
  shows "same_targets s s' \<or> moves mid {TPending, TDeferred, TSending} (terminal_target (or_default st ToSuppressed)) s s'"
proof -
  let ?st = "or_default st ToSuppressed"
  obtain s1 n where c: "cas_target sc mid [TPending, TDeferred, TSending] (resolve_change ?st reason) s = (s1, n)"
    by (cases "cas_target sc mid [TPending, TDeferred, TSending] (resolve_change ?st reason) s")
  have "same_targets s s1 \<or> moves mid {TPending, TDeferred, TSending} (terminal_target ?st) s s1"
    using cas_target_moves [OF c, of "terminal_target ?st"] by (auto simp: resolve_change_def)
  moreover have "targets s' = targets s1"
    using assms by (auto simp: resolve_terminal_def Let_def c cas_draft_targets split: if_splits)
  ultimately show ?thesis using target_stat_cong [of s' s1] by (auto simp: same_targets_def moves_def)
qed

lemma start_sending_moves:
  assumes "start_sending sc mid now s = (s', r)" and "unique_targets s"
  shows "if r = Started then moves mid {TPending} TSending s s' else same_targets s s' \<or> moves mid {TPending} TSending s s'"
proof -
  obtain s1 n where c: "cas_target sc mid [TPending] (start_change now) s = (s1, n)"
    by (cases "cas_target sc mid [TPending] (start_change now) s")
  have "(same_targets s s1 \<and> n = 0) \<or> moves mid {TPending} TSending s s1"
    using cas_target_moves [OF c, of TSending] assms(2) by (auto simp: start_change_def)
  moreover have "s' = s1" "r = Started \<longrightarrow> n > 0"
    using assms(1) by (auto simp: start_sending_def c split: option.splits if_splits)
  ultimately show ?thesis by auto
qed

lemma cas_count_pos:
  "cas_target sc mid from f s = (s', n) \<Longrightarrow> (\<And>t. tg_status (f t) = to_st) \<Longrightarrow> to_st \<notin> set from \<Longrightarrow>
    (\<And>t. tg_messageId (f t) = tg_messageId t) \<Longrightarrow> n = 0 \<Longrightarrow> s' = s"
  by (auto simp: cas_target_def Let_def update_many_none)

lemma start_sending_miss:
  assumes "start_sending sc mid now s = (s', r)" and "r \<noteq> Started"
  shows "s' = s"
proof -
  obtain s1 n where c: "cas_target sc mid [TPending] (start_change now) s = (s1, n)"
    by (cases "cas_target sc mid [TPending] (start_change now) s")
  with assms have "s' = s1" "n = 0" by (auto simp: start_sending_def split: if_splits option.splits)
  with cas_count_pos [OF c, of TSending] show ?thesis by (simp add: start_change_def)
qed

lemma revert_moves:
  assumes "revert_to_pending sc mid s = (s', b)"
  shows "same_targets s s' \<or> moves mid {TSending} TPending s s'"
proof -
  obtain s1 n where c: "cas_target sc mid [TSending] revert_change s = (s1, n)"
    by (cases "cas_target sc mid [TSending] revert_change s")
  have "same_targets s s1 \<or> moves mid {TSending} TPending s s1"
    using cas_target_moves [OF c, of TPending] by (auto simp: revert_change_def)
  with assms c show ?thesis by (simp add: revert_to_pending_def)
qed

lemma defer_moves:
  assumes "defer_target sc mid s = (s', b)"
  shows "same_targets s s' \<or> moves mid {TPending, TDeferred} TDeferred s s'"
proof -
  obtain s1 n where c: "cas_target sc mid [TPending, TDeferred] defer_change s = (s1, n)"
    by (cases "cas_target sc mid [TPending, TDeferred] defer_change s")
  have "same_targets s s1 \<or> moves mid {TPending, TDeferred} TDeferred s s1"
    using cas_target_moves [OF c, of TDeferred] by (auto simp: defer_change_def)
  with assms c show ?thesis by (simp add: defer_target_def)
qed

lemma append_audit_targets: "append_audit sc row s = Inr (s', u) \<Longrightarrow> targets s' = targets s"
  by (auto simp: append_audit_def split: option.splits if_splits tenant_scope.splits)

lemma mark_sent_moves:
  assumes "mark_sent_with_quota sc a s = (s', r)"
  shows "same_targets s s' \<or> moves (sa_messageId a) {TSending} TSent s s'"
proof (cases "mark_sent_body sc a s")
  case (Inl e)
  with assms have "s' = s" by (auto simp: mark_sent_with_quota_def split: if_splits)
  then show ?thesis by (simp add: same_targets_refl)
next
  case (Inr su)
  obtain s3 where b: "mark_sent_body sc a s = Inr (s3, ())" using Inr by (cases su) auto
  then have s': "s' = s3" using assms by (auto simp: mark_sent_with_quota_def)
  let ?s1 = "ensure_bucket (sa_merchantId a) (utc_midnight (sa_now a)) s"
  obtain s2 n where c: "cas_target sc (sa_messageId a) [TSending] (sent_change (sa_now a)) ?s1 = (s2, n)"
    by (cases "cas_target sc (sa_messageId a) [TSending] (sent_change (sa_now a)) ?s1")
  have t1: "targets ?s1 = targets s" by (simp add: ensure_bucket_def)
  have "same_targets ?s1 s2 \<or> moves (sa_messageId a) {TSending} TSent ?s1 s2"
    using cas_target_moves [OF c, of TSent] by (auto simp: sent_change_def)
  moreover have "targets s3 = targets s2"
    using b c cas_draft_targets [of sc "sa_messageId a" _ s2]
    by (auto simp: mark_sent_body_def Let_def bump_bucket_def split: if_splits prod.splits
        dest!: append_audit_targets) (metis fst_conv)
  ultimately show ?thesis
    using target_stat_cong [of s3 s2] target_stat_cong [OF t1] t1 by (auto simp: s' same_targets_def moves_def)
qed

lemma claim_moves:
  assumes "claim_target sc p now s = Inr (s', r)" and "unique_targets s"
  shows "unique_targets s'
    \<and> (target_stat s' = target_stat s
       \<or> (target_stat s (jp_messageId p) = None
          \<and> target_stat s' = (target_stat s)(jp_messageId p \<mapsto> TPending)))"
proof -
  have "s' = s \<or> (find_row (\<lambda>t. tg_messageId t = jp_messageId p) (targets s) = None
      \<and> s' = s\<lparr>targets := targets s @ [new_target p now]\<rparr>)"
    using assms(1) by (auto simp: claim_target_def split: if_splits)
  then show ?thesis
  proof
    assume "s' = s"
    with assms(2) show ?thesis by simp
  next
    assume new: "find_row (\<lambda>t. tg_messageId t = jp_messageId p) (targets s) = None
      \<and> s' = s\<lparr>targets := targets s @ [new_target p now]\<rparr>"
    then have "unique_targets s'"
      using assms(2) by (auto simp: unique_targets_def find_row_None_iff new_target_def)
    moreover have "target_stat s' = (target_stat s)(jp_messageId p \<mapsto> TPending)"
      using new by (auto simp: target_stat_def find_target_def find_row_append find_row_Cons new_target_def
          fun_eq_iff split: option.splits)
    moreover have "target_stat s (jp_messageId p) = None"
      using new by (simp add: target_stat_def find_target_def)
    ultimately show ?thesis by blast
  qed
qed

section \<open>The system\<close>

datatype send_phase_pc = AtSend | AtComplete

record dispatch_sys =
  sy_db :: db
  sy_pc :: "nat \<Rightarrow> (string \<times> send_phase_pc) option"
  sy_accepted :: "string list"

text \<open>
  The committed writes of the workers and the sweep. A worker \<open>w\<close> between its tombstone and
  its completion has a program counter; all others are idle, and what they do between
  their writes only reads. A refused send is one that SES did not take.
\<close>

inductive sys_step :: "dispatch_sys \<Rightarrow> dispatch_sys \<Rightarrow> bool" where
  sys_claim: "claim_target sc p now (sy_db y) = Inr (s', r) \<Longrightarrow> sys_step y (y\<lparr>sy_db := s'\<rparr>)"
| sys_resolve: "resolve_terminal sc mid reason st (sy_db y) = (s', b) \<Longrightarrow> sys_step y (y\<lparr>sy_db := s'\<rparr>)"
| sys_defer: "defer_target sc mid (sy_db y) = (s', b) \<Longrightarrow> sys_step y (y\<lparr>sy_db := s'\<rparr>)"
| sys_start: "sy_pc y w = None \<Longrightarrow> start_sending sc mid now (sy_db y) = (s', Started) \<Longrightarrow>
    sys_step y (y\<lparr>sy_db := s', sy_pc := (sy_pc y)(w \<mapsto> (mid, AtSend))\<rparr>)"
| sys_accept: "sy_pc y w = Some (mid, AtSend) \<Longrightarrow>
    sys_step y (y\<lparr>sy_pc := (sy_pc y)(w \<mapsto> (mid, AtComplete)), sy_accepted := sy_accepted y @ [mid]\<rparr>)"
| sys_refuse: "sy_pc y w = Some (mid, AtSend) \<Longrightarrow> revert_to_pending sc mid (sy_db y) = (s', b) \<Longrightarrow>
    sys_step y (y\<lparr>sy_db := s', sy_pc := (sy_pc y)(w := None)\<rparr>)"
| sys_complete: "sy_pc y w = Some (sa_messageId a, AtComplete) \<Longrightarrow>
    mark_sent_with_quota sc a (sy_db y) = (s', r) \<Longrightarrow> sys_step y (y\<lparr>sy_db := s'\<rparr>)"
| sys_leave: "sys_step y (y\<lparr>sy_pc := (sy_pc y)(w := None)\<rparr>)"
| sys_other: "targets s' = targets (sy_db y) \<Longrightarrow> sys_step y (y\<lparr>sy_db := s'\<rparr>)"

inductive_cases sys_stepE: "sys_step y y'"

text \<open>
  The invariant: a message whose target could still be started (no target, pending or
  deferred) is in nobody's hands and was never accepted; a message is in at most one
  worker's hands; before the send it was not accepted; no message was accepted twice.
\<close>

definition startable :: "db \<Rightarrow> string \<Rightarrow> bool" where
  "startable s mid \<longleftrightarrow> target_stat s mid \<in> {None, Some TPending, Some TDeferred}"

definition untouched :: "dispatch_sys \<Rightarrow> string \<Rightarrow> bool" where
  "untouched y mid \<longleftrightarrow> (\<forall>w ph. sy_pc y w \<noteq> Some (mid, ph)) \<and> mid \<notin> set (sy_accepted y)"

definition sys_inv :: "dispatch_sys \<Rightarrow> bool" where
  "sys_inv y \<longleftrightarrow> unique_targets (sy_db y) \<and> distinct (sy_accepted y)
     \<and> (\<forall>mid. startable (sy_db y) mid \<longrightarrow> untouched y mid)
     \<and> (\<forall>w w' mid ph ph'. sy_pc y w = Some (mid, ph) \<longrightarrow> sy_pc y w' = Some (mid, ph') \<longrightarrow> w = w')
     \<and> (\<forall>w mid. sy_pc y w = Some (mid, AtSend) \<longrightarrow> mid \<notin> set (sy_accepted y))"

lemma unique_same: "map tg_messageId (targets s') = map tg_messageId (targets s) \<Longrightarrow>
    unique_targets s \<Longrightarrow> unique_targets s'"
  by (simp add: unique_targets_def)

text \<open>A write that only closes targets, or moves pending ones to deferred, keeps the invariant.\<close>

lemma inv_db_step:
  assumes "sys_inv y" and "unique_targets s'"
    and "\<And>mid. startable s' mid \<Longrightarrow> startable (sy_db y) mid"
  shows "sys_inv (y\<lparr>sy_db := s'\<rparr>)"
  using assms by (auto simp: sys_inv_def untouched_def)

lemma same_startable: "same_targets s s' \<Longrightarrow> startable s' mid \<longleftrightarrow> startable s mid"
  by (simp add: same_targets_def startable_def)

lemma moves_startable:
  "moves mid0 from to_st s s' \<Longrightarrow> (from \<subseteq> {TPending, TDeferred} \<or> to_st \<notin> {TPending, TDeferred}) \<Longrightarrow>
    startable s' mid \<Longrightarrow> startable s mid"
  by (auto simp: moves_def startable_def split: if_splits)

lemma inv_moves:
  assumes "sys_inv y" and "same_targets (sy_db y) s' \<or> moves mid from to_st (sy_db y) s'"
    and "from \<subseteq> {TPending, TDeferred} \<or> to_st \<notin> {TPending, TDeferred}"
  shows "sys_inv (y\<lparr>sy_db := s'\<rparr>)"
proof (rule inv_db_step [OF assms(1)])
  show "unique_targets s'"
    using assms(1,2) by (auto simp: sys_inv_def same_targets_def moves_def dest: unique_same)
  show "startable s' mid' \<Longrightarrow> startable (sy_db y) mid'" for mid'
    using assms(2,3) same_startable moves_startable by blast
qed

lemma sys_step_inv: "sys_step y y' \<Longrightarrow> sys_inv y \<Longrightarrow> sys_inv y'"
proof (induction rule: sys_step.induct)
  case (sys_claim sc p now y s' r)
  then have u: "unique_targets (sy_db y)" by (simp add: sys_inv_def)
  show ?case
    using claim_moves [OF sys_claim(1) u]
    by (intro inv_db_step [OF sys_claim(2)]) (auto simp: startable_def split: if_splits)
next
  case (sys_resolve sc mid reason st y s' b)
  show ?case
    by (rule inv_moves [OF sys_resolve(2) resolve_terminal_moves [OF sys_resolve(1)]])
      (cases "or_default st ToSuppressed"; simp)
next
  case (sys_defer sc mid y s' b)
  show ?case by (rule inv_moves [OF sys_defer(2) defer_moves [OF sys_defer(1)]]) simp
next
  case (sys_start y w sc mid now s')
  then have u: "unique_targets (sy_db y)" by (simp add: sys_inv_def)
  have m: "moves mid {TPending} TSending (sy_db y) s'" using start_sending_moves [OF sys_start(2) u] by simp
  then have unt: "untouched y mid" and "\<not> startable s' mid"
    using sys_start(3) by (auto simp: sys_inv_def moves_def startable_def)
  moreover have "sys_inv (y\<lparr>sy_db := s'\<rparr>)" using m by (intro inv_moves [OF sys_start(3)]) auto
  ultimately show ?case by (auto simp: sys_inv_def untouched_def)
next
  case (sys_accept y w mid)
  then have "\<not> startable (sy_db y) mid" by (auto simp: sys_inv_def untouched_def)
  with sys_accept show ?case by (auto simp: sys_inv_def untouched_def)
next
  case (sys_refuse y w mid sc s' b)
  have u: "unique_targets (sy_db y)" using sys_refuse(3) by (simp add: sys_inv_def)
  have m: "same_targets (sy_db y) s' \<or> moves mid {TSending} TPending (sy_db y) s'"
    by (rule revert_moves [OF sys_refuse(2)])
  have free: "untouched (y\<lparr>sy_pc := (sy_pc y)(w := None)\<rparr>) mid"
    using sys_refuse(1,3) by (auto simp: sys_inv_def untouched_def)
  have "unique_targets s'" using m u by (auto simp: same_targets_def moves_def dest: unique_same)
  moreover have "startable s' k \<Longrightarrow> k = mid \<or> startable (sy_db y) k" for k
    using m by (auto simp: same_targets_def moves_def startable_def split: if_splits)
  moreover have "untouched (y\<lparr>sy_pc := (sy_pc y)(w := None)\<rparr>) k" if "k = mid \<or> startable (sy_db y) k" for k
  proof (cases "k = mid")
    case True
    then show ?thesis using free by simp
  next
    case False
    with that sys_refuse(3) have "untouched y k" by (simp add: sys_inv_def)
    then show ?thesis by (simp add: untouched_def)
  qed
  ultimately have "unique_targets s'" "\<And>k. startable s' k \<Longrightarrow> untouched (y\<lparr>sy_pc := (sy_pc y)(w := None)\<rparr>) k"
    by blast+
  then show ?case using sys_refuse(3) unfolding sys_inv_def untouched_def by simp
next
  case (sys_complete y w a sc s' r)
  show ?case by (rule inv_moves [OF sys_complete(3) mark_sent_moves [OF sys_complete(2)]]) simp
next
  case (sys_leave y w)
  then show ?case by (auto simp: sys_inv_def untouched_def)
next
  case (sys_other s' y)
  with target_stat_cong [OF sys_other(1)] show ?case
    by (intro inv_db_step) (simp_all add: sys_inv_def unique_targets_def startable_def)
qed

definition sys_init :: "db \<Rightarrow> dispatch_sys" where
  "sys_init s = \<lparr>sy_db = s, sy_pc = (\<lambda>_. None), sy_accepted = []\<rparr>"

lemma sys_init_inv: "unique_targets s \<Longrightarrow> sys_inv (sys_init s)"
  by (simp add: sys_inv_def sys_init_def untouched_def)

lemma sys_reachable_inv: "sys_step\<^sup>*\<^sup>* y y' \<Longrightarrow> sys_inv y \<Longrightarrow> sys_inv y'"
  by (induction rule: rtranclp_induct) (auto simp: sys_step_inv)

text \<open>
  C1. At most one acceptance. Start from any database with no worker in flight and let the
  writes of any number of workers, sweeps, replays and crashes interleave: as long as a send
  that failed was not taken by SES, no message is accepted by SES twice, and no two workers
  ever hold the same message between tombstone and completion.
\<close>

theorem at_most_one_acceptance:
  assumes "unique_targets s" and "sys_step\<^sup>*\<^sup>* (sys_init s) y"
  shows "distinct (sy_accepted y)
    \<and> (\<forall>w w' mid ph ph'. sy_pc y w = Some (mid, ph) \<longrightarrow> sy_pc y w' = Some (mid, ph') \<longrightarrow> w = w')"
  using sys_reachable_inv [OF assms(2) sys_init_inv [OF assms(1)]] by (simp add: sys_inv_def)

text \<open>A closed target, one that no operation opens again.\<close>

definition closed_target :: "db \<Rightarrow> string \<Rightarrow> bool" where
  "closed_target s mid \<longleftrightarrow> target_stat s mid \<in> {Some TDeferred, Some TSuppressed, Some TFailed}"

lemma closed_moves:
  assumes "same_targets s s' \<or> moves k from to_st s s'" and "closed_target s mid"
    and "from \<inter> {TDeferred, TSuppressed, TFailed} = {} \<or> to_st \<in> {TDeferred, TSuppressed, TFailed}"
  shows "closed_target s' mid"
proof (cases "mid = k")
  case True
  with assms show ?thesis by (auto simp: same_targets_def moves_def closed_target_def)
next
  case False
  with assms show ?thesis by (auto simp: same_targets_def moves_def closed_target_def)
qed

lemma closed_step: "sys_step y y' \<Longrightarrow> sys_inv y \<Longrightarrow> untouched y mid \<Longrightarrow> closed_target (sy_db y) mid \<Longrightarrow>
    untouched y' mid \<and> closed_target (sy_db y') mid"
proof (induction rule: sys_step.induct)
  case (sys_claim sc p now y s' r)
  then have u: "unique_targets (sy_db y)" by (simp add: sys_inv_def)
  from claim_moves [OF sys_claim(1) u] sys_claim(3,4) show ?case
    by (cases "mid = jp_messageId p") (auto simp: untouched_def closed_target_def)
next
  case (sys_resolve sc mid' reason st y s' b)
  have "closed_target s' mid"
    by (rule closed_moves [OF resolve_terminal_moves [OF sys_resolve(1)] sys_resolve(4)])
      (cases "or_default st ToSuppressed"; simp)
  with sys_resolve(3) show ?case by (simp add: untouched_def)
next
  case (sys_defer sc mid' y s' b)
  have "closed_target s' mid" by (rule closed_moves [OF defer_moves [OF sys_defer(1)] sys_defer(4)]) simp
  with sys_defer(3) show ?case by (simp add: untouched_def)
next
  case (sys_start y w sc mid' now s')
  then have u: "unique_targets (sy_db y)" by (simp add: sys_inv_def)
  have m: "moves mid' {TPending} TSending (sy_db y) s'" using start_sending_moves [OF sys_start(2) u] by simp
  then have "mid \<noteq> mid'" using sys_start(5) by (auto simp: moves_def closed_target_def)
  moreover have "closed_target s' mid" by (rule closed_moves [OF disjI2 [OF m] sys_start(5)]) simp
  ultimately show ?case using sys_start(4) by (simp add: untouched_def)
next
  case (sys_accept y w mid')
  then show ?case by (auto simp: untouched_def)
next
  case (sys_refuse y w mid' sc s' b)
  have "closed_target s' mid" by (rule closed_moves [OF revert_moves [OF sys_refuse(2)] sys_refuse(5)]) simp
  with sys_refuse(4) show ?case by (simp add: untouched_def)
next
  case (sys_complete y w a sc s' r)
  have "closed_target s' mid" by (rule closed_moves [OF mark_sent_moves [OF sys_complete(2)] sys_complete(5)]) simp
  with sys_complete(4) show ?case by (simp add: untouched_def)
next
  case (sys_leave y w)
  then show ?case by (simp add: untouched_def)
next
  case (sys_other s' y)
  with target_stat_cong [OF sys_other(1)] show ?case by (simp add: untouched_def closed_target_def)
qed

text \<open>
  C31. A deferred target is never sent. Once a target is deferred, nothing that any worker or
  sweep does sends it: its message is never handed to SES, and its status stays deferred or
  becomes suppressed or failed.
\<close>

theorem deferred_never_sent:
  assumes "unique_targets s" and "sys_step\<^sup>*\<^sup>* (sys_init s) y" and "target_stat (sy_db y) mid = Some TDeferred"
    and "sys_step\<^sup>*\<^sup>* y y'"
  shows "mid \<notin> set (sy_accepted y') \<and> target_stat (sy_db y') mid \<in> {Some TDeferred, Some TSuppressed, Some TFailed}"
proof -
  have inv: "sys_inv y" by (rule sys_reachable_inv [OF assms(2) sys_init_inv [OF assms(1)]])
  have unt: "untouched y mid" using inv assms(3) by (simp add: sys_inv_def startable_def)
  have closed: "closed_target (sy_db y) mid" using assms(3) by (simp add: closed_target_def)
  from assms(4) have "sys_inv y' \<and> untouched y' mid \<and> closed_target (sy_db y') mid"
  proof (induction rule: rtranclp_induct)
    case base
    show ?case using inv unt closed by simp
  next
    case (step y1 y2)
    then show ?case using closed_step [OF step(2)] sys_step_inv [OF step(2)] by simp
  qed
  then show ?thesis by (simp add: untouched_def closed_target_def)
qed

end
