(* ===== verification/DispatchRuns.thy ===== *)
theory DispatchRuns
  imports DispatchSystem
begin

text \<open>
  Runs of the dispatch job: every run is a path of the system of theory DispatchSystem when
  a failed send means that SES did not take the message; the completion transaction counts a
  send once; and, without that hypothesis, two runs of one job send the mail twice.
\<close>

section \<open>A run is a path of the system\<close>

definition sys_view :: "(nat \<Rightarrow> (string \<times> send_phase_pc) option) \<Rightarrow> world \<Rightarrow> dispatch_sys" where
  "sys_view pc w = \<lparr>sy_db = wd_db w, sy_pc = pc, sy_accepted = wd_accepted w\<rparr>"

definition honest :: "sdk_call \<Rightarrow> bool" where
  "honest sdk \<longleftrightarrow> (\<forall>input. fst (sdk input) = (\<not> is_error (ses_send (snd (sdk input)))))"

abbreviation sys_path :: "dispatch_sys \<Rightarrow> dispatch_sys \<Rightarrow> bool" where
  "sys_path y y' \<equiv> sys_step\<^sup>*\<^sup>* y y'"

lemma path_one: "sys_step y y' \<Longrightarrow> sys_path y y'"
  by simp

lemma path_trans: "sys_path x y \<Longrightarrow> sys_path y z \<Longrightarrow> sys_path x z"
  by (rule rtranclp_trans)

lemma view_db: "(sys_view pc w)\<lparr>sy_db := s\<rparr> = sys_view pc (w\<lparr>wd_db := s\<rparr>)"
  by (simp add: sys_view_def)

lemma path_claim: "claim_target sc p now (wd_db w) = Inr (s', r) \<Longrightarrow>
    sys_path (sys_view pc w) (sys_view pc (w\<lparr>wd_db := s'\<rparr>))"
  using sys_claim [of sc p now "sys_view pc w" s' r] by (simp add: view_db [symmetric] sys_view_def)

lemma path_resolve: "sys_path (sys_view pc w) (sys_view pc (w\<lparr>wd_db := fst (resolve_terminal sc mid reason st (wd_db w))\<rparr>))"
  using sys_resolve [of sc mid reason st "sys_view pc w"
      "fst (resolve_terminal sc mid reason st (wd_db w))" "snd (resolve_terminal sc mid reason st (wd_db w))"]
  by (simp add: sys_view_def)

lemma path_defer: "sys_path (sys_view pc w) (sys_view pc (w\<lparr>wd_db := fst (defer_target sc mid (wd_db w))\<rparr>))"
  using sys_defer [of sc mid "sys_view pc w"
      "fst (defer_target sc mid (wd_db w))" "snd (defer_target sc mid (wd_db w))"]
  by (simp add: sys_view_def)

lemma path_other: "targets s' = targets (wd_db w) \<Longrightarrow> sys_path (sys_view pc w) (sys_view pc (w\<lparr>wd_db := s'\<rparr>))"
  using sys_other [of s' "sys_view pc w"] by (simp add: sys_view_def)

lemma path_leave: "sys_path (sys_view pc w) (sys_view (pc(k := None)) w)"
  using sys_leave [of "sys_view pc w" k] by (simp add: sys_view_def)

lemma path_refuse: "pc k = Some (mid, AtSend) \<Longrightarrow>
    sys_path (sys_view pc w) (sys_view (pc(k := None)) (w\<lparr>wd_db := fst (revert_to_pending sc mid (wd_db w))\<rparr>))"
  using sys_refuse [of "sys_view pc w" k mid sc
      "fst (revert_to_pending sc mid (wd_db w))" "snd (revert_to_pending sc mid (wd_db w))"]
  by (simp add: sys_view_def)

lemma path_complete:
  assumes "pc k = Some (sa_messageId a, AtComplete)" and "completion_loop fault sc a attempts (wd_db w) = (s', r)"
  shows "sys_path (sys_view pc w) (sys_view pc (w\<lparr>wd_db := s'\<rparr>))"
  using assms(2)
proof (induction attempts arbitrary: w)
  case (Cons attempt rest)
  show ?case
  proof (cases "fault attempt")
    case None
    obtain s1 x where m: "mark_sent_with_quota sc a (wd_db w) = (s1, x)" by (cases "mark_sent_with_quota sc a (wd_db w)")
    have one: "sys_path (sys_view pc w) (sys_view pc (w\<lparr>wd_db := s1\<rparr>))"
      using sys_complete [of "sys_view pc w" k a sc s1 x] assms(1) m by (simp add: sys_view_def)
    show ?thesis
    proof (cases x)
      case (Inl e)
      with Cons.prems None m have "completion_loop fault sc a rest (wd_db (w\<lparr>wd_db := s1\<rparr>)) = (s', r)" by simp
      from path_trans [OF one Cons.IH [OF this]] show ?thesis by simp
    next
      case (Inr y)
      with Cons.prems None m one show ?thesis by simp
    qed
  qed (use Cons in simp)
next
  case Nil
  then have "w\<lparr>wd_db := s'\<rparr> = w" by auto
  then show ?case by simp
qed

lemma path_error:
  assumes "pc k = Some (jp_messageId p, AtSend)" and "handle_ses_error sc p shop err (wd_db w) = (s', r)"
  shows "sys_path (sys_view pc w) (sys_view (pc(k := None)) (w\<lparr>wd_db := s'\<rparr>))"
proof -
  let ?mid = "jp_messageId p"
  have resolved: "sys_path (sys_view pc w) (sys_view (pc(k := None))
      (w\<lparr>wd_db := fst (resolve_terminal sc ?mid reason st (wd_db w))\<rparr>))" for reason st
    by (rule path_trans [OF path_resolve path_leave])
  consider "s' = fst (revert_to_pending sc ?mid (wd_db w))"
    | reason st where "s' = fst (resolve_terminal sc ?mid reason st (wd_db w))"
    | reason st row u where "append_audit sc row (fst (resolve_terminal sc ?mid reason st (wd_db w))) = Inr (s', u)"
    using assms(2) by (auto simp: handle_ses_error_def Let_def split: exn.splits if_splits sum.splits)
  then show ?thesis
  proof cases
    case 1
    with path_refuse [of pc k ?mid w sc, OF assms(1)] show ?thesis by simp
  next
    case (2 reason st)
    with resolved show ?thesis by simp
  next
    case (3 reason st row u)
    have "targets s' = targets (wd_db (w\<lparr>wd_db := fst (resolve_terminal sc ?mid reason st (wd_db w))\<rparr>))"
      using append_audit_targets [OF 3] by simp
    from path_trans [OF resolved path_other [OF this]] show ?thesis by simp
  qed
qed

lemma path_send:
  assumes "honest (de_sdk env)" and "pc k = None" and "send_phase env sc p ctx to_email now w = (w', r)"
  shows "sys_path (sys_view pc w) (sys_view pc w')"
proof -
  let ?mid = "jp_messageId p"
  let ?a = "\<lparr>ea_from = de_from env, ea_to = to_email, ea_subject = derive_subject,
      ea_html = dc_generatedText ctx, ea_text = None, ea_correlationId = ?mid,
      ea_configurationSetName = de_configurationSetName env\<rparr>"
  have idle: "pc(k := None) = pc" using assms(2) by (simp add: fun_eq_iff)
  obtain s1 st where start: "start_sending sc ?mid now (wd_db w) = (s1, st)"
    by (cases "start_sending sc ?mid now (wd_db w)")
  show ?thesis
  proof (cases "st = Started")
    case False
    then have "s1 = wd_db w" using start_sending_miss [OF start] by simp
    moreover have "w' = w\<lparr>wd_db := s1\<rparr>"
      using assms(3) start False by (cases st) (auto simp: send_phase_def Let_def)
    ultimately show ?thesis by simp
  next
    case True
    let ?pc1 = "pc(k \<mapsto> (?mid, AtSend))" and ?pc2 = "pc(k \<mapsto> (?mid, AtComplete))" and ?w1 = "w\<lparr>wd_db := s1\<rparr>"
    have p1: "sys_path (sys_view pc w) (sys_view ?pc1 ?w1)"
      using sys_start [of "sys_view pc w" k sc ?mid now s1] assms(2) start True by (simp add: sys_view_def)
    obtain taken resp where sdk: "de_sdk env (build_send_email_input ?a) = (taken, resp)" by fastforce
    have taken: "taken \<longleftrightarrow> \<not> is_error (ses_send resp)"
      using assms(1) sdk unfolding honest_def by (metis fst_conv snd_conv)
    show ?thesis
    proof (cases "ses_send resp")
      case (Inl err)
      with taken have "\<not> taken" by simp
      with Inl sdk have send: "email_send (de_sdk env) ?a ?w1 = (?w1, Inl err)" by (simp add: email_send_def)
      obtain s3 x where h: "handle_ses_error sc p (dc_shop ctx) err s1 = (s3, x)"
        by (cases "handle_ses_error sc p (dc_shop ctx) err s1")
      have "w' = ?w1\<lparr>wd_db := s3\<rparr>"
        using assms(3) start True send h by (simp add: send_phase_def Let_def)
      moreover have "sys_path (sys_view ?pc1 ?w1) (sys_view (?pc1(k := None)) (?w1\<lparr>wd_db := s3\<rparr>))"
        by (rule path_error) (use h in simp_all)
      ultimately show ?thesis using p1 idle by (auto intro: path_trans)
    next
      case (Inr pid)
      with taken have "taken" by simp
      let ?w2 = "?w1\<lparr>wd_accepted := wd_accepted w @ [?mid]\<rparr>"
      from \<open>taken\<close> Inr sdk have send: "email_send (de_sdk env) ?a ?w1 = (?w2, Inr pid)"
        by (simp add: email_send_def)
      have p2: "sys_path (sys_view ?pc1 ?w1) (sys_view ?pc2 ?w2)"
        using sys_accept [of "sys_view ?pc1 ?w1" k ?mid] by (simp add: sys_view_def)
      let ?s = "\<lparr>sa_messageId = ?mid, sa_merchantId = jp_merchantId p, sa_shop = dc_shop ctx,
          sa_campaignId = jp_campaignId p, sa_customerId = jp_customerId p,
          sa_providerMessageId = pid, sa_now = now\<rparr>"
      obtain s3 x where c: "completion_loop (de_fault env) sc ?s completion_attempts s1 = (s3, x)"
        by (cases "completion_loop (de_fault env) sc ?s completion_attempts s1")
      have "w' = ?w2\<lparr>wd_db := s3\<rparr>"
        using assms(3) start True send c by (simp add: send_phase_def Let_def)
      moreover have "sys_path (sys_view ?pc2 ?w2) (sys_view ?pc2 (?w2\<lparr>wd_db := s3\<rparr>))"
        by (rule path_complete [where a = ?s and k = k]) (use c in simp_all)
      moreover have "sys_path (sys_view ?pc2 (?w2\<lparr>wd_db := s3\<rparr>)) (sys_view (?pc2(k := None)) (?w2\<lparr>wd_db := s3\<rparr>))"
        by (rule path_leave)
      ultimately show ?thesis using p1 p2 idle by (metis fun_upd_upd path_trans)
    qed
  qed
qed

text \<open>
  C2. The worker refines the protocol. Every run of the dispatch job by an idle worker,
  whatever its gates, its provider answers and its database faults, is a sequence of steps
  of the system of theory DispatchSystem, provided a failed send means that SES did not take it. So
  what is proved of that system holds between and during all runs.
\<close>

theorem job_refines_system:
  assumes "honest (de_sdk env)" and "pc k = None"
    and "process_campaign_dispatch_job env p t0 t1 t2 w = (w', r)"
  shows "sys_step\<^sup>*\<^sup>* (sys_view pc w) (sys_view pc w')"
proof (cases "claim_target (Tenant (jp_merchantId p)) p t0 (wd_db w)")
  case (Inl e)
  with assms(3) show ?thesis by (simp add: process_campaign_dispatch_job_def Let_def)
next
  case (Inr sr)
  let ?sc = "Tenant (jp_merchantId p)" and ?mid = "jp_messageId p"
  obtain s1 x where c: "claim_target ?sc p t0 (wd_db w) = Inr (s1, x)" using Inr by (cases sr) auto
  let ?w1 = "w\<lparr>wd_db := s1\<rparr>"
  have p1: "sys_path (sys_view pc w) (sys_view pc ?w1)" by (rule path_claim [OF c])
  consider "w' = ?w1" | reason st where "w' = ?w1\<lparr>wd_db := fst (resolve_terminal ?sc ?mid reason st s1)\<rparr>"
    | "w' = ?w1\<lparr>wd_db := fst (defer_target ?sc ?mid s1)\<rparr>"
    | ctx to_email where "send_phase env ?sc p ctx to_email t2 ?w1 = (w', r)"
    using assms(3) by (auto simp: process_campaign_dispatch_job_def Let_def c
        split: sum.splits option.splits if_splits gate_outcome.splits)
  then show ?thesis
  proof cases
    case 1
    with p1 show ?thesis by simp
  next
    case (2 reason st)
    with p1 path_resolve [of pc ?w1 ?sc ?mid reason st] show ?thesis by (auto intro: path_trans)
  next
    case 3
    with p1 path_defer [of pc ?w1 ?sc ?mid] show ?thesis by (auto intro: path_trans)
  next
    case (4 ctx to_email)
    from path_trans [OF p1 path_send [where pc = pc and k = k, OF assms(1,2) 4]] show ?thesis .
  qed
qed

section \<open>A small store ready to send\<close>

definition sample_generation :: generation_row where
  "sample_generation = \<lparr>ge_id = ''g'', ge_merchantId = ''m'', ge_customerId = ''c'',
     ge_triggerState = Lost, ge_previousState = Dormant, ge_rDays = 400, ge_fCount = 2, ge_mCents = 900,
     ge_currency = ''EUR'', ge_provider = ''anthropic'', ge_modelId = ''x'', ge_systemPrompt = [],
     ge_userPrompt = [], ge_discountValuePercent = None, ge_status = GCompleted,
     ge_generatedText = Some ''hi'', ge_inputTokens = None, ge_outputTokens = None,
     ge_costMicrocents = None, ge_discountCode = None, ge_shopifyDiscountId = None,
     ge_lastError = None, ge_createdAt = 0, ge_completedAt = None, ge_failedAt = None,
     ge_churnRiskScore = None, ge_totalTokens = None, ge_latencyMs = None\<rparr>"

definition sample_settings :: settings_row where
  "sample_settings = \<lparr>se_merchantId = ''m'', se_attributionDirectWindowDays = 7, se_attributionAssistedWindowDays = 14,
     se_sendTimeStartHour = 9, se_sendTimeEndHour = 18, se_defaultCooldownHours = 168,
     se_maxDailySendsPerCustomer = 1, se_dailySendCap = 100, se_monthlySendsCap = 1000,
     se_monthlyAiSpendCapCents = 1000, se_hourlyGenerationCap = 50,
     se_winbackDiscountEnabled = False, se_winbackDiscountPercent = 10, se_aiTone = JNull\<rparr>"

definition sample_message :: message_row where
  "sample_message = \<lparr>ms_id = ''x'', ms_merchantId = ''m'', ms_customerId = ''c'', ms_aiGenerationId = ''g'',
     ms_generatedText = ''hi'', ms_status = MDraft, ms_sentAt = None, ms_provider = None,
     ms_providerMessageId = None\<rparr>"

definition sample_campaign :: campaign_row where
  "sample_campaign = \<lparr>ca_id = ''k'', ca_merchantId = ''m'', ca_status = CActive,
     ca_triggerStates = [''lost''], ca_createdAt = 0\<rparr>"

definition ready_db :: db where
  "ready_db = empty_db\<lparr>
     merchants := [\<lparr>me_id = ''m'', me_shop = ''a.myshopify.com'', me_name = None, me_currency = None,
       me_timezone = None, me_uninstalledAt = None, me_tokenRevokedAt = None, me_scoringInitializedAt = Some 1,
       me_installedAt = 0, me_email = None, me_country = None, me_shopifyPlan = None,
       me_shopDetailsFetchedAt = None\<rparr>],
     settings := [sample_settings],
     customers := [\<lparr>cu_id = ''c'', cu_merchantId = ''m'', cu_shopifyCustomerId = ''gid://shopify/Customer/1'',
       cu_email = Some ''c@x.org'', cu_firstName = None, cu_lastName = None, cu_consent = Subscribed,
       cu_state = Lost, cu_shopifyCreatedAt = None, cu_createdAt = 0, cu_deletedAt = None,
       cu_phone = None, cu_acceptsMarketing = True, cu_acceptsSms = False, cu_ordersCount = 0, cu_tags = [],
       cu_shopifyUpdatedAt = None\<rparr>],
     generations := [sample_generation], messages := [sample_message], campaigns := [sample_campaign]\<rparr>"

definition ready_world :: world where
  "ready_world = \<lparr>wd_db = ready_db, wd_accepted = []\<rparr>"

definition sample_job :: campaign_dispatch_job_payload where
  "sample_job = \<lparr>jp_merchantId = ''m'', jp_messageId = ''x'', jp_campaignId = ''k'', jp_customerId = ''c''\<rparr>"

definition sample_env :: "sdk_call \<Rightarrow> dispatch_env" where
  "sample_env sdk = \<lparr>de_tz = utc_clock, de_sdk = sdk, de_from = ''f@x.org'',
     de_configurationSetName = None, de_fault = (\<lambda>_. None)\<rparr>"

abbreviation noon :: time where "noon \<equiv> 12 * ms_per_hour"

definition sent_ok :: sdk_call where "sent_ok input = (True, Inr (Some ''ses-1''))"

text \<open>SES takes the message and the connection drops before its answer arrives.\<close>

definition answer_lost :: sdk_call where
  "answer_lost input = (True, Inl (OtherSdkError None ''socket hang up''))"

definition run_sample :: "sdk_call \<Rightarrow> world \<Rightarrow> world" where
  "run_sample sdk w = fst (process_campaign_dispatch_job (sample_env sdk) sample_job noon noon noon w)"

lemma sample_sent:
  "let w = run_sample sent_ok ready_world in
    wd_accepted w = [''x''] \<and> map tg_status (targets (wd_db w)) = [TSent]
    \<and> map ms_status (messages (wd_db w)) = [MSent] \<and> map qu_sentCount (quota_buckets (wd_db w)) = [1]"
  by code_simp

text \<open>
  The hypothesis on failed sends matters, and the provider does not establish it: a dropped
  connection is mapped to a retryable error, so when SES has taken the message and its
  answer is lost, the target goes back to pending and the retried job hands the same message
  to SES again.
\<close>

theorem lost_answer_sends_twice:
  "\<not> honest answer_lost
    \<and> map tg_status (targets (wd_db (run_sample answer_lost ready_world))) = [TPending]
    \<and> wd_accepted (run_sample answer_lost (run_sample answer_lost ready_world)) = [''x'', ''x'']"
proof -
  have "is_error (ses_send (snd (answer_lost i)))" "fst (answer_lost i)" for i
    by (simp_all add: answer_lost_def ses_send_def)
  then have "\<not> honest answer_lost" by (auto simp: honest_def)
  moreover have "map tg_status (targets (wd_db (run_sample answer_lost ready_world))) = [TPending]"
    by code_simp
  moreover have "wd_accepted (run_sample answer_lost (run_sample answer_lost ready_world)) = [''x'', ''x'']"
    by code_simp
  ultimately show ?thesis by simp
qed

lemma sent_ok_honest: "honest sent_ok"
  by (simp add: honest_def sent_ok_def ses_send_def present_def)

lemma job_refines_system_witness:
  "sys_step\<^sup>*\<^sup>* (sys_view (\<lambda>_. None) ready_world) (sys_view (\<lambda>_. None) (run_sample sent_ok ready_world))"
proof -
  have "honest (de_sdk (sample_env sent_ok))" by (simp add: sample_env_def sent_ok_honest)
  from job_refines_system [where pc = "\<lambda>_. None" and k = 0, OF this refl prod.collapse [symmetric]]
  show ?thesis by (simp add: run_sample_def)
qed

lemma at_most_one_acceptance_witness:
  "\<exists>y. sys_step\<^sup>*\<^sup>* (sys_init ready_db) y \<and> distinct (sy_accepted y)"
proof -
  have "unique_targets ready_db" by (simp add: ready_db_def empty_db_def unique_targets_def)
  from at_most_one_acceptance [OF this, of "sys_init ready_db"] show ?thesis by blast
qed

definition deferred_db :: db where
  "deferred_db = ready_db\<lparr>targets := [(new_target sample_job 0)\<lparr>tg_status := TDeferred\<rparr>]\<rparr>"

lemma deferred_never_sent_witness:
  "target_stat deferred_db ''x'' = Some TDeferred \<and> ''x'' \<notin> set (sy_accepted (sys_init deferred_db))"
proof -
  have u: "unique_targets deferred_db"
    and d: "target_stat (sy_db (sys_init deferred_db)) ''x'' = Some TDeferred"
    by (simp_all add: deferred_db_def unique_targets_def target_stat_def find_target_def find_row_Cons
        new_target_def sample_job_def sys_init_def)
  from deferred_never_sent [OF u rtranclp.rtrancl_refl d rtranclp.rtrancl_refl] d
  show ?thesis by (simp add: sys_init_def)
qed

section \<open>The completion transaction\<close>

lemma mark_sent_body_D:
  assumes "mark_sent_body (Tenant m) a s = Inr (s', u)"
  shows "quota_buckets s' = quota_buckets (bump_bucket (Tenant m) (sa_merchantId a) (utc_midnight (sa_now a))
      (ensure_bucket (sa_merchantId a) (utc_midnight (sa_now a)) s))
    \<and> audits s' = audits s @ [sent_audit a]
    \<and> messages s' = update_many (\<lambda>x. ms_id x = sa_messageId a \<and> ms_status x = MDraft \<and> ms_merchantId x = m)
        (message_sent_change (sa_now a) (sa_providerMessageId a)) (messages s)
    \<and> targets s' = update_many (\<lambda>t. tg_messageId t = sa_messageId a \<and> tg_status t = TSending \<and> tg_merchantId t = m)
        (sent_change (sa_now a)) (targets s)
    \<and> (\<exists>t \<in> set (targets s). tg_messageId t = sa_messageId a \<and> tg_status t = TSending \<and> tg_merchantId t = m)"
proof -
  let ?s1 = "ensure_bucket (sa_merchantId a) (utc_midnight (sa_now a)) s"
  have e: "targets ?s1 = targets s" "messages ?s1 = messages s" "audits ?s1 = audits s"
    by (simp_all add: ensure_bucket_def)
  show ?thesis
    using assms
    by (auto simp: mark_sent_body_def cas_target_def cas_draft_def bump_bucket_def Let_def e
        update_count_0_iff split: if_splits dest!: append_audit_D)
qed

lemma mark_sent_draft:
  assumes "mark_sent_body (Tenant m) a s = Inr (s', u)"
  shows "\<exists>x \<in> set (messages s). ms_id x = sa_messageId a \<and> ms_status x = MDraft \<and> ms_merchantId x = m"
proof -
  have "messages (ensure_bucket (sa_merchantId a) (utc_midnight (sa_now a)) s) = messages s"
    by (simp add: ensure_bucket_def)
  with assms show ?thesis
    by (auto simp: mark_sent_body_def cas_target_def cas_draft_def Let_def update_count_0_iff split: if_splits)
qed

lemma find_bumped:
  "find_row (\<lambda>b. qu_merchantId b = m \<and> qu_date b = day)
     (quota_buckets (bump_bucket (Tenant m) m day s))
   = map_option (\<lambda>b. b\<lparr>qu_sentCount := qu_sentCount b + 1\<rparr>)
       (find_row (\<lambda>b. qu_merchantId b = m \<and> qu_date b = day) (quota_buckets s))"
proof -
  have "find_row (\<lambda>b. qu_merchantId b = m \<and> qu_date b = day)
      (update_many (\<lambda>b. qu_merchantId b = m \<and> qu_date b = day \<and> in_scope (Tenant m) (qu_merchantId b))
        (\<lambda>b. b\<lparr>qu_sentCount := qu_sentCount b + 1\<rparr>) rows)
    = map_option (\<lambda>b. b\<lparr>qu_sentCount := qu_sentCount b + 1\<rparr>)
        (find_row (\<lambda>b. qu_merchantId b = m \<and> qu_date b = day) rows)" for rows
    by (induction rows) (auto simp: find_row_Cons)
  then show ?thesis unfolding bump_bucket_def by simp
qed

lemma find_ensured:
  "\<exists>b. find_row (\<lambda>b. qu_merchantId b = m \<and> qu_date b = utc_midnight now)
       (quota_buckets (ensure_bucket m (utc_midnight now) s)) = Some b
    \<and> qu_sentCount b = fst (get_quota_usage sc m now s)"
  by (auto simp: ensure_bucket_def get_quota_usage_def find_row_append find_row_Cons split: option.splits)

lemma bump_after_ensure:
  "fst (get_quota_usage (Tenant m) m now (bump_bucket (Tenant m) m (utc_midnight now)
      (ensure_bucket m (utc_midnight now) s))) = fst (get_quota_usage (Tenant m) m now s) + 1"
proof -
  obtain b where "find_row (\<lambda>b. qu_merchantId b = m \<and> qu_date b = utc_midnight now)
       (quota_buckets (ensure_bucket m (utc_midnight now) s)) = Some b"
    "qu_sentCount b = fst (get_quota_usage (Tenant m) m now s)" using find_ensured by blast
  then show ?thesis
    unfolding get_quota_usage_def [of _ _ _ "bump_bucket _ _ _ _"] fst_conv find_bumped by simp
qed

text \<open>
  C30. A send is counted once. When the completion transaction reports a send, the target was
  sending and is now sent, the message was a draft and is now sent, with the time and SES's id,
  every other target and message is as it was, the day's counter of the merchant has grown by one
  and one audit row was added; the same completion repeated (a replay, or the event handler racing the worker) changes
  nothing at all and reports the target as sent.
\<close>

theorem completion_counts_once:
  assumes "mark_sent_with_quota (Tenant m) a s = (s', Inr MarkedSent)" and "sa_merchantId a = m"
    and "unique_targets s"
  shows "target_stat s (sa_messageId a) = Some TSending \<and> target_stat s' (sa_messageId a) = Some TSent
    \<and> filter (\<lambda>t. tg_messageId t \<noteq> sa_messageId a) (targets s')
        = filter (\<lambda>t. tg_messageId t \<noteq> sa_messageId a) (targets s)
    \<and> list_ex (\<lambda>x. ms_id x = sa_messageId a \<and> ms_status x = MDraft \<and> ms_merchantId x = m) (messages s)
    \<and> messages s' = map (\<lambda>x. if ms_id x = sa_messageId a \<and> ms_status x = MDraft \<and> ms_merchantId x = m
          then x\<lparr>ms_status := MSent, ms_sentAt := Some (sa_now a), ms_provider := Some ''amazon-ses'',
                 ms_providerMessageId := Some (sa_providerMessageId a)\<rparr> else x) (messages s)
    \<and> fst (get_quota_usage (Tenant m) m (sa_now a) s') = fst (get_quota_usage (Tenant m) m (sa_now a) s) + 1
    \<and> audits s' = audits s @ [sent_audit a]
    \<and> mark_sent_with_quota (Tenant m) (a\<lparr>sa_providerMessageId := pid, sa_now := later\<rparr>) s'
        = (s', Inr (NoopAlreadyTerminal TSent))"
proof -
  have b: "mark_sent_body (Tenant m) a s = Inr (s', ())"
    using assms(1) by (auto simp: mark_sent_with_quota_def transaction_def split: sum.splits prod.splits if_splits)
  note D = mark_sent_body_D [OF b]
  let ?g = "\<lambda>t. tg_messageId t = sa_messageId a \<and> tg_status t = TSending \<and> tg_merchantId t = m"
  obtain t where t: "t \<in> set (targets s)" "?g t" using D by blast
  have f: "find_target s (sa_messageId a) = Some t"
    using find_row_unique [OF assms(3) [unfolded unique_targets_def] t(1)] t(2) by (simp add: find_target_def)
  have "find_target s' (sa_messageId a)
      = map_option (\<lambda>t. if ?g t then sent_change (sa_now a) t else t) (find_target s (sa_messageId a))"
    unfolding find_target_def D [THEN conjunct2, THEN conjunct2, THEN conjunct2, THEN conjunct1]
    by (rule find_update_many_key) (simp add: sent_change_def)
  then have f': "find_target s' (sa_messageId a) = Some (sent_change (sa_now a) t)" using f t by simp
  have u': "unique_targets s'"
    using assms(3) D by (simp add: unique_targets_def map_update_many sent_change_def)
  have st: "target_stat s' (sa_messageId a) = Some TSent" by (simp add: target_stat_def f' sent_change_def)
  have q: "fst (get_quota_usage (Tenant m) m (sa_now a) s') = fst (get_quota_usage (Tenant m) m (sa_now a) s) + 1"
    using bump_after_ensure [of m "sa_now a" s] D by (simp add: get_quota_usage_def assms(2))
  let ?a = "a\<lparr>sa_providerMessageId := pid, sa_now := later\<rparr>"
  let ?s1 = "ensure_bucket m (utc_midnight later) s'"
  have "x \<notin> set (targets s') \<or> \<not> ?g x" for x
  proof (rule ccontr)
    assume "\<not> (x \<notin> set (targets s') \<or> \<not> ?g x)"
    then have x: "x \<in> set (targets s')" "?g x" by auto
    then have "find_target s' (sa_messageId a) = Some x"
      using find_row_unique [OF u' [unfolded unique_targets_def] x(1)] by (simp add: find_target_def)
    with f' x(2) show False by (simp add: sent_change_def)
  qed
  moreover have "targets ?s1 = targets s'" by (simp add: ensure_bucket_def)
  ultimately have "update_count ?g (targets ?s1) = 0" by (auto simp: update_count_0_iff)
  then have "mark_sent_body (Tenant m) ?a s' = Inl CAS_MISS_MARKER"
    using assms(2) by (simp add: mark_sent_body_def cas_target_def Let_def)
  then have "mark_sent_with_quota (Tenant m) ?a s' = (s', Inr (NoopAlreadyTerminal TSent))"
    by (simp add: mark_sent_with_quota_def f' sent_change_def)
  moreover have "target_stat s (sa_messageId a) = Some TSending" using f t(2) by (simp add: target_stat_def)
  moreover have "filter (\<lambda>t. tg_messageId t \<noteq> sa_messageId a) (targets s')
      = filter (\<lambda>t. tg_messageId t \<noteq> sa_messageId a) (targets s)"
    unfolding D [THEN conjunct2, THEN conjunct2, THEN conjunct2, THEN conjunct1]
    by (rule filter_update_many_other) (simp add: sent_change_def)
  moreover have "messages s' = map (\<lambda>x. if ms_id x = sa_messageId a \<and> ms_status x = MDraft \<and> ms_merchantId x = m
          then x\<lparr>ms_status := MSent, ms_sentAt := Some (sa_now a), ms_provider := Some ''amazon-ses'',
                 ms_providerMessageId := Some (sa_providerMessageId a)\<rparr> else x) (messages s)"
    using D by (simp add: update_many_def message_sent_change_def)
  moreover have "list_ex (\<lambda>x. ms_id x = sa_messageId a \<and> ms_status x = MDraft \<and> ms_merchantId x = m) (messages s)"
    unfolding list_ex_iff by (rule mark_sent_draft [OF b])
  ultimately show ?thesis using st q D by (intro conjI) (assumption | rule D [THEN conjunct2, THEN conjunct1])+
qed

lemma completion_counts_once_witness:
  "\<exists>s'. mark_sent_with_quota (Tenant ''m'')
      \<lparr>sa_messageId = ''x'', sa_merchantId = ''m'', sa_shop = ''a'', sa_campaignId = ''k'', sa_customerId = ''c'',
       sa_providerMessageId = ''p'', sa_now = noon\<rparr>
      (ready_db\<lparr>targets := [(new_target sample_job 0)\<lparr>tg_status := TSending\<rparr>]\<rparr>) = (s', Inr MarkedSent)
    \<and> target_stat s' ''x'' = Some TSent"
proof -
  let ?a = "\<lparr>sa_messageId = ''x'', sa_merchantId = ''m'', sa_shop = ''a'', sa_campaignId = ''k'', sa_customerId = ''c'',
       sa_providerMessageId = ''p'', sa_now = noon\<rparr> :: sent_args"
  let ?s = "ready_db\<lparr>targets := [(new_target sample_job 0)\<lparr>tg_status := TSending\<rparr>]\<rparr>"
  have "case mark_sent_with_quota (Tenant ''m'') ?a ?s of (s', Inr MarkedSent) \<Rightarrow> True | _ \<Rightarrow> False"
    by code_simp
  then obtain s' where m: "mark_sent_with_quota (Tenant ''m'') ?a ?s = (s', Inr MarkedSent)"
    by (auto split: prod.splits sum.splits mark_result.splits)
  have "sa_merchantId ?a = ''m''" "unique_targets ?s"
    by (simp_all add: unique_targets_def ready_db_def empty_db_def)
  from completion_counts_once [OF m this] m show ?thesis by simp
qed

end
