(* ===== verification/DispatchSweep.thy ===== *)
theory DispatchSweep
  imports DispatchRuns
begin

text \<open>
  The dispatch sweep of the scheduler (\<open>apps/scheduler/src/handlers/dispatch-sweep.ts\<close>): per
  live merchant with an active campaign, new drafts (arm 1) and deferred targets (arm 2) are
  turned into jobs, and deferred targets that are too old or whose campaign is not active are
  closed. The result is the database and the jobs added to the queue.
\<close>

definition MAX_DISPATCH_AGE_MS :: int where "MAX_DISPATCH_AGE_MS = 3 * 24 * 60 * 60 * 1000"

definition dispatch_merchants :: "db \<Rightarrow> merchant_id list" where
  "dispatch_merchants s = remdups (map me_id (filter (\<lambda>mr.
     me_uninstalledAt mr = None \<and> me_tokenRevokedAt mr = None
     \<and> (\<exists>c \<in> set (campaigns s). ca_merchantId c = me_id mr \<and> ca_status c = CActive)) (merchants s)))"

record sweep_counts =
  sk_staleExpired :: nat
  sk_pausedResolved :: nat

text \<open>Arm 2: the loop over the deferred targets.\<close>

fun sweep_deferred ::
  "tenant_scope \<Rightarrow> time \<Rightarrow> deferred_target list \<Rightarrow> db \<Rightarrow> db \<times> dispatch_item list \<times> sweep_counts" where
  "sweep_deferred sc startedAt [] s = (s, [], \<lparr>sk_staleExpired = 0, sk_pausedResolved = 0\<rparr>)"
| "sweep_deferred sc startedAt (d # ds) s =
     (if startedAt - dt_createdAt d > MAX_DISPATCH_AGE_MS then
        (case sweep_deferred sc startedAt ds
                (fst (resolve_terminal sc (dt_messageId d) ''deferred_stale'' None s)) of
           (s', items, k) \<Rightarrow> (s', items, k\<lparr>sk_staleExpired := Suc (sk_staleExpired k)\<rparr>))
      else if \<not> dt_campaignActive d then
        (case sweep_deferred sc startedAt ds
                (fst (resolve_terminal sc (dt_messageId d) ''campaign_paused'' None s)) of
           (s', items, k) \<Rightarrow> (s', items, k\<lparr>sk_pausedResolved := Suc (sk_pausedResolved k)\<rparr>))
      else
        (case sweep_deferred sc startedAt ds s of
           (s', items, k) \<Rightarrow> (s', \<lparr>di_messageId = dt_messageId d, di_customerId = dt_customerId d,
                                  di_campaignId = dt_campaignId d\<rparr> # items, k)))"

definition sweep_merchant ::
  "time \<Rightarrow> merchant_id \<Rightarrow> db \<Rightarrow> db \<times> (exn + campaign_dispatch_job_payload list)" where
  "sweep_merchant startedAt m s =
     (let sc = Tenant m in
      case find_dispatchable_drafts sc m DEFAULT_DISPATCH_TAKE s of
        Inl e \<Rightarrow> (s, Inl e)
      | Inr drafts \<Rightarrow>
          (case sweep_deferred sc startedAt (find_deferred_targets sc m s) s of
             (s', items, k) \<Rightarrow> (s', Inr (map (\<lambda>i. \<lparr>jp_merchantId = m, jp_messageId = di_messageId i,
               jp_campaignId = di_campaignId i, jp_customerId = di_customerId i\<rparr>) (drafts @ items)))))"

text \<open>A merchant's failure is logged, the next merchant is swept.\<close>

fun sweep_merchants ::
  "time \<Rightarrow> merchant_id list \<Rightarrow> db \<Rightarrow> db \<times> campaign_dispatch_job_payload list" where
  "sweep_merchants startedAt [] s = (s, [])"
| "sweep_merchants startedAt (m # ms) s =
     (case sweep_merchant startedAt m s of
        (s1, r) \<Rightarrow> (case sweep_merchants startedAt ms s1 of
           (s2, jobs) \<Rightarrow> (s2, (case r of Inl e \<Rightarrow> [] | Inr js \<Rightarrow> js) @ jobs)))"

definition run_dispatch_sweep :: "time \<Rightarrow> db \<Rightarrow> db \<times> campaign_dispatch_job_payload list" where
  "run_dispatch_sweep startedAt s = sweep_merchants startedAt (dispatch_merchants s) s"

section \<open>What the sweep does to targets\<close>

text \<open>
  A sweep only moves targets to \<open>suppressed\<close>, so a target that is absent or deferred after
  it was so before, and every job it adds stands for such a target.
\<close>

definition only_closes :: "db \<Rightarrow> db \<Rightarrow> bool" where
  "only_closes s s' \<longleftrightarrow> map tg_messageId (targets s') = map tg_messageId (targets s)
     \<and> (\<forall>mid. target_stat s' mid = target_stat s mid
          \<or> (target_stat s mid \<in> {Some TPending, Some TDeferred, Some TSending} \<and> target_stat s' mid = Some TSuppressed))"

lemma only_closes_refl [simp]: "only_closes s s"
  by (simp add: only_closes_def)

lemma only_closes_trans: "only_closes s s1 \<Longrightarrow> only_closes s1 s2 \<Longrightarrow> only_closes s s2"
  unfolding only_closes_def by (metis (no_types, lifting) insert_iff empty_iff option.inject target_status.distinct(1,3,5,7,9))

lemma resolve_only_closes: "only_closes s (fst (resolve_terminal sc mid reason None s))"
proof -
  obtain s' b where r: "resolve_terminal sc mid reason None s = (s', b)"
    by (cases "resolve_terminal sc mid reason None s")
  have "same_targets s s' \<or> moves mid {TPending, TDeferred, TSending} TSuppressed s s'"
    using resolve_terminal_moves [OF r] by (simp add: or_default_def)
  then show ?thesis
    by (auto simp: r only_closes_def same_targets_def moves_def split: if_splits)
qed

lemma sweep_deferred_closes:
  "sweep_deferred sc now ds s = (s', items, k) \<Longrightarrow> only_closes s s'"
proof (induction ds arbitrary: s s' items k)
  case (Cons d ds)
  show ?case
    using Cons.prems Cons.IH only_closes_trans [OF resolve_only_closes]
    by (auto split: if_splits prod.splits) blast+
qed simp

lemma sweep_deferred_items:
  "sweep_deferred sc now ds s = (s', items, k) \<Longrightarrow> i \<in> set items \<Longrightarrow>
    \<exists>d \<in> set ds. i = \<lparr>di_messageId = dt_messageId d, di_customerId = dt_customerId d, di_campaignId = dt_campaignId d\<rparr>
      \<and> now - dt_createdAt d \<le> MAX_DISPATCH_AGE_MS
      \<and> dt_campaignActive d"
proof (induction ds arbitrary: s s' items k)
  case (Cons d ds)
  then show ?case by (fastforce split: if_splits prod.splits)
qed simp

text \<open>
  What a job of the sweep stands for: a draft of the merchant without a target, whose text is
  there, whose customer is live and whose completed generation fits an active campaign of the
  merchant; or a deferred target of an active campaign that is not too old.
\<close>

definition fresh_draft :: "db \<Rightarrow> campaign_dispatch_job_payload \<Rightarrow> bool" where
  "fresh_draft s j \<longleftrightarrow>
     (\<forall>t \<in> set (targets s). tg_messageId t \<noteq> jp_messageId j)
   \<and> (\<exists>x \<in> set (messages s). ms_id x = jp_messageId j \<and> ms_status x = MDraft \<and> ms_merchantId x = jp_merchantId j
        \<and> ms_customerId x = jp_customerId j \<and> ms_generatedText x \<noteq> []
        \<and> (\<exists>c \<in> set (customers s). cu_id c = jp_customerId j \<and> cu_merchantId c = jp_merchantId j \<and> cu_deletedAt c = None)
        \<and> (\<exists>g \<in> set (generations s). ge_id g = ms_aiGenerationId x \<and> ge_merchantId g = jp_merchantId j \<and> ge_status g = GCompleted
            \<and> (\<exists>k \<in> set (campaigns s). ca_id k = jp_campaignId j \<and> ca_merchantId k = jp_merchantId j
                \<and> ca_status k = CActive \<and> List.member (ca_triggerStates k) (state_string (ge_triggerState g)))))"

definition open_deferred :: "time \<Rightarrow> db \<Rightarrow> campaign_dispatch_job_payload \<Rightarrow> bool" where
  "open_deferred now s j \<longleftrightarrow>
     (\<exists>t \<in> set (targets s). tg_messageId t = jp_messageId j \<and> tg_status t = TDeferred
        \<and> tg_merchantId t = jp_merchantId j \<and> tg_customerId t = jp_customerId j \<and> tg_campaignId t = jp_campaignId j
        \<and> now - tg_createdAt t \<le> MAX_DISPATCH_AGE_MS)
   \<and> (\<exists>k \<in> set (campaigns s). ca_id k = jp_campaignId j \<and> ca_status k = CActive)"

text \<open>What is a draft or a deferred target after the sweep of other merchants was so before.\<close>

definition closes_rows :: "db \<Rightarrow> db \<Rightarrow> bool" where
  "closes_rows s s' \<longleftrightarrow> customers s' = customers s \<and> campaigns s' = campaigns s \<and> generations s' = generations s
     \<and> map tg_messageId (targets s') = map tg_messageId (targets s)
     \<and> set (filter (\<lambda>x. ms_status x = MDraft) (messages s')) \<subseteq> set (messages s)
     \<and> set (filter (\<lambda>t. tg_status t = TDeferred) (targets s')) \<subseteq> set (targets s)"

lemma closes_rows_refl [simp]: "closes_rows s s"
  by (auto simp: closes_rows_def)

lemma closes_rows_trans: "closes_rows s s1 \<Longrightarrow> closes_rows s1 s2 \<Longrightarrow> closes_rows s s2"
  by (auto simp: closes_rows_def)

lemma resolve_closes_rows: "closes_rows s (fst (resolve_terminal sc mid reason None s))"
  by (auto simp: resolve_terminal_def cas_target_def cas_draft_def closes_rows_def Let_def or_default_def
      set_update_many map_update_many resolve_change_def split: if_splits)

lemma sweep_deferred_closes_rows: "sweep_deferred sc now ds s = (s', items, k) \<Longrightarrow> closes_rows s s'"
proof (induction ds arbitrary: s s' items k)
  case (Cons d ds)
  show ?case
    using Cons.prems Cons.IH closes_rows_trans [OF resolve_closes_rows]
    by (auto split: if_splits prod.splits) blast+
qed simp

lemma fresh_draft_earlier:
  assumes "closes_rows s s1" and "fresh_draft s1 j"
  shows "fresh_draft s j"
proof -
  have "tg_messageId ` set (targets s1) = tg_messageId ` set (targets s)"
    using assms(1) unfolding closes_rows_def by (metis list.set_map)
  then have "\<forall>t \<in> set (targets s). tg_messageId t \<noteq> jp_messageId j"
    using assms(2) unfolding fresh_draft_def by (metis imageE imageI)
  with assms show ?thesis unfolding fresh_draft_def closes_rows_def by auto
qed

lemma open_deferred_earlier: "closes_rows s s1 \<Longrightarrow> open_deferred now s1 j \<Longrightarrow> open_deferred now s j"
  unfolding open_deferred_def closes_rows_def by auto

lemma drafts_fresh:
  assumes "find_dispatchable_drafts (Tenant m) m n s = Inr drafts" and "i \<in> set drafts"
  shows "fresh_draft s \<lparr>jp_merchantId = m, jp_messageId = di_messageId i, jp_campaignId = di_campaignId i,
     jp_customerId = di_customerId i\<rparr>"
proof -
  from assms obtain x where x: "x \<in> set (messages s)" "draft_eligible m s x"
    and i: "i = \<lparr>di_messageId = ms_id x, di_customerId = ms_customerId x, di_campaignId = ca_id (the (draft_campaign m x s))\<rparr>"
    by (auto simp: find_dispatchable_drafts_def dest!: in_set_takeD)
  then obtain c where c: "draft_campaign m x s = Some c" and mx: "ms_merchantId x = m"
    by (auto simp: draft_eligible_def)
  then obtain g where g: "find_row (\<lambda>g. ge_id g = ms_aiGenerationId x \<and> ge_merchantId g = m) (generations s) = Some g"
    "ge_status g = GCompleted" and j: "c \<in> set (joining_campaigns m g s)"
    by (auto simp: draft_campaign_def split: option.splits if_splits list.splits)
  have "c \<in> set (campaigns s) \<and> ca_merchantId c = m \<and> ca_status c = CActive
      \<and> List.member (ca_triggerStates c) (state_string (ge_triggerState g))"
    using j by (simp add: joining_campaigns_def)
  moreover have "g \<in> set (generations s)" "ge_id g = ms_aiGenerationId x" "ge_merchantId g = m"
    using find_row_Some_D [OF g(1)] by auto
  ultimately show ?thesis
    using x g(2) c mx unfolding fresh_draft_def draft_eligible_def i by auto
qed

lemma deferred_open:
  assumes "d \<in> set (find_deferred_targets (Tenant m) m s)" and "dt_campaignActive d"
    and "now - dt_createdAt d \<le> MAX_DISPATCH_AGE_MS"
  shows "open_deferred now s \<lparr>jp_merchantId = m, jp_messageId = dt_messageId d, jp_campaignId = dt_campaignId d,
     jp_customerId = dt_customerId d\<rparr>"
  using assms by (auto simp: find_deferred_targets_def open_deferred_def split: option.splits dest!: find_row_Some_D)

lemma deferred_targets_stat:
  assumes "unique_targets s" and "d \<in> set (find_deferred_targets sc m s)"
  shows "target_stat s (dt_messageId d) = Some TDeferred"
proof -
  from assms(2) obtain t where t: "t \<in> set (targets s)" "tg_status t = TDeferred" "dt_messageId d = tg_messageId t"
    by (auto simp: find_deferred_targets_def)
  then show ?thesis
    using find_row_unique [OF assms(1) [unfolded unique_targets_def] t(1)]
    by (simp add: target_stat_def find_target_def)
qed

lemma drafts_stat:
  assumes "find_dispatchable_drafts sc m n s = Inr drafts" and "i \<in> set drafts"
  shows "target_stat s (di_messageId i) = None"
  using assms
  by (auto simp: find_dispatchable_drafts_def draft_eligible_def target_stat_def find_target_def
      find_row_None_iff dest!: in_set_takeD)

lemma sweep_merchant_D:
  assumes "sweep_merchant now m s = (s', r)" and "unique_targets s"
  shows "only_closes s s' \<and> closes_rows s s' \<and> unique_targets s'
    \<and> (\<forall>js. r = Inr js \<longrightarrow> (\<forall>j \<in> set js. jp_merchantId j = m \<and> target_stat s (jp_messageId j) \<in> {None, Some TDeferred}
          \<and> (fresh_draft s j \<or> open_deferred now s j)))"
proof -
  let ?job = "\<lambda>i. \<lparr>jp_merchantId = m, jp_messageId = di_messageId i,
               jp_campaignId = di_campaignId i, jp_customerId = di_customerId i\<rparr>"
  obtain drafts where dr: "find_dispatchable_drafts (Tenant m) m DEFAULT_DISPATCH_TAKE s = Inr drafts"
    by (auto simp: find_dispatchable_drafts_def)
  obtain s2 items k where sw: "sweep_deferred (Tenant m) now (find_deferred_targets (Tenant m) m s) s = (s2, items, k)"
    by (cases "sweep_deferred (Tenant m) now (find_deferred_targets (Tenant m) m s) s") auto
  have s': "s' = s2" and r: "r = Inr (map (\<lambda>i. \<lparr>jp_merchantId = m, jp_messageId = di_messageId i,
               jp_campaignId = di_campaignId i, jp_customerId = di_customerId i\<rparr>) (drafts @ items))"
    using assms(1) by (simp_all add: sweep_merchant_def dr sw)
  have c: "only_closes s s'" using sweep_deferred_closes [OF sw] s' by simp
  then have "unique_targets s'" using assms(2) by (simp add: only_closes_def unique_targets_def)
  moreover have "closes_rows s s'" using sweep_deferred_closes_rows [OF sw] s' by simp
  moreover have "target_stat s (di_messageId i) \<in> {None, Some TDeferred}
      \<and> (fresh_draft s (?job i) \<or> open_deferred now s (?job i))" if "i \<in> set (drafts @ items)" for i
  proof (cases "i \<in> set drafts")
    case True
    then show ?thesis using drafts_stat [OF dr] drafts_fresh [OF dr] by simp
  next
    case False
    with that have "i \<in> set items" by simp
    from sweep_deferred_items [OF sw this] obtain d where d: "d \<in> set (find_deferred_targets (Tenant m) m s)"
      "i = \<lparr>di_messageId = dt_messageId d, di_customerId = dt_customerId d, di_campaignId = dt_campaignId d\<rparr>"
      "now - dt_createdAt d \<le> MAX_DISPATCH_AGE_MS" "dt_campaignActive d" by blast
    show ?thesis using deferred_targets_stat [OF assms(2) d(1)] deferred_open [OF d(1,4,3)] d(2) by simp
  qed
  then have "\<forall>j \<in> set (map ?job (drafts @ items)). jp_merchantId j = m
      \<and> target_stat s (jp_messageId j) \<in> {None, Some TDeferred} \<and> (fresh_draft s j \<or> open_deferred now s j)" by fastforce
  ultimately show ?thesis using c unfolding r by blast
qed

lemma sweep_merchants_D:
  "sweep_merchants now ms s = (s', jobs) \<Longrightarrow> unique_targets s \<Longrightarrow>
    only_closes s s' \<and> (\<forall>j \<in> set jobs. jp_merchantId j \<in> set ms
      \<and> target_stat s (jp_messageId j) \<in> {None, Some TDeferred} \<and> (fresh_draft s j \<or> open_deferred now s j))"
proof (induction ms arbitrary: s s' jobs)
  case (Cons m ms)
  obtain s1 r where one: "sweep_merchant now m s = (s1, r)" by (cases "sweep_merchant now m s")
  obtain s2 js where rest: "sweep_merchants now ms s1 = (s2, js)" by (cases "sweep_merchants now ms s1")
  note A = sweep_merchant_D [OF one Cons.prems(2)]
  from Cons.IH [OF rest] A have B: "only_closes s1 s2"
    "\<forall>j \<in> set js. jp_merchantId j \<in> set ms \<and> target_stat s1 (jp_messageId j) \<in> {None, Some TDeferred}
      \<and> (fresh_draft s1 j \<or> open_deferred now s1 j)" by blast+
  have stat: "target_stat s mid \<in> {None, Some TDeferred}" if "target_stat s1 mid \<in> {None, Some TDeferred}" for mid
    using that A unfolding only_closes_def by (metis insert_iff empty_iff option.distinct(1) option.inject target_status.distinct)
  have rows: "fresh_draft s j \<or> open_deferred now s j" if "fresh_draft s1 j \<or> open_deferred now s1 j" for j
    using that A fresh_draft_earlier open_deferred_earlier by blast
  have later: "\<forall>j \<in> set js. jp_merchantId j \<in> set (m # ms) \<and> target_stat s (jp_messageId j) \<in> {None, Some TDeferred}
      \<and> (fresh_draft s j \<or> open_deferred now s j)" using B(2) stat rows by simp
  have now: "\<forall>j \<in> set js1. jp_merchantId j \<in> set (m # ms) \<and> target_stat s (jp_messageId j) \<in> {None, Some TDeferred}
      \<and> (fresh_draft s j \<or> open_deferred now s j)" if "r = Inr js1" for js1 using A that by simp
  have "s' = s2" "jobs = (case r of Inl e \<Rightarrow> [] | Inr js \<Rightarrow> js) @ js" using Cons.prems(1) one rest by auto
  moreover have "only_closes s s2" using A B(1) only_closes_trans by blast
  ultimately show ?case using later now by (cases r) auto
qed simp

text \<open>
  C33. A pending target is invisible to the sweep. Every job the sweep adds is of a live merchant
  and stands for a draft without a target that fits an active campaign, or for a deferred target
  of an active campaign that is not too old; so a message whose target is pending (left so by a
  worker whose retries ran out after the claim or the revert) or sending gets no job, ever again.
  And the sweep itself only suppresses targets that were open.
\<close>

theorem sweep_ignores_pending:
  assumes "unique_targets s" and "run_dispatch_sweep now s = (s', jobs)"
  shows "(\<forall>j \<in> set jobs. target_stat s (jp_messageId j) \<in> {None, Some TDeferred}
        \<and> (fresh_draft s j \<or> open_deferred now s j)
        \<and> (\<exists>mr \<in> set (merchants s). me_id mr = jp_merchantId j \<and> me_uninstalledAt mr = None \<and> me_tokenRevokedAt mr = None))
    \<and> only_closes s s'"
proof -
  note D = sweep_merchants_D [OF assms(2) [unfolded run_dispatch_sweep_def] assms(1)]
  have "\<exists>mr \<in> set (merchants s). me_id mr = m \<and> me_uninstalledAt mr = None \<and> me_tokenRevokedAt mr = None"
    if "m \<in> set (dispatch_merchants s)" for m using that by (auto simp: dispatch_merchants_def)
  with D show ?thesis by blast
qed

text \<open>Two drafts of one merchant: the one whose target was left pending gets no job.\<close>

definition left_pending :: db where
  "left_pending = ready_db\<lparr>messages := [sample_message, sample_message\<lparr>ms_id := ''y'', ms_aiGenerationId := ''h''\<rparr>],
     generations := [sample_generation, sample_generation\<lparr>ge_id := ''h''\<rparr>],
     targets := [\<lparr>tg_merchantId = ''m'', tg_campaignId = ''k'', tg_messageId = ''x'', tg_customerId = ''c'',
        tg_status = TPending, tg_suppressedByGate = None, tg_sentAt = None, tg_sendStartedAt = None,
        tg_createdAt = 0\<rparr>]\<rparr>"

lemma left_pending_sweep:
  "map jp_messageId (snd (run_dispatch_sweep 5 left_pending)) = [''y'']"
  "unique_targets left_pending" "target_stat left_pending ''x'' = Some TPending"
  by code_simp+

lemma sweep_ignores_pending_witness:
  "map jp_messageId (snd (run_dispatch_sweep 5 left_pending)) = [''y'']
    \<and> ''x'' \<notin> jp_messageId ` set (snd (run_dispatch_sweep 5 left_pending))
    \<and> only_closes left_pending (fst (run_dispatch_sweep 5 left_pending))"
  using sweep_ignores_pending [OF left_pending_sweep(2) prod.collapse [symmetric], of 5] left_pending_sweep(1,3)
  by (auto simp: image_iff)

end
