(* ===== verification/AiCost.thy ===== *)
theory AiCost
  imports Errors
begin

text \<open>
  \<open>packages/ai/src\<close>: the price table and the cost of a call (\<open>cost-rates.ts\<close>), the models a
  configuration may name (\<open>config.ts\<close>) and the substitution of the discount tokens
  (\<open>discount-substitutor.ts\<close>).
\<close>

section \<open>Prices\<close>

datatype ai_provider = OpenAi | Anthropic | DeepSeek

fun provider_string :: "ai_provider \<Rightarrow> string" where
  "provider_string OpenAi = ''openai''"
| "provider_string Anthropic = ''anthropic''"
| "provider_string DeepSeek = ''deepseek''"

record model_cost_rate =
  inputPer1M :: int
  outputPer1M :: int

fun PROVIDER_COST_RATES :: "ai_provider \<Rightarrow> (string \<times> model_cost_rate) list" where
  "PROVIDER_COST_RATES OpenAi =
     [(''gpt-4.1'', \<lparr>inputPer1M = 500000000, outputPer1M = 1500000000\<rparr>),
      (''gpt-4.1-mini'', \<lparr>inputPer1M = 40000000, outputPer1M = 160000000\<rparr>),
      (''gpt-4.1-nano'', \<lparr>inputPer1M = 10000000, outputPer1M = 40000000\<rparr>)]"
| "PROVIDER_COST_RATES Anthropic =
     [(''claude-opus-4-7'', \<lparr>inputPer1M = 500000000, outputPer1M = 2500000000\<rparr>),
      (''claude-sonnet-4-6'', \<lparr>inputPer1M = 300000000, outputPer1M = 1500000000\<rparr>),
      (''claude-haiku-4-5'', \<lparr>inputPer1M = 100000000, outputPer1M = 500000000\<rparr>)]"
| "PROVIDER_COST_RATES DeepSeek =
     [(''deepseek-v4-flash'', \<lparr>inputPer1M = 14000000, outputPer1M = 28000000\<rparr>),
      (''deepseek-v4-pro'', \<lparr>inputPer1M = 174000000, outputPer1M = 348000000\<rparr>)]"

text \<open>Division of bigints truncates towards zero; the divisor here is positive.\<close>

definition bigint_div :: "int \<Rightarrow> int \<Rightarrow> int" where
  "bigint_div a b = (if a \<ge> 0 then a div b else - ((- a) div b))"

text \<open>Token counts are whole numbers, so \<open>BigInt\<close> accepts them.\<close>

definition estimate_cost_microcents :: "ai_provider \<Rightarrow> string \<Rightarrow> int \<Rightarrow> int \<Rightarrow> exn + int" where
  "estimate_cost_microcents provider model inputTokens outputTokens =
     (case map_of (PROVIDER_COST_RATES provider) model of
        None \<Rightarrow> Inl (PlainErr (''Unknown provider/model: '' @ provider_string provider @ ''/'' @ model))
      | Some rates \<Rightarrow>
          Inr (bigint_div (inputTokens * inputPer1M rates) 1000000
             + bigint_div (outputTokens * outputPer1M rates) 1000000))"

section \<open>Configured models\<close>

definition OPENAI_MODELS :: "string list" where
  "OPENAI_MODELS = [''gpt-4.1'', ''gpt-4.1-mini'', ''gpt-4.1-nano'']"

definition ANTHROPIC_MODELS :: "string list" where
  "ANTHROPIC_MODELS = [''claude-opus-4-7'', ''claude-sonnet-4-6'', ''claude-haiku-4-5'']"

definition DEEPSEEK_MODELS :: "string list" where
  "DEEPSEEK_MODELS = [''deepseek-v4-flash'', ''deepseek-v4-pro'']"

text \<open>What the environment names, after coercion of the two numbers.\<close>

record ai_env =
  env_provider :: "string option"
  env_model :: "string option"
  env_maxTokens :: "rat option"
  env_temperature :: "rat option"
  env_openaiKey :: "string option"
  env_anthropicKey :: "string option"
  env_deepseekKey :: "string option"

record ai_config =
  AI_PROVIDER :: ai_provider
  AI_MODEL :: string
  AI_MAX_TOKENS :: int
  AI_TEMPERATURE :: rat
  ai_apiKey :: string

definition DEPRECATED_MODELS :: "(string \<times> string) list" where
  "DEPRECATED_MODELS =
     [(''deepseek-chat'', ''deepseek-chat is deprecated. Use deepseek-v4-flash directly.''),
      (''gpt-4o'', ''gpt-4o is grandfathered legacy. Use gpt-4.1-mini or gpt-4.1 instead.''),
      (''gpt-4o-mini'', ''gpt-4o-mini is grandfathered legacy. Use gpt-4.1-nano or gpt-4.1-mini instead.'')]"

definition config_error :: "string \<Rightarrow> exn" where
  "config_error msg = PlainErr (''Invalid configuration:'' @ msg)"

fun models_of :: "ai_provider \<Rightarrow> string list" where
  "models_of OpenAi = OPENAI_MODELS"
| "models_of Anthropic = ANTHROPIC_MODELS"
| "models_of DeepSeek = DEEPSEEK_MODELS"

fun api_key_of :: "ai_provider \<Rightarrow> ai_env \<Rightarrow> string option" where
  "api_key_of OpenAi e = env_openaiKey e"
| "api_key_of Anthropic e = env_anthropicKey e"
| "api_key_of DeepSeek e = env_deepseekKey e"

definition parse_provider :: "string option \<Rightarrow> ai_provider option" where
  "parse_provider p =
     (if p = Some ''openai'' then Some OpenAi
      else if p = Some ''anthropic'' then Some Anthropic
      else if p = Some ''deepseek'' then Some DeepSeek else None)"

text \<open>\<open>aiConfigSchema\<close>: the branch by provider, its models, its key, the ranges of the numbers.\<close>

definition ai_config_schema :: "ai_env \<Rightarrow> ai_config option" where
  "ai_config_schema e =
     (case (parse_provider (env_provider e), env_model e) of
        (Some p, Some model) \<Rightarrow>
          (case api_key_of p e of
             None \<Rightarrow> None
           | Some key \<Rightarrow>
               (let n = or_default (env_maxTokens e) 300; t = or_default (env_temperature e) (7 / 10) in
                if model \<in> set (models_of p) \<and> key \<noteq> [] \<and> of_int \<lfloor>n\<rfloor> = n \<and> 0 < n \<and> n \<le> 4096
                   \<and> 0 \<le> t \<and> t \<le> 2
                then Some \<lparr>AI_PROVIDER = p, AI_MODEL = model, AI_MAX_TOKENS = \<lfloor>n\<rfloor>, AI_TEMPERATURE = t,
                           ai_apiKey = key\<rparr>
                else None))
      | _ \<Rightarrow> None)"

text \<open>\<open>getAiConfig\<close> on a fresh cache: the guard on deprecated models comes first.\<close>

definition plausible_provider :: "string \<Rightarrow> string option \<Rightarrow> bool" where
  "plausible_provider model p \<longleftrightarrow>
     starts_with ''gpt-'' model \<and> p = Some ''openai''
   \<or> starts_with ''deepseek-'' model \<and> p = Some ''deepseek''
   \<or> starts_with ''claude-'' model \<and> p = Some ''anthropic''"

definition get_ai_config :: "ai_env \<Rightarrow> exn + ai_config" where
  "get_ai_config e =
     (case Option.bind (env_model e) (map_of DEPRECATED_MODELS) of
        Some guidance \<Rightarrow>
          (if plausible_provider (or_default (env_model e) []) (env_provider e)
           then Inl (config_error ('' AI_MODEL: '' @ guidance))
           else case ai_config_schema e of None \<Rightarrow> Inl (config_error ''schema'') | Some c \<Rightarrow> Inr c)
      | None \<Rightarrow> (case ai_config_schema e of None \<Rightarrow> Inl (config_error ''schema'') | Some c \<Rightarrow> Inr c))"

lemma ai_config_schema_D:
  "ai_config_schema e = Some c \<Longrightarrow>
    AI_MODEL c \<in> set (models_of (AI_PROVIDER c)) \<and> 1 \<le> AI_MAX_TOKENS c \<and> AI_MAX_TOKENS c \<le> 4096
    \<and> 0 \<le> AI_TEMPERATURE c \<and> AI_TEMPERATURE c \<le> 2"
  by (auto simp: ai_config_schema_def Let_def floor_le_iff split: option.splits if_splits)

lemma get_ai_config_D: "get_ai_config e = Inr c \<Longrightarrow> ai_config_schema e = Some c"
  by (auto simp: get_ai_config_def split: option.splits if_splits)

lemma models_priced: "map fst (PROVIDER_COST_RATES p) = models_of p"
  by (cases p) (simp_all add: OPENAI_MODELS_def ANTHROPIC_MODELS_def DEEPSEEK_MODELS_def)

section \<open>The cost of a call\<close>

lemma rates_pos:
  "map_of (PROVIDER_COST_RATES p) m = Some r \<Longrightarrow> 0 < inputPer1M r \<and> 0 < outputPer1M r
     \<and> outputPer1M r \<le> 2500000000 \<and> inputPer1M r \<le> 500000000"
  by (cases p) (auto split: if_splits)

lemma bigint_div_bounds:
  "0 \<le> a \<Longrightarrow> 0 < b \<Longrightarrow> b * bigint_div a b \<le> a \<and> a < b * bigint_div a b + b"
  unfolding bigint_div_def using pos_mod_bound [of b a] pos_mod_sign [of b a] mult_div_mod_eq [of b a]
  by (simp, linarith)

text \<open>
  A configured model is always priced, and the price is exact up to rounding: whatever
  the configuration accepts has a cost, never negative, that is below the exact price of the
  tokens by less than two microcents and never above it. So a call within the configured
  limits never fails on its cost after the provider was paid.
\<close>

theorem configured_calls_priced:
  assumes "get_ai_config e = Inr c" and "0 \<le> i" and "0 \<le> j"
  shows "\<exists>cost r. estimate_cost_microcents (AI_PROVIDER c) (AI_MODEL c) i j = Inr cost
    \<and> (AI_MODEL c, r) \<in> set (PROVIDER_COST_RATES (AI_PROVIDER c)) \<and> 0 \<le> cost
    \<and> 1000000 * cost \<le> i * inputPer1M r + j * outputPer1M r
    \<and> i * inputPer1M r + j * outputPer1M r < 1000000 * (cost + 2)"
proof -
  have "AI_MODEL c \<in> set (map fst (PROVIDER_COST_RATES (AI_PROVIDER c)))"
    using ai_config_schema_D [OF get_ai_config_D [OF assms(1)]] by (simp only: models_priced)
  then obtain r where r: "map_of (PROVIDER_COST_RATES (AI_PROVIDER c)) (AI_MODEL c) = Some r"
    by (metis list.set_map map_of_eq_None_iff not_None_eq)
  let ?a = "bigint_div (i * inputPer1M r) 1000000" and ?b = "bigint_div (j * outputPer1M r) 1000000"
  have nn: "0 \<le> i * inputPer1M r" "0 \<le> j * outputPer1M r" using rates_pos [OF r] assms(2,3) by simp_all
  then have "0 \<le> ?a" "0 \<le> ?b" by (simp_all add: bigint_div_def)
  moreover have "1000000 * ?a \<le> i * inputPer1M r \<and> i * inputPer1M r < 1000000 * ?a + 1000000"
    "1000000 * ?b \<le> j * outputPer1M r \<and> j * outputPer1M r < 1000000 * ?b + 1000000"
    using bigint_div_bounds [OF nn(1)] bigint_div_bounds [OF nn(2)] by simp_all
  ultimately show ?thesis using r
    by (intro exI [of _ "?a + ?b"] exI [of _ r])
      (auto simp: estimate_cost_microcents_def distrib_left dest: map_of_SomeD)
qed

definition sample_ai_env :: ai_env where
  "sample_ai_env = \<lparr>env_provider = Some ''anthropic'', env_model = Some ''claude-haiku-4-5'',
     env_maxTokens = None, env_temperature = None, env_openaiKey = None,
     env_anthropicKey = Some ''k'', env_deepseekKey = None\<rparr>"

lemma sample_ai_config:
  "get_ai_config sample_ai_env = Inr \<lparr>AI_PROVIDER = Anthropic, AI_MODEL = ''claude-haiku-4-5'',
     AI_MAX_TOKENS = 300, AI_TEMPERATURE = 7 / 10, ai_apiKey = ''k''\<rparr>"
  by (simp add: get_ai_config_def ai_config_schema_def sample_ai_env_def parse_provider_def or_default_def
      ANTHROPIC_MODELS_def DEPRECATED_MODELS_def Let_def)

lemma configured_calls_priced_witness:
  "\<exists>cost. estimate_cost_microcents Anthropic ''claude-haiku-4-5'' 512 300 = Inr cost
    \<and> 201198 < cost \<and> cost \<le> 201200"
  using configured_calls_priced [OF sample_ai_config, of 512 300] by auto

section \<open>Discount tokens\<close>

definition DISCOUNT_CODE_TOKEN :: string where
  "DISCOUNT_CODE_TOKEN = ''{{DISCOUNT_CODE}}''"

definition DISCOUNT_VALUE_PERCENT_TOKEN :: string where
  "DISCOUNT_VALUE_PERCENT_TOKEN = ''{{DISCOUNT_VALUE_PERCENT}}''"

record discount_substitution =
  ds_code :: string
  ds_valuePercent :: int

record substitute_result =
  sr_text :: string
  sr_missingTokens :: "string list"

definition substitute_discount_tokens :: "string \<Rightarrow> discount_substitution option \<Rightarrow> substitute_result" where
  "substitute_discount_tokens text discount =
     (case discount of
        None \<Rightarrow> \<lparr>sr_text = text, sr_missingTokens = []\<rparr>
      | Some d \<Rightarrow>
          \<lparr>sr_text = replace_all DISCOUNT_VALUE_PERCENT_TOKEN (int_string (ds_valuePercent d))
                       (replace_all DISCOUNT_CODE_TOKEN (ds_code d) text),
           sr_missingTokens =
             (if occurs_in DISCOUNT_CODE_TOKEN text then [] else [DISCOUNT_CODE_TOKEN])
             @ (if occurs_in DISCOUNT_VALUE_PERCENT_TOKEN text then [] else [DISCOUNT_VALUE_PERCENT_TOKEN])\<rparr>)"

lemmas token_defs = DISCOUNT_CODE_TOKEN_def DISCOUNT_VALUE_PERCENT_TOKEN_def

lemma int_string_chars:
  assumes "c \<in> set (int_string i)" shows "c = CHR ''-'' \<or> digit c"
  using assms decimal_digits_lt
  by (fastforce simp: int_string_def nat_string_def digit_def split: if_splits)

lemma digit_not_token:
  "c = CHR ''-'' \<or> digit c \<Longrightarrow> c \<notin> set DISCOUNT_CODE_TOKEN \<and> c \<notin> set DISCOUNT_VALUE_PERCENT_TOKEN \<and> c \<noteq> CHR ''{''"
  by (auto simp: token_defs digit_def)

lemma percent_apart:
  "hd (int_string i) \<notin> set DISCOUNT_CODE_TOKEN" "hd (int_string i) \<notin> set DISCOUNT_VALUE_PERCENT_TOKEN"
  "CHR ''{'' \<notin> set (int_string i)"
  using int_string_chars [of "hd (int_string i)" i] int_string_chars [of "CHR ''{''" i] digit_not_token
  by (auto simp: digit_def)

text \<open>
  No placeholder reaches a customer: after substituting a code of the shape that the
  program derives (it starts with W and has no brace), neither token occurs in the text,
  wherever the model put them and in whatever overlapping pieces; without tokens the text is
  unchanged and both are reported missing.
\<close>

theorem no_token_survives:
  assumes "ds_code d \<noteq> []" and "hd (ds_code d) = CHR ''W''" and "CHR ''{'' \<notin> set (ds_code d)"
  shows "\<not> occurs_in DISCOUNT_CODE_TOKEN (sr_text (substitute_discount_tokens text (Some d)))
    \<and> \<not> occurs_in DISCOUNT_VALUE_PERCENT_TOKEN (sr_text (substitute_discount_tokens text (Some d)))
    \<and> (\<not> occurs_in DISCOUNT_CODE_TOKEN text \<and> \<not> occurs_in DISCOUNT_VALUE_PERCENT_TOKEN text \<longrightarrow>
        substitute_discount_tokens text (Some d)
          = \<lparr>sr_text = text, sr_missingTokens = [DISCOUNT_CODE_TOKEN, DISCOUNT_VALUE_PERCENT_TOKEN]\<rparr>)"
proof (intro conjI impI)
  let ?t = "replace_all DISCOUNT_CODE_TOKEN (ds_code d) text"
  have ne: "DISCOUNT_CODE_TOKEN \<noteq> []" "DISCOUNT_VALUE_PERCENT_TOKEN \<noteq> []"
    and hds: "hd DISCOUNT_CODE_TOKEN = CHR ''{''" "hd DISCOUNT_VALUE_PERCENT_TOKEN = CHR ''{''"
    and W: "CHR ''W'' \<notin> set DISCOUNT_CODE_TOKEN" by (simp_all add: token_defs)
  show "\<not> occurs_in DISCOUNT_VALUE_PERCENT_TOKEN (sr_text (substitute_discount_tokens text (Some d)))"
    using replaced_gone [OF int_string_ne ne(2) percent_apart(2)] hds percent_apart(3)
    by (simp add: substitute_discount_tokens_def)
  have "\<not> occurs_in DISCOUNT_CODE_TOKEN ?t"
    by (rule replaced_gone) (use assms ne hds W in simp_all)
  then show "\<not> occurs_in DISCOUNT_CODE_TOKEN (sr_text (substitute_discount_tokens text (Some d)))"
    using occurs_in_replaced [OF int_string_ne ne(1) percent_apart(1)] hds percent_apart(3)
    by (auto simp: substitute_discount_tokens_def)
qed (simp add: substitute_discount_tokens_def replace_all_absent)

lemma no_token_survives_witness:
  "\<not> occurs_in DISCOUNT_CODE_TOKEN (sr_text (substitute_discount_tokens
      ''use {{DISCOUNT_CODE}}{{DISCOUNT_{{DISCOUNT_CODE}}'' (Some \<lparr>ds_code = ''WB-0'', ds_valuePercent = 10\<rparr>)))"
  by (rule no_token_survives [THEN conjunct1]) simp_all

end
