(* ===== verification/PromptBuilder.thy ===== *)
theory PromptBuilder
  imports AiTone AiCost
begin

text \<open>
  \<open>packages/ai/src/prompt-builder.ts\<close>: the system and the user prompt of a winback message.
\<close>

section \<open>Arguments\<close>

datatype winback_trigger = TrAtRisk | TrDormant | TrLost

fun trigger_string :: "winback_trigger \<Rightarrow> string" where
  "trigger_string TrAtRisk = ''at_risk''"
| "trigger_string TrDormant = ''dormant''"
| "trigger_string TrLost = ''lost''"

record winback_prompt_args =
  pc_firstName :: "string option"
  pc_lastName :: "string option"
  pc_rDays :: int
  pc_fCount :: int
  pc_mCents :: int
  pc_currency :: string
  pc_triggerState :: winback_trigger
  pc_previousState :: string
  pm_name :: "string option"
  pm_shopCurrency :: string
  pm_aiTone :: "ai_tone option"
  pp_recentProducts :: "string list"
  pp_discount :: "int option"

record winback_prompt_result =
  wp_systemPrompt :: string
  wp_userPrompt :: string

section \<open>Static text\<close>

definition em_dash :: string where "em_dash = [CHR 0xE2, CHR 0x80, CHR 0x94]"
definition newline :: string where "newline = [CHR 10]"

fun MAX_WORDS_BY_STATE :: "winback_trigger \<Rightarrow> int" where
  "MAX_WORDS_BY_STATE TrAtRisk = 80"
| "MAX_WORDS_BY_STATE TrDormant = 100"
| "MAX_WORDS_BY_STATE TrLost = 120"

fun STATE_FRAMING :: "winback_trigger \<Rightarrow> string" where
  "STATE_FRAMING TrAtRisk = ''They have been quiet recently but were active not long ago. Frame this as a friendly check-in, not an emergency.''"
| "STATE_FRAMING TrDormant = ''They have not purchased in several months. Frame this as a warm reminder of what they enjoyed, with a concrete next step.''"
| "STATE_FRAMING TrLost = ''They have not purchased in over a year. Frame this as a '' @ [CHR 0x27] @ ''we'' @ [CHR 0x27] @ ''ve changed since you last visited'' @ [CHR 0x27] @ '' welcome-back invitation.''"

fun EMOJI_GUIDANCE :: "ai_emoji \<Rightarrow> string" where
  "EMOJI_GUIDANCE EmojiNone = ''Do not use any emoji.''"
| "EMOJI_GUIDANCE EmojiMinimal = ''Use at most one tasteful emoji, only if it adds clear meaning.''"
| "EMOJI_GUIDANCE EmojiLiberal = ''Emoji are welcome where they reinforce tone, but do not overdo it.''"

fun STYLE_GUIDANCE :: "ai_style \<Rightarrow> string" where
  "STYLE_GUIDANCE Formal = ''Tone: formal, polished. Address the customer with courtesy.''"
| "STYLE_GUIDANCE Professional = ''Tone: professional, clear, direct. No filler.''"
| "STYLE_GUIDANCE Casual = ''Tone: casual, friendly, conversational. Sound like a real person.''"
| "STYLE_GUIDANCE Playful = ''Tone: playful, warm, lightly informal '' @ em_dash @ '' but always respectful.''"

section \<open>The prompts\<close>

definition not_blank :: "string option \<Rightarrow> bool" where
  "not_blank v = (case v of None \<Rightarrow> False | Some s \<Rightarrow> trim s \<noteq> [])"

definition tone_lines :: "ai_tone \<Rightarrow> string list" where
  "tone_lines tone =
     [[], STYLE_GUIDANCE (at_style tone), EMOJI_GUIDANCE (at_emojiPolicy tone)]
     @ (if at_avoid tone \<noteq> []
        then [''Avoid these words / phrases entirely: '' @ join '', '' (at_avoid tone) @ ''.''] else [])
     @ (if at_emphasize tone \<noteq> []
        then [''Lean into these brand values where natural: '' @ join '', '' (at_emphasize tone) @ ''.''] else [])
     @ (if not_blank (at_brandVoiceSample tone)
        then [[], ''Brand voice sample (match this voice):'' @ newline @ the (at_brandVoiceSample tone)] else [])
     @ (if not_blank (at_customInstructions tone)
        then [[], ''Additional merchant instructions:'' @ newline @ the (at_customInstructions tone)] else [])"

definition DISCOUNT_SYSTEM_LINES :: "string list" where
  "DISCOUNT_SYSTEM_LINES =
     [[], ''Discount instructions (HIGHEST PRIORITY '' @ em_dash @ '' overrides everything above):'',
      ''  - The customer is being offered a one-time discount code.'',
      ''  - Reference the code by writing EXACTLY this placeholder token: {{DISCOUNT_CODE}}'',
      ''  - Reference the percentage by writing EXACTLY this placeholder token: {{DISCOUNT_VALUE_PERCENT}}'',
      ''  - Do NOT invent a discount code. Do NOT write a percentage as a number.'',
      ''  - Do NOT replace the placeholder tokens with anything else '' @ em_dash @ '' leave them exactly as shown.'',
      ''  - Use each placeholder token at most once.'',
      ''  - The placeholder tokens will be replaced with the real values before the customer sees the message.'']"

definition build_system_prompt :: "winback_prompt_args \<Rightarrow> string" where
  "build_system_prompt args =
     join newline
       ([''You are an expert customer-winback copywriter for '' @ or_default (pm_name args) ''the store'' @ '', a Shopify-based store.'',
         ''Your only job is to write a single short message addressed to a specific lapsed customer to invite them back.'',
         [],
         ''State framing: '' @ STATE_FRAMING (pc_triggerState args),
         ''Maximum length: '' @ int_string (MAX_WORDS_BY_STATE (pc_triggerState args)) @ '' words. Be concise. Do not exceed this limit.'',
         [],
         ''Hard constraints:'',
         ''  - Never invent facts about the customer, the merchant, or any product.'',
         ''  - Never use fake urgency ('' @ [CHR 0x22] @ ''act now!'' @ [CHR 0x22] @ '', '' @ [CHR 0x22] @ ''last chance!'' @ [CHR 0x22] @ '' unless the merchant has actually said so).'',
         ''  - Never make medical, financial, legal, or health claims.'',
         ''  - Never mention competitors.'',
         ''  - Output the message text only '' @ em_dash @ '' no subject line, no markdown, no preamble.'']
        @ (case pm_aiTone args of
             Some tone \<Rightarrow> tone_lines tone
           | None \<Rightarrow> [[], STYLE_GUIDANCE Professional, EMOJI_GUIDANCE EmojiMinimal])
        @ (if pp_discount args \<noteq> None then DISCOUNT_SYSTEM_LINES else []))"

text \<open>
  \<open>(Number(mCents) / 100).toFixed(2)\<close>, which is exact below 2 to the 53 cents.
\<close>

definition dollars :: "int \<Rightarrow> string" where
  "dollars cents =
     (if cents < 0 then ''-'' else []) @ nat_string (nat \<bar>cents\<bar> div 100) @ ''.''
     @ (if nat \<bar>cents\<bar> mod 100 < 10 then ''0'' else []) @ nat_string (nat \<bar>cents\<bar> mod 100)"

definition build_user_prompt :: "winback_prompt_args \<Rightarrow> string" where
  "build_user_prompt args =
     (let trimmedFirstName = (case pc_firstName args of None \<Rightarrow> [] | Some n \<Rightarrow> trim n);
          salutation = (if trimmedFirstName = [] then ''valued customer'' else trimmedFirstName);
          orderWord = (if pc_fCount args = 1 then ''order'' else ''orders'')
      in join newline
       ([''Customer context:'',
         ''  - Address them as: '' @ salutation,
         ''  - State band: '' @ trigger_string (pc_triggerState args) @ '' (previously: '' @ pc_previousState args @ '')'',
         ''  - Days since last paid order: '' @ int_string (pc_rDays args),
         ''  - Lifetime: '' @ int_string (pc_fCount args) @ '' '' @ orderWord @ '', '' @ pc_currency args @ '' '' @ dollars (pc_mCents args) @ '' (trailing 365d).'']
        @ (if pp_recentProducts args \<noteq> []
           then [''  - Their recent purchases included: '' @ join ''; '' (take 3 (pp_recentProducts args)) @ ''.''] else [])
        @ (if pp_discount args \<noteq> None
           then [[], ''Discount available for this customer:'', ''  - Code: {{DISCOUNT_CODE}}'',
                 ''  - Value: {{DISCOUNT_VALUE_PERCENT}}% off'',
                 ''  - Mention both placeholder tokens exactly as shown above. The substitution happens later.''] else [])
        @ [[], ''Write a winback message appropriate for the '' @ trigger_string (pc_triggerState args) @ '' state. Output the message text only.'']
        @ (if pp_discount args \<noteq> None
           then [''Remember: use the literal placeholder tokens {{DISCOUNT_CODE}} and {{DISCOUNT_VALUE_PERCENT}} '' @ em_dash @ '' never substitute them with real values.''] else [])))"

definition build_winback_prompt :: "winback_prompt_args \<Rightarrow> winback_prompt_result" where
  "build_winback_prompt args =
     \<lparr>wp_systemPrompt = build_system_prompt args, wp_userPrompt = build_user_prompt args\<rparr>"

section \<open>What the prompts depend on\<close>

lemma system_prompt_line:
  "p \<in> set DISCOUNT_SYSTEM_LINES \<Longrightarrow> pp_discount args \<noteq> None \<Longrightarrow> occurs_in w p \<Longrightarrow>
    occurs_in w (build_system_prompt args)"
  unfolding build_system_prompt_def by (rule occurs_in_join) simp_all

lemma user_prompt_line:
  "p \<in> {''  - Code: {{DISCOUNT_CODE}}'', ''  - Value: {{DISCOUNT_VALUE_PERCENT}}% off''} \<Longrightarrow>
    pp_discount args \<noteq> None \<Longrightarrow> occurs_in w p \<Longrightarrow> occurs_in w (build_user_prompt args)"
  unfolding build_user_prompt_def Let_def by (rule occurs_in_join) auto

lemma discount_tokens_in_prompts:
  assumes "pp_discount args \<noteq> None"
  shows "occurs_in DISCOUNT_CODE_TOKEN (build_system_prompt args)"
    and "occurs_in DISCOUNT_VALUE_PERCENT_TOKEN (build_system_prompt args)"
    and "occurs_in DISCOUNT_CODE_TOKEN (build_user_prompt args)"
    and "occurs_in DISCOUNT_VALUE_PERCENT_TOKEN (build_user_prompt args)"
proof -
  have line: "DISCOUNT_SYSTEM_LINES ! n \<in> set DISCOUNT_SYSTEM_LINES" if "n < 9" for n
    by (rule nth_mem) (use that in \<open>simp add: DISCOUNT_SYSTEM_LINES_def\<close>)
  have occ: "occurs_in DISCOUNT_CODE_TOKEN (DISCOUNT_SYSTEM_LINES ! 3)"
    "occurs_in DISCOUNT_VALUE_PERCENT_TOKEN (DISCOUNT_SYSTEM_LINES ! 4)"
    "occurs_in DISCOUNT_CODE_TOKEN ''  - Code: {{DISCOUNT_CODE}}''"
    "occurs_in DISCOUNT_VALUE_PERCENT_TOKEN ''  - Value: {{DISCOUNT_VALUE_PERCENT}}% off''"
    by code_simp+
  show "occurs_in DISCOUNT_CODE_TOKEN (build_system_prompt args)"
    by (rule system_prompt_line [OF line assms occ(1)]) simp
  show "occurs_in DISCOUNT_VALUE_PERCENT_TOKEN (build_system_prompt args)"
    by (rule system_prompt_line [OF line assms occ(2)]) simp
  show "occurs_in DISCOUNT_CODE_TOKEN (build_user_prompt args)"
    by (rule user_prompt_line [OF _ assms occ(3)]) blast
  show "occurs_in DISCOUNT_VALUE_PERCENT_TOKEN (build_user_prompt args)"
    by (rule user_prompt_line [OF _ assms occ(4)]) blast
qed

text \<open>
  Of the customer, only the first name and the purchase history reach the provider: the last
  name does not change the prompts.
\<close>

lemma prompt_ignores_last_name:
  "build_winback_prompt (args\<lparr>pc_lastName := n\<rparr>) = build_winback_prompt args"
  by (simp add: build_winback_prompt_def build_system_prompt_def build_user_prompt_def)

end
