(* ===== verification/Base32.thy ===== *)
theory Base32
  imports JsString "HOL-Library.Word"
begin

unbundle bit_operations_syntax

text \<open>
  \<open>packages/crypto/src/base32.ts\<close> and \<open>packages/shopify/src/admin/discount-code.ts\<close>: the encoder
  with its 32-bit accumulator, its equivalence with the encoding of the bit stream, and the
  discount code derived from a keyed hash.
\<close>

section \<open>The encoder\<close>

type_synonym byte = "8 word"

definition CROCKFORD_ALPHABET :: string where
  "CROCKFORD_ALPHABET = ''0123456789ABCDEFGHJKMNPQRSTVWXYZ''"

definition symbol :: "32 word \<Rightarrow> char" where
  "symbol w = CROCKFORD_ALPHABET ! unat (w AND 31)"

text \<open>The inner loop: one symbol per five bits held.\<close>

fun emit_symbols :: "32 word \<Rightarrow> nat \<Rightarrow> string \<Rightarrow> 32 word \<times> nat \<times> string" where
  "emit_symbols acc bits output =
     (if bits \<ge> 5 then
        (let bits' = bits - 5; output' = output @ [symbol (drop_bit bits' acc)] in
         emit_symbols (acc AND (push_bit bits' 1 - 1)) bits' output')
      else (acc, bits, output))"

declare emit_symbols.simps [simp del]

fun encode_bytes :: "byte list \<Rightarrow> 32 word \<Rightarrow> nat \<Rightarrow> string \<Rightarrow> 32 word \<times> nat \<times> string" where
  "encode_bytes [] acc bits output = (acc, bits, output)"
| "encode_bytes (b # bs) acc bits output =
     (case emit_symbols (push_bit 8 acc OR ucast b) (bits + 8) output of
        (acc', bits', output') \<Rightarrow> encode_bytes bs acc' bits' output')"

definition encode_crockford_base32 :: "byte list \<Rightarrow> string" where
  "encode_crockford_base32 input =
     (case encode_bytes input 0 0 [] of
        (acc, bits, output) \<Rightarrow>
          if bits > 0 then output @ [symbol (push_bit (5 - bits) acc)] else output)"

section \<open>The bit stream\<close>

text \<open>
  The reference: the bits of the bytes, most significant first, in groups of five, the last
  one filled up with zeros.
\<close>

definition byte_bits :: "byte \<Rightarrow> bool list" where
  "byte_bits b = map (bit b) [7, 6, 5, 4, 3, 2, 1, 0]"

fun bits_nat :: "bool list \<Rightarrow> nat" where
  "bits_nat [] = 0"
| "bits_nat (b # bs) = (if b then 2 ^ length bs else 0) + bits_nat bs"

definition bits_symbol :: "bool list \<Rightarrow> char" where
  "bits_symbol bs = CROCKFORD_ALPHABET ! bits_nat bs"

fun encode_bits :: "bool list \<Rightarrow> string" where
  "encode_bits bs =
     (if length bs \<ge> 5 then bits_symbol (take 5 bs) # encode_bits (drop 5 bs)
      else if bs = [] then [] else [bits_symbol (bs @ replicate (5 - length bs) False)])"

declare encode_bits.simps [simp del]

lemma bits_nat_append: "bits_nat (xs @ ys) = bits_nat xs * 2 ^ length ys + bits_nat ys"
  by (induction xs) (simp_all add: power_add algebra_simps)

lemma bits_nat_less: "bits_nat bs < 2 ^ length bs"
  by (induction bs) auto

lemma bits_nat_inject: "length xs = length ys \<Longrightarrow> bits_nat xs = bits_nat ys \<Longrightarrow> xs = ys"
proof (induction xs ys rule: list_induct2)
  case (Cons x xs y ys)
  then show ?case using bits_nat_less [of xs] bits_nat_less [of ys] by (auto split: if_splits)
qed simp

lemma bits_nat_low: "bits_nat (map (bit n) (rev [0..<k])) = take_bit k (n :: nat)"
  by (induction k) (simp_all add: take_bit_Suc_from_most)

lemma unat_byte: "unat (b :: byte) < 256"
  by (rule order_less_le_trans [OF unsigned_less]) simp

lemma bits_nat_byte: "bits_nat (byte_bits b) = unat b"
proof -
  have "byte_bits b = map (bit (unat b)) (rev [0..<8])"
    by (simp add: byte_bits_def bit_unsigned_iff upt_rec eval_nat_numeral)
  then show ?thesis by (simp add: bits_nat_low take_bit_nat_eq_self_iff unat_byte)
qed

lemma unat_and_mask: "unat (acc AND mask n) = unat acc mod 2 ^ n"
  by (simp only: take_bit_eq_mask [symmetric] unsigned_take_bit_eq take_bit_eq_mod [of n "unat acc"])

lemma unat_symbol: "symbol w = CROCKFORD_ALPHABET ! (unat w mod 32)"
  using unat_and_mask [of w 5] by (simp add: symbol_def mask_eq_exp_minus_1)

lemma mask_low: "unat (acc AND (push_bit n 1 - 1)) = unat acc mod 2 ^ n"
  using unat_and_mask [of acc n] by (simp add: mask_eq_exp_minus_1)

lemma or_byte: "b < 256 \<Longrightarrow> push_bit 8 a OR b = a * 256 + (b :: nat)"
proof -
  assume "b < 256"
  then have b: "take_bit 8 b = b" by (simp add: take_bit_nat_eq_self_iff)
  have "push_bit 8 a AND b = 0"
    by (subst b [symmetric]) (simp add: bit_eq_iff bit_simps)
  then show ?thesis by (simp add: disjunctive_add_eq_or [symmetric] push_bit_eq_mult)
qed

lemma shift_in:
  assumes "unat (acc :: 32 word) < 2 ^ 20"
  shows "unat (push_bit 8 acc OR ucast (b :: byte)) = unat acc * 256 + unat b"
proof -
  have "unat (push_bit 8 acc) = push_bit 8 (unat acc)"
    using assms by (simp only: unsigned_push_bit_eq) (simp add: take_bit_nat_eq_self_iff push_bit_eq_mult)
  moreover have "unat (ucast b :: 32 word) = unat b"
    using unat_byte [of b] by (simp add: unsigned_ucast_eq take_bit_nat_eq_self_iff)
  ultimately show ?thesis
    using unat_byte [of b] by (simp add: unsigned_or_eq or_byte)
qed

lemma shift_out: "unat (drop_bit n (acc :: 32 word)) = unat acc div 2 ^ n"
  unfolding unat_drop_bit_eq by (rule drop_bit_eq_div)

section \<open>The accumulator holds the pending bits\<close>

definition holds :: "32 word \<Rightarrow> nat \<Rightarrow> bool list \<Rightarrow> bool" where
  "holds acc n pending \<longleftrightarrow> n = length pending \<and> unat acc = bits_nat pending"

lemma bits_symbol_take:
  "length pending \<ge> 5 \<Longrightarrow> bits_nat pending div 2 ^ (length pending - 5) = bits_nat (take 5 pending)"
  using bits_nat_append [of "take 5 pending" "drop 5 pending"] bits_nat_less [of "drop 5 pending"] by simp

lemma bits_low_drop:
  "length pending \<ge> 5 \<Longrightarrow> bits_nat pending mod 2 ^ (length pending - 5) = bits_nat (drop 5 pending)"
  using bits_nat_append [of "take 5 pending" "drop 5 pending"] bits_nat_less [of "drop 5 pending"] by simp

lemma symbol_shift_out:
  assumes "holds acc n pending" and "n \<ge> 5"
  shows "symbol (drop_bit (n - 5) acc) = bits_symbol (take 5 pending)"
  using assms bits_symbol_take [of pending] bits_nat_less [of "take 5 pending"]
  by (simp add: unat_symbol shift_out holds_def bits_symbol_def)

lemma holds_low:
  "holds acc n pending \<Longrightarrow> n \<ge> 5 \<Longrightarrow> holds (acc AND (push_bit (n - 5) 1 - 1)) (n - 5) (drop 5 pending)"
  unfolding holds_def mask_low using bits_low_drop [of pending] by auto

text \<open>Symbols of the whole groups of five, and the bits left over.\<close>

fun groups :: "bool list \<Rightarrow> string \<times> bool list" where
  "groups bs = (if length bs \<ge> 5
     then (case groups (drop 5 bs) of (s, r) \<Rightarrow> (bits_symbol (take 5 bs) # s, r)) else ([], bs))"

declare groups.simps [simp del]

lemma emit_symbols_groups:
  "holds acc n pending \<Longrightarrow> groups pending = (s, r) \<Longrightarrow>
    \<exists>acc'. emit_symbols acc n out = (acc', length r, out @ s) \<and> holds acc' (length r) r"
proof (induction acc n out arbitrary: pending s r rule: emit_symbols.induct)
  case (1 acc n out)
  show ?case
  proof (cases "n \<ge> 5")
    case True
    then have len: "length pending \<ge> 5" using 1(2) by (simp add: holds_def)
    obtain s' where s': "groups (drop 5 pending) = (s', r)" "s = bits_symbol (take 5 pending) # s'"
      using 1(3) len by (subst (asm) groups.simps) (auto split: prod.splits)
    with 1(1) [OF True refl refl holds_low [OF 1(2) True] s'(1)] symbol_shift_out [OF 1(2) True] True
    show ?thesis by (subst emit_symbols.simps) (simp add: Let_def)
  next
    case False
    then show ?thesis using 1(2,3)
      by (subst (asm) groups.simps, subst emit_symbols.simps) (auto simp: holds_def)
  qed
qed

lemma groups_rest: "groups bs = (s, r) \<Longrightarrow> length r < 5"
proof (induction bs arbitrary: s r rule: groups.induct)
  case (1 bs)
  then show ?case by (subst (asm) (2) groups.simps) (auto split: if_splits prod.splits)
qed

lemma groups_append:
  "groups bs = (s, r) \<Longrightarrow> groups (bs @ cs) = (case groups (r @ cs) of (s', r') \<Rightarrow> (s @ s', r'))"
proof (induction bs arbitrary: s r rule: groups.induct)
  case (1 bs)
  show ?case
  proof (cases "length bs \<ge> 5")
    case True
    then obtain s' where s': "groups (drop 5 bs) = (s', r)" "s = bits_symbol (take 5 bs) # s'"
      using 1(2) by (subst (asm) groups.simps) (auto split: prod.splits)
    then show ?thesis using 1(1) [OF True s'(1)] True
      by (subst groups.simps) (simp split: prod.splits)
  next
    case False
    then have "s = []" "r = bs" using 1(2) by (subst (asm) groups.simps, simp)+
    then show ?thesis by (simp split: prod.splits)
  qed
qed

lemma encode_bytes_groups:
  assumes "holds acc n pending" and "n < 5" and "groups (pending @ concat (map byte_bits bs)) = (s, r)"
  shows "\<exists>acc'. encode_bytes bs acc n out = (acc', length r, out @ s) \<and> holds acc' (length r) r"
  using assms
proof (induction bs arbitrary: acc n pending s out)
  case Nil
  then have "s = []" "r = pending" by (subst (asm) groups.simps, simp add: holds_def)+
  with Nil show ?case by (auto simp: holds_def)
next
  case (Cons b bs)
  have "(2 :: nat) ^ length pending \<le> 2 ^ 20"
    using Cons.prems(1,2) by (intro power_increasing) (simp_all add: holds_def)
  with bits_nat_less [of pending] have small: "unat acc < 2 ^ 20"
    using Cons.prems(1) unfolding holds_def by linarith
  have h: "holds (push_bit 8 acc OR ucast b) (n + 8) (pending @ byte_bits b)"
    using Cons.prems(1) shift_in [OF small, of b]
    by (simp add: holds_def bits_nat_append bits_nat_byte) (simp add: byte_bits_def)
  obtain s1 r1 where g: "groups (pending @ byte_bits b) = (s1, r1)" by fastforce
  obtain acc1 where e: "emit_symbols (push_bit 8 acc OR ucast b) (n + 8) out = (acc1, length r1, out @ s1)"
    and h1: "holds acc1 (length r1) r1" using emit_symbols_groups [OF h g] by blast
  obtain s2 where g2: "groups (r1 @ concat (map byte_bits bs)) = (s2, r)" "s = s1 @ s2"
    using groups_append [OF g, of "concat (map byte_bits bs)"] Cons.prems(3) by (auto split: prod.splits)
  from Cons.IH [OF h1 groups_rest [OF g] g2(1), of "out @ s1"] show ?case by (simp add: e g2(2))
qed

lemma encode_bits_groups:
  "groups bs = (s, r) \<Longrightarrow> encode_bits bs = s @ encode_bits r"
proof (induction bs arbitrary: s rule: groups.induct)
  case (1 bs)
  show ?case
  proof (cases "length bs \<ge> 5")
    case True
    then obtain s' where "groups (drop 5 bs) = (s', r)" "s = bits_symbol (take 5 bs) # s'"
      using 1(2) by (subst (asm) groups.simps) (auto split: prod.splits)
    with 1(1) [OF True] True show ?thesis by (subst encode_bits.simps) simp
  next
    case False
    then have "s = []" "r = bs" using 1(2) by (subst (asm) groups.simps, simp)+
    then show ?thesis by simp
  qed
qed

lemma bits_nat_zeros: "bits_nat (replicate k False) = 0"
  by (induction k) simp_all

lemma last_symbol:
  assumes "holds acc n r" and "n < 5"
  shows "symbol (push_bit (5 - n) acc) = bits_symbol (r @ replicate (5 - n) False)"
proof -
  let ?p = "r @ replicate (5 - n) False"
  have len: "length ?p = 5" using assms by (simp add: holds_def)
  have eq: "bits_nat ?p = unat acc * 2 ^ (5 - n)"
    using assms(1) by (simp add: bits_nat_append bits_nat_zeros holds_def)
  have "unat acc * 2 ^ (5 - n) < 32" using bits_nat_less [of ?p] eq unfolding len by simp
  then have "unat (push_bit (5 - n) acc) = bits_nat ?p"
    unfolding eq by (simp only: unsigned_push_bit_eq) (simp add: take_bit_nat_eq_self_iff push_bit_eq_mult)
  then show ?thesis using \<open>_ < 32\<close> eq by (simp add: unat_symbol bits_symbol_def)
qed

lemma encode_base32_bits: "encode_crockford_base32 bs = encode_bits (concat (map byte_bits bs))"
proof -
  obtain s r where g: "groups (concat (map byte_bits bs)) = (s, r)" by fastforce
  have h0: "holds 0 0 []" by (simp add: holds_def)
  from encode_bytes_groups [OF h0 _ , of bs s r "[]"] g obtain acc' where
    e: "encode_bytes bs 0 0 [] = (acc', length r, s)" and h: "holds acc' (length r) r" by auto
  have r: "length r < 5" by (rule groups_rest [OF g])
  then have "encode_bits r = (if r = [] then [] else [bits_symbol (r @ replicate (5 - length r) False)])"
    by (subst encode_bits.simps) simp
  with e last_symbol [OF h r] encode_bits_groups [OF g] show ?thesis
    by (simp add: encode_crockford_base32_def)
qed

section \<open>What the text determines\<close>

lemma alphabet_inject: "i < 32 \<Longrightarrow> j < 32 \<Longrightarrow> CROCKFORD_ALPHABET ! i = CROCKFORD_ALPHABET ! j \<Longrightarrow> i = j"
  by (rule nth_eq_iff_index_eq [THEN iffD1, of CROCKFORD_ALPHABET]) (simp_all add: CROCKFORD_ALPHABET_def)

lemma bits_symbol_inject:
  assumes "length xs = 5" and "length ys = 5" and "bits_symbol xs = bits_symbol ys" shows "xs = ys"
  using assms bits_nat_less [of xs] bits_nat_less [of ys]
  by (intro bits_nat_inject alphabet_inject) (simp_all add: bits_symbol_def)

lemma encode_bits_inject:
  "length xs = length ys \<Longrightarrow> encode_bits xs = encode_bits ys \<Longrightarrow> xs = ys"
proof (induction xs arbitrary: ys rule: encode_bits.induct)
  case (1 xs)
  show ?case
  proof (cases "length xs \<ge> 5")
    case True
    then have c: "bits_symbol (take 5 xs) = bits_symbol (take 5 ys)"
      and r: "encode_bits (drop 5 xs) = encode_bits (drop 5 ys)"
      using 1(2,3) by (subst (asm) (1 2) encode_bits.simps, simp)+
    have "drop 5 xs = drop 5 ys" using 1(1) [OF True _ r] 1(2) by simp
    moreover have "take 5 xs = take 5 ys" using True 1(2) c by (intro bits_symbol_inject) simp_all
    ultimately show ?thesis by (metis append_take_drop_id)
  next
    case False
    show ?thesis
    proof (cases "xs = []")
      case False
      with \<open>\<not> 5 \<le> length xs\<close> have "bits_symbol (xs @ replicate (5 - length xs) False)
          = bits_symbol (ys @ replicate (5 - length ys) False)"
        using 1(2,3) by (subst (asm) (1 2) encode_bits.simps) (auto split: if_splits)
      then have "xs @ replicate (5 - length xs) False = ys @ replicate (5 - length ys) False"
        using \<open>\<not> 5 \<le> length xs\<close> 1(2) by (intro bits_symbol_inject) simp_all
      with 1(2) show ?thesis by simp
    qed (use 1(2) in simp)
  qed
qed

lemma take_encode_bits:
  "5 * k \<le> length bs \<Longrightarrow> take k (encode_bits bs) = encode_bits (take (5 * k) bs)"
proof (induction k arbitrary: bs)
  case 0
  then show ?case by (simp add: encode_bits.simps)
next
  case (Suc k)
  have "encode_bits bs = bits_symbol (take 5 bs) # encode_bits (drop 5 bs)"
    using Suc.prems by (subst encode_bits.simps) simp
  moreover have "encode_bits (take (5 * Suc k) bs) = bits_symbol (take 5 bs) # encode_bits (take (5 * k) (drop 5 bs))"
    using Suc.prems by (subst encode_bits.simps) (simp add: drop_take min_def)
  ultimately show ?case using Suc.IH [of "drop 5 bs"] Suc.prems by simp
qed

lemma length_byte [simp]: "length (byte_bits b) = 8"
  by (simp add: byte_bits_def)

lemma length_byte_bits: "length (concat (map byte_bits bs)) = 8 * length bs"
  by (induction bs) simp_all

lemma byte_bits_inject: "byte_bits a = byte_bits b \<Longrightarrow> a = b"
  using bits_nat_byte [of a] bits_nat_byte [of b] by (metis word_unat_eq_iff)

lemma byte_bits_concat_inject:
  "length as = length bs \<Longrightarrow> concat (map byte_bits as) = concat (map byte_bits bs) \<Longrightarrow> as = bs"
  by (induction as bs rule: list_induct2) (auto dest: byte_bits_inject)

lemma take_byte_bits: "take (8 * k) (concat (map byte_bits bs)) = concat (map byte_bits (take k bs))"
proof (induction k arbitrary: bs)
  case (Suc k)
  then show ?case by (cases bs) simp_all
qed simp

text \<open>
  The encoder, which shifts bytes through a 32-bit accumulator, is the encoding of the
  bit stream in groups of five: no bit is ever lost to the width of the accumulator, whatever
  the length of the input, and the text has one symbol per five bits, rounded up.
\<close>

theorem base32_is_bit_stream:
  "encode_crockford_base32 bs = encode_bits (concat (map byte_bits bs))
    \<and> length (encode_crockford_base32 bs) = (8 * length bs + 4) div 5"
proof -
  have "length (encode_bits xs) = (length xs + 4) div 5" for xs
  proof (induction xs rule: encode_bits.induct)
    case (1 bs)
    show ?case
    proof (cases "length bs \<ge> 5")
      case True
      then show ?thesis using 1 by (subst encode_bits.simps) simp
    next
      case False
      then have "bs \<noteq> [] \<Longrightarrow> (length bs + 4) div 5 = 1" by (intro div_nat_eqI) (auto simp: Suc_le_eq)
      then show ?thesis using False by (subst encode_bits.simps) auto
    qed
  qed
  then show ?thesis by (simp add: encode_base32_bits length_byte_bits)
qed

section \<open>Discount codes\<close>

definition WINBACK_CODE_PREFIX :: string where "WINBACK_CODE_PREFIX = ''WB-''"
definition WINBACK_CODE_BASE32_LENGTH :: nat where "WINBACK_CODE_BASE32_LENGTH = 16"

text \<open>The keyed hash of \<open>node:crypto\<close> is the parameter \<open>hmac\<close>.\<close>

definition derive_winback_discount_code ::
  "(string \<Rightarrow> string \<Rightarrow> byte list) \<Rightarrow> string \<Rightarrow> string \<Rightarrow> string \<Rightarrow> string" where
  "derive_winback_discount_code hmac secret merchantId aiGenerationId =
     (let digest = hmac secret (merchantId @ '':'' @ aiGenerationId);
          encoded = take WINBACK_CODE_BASE32_LENGTH (encode_crockford_base32 digest)
      in WINBACK_CODE_PREFIX @ encoded)"

lemma alphabet_symbol: "length xs = 5 \<Longrightarrow> bits_symbol xs \<in> set CROCKFORD_ALPHABET"
  using bits_nat_less [of xs] unfolding bits_symbol_def by (intro nth_mem) (simp add: CROCKFORD_ALPHABET_def)

lemma encode_bits_alphabet: "set (encode_bits xs) \<subseteq> set CROCKFORD_ALPHABET"
proof (induction xs rule: encode_bits.induct)
  case (1 bs)
  then show ?case by (subst encode_bits.simps) (auto simp: alphabet_symbol)
qed

lemma discount_code_shape:
  assumes "code = derive_winback_discount_code hmac secret m g"
  shows "code \<noteq> [] \<and> hd code = CHR ''W'' \<and> CHR ''{'' \<notin> set code"
proof -
  have "CHR ''{'' \<notin> set (take k (encode_crockford_base32 d))" for k d
    using encode_bits_alphabet [of "concat (map byte_bits d)"] in_set_takeD [of "CHR ''{''" k]
    by (auto simp: encode_base32_bits CROCKFORD_ALPHABET_def)
  then show ?thesis
    by (simp add: assms derive_winback_discount_code_def WINBACK_CODE_PREFIX_def Let_def)
qed

text \<open>
  Two generations share a discount code exactly if their hashes agree in the first ten
  bytes: the code keeps 80 bits of the hash, neither fewer nor more, and depends on nothing
  else. So the retry of a job derives the code that the first attempt derived.
\<close>

theorem discount_codes_collide:
  assumes "\<And>k x. length (hmac k x) = 32"
  shows "derive_winback_discount_code hmac secret m g = derive_winback_discount_code hmac secret m' g'
    \<longleftrightarrow> take 10 (hmac secret (m @ '':'' @ g)) = take 10 (hmac secret (m' @ '':'' @ g'))"
proof -
  have code: "take 16 (encode_crockford_base32 d) = encode_bits (concat (map byte_bits (take 10 d)))"
    if "length d = 32" for d
    using take_encode_bits [of 16 "concat (map byte_bits d)"] take_byte_bits [of 10 d] that
    by (simp add: encode_base32_bits length_byte_bits)
  show ?thesis
    unfolding derive_winback_discount_code_def WINBACK_CODE_BASE32_LENGTH_def Let_def code [OF assms]
    using encode_bits_inject byte_bits_concat_inject assms
    by (auto simp: length_byte_bits)
qed

definition sample_hmac :: "string \<Rightarrow> string \<Rightarrow> byte list" where
  "sample_hmac k x = map (\<lambda>i. of_nat (length k + 7 * length x + i)) [0..<32]"

lemma discount_codes_collide_witness:
  "derive_winback_discount_code sample_hmac ''s'' ''m'' ''g'' = derive_winback_discount_code sample_hmac ''s'' ''m'' ''h''
    \<and> derive_winback_discount_code sample_hmac ''s'' ''m'' ''g'' \<noteq> derive_winback_discount_code sample_hmac ''s'' ''m'' ''gg''"
proof -
  have "length (sample_hmac k x) = 32" for k x by (simp add: sample_hmac_def)
  from discount_codes_collide [of sample_hmac, OF this] show ?thesis
    by (simp add: sample_hmac_def upt_conv_Cons)
qed

end
