(* ===== verification/RateLimiter.thy ===== *)
theory RateLimiter
  imports JsString
begin

text \<open>
  \<open>packages/queue/src/rate-limiter.ts\<close>: the hourly cap on generations per merchant, a counter
  in Redis that a script increments and lets expire. The Redis commands used are modelled as
  documented: a key past its expiry is absent, \<open>INCR\<close> counts an absent key from 0 and keeps
  the expiry of a present one, \<open>EVALSHA\<close> fails with \<open>NOSCRIPT\<close> on an unknown script.
\<close>

section \<open>The counter\<close>

type_synonym redis_keys = "string \<Rightarrow> (int \<times> time option) option"

definition live_entry :: "time \<Rightarrow> redis_keys \<Rightarrow> string \<Rightarrow> (int \<times> time option) option" where
  "live_entry now r k =
     (case r k of
        None \<Rightarrow> None
      | Some (n, None) \<Rightarrow> Some (n, None)
      | Some (n, Some e) \<Rightarrow> if now < e then Some (n, Some e) else None)"

definition HOUR_TTL_SECONDS :: int where "HOUR_TTL_SECONDS = 3600"
definition HOUR_BUCKET_MS :: int where "HOUR_BUCKET_MS = 3600000"

text \<open>\<open>INCR\<close>, and \<open>EXPIRE\<close> when the counter is new.\<close>

definition incr_with_ttl :: "time \<Rightarrow> string \<Rightarrow> redis_keys \<Rightarrow> redis_keys \<times> int" where
  "incr_with_ttl now key r =
     (let (n, expiry) = (case live_entry now r key of None \<Rightarrow> (0, None) | Some e \<Rightarrow> e);
          count = n + 1
      in (r(key \<mapsto> (count, if count = 1 then Some (now + HOUR_TTL_SECONDS * 1000) else expiry)), count))"

text \<open>
  The script cache: whether this process has the script's hash, and whether the server has
  the script. A restarted server has lost it; the call then loads it and evaluates again.
\<close>

record redis_server =
  rs_scriptLoaded :: bool
  rs_keys :: redis_keys

definition evalsha :: "time \<Rightarrow> string \<Rightarrow> redis_server \<Rightarrow> redis_server \<times> int option" where
  "evalsha now key s =
     (if rs_scriptLoaded s
      then (case incr_with_ttl now key (rs_keys s) of (r, n) \<Rightarrow> (s\<lparr>rs_keys := r\<rparr>, Some n))
      else (s, None))"

definition load_script :: "redis_server \<Rightarrow> redis_server" where
  "load_script s = s\<lparr>rs_scriptLoaded := True\<rparr>"

definition eval_incr_with_ttl :: "time \<Rightarrow> string \<Rightarrow> bool \<times> redis_server \<Rightarrow> (bool \<times> redis_server) \<times> int option" where
  "eval_incr_with_ttl now key = (\<lambda>(cached, s).
     let s0 = (if cached then s else load_script s) in
     case evalsha now key s0 of
       (s1, Some n) \<Rightarrow> ((True, s1), Some n)
     | (s1, None) \<Rightarrow> (case evalsha now key (load_script s1) of (s2, n) \<Rightarrow> ((True, s2), n)))"

definition rate_key :: "merchant_id \<Rightarrow> time \<Rightarrow> string" where
  "rate_key m now = ''ai:gen:rate:'' @ m @ '':'' @ int_string (now div HOUR_BUCKET_MS)"

record increment_and_check_result =
  ic_allowed :: bool
  ic_currentCount :: int

text \<open>A call that throws (Redis is down) changes nothing here and is not modelled further.\<close>

definition increment_and_check ::
  "merchant_id \<Rightarrow> int \<Rightarrow> time \<Rightarrow> bool \<times> redis_server \<Rightarrow> (bool \<times> redis_server) \<times> increment_and_check_result option" where
  "increment_and_check m capPerHour now s =
     (case eval_incr_with_ttl now (rate_key m now) s of
        (s', n) \<Rightarrow> (s', map_option (\<lambda>n. \<lparr>ic_allowed = (n \<le> capPerHour), ic_currentCount = n\<rparr>) n))"

section \<open>The cap\<close>

lemma eval_incr_counts:
  "\<exists>cached' s'. eval_incr_with_ttl now key (cached, s) = ((cached', s'), Some (snd (incr_with_ttl now key (rs_keys s))))
     \<and> rs_keys s' = fst (incr_with_ttl now key (rs_keys s))"
  by (cases "incr_with_ttl now key (rs_keys s)")
    (auto simp: eval_incr_with_ttl_def evalsha_def load_script_def Let_def)

text \<open>A sequence of calls \<open>(merchant, cap, now)\<close>, and the calls that were allowed.\<close>

fun run_checks :: "(merchant_id \<times> int \<times> time) list \<Rightarrow> bool \<times> redis_server \<Rightarrow> (merchant_id \<times> int \<times> time) list" where
  "run_checks [] s = []"
| "run_checks ((m, cap, now) # cs) s =
     (case increment_and_check m cap now s of
        (s', r) \<Rightarrow>
          (if (case r of None \<Rightarrow> False | Some x \<Rightarrow> ic_allowed x) then [(m, cap, now)] else []) @ run_checks cs s')"

definition in_hour :: "merchant_id \<Rightarrow> int \<Rightarrow> merchant_id \<times> int \<times> time \<Rightarrow> bool" where
  "in_hour m b c \<longleftrightarrow> fst c = m \<and> snd (snd c) div HOUR_BUCKET_MS = b"

lemma colon_suffix:
  assumes "a @ '':'' @ s = b @ '':'' @ t" and "CHR '':'' \<notin> set s" and "CHR '':'' \<notin> set t"
  shows "a = b \<and> s = t"
proof -
  have "takeWhile (\<lambda>c. c \<noteq> CHR '':'') (rev (x @ '':'' @ y)) = rev y" if "CHR '':'' \<notin> set y" for x y
    using that by (simp add: takeWhile_append2 [where xs = "rev y"]) (subst takeWhile_append2; auto)
  from this [OF assms(2), of a] this [OF assms(3), of b] have "s = t" unfolding assms(1) by simp
  with assms(1) show ?thesis by simp
qed

lemma rate_key_inject:
  "rate_key m now = rate_key m' now' \<longleftrightarrow> m = m' \<and> now div HOUR_BUCKET_MS = now' div HOUR_BUCKET_MS"
  using colon_suffix [of m _ m'] no_colon by (auto simp: rate_key_def dest: int_string_inject)

text \<open>
  The keys of the hours: an entry for the hour \<open>b\<close> was written in that hour, so it does not
  expire before the hour ends.
\<close>

abbreviation hour_key :: "merchant_id \<Rightarrow> int \<Rightarrow> string" where
  "hour_key m b \<equiv> rate_key m (b * HOUR_BUCKET_MS)"

lemma hour_key_now: "rate_key m now = hour_key m (now div HOUR_BUCKET_MS)"
  by (simp add: rate_key_inject HOUR_BUCKET_MS_def)

lemma hour_key_inject: "hour_key m b = hour_key m' b' \<longleftrightarrow> m = m' \<and> b = b'"
  by (simp add: rate_key_inject HOUR_BUCKET_MS_def)

definition good_keys :: "redis_keys \<Rightarrow> bool" where
  "good_keys r \<longleftrightarrow> (\<forall>m b k e. r (hour_key m b) = Some (k, e) \<longrightarrow>
     1 \<le> k \<and> (\<exists>x. e = Some x \<and> (b + 1) * HOUR_BUCKET_MS \<le> x))"

definition hour_count :: "merchant_id \<Rightarrow> int \<Rightarrow> redis_keys \<Rightarrow> int" where
  "hour_count m b r = (case r (hour_key m b) of None \<Rightarrow> 0 | Some (k, _) \<Rightarrow> k)"

lemma incr_in_hour:
  assumes "good_keys r" and "incr_with_ttl now (rate_key m now) r = (r', n)" and "b = now div HOUR_BUCKET_MS"
  shows "n = hour_count m b r + 1 \<and> r' = r(hour_key m b \<mapsto> (n, snd (the (r' (hour_key m b)))))
    \<and> (\<exists>x. r' (hour_key m b) = Some (n, Some x) \<and> (b + 1) * HOUR_BUCKET_MS \<le> x)"
proof -
  have key: "rate_key m now = hour_key m b" using hour_key_now assms(3) by simp
  have now: "b * 3600000 \<le> now" "now < (b + 1) * 3600000" unfolding assms(3) HOUR_BUCKET_MS_def by presburger+
  show ?thesis
  proof (cases "r (hour_key m b)")
    case None
    then show ?thesis using assms(2) now unfolding key
      by (auto simp: incr_with_ttl_def live_entry_def hour_count_def HOUR_TTL_SECONDS_def HOUR_BUCKET_MS_def)
  next
    case (Some v)
    then obtain k x where v: "r (hour_key m b) = Some (k, Some x)" "1 \<le> k" "(b + 1) * HOUR_BUCKET_MS \<le> x"
      using assms(1) unfolding good_keys_def by (cases v) blast
    then have "live_entry now r (hour_key m b) = Some (k, Some x)"
      using now by (simp add: live_entry_def HOUR_BUCKET_MS_def)
    then show ?thesis using assms(2) v unfolding key
      by (auto simp: incr_with_ttl_def hour_count_def Let_def)
  qed
qed

lemma incr_good:
  assumes "good_keys r" and "incr_with_ttl now (rate_key m now) r = (r', n)"
  shows "good_keys r'"
    and "hour_count m' b' r' = (if m' = m \<and> b' = now div HOUR_BUCKET_MS then n else hour_count m' b' r)"
    and "n = hour_count m (now div HOUR_BUCKET_MS) r + 1" and "1 \<le> n"
proof -
  let ?b = "now div HOUR_BUCKET_MS"
  note H = incr_in_hour [OF assms refl]
  have nn: "0 \<le> hour_count m ?b r"
    using assms(1) by (fastforce simp: hour_count_def good_keys_def split: option.splits)
  show "n = hour_count m ?b r + 1" using H by blast
  with nn show n: "1 \<le> n" by linarith
  obtain x where x: "r' = r(hour_key m ?b \<mapsto> (n, Some x))" "(?b + 1) * HOUR_BUCKET_MS \<le> x"
    using H by (metis option.sel snd_conv)
  show "hour_count m' b' r' = (if m' = m \<and> b' = ?b then n else hour_count m' b' r)"
    by (auto simp: hour_count_def x(1) hour_key_inject)
  show "good_keys r'" using assms(1) n x(2) unfolding good_keys_def x(1)
    by (auto simp: hour_key_inject split: if_splits)
qed

lemma run_checks_exact:
  assumes "good_keys (rs_keys s)" and "\<forall>c \<in> set cs. in_hour m b c \<longrightarrow> fst (snd c) = cap"
  shows "int (length (filter (in_hour m b) (run_checks cs (cached, s))))
    = min (int (length (filter (in_hour m b) cs))) (max 0 (cap - hour_count m b (rs_keys s)))"
  using assms
proof (induction cs arbitrary: cached s)
  case (Cons c cs)
  obtain m' cap' now where c: "c = (m', cap', now)" by (cases c)
  obtain r n where i: "incr_with_ttl now (rate_key m' now) (rs_keys s) = (r, n)"
    by (cases "incr_with_ttl now (rate_key m' now) (rs_keys s)")
  obtain cached' s' where e: "increment_and_check m' cap' now (cached, s)
      = ((cached', s'), Some \<lparr>ic_allowed = (n \<le> cap'), ic_currentCount = n\<rparr>)" and r: "rs_keys s' = r"
    using eval_incr_counts [of now "rate_key m' now" cached s] i by (auto simp: increment_and_check_def)
  note G = incr_good [OF Cons.prems(1) i]
  have run: "run_checks (c # cs) (cached, s) = (if n \<le> cap' then [c] else []) @ run_checks cs (cached', s')"
    by (simp add: c e)
  have IH: "int (length (filter (in_hour m b) (run_checks cs (cached', s'))))
      = min (int (length (filter (in_hour m b) cs))) (max 0 (cap - hour_count m b r))"
    using Cons.IH [of s' cached'] Cons.prems(2) G(1) by (simp add: r)
  show ?case
  proof (cases "in_hour m b c")
    case True
    then have "m' = m" "now div HOUR_BUCKET_MS = b" "cap' = cap"
      using Cons.prems(2) by (auto simp: in_hour_def c)
    then show ?thesis using IH G(2) [of m b] G(3,4) True by (auto simp: run min_def max_def)
  next
    case False
    then show ?thesis using IH G(2) [of m b] by (auto simp: run) (auto simp: in_hour_def c)
  qed
qed simp

text \<open>
  C40. The hourly cap is exact. In any sequence of checks by any number of processes, for any
  merchants, at any times and across restarts of the script cache, the checks of a merchant
  that are allowed within one clock hour are as many as were made, up to the cap: none is
  refused early, and none is allowed past the cap by an expiring key.
\<close>

theorem hourly_cap_exact:
  assumes "rs_keys s = (\<lambda>_. None)" and "0 \<le> cap" and "\<forall>c \<in> set cs. in_hour m b c \<longrightarrow> fst (snd c) = cap"
  shows "int (length (filter (in_hour m b) (run_checks cs (cached, s))))
    = min (int (length (filter (in_hour m b) cs))) cap"
  using run_checks_exact [OF _ assms(3), of s cached] assms(1,2)
  by (simp add: good_keys_def hour_count_def)

lemma hourly_cap_exact_witness:
  "length (filter (in_hour ''m'' 1) (run_checks
      [(''m'', 2, 3600000), (''n'', 2, 3600001), (''m'', 2, 3700000), (''m'', 2, 7199999), (''m'', 2, 7200000)]
      (False, \<lparr>rs_scriptLoaded = False, rs_keys = (\<lambda>_. None)\<rparr>))) = 2"
proof -
  let ?cs = "[(''m'', 2, 3600000), (''n'', 2, 3600001), (''m'', 2, 3700000), (''m'', 2, 7199999), (''m'', 2, 7200000)]"
  have "int (length (filter (in_hour ''m'' 1) (run_checks ?cs (False, \<lparr>rs_scriptLoaded = False, rs_keys = (\<lambda>_. None)\<rparr>))))
      = min (int (length (filter (in_hour ''m'' 1) ?cs))) 2"
    by (rule hourly_cap_exact) (simp_all add: in_hour_def)
  then show ?thesis by (simp add: in_hour_def HOUR_BUCKET_MS_def)
qed

end
