(* ===== verification/AiStore.thy ===== *)
theory AiStore
  imports CampaignRepo AiCost
begin

text \<open>
  The tables of the generation pipeline: \<open>AiGenerationRepository\<close>
  (\<open>ai-generation.repository.ts\<close>), \<open>AiSpendBucketRepository\<close> (\<open>ai-spend-bucket.repository.ts\<close>)
  and the query for the titles a customer bought (\<open>order.repository.ts\<close>).
\<close>

section \<open>Generations\<close>

record create_pending_args =
  cp_merchantId :: merchant_id
  cp_customerId :: string
  cp_triggerState :: customer_state
  cp_previousState :: customer_state
  cp_rDays :: int
  cp_fCount :: int
  cp_mCents :: int
  cp_currency :: string
  cp_churnRiskScore :: "rat option"
  cp_provider :: string
  cp_modelId :: string
  cp_systemPrompt :: string
  cp_userPrompt :: string
  cp_discountValuePercent :: "int option"

record mark_completed_args =
  mc_aiGenerationId :: string
  mc_generatedText :: string
  mc_inputTokens :: int
  mc_outputTokens :: int
  mc_totalTokens :: int
  mc_latencyMs :: int
  mc_costMicrocents :: int
  mc_discountCode :: "string option"
  mc_shopifyDiscountId :: "string option"

definition pending_row :: "string \<Rightarrow> time \<Rightarrow> create_pending_args \<Rightarrow> generation_row" where
  "pending_row newId now a = \<lparr>ge_id = newId, ge_merchantId = cp_merchantId a, ge_customerId = cp_customerId a,
     ge_triggerState = cp_triggerState a, ge_previousState = cp_previousState a,
     ge_rDays = cp_rDays a, ge_fCount = cp_fCount a, ge_mCents = cp_mCents a, ge_currency = cp_currency a,
     ge_provider = cp_provider a, ge_modelId = cp_modelId a, ge_systemPrompt = cp_systemPrompt a,
     ge_userPrompt = cp_userPrompt a, ge_discountValuePercent = cp_discountValuePercent a,
     ge_status = GPending, ge_generatedText = None, ge_inputTokens = None, ge_outputTokens = None,
     ge_costMicrocents = None, ge_discountCode = None, ge_shopifyDiscountId = None, ge_lastError = None,
     ge_createdAt = now, ge_completedAt = None, ge_failedAt = None,
     ge_churnRiskScore = cp_churnRiskScore a, ge_totalTokens = None, ge_latencyMs = None\<rparr>"

definition create_pending :: "tenant_scope \<Rightarrow> string \<Rightarrow> time \<Rightarrow> create_pending_args \<Rightarrow> string tx" where
  "create_pending sc newId now a s =
     (if \<not> in_scope sc (cp_merchantId a)
      then Inl (scope_error ''Write data on AiGeneration carries cross-tenant merchantId'')
      else Inr (s\<lparr>generations := generations s @ [pending_row newId now a]\<rparr>, newId))"

text \<open>\<open>updateMany({ where: { id, status: 'pending' } })\<close>, with the number of rows changed.\<close>

definition cas_generation ::
  "tenant_scope \<Rightarrow> string \<Rightarrow> (generation_row \<Rightarrow> generation_row) \<Rightarrow> db \<Rightarrow> db \<times> nat" where
  "cas_generation sc gid f s =
     (let mine = (\<lambda>g. ge_id g = gid \<and> ge_status g \<in> {GPending} \<and> in_scope sc (ge_merchantId g)) in
      (s\<lparr>generations := update_many mine f (generations s)\<rparr>, update_count mine (generations s)))"

definition complete_change :: "time \<Rightarrow> mark_completed_args \<Rightarrow> generation_row \<Rightarrow> generation_row" where
  "complete_change now a g = g\<lparr>ge_status := GCompleted, ge_generatedText := Some (mc_generatedText a),
     ge_inputTokens := Some (mc_inputTokens a), ge_outputTokens := Some (mc_outputTokens a),
     ge_totalTokens := Some (mc_totalTokens a), ge_latencyMs := Some (mc_latencyMs a),
     ge_costMicrocents := Some (mc_costMicrocents a), ge_discountCode := mc_discountCode a,
     ge_shopifyDiscountId := mc_shopifyDiscountId a, ge_completedAt := Some now\<rparr>"

definition mark_completed :: "tenant_scope \<Rightarrow> time \<Rightarrow> mark_completed_args \<Rightarrow> db \<Rightarrow> db \<times> nat" where
  "mark_completed sc now a = cas_generation sc (mc_aiGenerationId a) (complete_change now a)"

definition LAST_ERROR_MAX_CHARS :: nat where "LAST_ERROR_MAX_CHARS = 1000"

definition truncate_last_error :: "string \<Rightarrow> string" where
  "truncate_last_error message =
     (if length message \<le> LAST_ERROR_MAX_CHARS then message else take LAST_ERROR_MAX_CHARS message)"

definition fail_generation :: "time \<Rightarrow> string \<Rightarrow> generation_row \<Rightarrow> generation_row" where
  "fail_generation now err g =
     g\<lparr>ge_status := GFailed, ge_lastError := Some (truncate_last_error err), ge_failedAt := Some now\<rparr>"

definition mark_generation_failed :: "tenant_scope \<Rightarrow> time \<Rightarrow> string \<Rightarrow> string \<Rightarrow> db \<Rightarrow> db \<times> nat" where
  "mark_generation_failed sc now gid err = cas_generation sc gid (fail_generation now err)"

interpretation complete_generation: guarded_update ge_id ge_status "\<lambda>g. in_scope sc (ge_merchantId g)"
  "complete_change now a" "{GPending}" GCompleted gid
  for sc now a gid
  by unfold_locales (simp_all add: complete_change_def)

interpretation failed_generation: guarded_update ge_id ge_status "\<lambda>g. in_scope sc (ge_merchantId g)"
  "fail_generation now err" "{GPending}" GFailed gid
  for sc now err gid
  by unfold_locales (simp_all add: fail_generation_def)

section \<open>Spend\<close>

text \<open>
  Upserts on the key \<open>(merchantId, date)\<close>. \<open>spend_upsert\<close> is Prisma's upsert as the hooks
  leave it: the update only reaches the tenant's own bucket, and the create is checked.
\<close>

definition spend_upsert :: "tenant_scope \<Rightarrow> spend_row \<Rightarrow> (spend_row \<Rightarrow> spend_row) \<Rightarrow> unit tx" where
  "spend_upsert sc new change s =
     (let mine = (\<lambda>b. sp_merchantId b = sp_merchantId new \<and> sp_date b = sp_date new) in
      if \<not> in_scope sc (sp_merchantId new)
      then Inl (scope_error ''Write data on AiSpendBucket carries cross-tenant merchantId'')
      else if update_count mine (spend_buckets s) > 0
      then Inr (s\<lparr>spend_buckets := update_many mine change (spend_buckets s)\<rparr>, ())
      else Inr (s\<lparr>spend_buckets := spend_buckets s @ [new]\<rparr>, ()))"

definition get_or_create_for_day :: "tenant_scope \<Rightarrow> merchant_id \<Rightarrow> time \<Rightarrow> unit tx" where
  "get_or_create_for_day sc m date = spend_upsert sc
     \<lparr>sp_merchantId = m, sp_date = utc_midnight date, sp_spentMicrocents = 0, sp_generationCount = 0\<rparr> (\<lambda>b. b)"

definition increment_spend :: "tenant_scope \<Rightarrow> merchant_id \<Rightarrow> time \<Rightarrow> int \<Rightarrow> unit tx" where
  "increment_spend sc m date delta = spend_upsert sc
     \<lparr>sp_merchantId = m, sp_date = utc_midnight date, sp_spentMicrocents = delta, sp_generationCount = 1\<rparr>
     (\<lambda>b. b\<lparr>sp_spentMicrocents := sp_spentMicrocents b + delta, sp_generationCount := sp_generationCount b + 1\<rparr>)"

definition sum_month_spend :: "tenant_scope \<Rightarrow> merchant_id \<Rightarrow> time \<Rightarrow> db \<Rightarrow> int" where
  "sum_month_spend sc m asOf s =
     sum_list (map sp_spentMicrocents (filter (\<lambda>b. sp_merchantId b = m
       \<and> sp_date b \<ge> utc_first_of_month asOf \<and> in_scope sc (sp_merchantId b)) (spend_buckets s)))"

section \<open>Titles\<close>

definition DEFAULT_RECENT_PRODUCTS_TAKE :: nat where "DEFAULT_RECENT_PRODUCTS_TAKE = 3"

text \<open>
  \<open>DISTINCT ON (o.id) ... ORDER BY o.id, li.shopifyLineItemId\<close>: for every qualifying order
  with line items, the title of the first one; then the most recent orders. Ties of the
  recency are open in SQL; the model keeps the order by id.
\<close>

definition purchased_title :: "db \<Rightarrow> order_row \<Rightarrow> string option" where
  "purchased_title s o1 =
     (case sort_key li_shopifyLineItemId
             (filter (\<lambda>l. li_orderId l = or_id o1 \<and> li_merchantId l = or_merchantId o1) (line_items s)) of
        [] \<Rightarrow> None | l # _ \<Rightarrow> Some (li_title l))"

definition find_recent_purchased_titles ::
  "tenant_scope \<Rightarrow> merchant_id \<Rightarrow> string \<Rightarrow> nat option \<Rightarrow> db \<Rightarrow> exn + string list" where
  "find_recent_purchased_titles sc m cid limit s =
     rbind (assert_scope_matches_merchant (Some sc) m) (\<lambda>_.
       let qualifying = filter (\<lambda>o1. or_merchantId o1 = m \<and> or_customerId o1 = Some cid \<and> \<not> or_isTest o1
             \<and> or_financialStatus o1 \<in> {Some FPaid, Some FPartiallyPaid}
             \<and> purchased_title s o1 \<noteq> None) (sort_key or_id (orders s))
       in Inr (map (\<lambda>o1. the (purchased_title s o1))
            (take (or_default limit DEFAULT_RECENT_PRODUCTS_TAKE)
               (sort_key (\<lambda>o1. - order_recency o1) qualifying))))"

section \<open>The effects of the writes\<close>

lemma cas_generation_frame:
  assumes "cas_generation sc gid f s = (s', n)"
  shows "s' = s\<lparr>generations := generations s'\<rparr>" and "messages s' = messages s"
    and "spend_buckets s' = spend_buckets s" and "audits s' = audits s"
  using assms by (auto simp: cas_generation_def Let_def)

text \<open>What a merchant has spent in all.\<close>

definition spent :: "merchant_id \<Rightarrow> db \<Rightarrow> int" where
  "spent m s = sum_list (map sp_spentMicrocents (filter (\<lambda>b. sp_merchantId b = m) (spend_buckets s)))"

definition counted :: "merchant_id \<Rightarrow> db \<Rightarrow> int" where
  "counted m s = sum_list (map sp_generationCount (filter (\<lambda>b. sp_merchantId b = m) (spend_buckets s)))"

text \<open>The unique key of the buckets.\<close>

definition buckets_unique :: "db \<Rightarrow> bool" where
  "buckets_unique s \<longleftrightarrow> distinct (map (\<lambda>b. (sp_merchantId b, sp_date b)) (spend_buckets s))"

lemma sum_update_one:
  fixes f :: "'r \<Rightarrow> int"
  assumes "distinct (map k rows)" and "r \<in> set rows" and "k r = c"
    and "\<And>x. x \<in> set rows \<Longrightarrow> k x = c \<Longrightarrow> f (g x) = f x + d"
  shows "sum_list (map f (update_many (\<lambda>x. k x = c) g rows)) = sum_list (map f rows) + d"
  using assms(1,2,4)
proof (induction rows)
  case (Cons x rows)
  show ?case
  proof (cases "k x = c")
    case True
    with Cons.prems(1) assms(3) have "update_count (\<lambda>x. k x = c) rows = 0"
      by (auto simp: update_count_0_iff image_iff)
    with True Cons.prems(3) show ?thesis by (simp add: update_many_none)
  next
    case False
    with Cons assms(3) show ?thesis by auto
  qed
qed simp

lemma sum_update_same:
  fixes f :: "'r \<Rightarrow> int"
  assumes "\<And>x. x \<in> set rows \<Longrightarrow> p x \<Longrightarrow> f (g x) = f x"
  shows "sum_list (map f (update_many p g rows)) = sum_list (map f rows)"
  using assms by (induction rows) auto

text \<open>A successful increment adds to the merchant's own total, and to no other.\<close>

lemma increment_spend_D:
  assumes "increment_spend sc m now d s = Inr (s', u)" and "buckets_unique s"
  shows "s' = s\<lparr>spend_buckets := spend_buckets s'\<rparr> \<and> buckets_unique s'
    \<and> spent m' s' = spent m' s + (if m' = m then d else 0)
    \<and> counted m' s' = counted m' s + (if m' = m then 1 else 0)"
proof -
  let ?k = "\<lambda>b. (sp_merchantId b, sp_date b)"
  let ?c = "(m, utc_midnight now)"
  let ?g = "\<lambda>b. b\<lparr>sp_spentMicrocents := sp_spentMicrocents b + d, sp_generationCount := sp_generationCount b + 1\<rparr>"
  have guard: "(\<lambda>b. sp_merchantId b = m \<and> sp_date b = utc_midnight now) = (\<lambda>b. ?k b = ?c)" by auto
  show ?thesis
  proof (cases "update_count (\<lambda>b. ?k b = ?c) (spend_buckets s) > 0")
    case True
    then obtain r where r: "r \<in> set (spend_buckets s)" "?k r = ?c"
      by (auto simp: update_count_0_iff zero_less_iff_neq_zero)
    have s': "s' = s\<lparr>spend_buckets := update_many (\<lambda>b. ?k b = ?c) ?g (spend_buckets s)\<rparr>"
      using assms(1) True guard by (simp add: increment_spend_def spend_upsert_def Let_def split: if_splits)
    note sum = sum_update_one [OF assms(2) [unfolded buckets_unique_def] r]
    show ?thesis
      using assms(2) sum [of "\<lambda>b. if sp_merchantId b = m' then sp_spentMicrocents b else 0" ?g
          "if m' = m then d else 0"]
        sum [of "\<lambda>b. if sp_merchantId b = m' then sp_generationCount b else 0" ?g "if m' = m then 1 else 0"]
      by (auto simp: s' buckets_unique_def spent_def counted_def sum_list_map_filter' map_update_many)
  next
    case False
    then have none: "update_count (\<lambda>b. sp_merchantId b = m \<and> sp_date b = utc_midnight now) (spend_buckets s) = 0"
      by simp
    then have s': "s' = s\<lparr>spend_buckets := spend_buckets s @ [\<lparr>sp_merchantId = m, sp_date = utc_midnight now,
          sp_spentMicrocents = d, sp_generationCount = 1\<rparr>]\<rparr>"
      using assms(1) by (auto simp: increment_spend_def spend_upsert_def Let_def split: if_splits)
    from none have new: "\<forall>b \<in> set (spend_buckets s). ?k b \<noteq> ?c" by (auto simp: update_count_0_iff)
    with assms(2) s' show ?thesis by (auto simp: buckets_unique_def spent_def counted_def)
  qed
qed

end
