(* ===== verification/AiProviders.thy ===== *)
theory AiProviders
  imports AiCost
begin

text \<open>
  The three language model providers (\<open>packages/ai/src/providers\<close>): how each reads the SDK's
  response and how each turns what the SDK throws into a provider error. The SDK clients are
  parameters.
\<close>

section \<open>Calls, responses and thrown values\<close>

record ai_generate_args =
  ag_model :: string
  ag_systemPrompt :: string
  ag_userPrompt :: string
  ag_maxTokens :: int
  ag_temperature :: rat

record ai_generate_result =
  gr_content :: string
  gr_inputTokens :: int
  gr_outputTokens :: int
  gr_totalTokens :: int
  gr_latencyMs :: int

record chat_choice =
  cc_finish_reason :: string
  cc_content :: "string option"

record chat_usage =
  us_prompt_tokens :: int
  us_completion_tokens :: int
  us_total_tokens :: int

record chat_completion =
  ch_choices :: "chat_choice list"
  ch_usage :: "chat_usage option"

datatype content_block = TextBlock string | OtherBlock string

record anthropic_message =
  an_stop_reason :: "string option"
  an_content :: "content_block list"
  an_input_tokens :: int
  an_output_tokens :: int

text \<open>
  What an SDK throws: whether it is an \<open>APIError\<close>, a connection error, some \<open>Error\<close>; its
  status and message, its rendering as a string, and the fields of the error body.
\<close>

record sdk_thrown =
  th_isApiError :: bool
  th_isConnectionError :: bool
  th_isError :: bool
  th_status :: "int option"
  th_message :: string
  th_string :: string
  th_code :: "string option"
  th_innerCode :: "string option"
  th_innerType :: "string option"
  th_innerMessage :: "string option"

definition status_string :: "int option \<Rightarrow> string" where
  "status_string s = (case s of None \<Rightarrow> ''no-status'' | Some n \<Rightarrow> int_string n)"

definition unexpected_text :: "sdk_thrown \<Rightarrow> string" where
  "unexpected_text e = (if th_isError e then th_message e else th_string e)"

text \<open>\<open>/a[_ ]?b/i.test(s)\<close>\<close>

definition mentions :: "string \<Rightarrow> string \<Rightarrow> string \<Rightarrow> bool" where
  "mentions a b s =
     (let t = map lower_char s in
      occurs_in (a @ b) t \<or> occurs_in (a @ ''_'' @ b) t \<or> occurs_in (a @ '' '' @ b) t)"

section \<open>Error mapping\<close>

definition openai_policy_words :: "string \<Rightarrow> bool" where
  "openai_policy_words s \<longleftrightarrow> mentions ''content'' ''policy'' s \<or> mentions ''policy'' ''violation'' s
     \<or> mentions ''content'' ''filter'' s"

definition map_openai_error :: "sdk_thrown \<Rightarrow> exn" where
  "map_openai_error e =
     (if th_isApiError e then
        (let status = th_status e; m = th_message e; n = status_string status in
         if status = Some 401 \<or> status = Some 403 then AiErr AiAuth (''OpenAI auth failed ('' @ n @ ''): '' @ m)
         else if status = Some 429 then AiErr AiRateLimit (''OpenAI rate limit ('' @ n @ ''): '' @ m)
         else if status = Some 400 then
           (let codeStr = or_default (th_code e) (or_default (th_innerCode e) (or_default (th_innerType e) [])) in
            if openai_policy_words m \<or> openai_policy_words codeStr
            then AiErr AiContentBlocked (''OpenAI content-policy block: '' @ m)
            else AiErr AiInvalidRequest (''OpenAI invalid request ('' @ n @ ''): '' @ m))
         else if (case status of None \<Rightarrow> False | Some k \<Rightarrow> k \<ge> 500 \<and> k < 600)
         then AiErr AiTransient (''OpenAI server error ('' @ n @ ''): '' @ m)
         else AiErr AiInvalidRequest (''OpenAI unmapped error ('' @ n @ ''): '' @ m))
      else if th_isConnectionError e then AiErr AiTransient (''OpenAI transport error: '' @ th_string e)
      else AiErr AiInvalidRequest (''OpenAI unexpected error: '' @ unexpected_text e))"

definition anthropic_policy_words :: "string \<Rightarrow> bool" where
  "anthropic_policy_words s \<longleftrightarrow> mentions ''content'' ''policy'' s \<or> mentions ''policy'' ''violation'' s
     \<or> occurs_in ''refusal'' (map lower_char s)"

definition map_anthropic_error :: "sdk_thrown \<Rightarrow> exn" where
  "map_anthropic_error e =
     (if th_isApiError e then
        (let status = th_status e; m = th_message e; n = status_string status in
         if status = Some 401 \<or> status = Some 403 then AiErr AiAuth (''Anthropic auth failed ('' @ n @ ''): '' @ m)
         else if status = Some 429 then AiErr AiRateLimit (''Anthropic rate limit ('' @ n @ ''): '' @ m)
         else if status = Some 400 then
           (if anthropic_policy_words m \<or> anthropic_policy_words (or_default (th_innerType e) [])
              \<or> anthropic_policy_words (or_default (th_innerMessage e) [])
            then AiErr AiContentBlocked (''Anthropic content-policy block: '' @ m)
            else AiErr AiInvalidRequest (''Anthropic invalid request ('' @ n @ ''): '' @ m))
         else if (case status of None \<Rightarrow> False | Some k \<Rightarrow> k \<ge> 500 \<and> k < 600)
         then AiErr AiTransient (''Anthropic server error ('' @ n @ ''): '' @ m)
         else AiErr AiInvalidRequest (''Anthropic unmapped error ('' @ n @ ''): '' @ m))
      else if th_isConnectionError e then AiErr AiTransient (''Anthropic transport error: '' @ th_string e)
      else AiErr AiInvalidRequest (''Anthropic unexpected error: '' @ unexpected_text e))"

definition map_deepseek_error :: "sdk_thrown \<Rightarrow> exn" where
  "map_deepseek_error e =
     (if th_isApiError e then
        (let status = th_status e; m = th_message e; n = status_string status in
         if status = Some 401 \<or> status = Some 403 then AiErr AiAuth (''DeepSeek auth failed ('' @ n @ ''): '' @ m)
         else if status = Some 429 then AiErr AiRateLimit (''DeepSeek rate limit ('' @ n @ ''): '' @ m)
         else if status = Some 400 then AiErr AiInvalidRequest (''DeepSeek invalid request ('' @ n @ ''): '' @ m)
         else if (case status of None \<Rightarrow> False | Some k \<Rightarrow> k \<ge> 500 \<and> k < 600)
         then AiErr AiTransient (''DeepSeek server error ('' @ n @ ''): '' @ m)
         else AiErr AiInvalidRequest (''DeepSeek unmapped error ('' @ n @ ''): '' @ m))
      else if th_isConnectionError e then AiErr AiTransient (''DeepSeek transport error: '' @ th_string e)
      else AiErr AiInvalidRequest (''DeepSeek unexpected error: '' @ unexpected_text e))"

section \<open>Reading the response\<close>

text \<open>
  A client is the answer to a request with the milliseconds it took. Each \<open>generate\<close> throws
  what its mapper gives, or reads the response.
\<close>

type_synonym chat_client = "ai_generate_args \<Rightarrow> (sdk_thrown + chat_completion) \<times> int"
type_synonym anthropic_client = "ai_generate_args \<Rightarrow> (sdk_thrown + anthropic_message) \<times> int"

definition blank :: "string option \<Rightarrow> bool" where
  "blank c = (case c of None \<Rightarrow> True | Some s \<Rightarrow> trim s = [])"

definition openai_generate :: "chat_client \<Rightarrow> ai_generate_args \<Rightarrow> exn + ai_generate_result" where
  "openai_generate client args =
     (case client args of
        (Inl e, _) \<Rightarrow> Inl (map_openai_error e)
      | (Inr response, ms) \<Rightarrow>
          (case ch_choices response of
             [] \<Rightarrow> Inl (AiErr AiContentBlocked ''OpenAI moderation blocked the response (finish_reason=content_filter).'')
           | choice # _ \<Rightarrow>
               if cc_finish_reason choice = ''content_filter'' then
                 Inl (AiErr AiContentBlocked ''OpenAI moderation blocked the response (finish_reason=content_filter).'')
               else (case cc_content choice of
                  None \<Rightarrow> Inl (AiErr AiTransient ''OpenAI returned an empty response with no error or content_filter signal.'')
                | Some content \<Rightarrow>
                    if trim content = [] then
                      Inl (AiErr AiTransient ''OpenAI returned an empty response with no error or content_filter signal.'')
                    else (case ch_usage response of
                       None \<Rightarrow> Inl (AiErr AiTransient ''OpenAI response missing usage block; cannot account for spend.'')
                     | Some u \<Rightarrow> Inr \<lparr>gr_content = content, gr_inputTokens = us_prompt_tokens u,
                         gr_outputTokens = us_completion_tokens u, gr_totalTokens = us_total_tokens u,
                         gr_latencyMs = ms\<rparr>))))"

definition deepseek_generate :: "chat_client \<Rightarrow> ai_generate_args \<Rightarrow> exn + ai_generate_result" where
  "deepseek_generate client args =
     (case client args of
        (Inl e, _) \<Rightarrow> Inl (map_deepseek_error e)
      | (Inr response, ms) \<Rightarrow>
          (case ch_choices response of
             [] \<Rightarrow> Inl (AiErr AiTransient ''DeepSeek returned no choices in response.'')
           | choice # _ \<Rightarrow>
               if cc_finish_reason choice = ''content_filter'' then
                 Inl (AiErr AiContentBlocked ''DeepSeek moderation blocked the response (finish_reason=content_filter).'')
               else (case cc_content choice of
                  None \<Rightarrow> Inl (AiErr AiContentBlocked ''DeepSeek returned empty content; treating as silent content block.'')
                | Some content \<Rightarrow>
                    if trim content = [] then
                      Inl (AiErr AiContentBlocked ''DeepSeek returned empty content; treating as silent content block.'')
                    else (case ch_usage response of
                       None \<Rightarrow> Inl (AiErr AiTransient ''DeepSeek response missing usage block; cannot account for spend.'')
                     | Some u \<Rightarrow> Inr \<lparr>gr_content = content, gr_inputTokens = us_prompt_tokens u,
                         gr_outputTokens = us_completion_tokens u, gr_totalTokens = us_total_tokens u,
                         gr_latencyMs = ms\<rparr>))))"

definition anthropic_generate :: "anthropic_client \<Rightarrow> ai_generate_args \<Rightarrow> exn + ai_generate_result" where
  "anthropic_generate client args =
     (case client args of
        (Inl e, _) \<Rightarrow> Inl (map_anthropic_error e)
      | (Inr response, ms) \<Rightarrow>
          if an_stop_reason response = Some ''refusal'' then
            Inl (AiErr AiContentBlocked ''Anthropic refused to respond (stop_reason=refusal).'')
          else (case an_content response of
             [] \<Rightarrow> Inl (AiErr AiContentBlocked ''Anthropic returned an empty content array; treating as content block.'')
           | OtherBlock ty # _ \<Rightarrow>
               Inl (AiErr AiContentBlocked
                 (''Anthropic returned non-text content block (type='' @ ty @ ''); treating as content block.''))
           | TextBlock content # _ \<Rightarrow>
               if trim content = [] then
                 Inl (AiErr AiContentBlocked ''Anthropic returned an empty text block; treating as silent content block.'')
               else Inr \<lparr>gr_content = content, gr_inputTokens = an_input_tokens response,
                 gr_outputTokens = an_output_tokens response,
                 gr_totalTokens = an_input_tokens response + an_output_tokens response, gr_latencyMs = ms\<rparr>))"

text \<open>The SDK clients; \<open>selectActiveProvider\<close> picks by the provider of the configuration.\<close>

record ai_clients =
  cl_openai :: chat_client
  cl_anthropic :: anthropic_client
  cl_deepseek :: chat_client

definition active_generate :: "ai_clients \<Rightarrow> ai_config \<Rightarrow> ai_generate_args \<Rightarrow> exn + ai_generate_result" where
  "active_generate cl config args =
     (case AI_PROVIDER config of
        OpenAi \<Rightarrow> openai_generate (cl_openai cl) args
      | Anthropic \<Rightarrow> anthropic_generate (cl_anthropic cl) args
      | DeepSeek \<Rightarrow> deepseek_generate (cl_deepseek cl) args)"

section \<open>What a provider call gives\<close>

definition is_ai_retryable :: "exn \<Rightarrow> bool" where
  "is_ai_retryable e = (case e of AiErr c _ \<Rightarrow> ai_retryable c | _ \<Rightarrow> False)"

lemmas generate_defs = openai_generate_def deepseek_generate_def anthropic_generate_def

lemma generated_not_blank: "active_generate cl c args = Inr r \<Longrightarrow> trim (gr_content r) \<noteq> []"
  by (auto simp: active_generate_def generate_defs split: ai_provider.splits prod.splits sum.splits
      list.splits if_splits option.splits content_block.splits)

lemma mapped_errors_typed:
  "\<exists>c m. map_openai_error e = AiErr c m" "\<exists>c m. map_anthropic_error e = AiErr c m"
  "\<exists>c m. map_deepseek_error e = AiErr c m"
  by (simp_all add: map_openai_error_def map_anthropic_error_def map_deepseek_error_def Let_def)

lemma generate_error_typed: "active_generate cl c args = Inl e \<Longrightarrow> \<exists>code m. e = AiErr code m"
  using mapped_errors_typed
  by (auto simp: active_generate_def generate_defs split: ai_provider.splits prod.splits sum.splits
      list.splits if_splits option.splits content_block.splits)

text \<open>The error of each provider by name.\<close>

fun provider_error :: "ai_provider \<Rightarrow> sdk_thrown \<Rightarrow> exn" where
  "provider_error OpenAi = map_openai_error"
| "provider_error Anthropic = map_anthropic_error"
| "provider_error DeepSeek = map_deepseek_error"

text \<open>
  In both SDKs \<open>APIConnectionError\<close> is declared \<open>extends APIError\<close> with an undefined status.
\<close>

definition sdk_hierarchy :: "sdk_thrown \<Rightarrow> bool" where
  "sdk_hierarchy e \<longleftrightarrow> (th_isConnectionError e \<longrightarrow> th_isApiError e \<and> th_status e = None)"

text \<open>
  What is retried after a failed call, for every provider: with the class hierarchy of
  the SDKs, exactly the rate limits (429) and the server errors (5xx). So the branch for
  transport errors is never reached: a dropped connection or a timeout is an invalid request,
  which is not retried and fails the generation for good, though the mappers' comments list
  network errors as transient.
\<close>

theorem retried_provider_errors:
  assumes "sdk_hierarchy e"
  shows "(is_ai_retryable (provider_error p e) \<longleftrightarrow>
        th_isApiError e \<and> (\<exists>k. th_status e = Some k \<and> (k = 429 \<or> 500 \<le> k \<and> k < 600)))
    \<and> (th_isConnectionError e \<longrightarrow> (\<exists>m. provider_error p e = AiErr AiInvalidRequest m))"
  using assms
  by (cases p) (auto simp: sdk_hierarchy_def is_ai_retryable_def map_openai_error_def
      map_anthropic_error_def map_deepseek_error_def Let_def split: option.splits)

definition dropped_connection :: sdk_thrown where
  "dropped_connection = \<lparr>th_isApiError = True, th_isConnectionError = True, th_isError = True, th_status = None,
     th_message = ''Connection error.'', th_string = ''Error: Connection error.'', th_code = None,
     th_innerCode = None, th_innerType = None, th_innerMessage = None\<rparr>"

lemma retried_provider_errors_witness:
  "(\<not> is_ai_retryable (map_anthropic_error dropped_connection))
    \<and> is_ai_retryable (map_anthropic_error (dropped_connection\<lparr>th_isConnectionError := False, th_status := Some 529\<rparr>))"
  using retried_provider_errors [of dropped_connection Anthropic]
    retried_provider_errors [of "dropped_connection\<lparr>th_isConnectionError := False, th_status := Some 529\<rparr>" Anthropic]
  by (simp add: sdk_hierarchy_def dropped_connection_def)

end
