(* ===== verification/AdminClient.thy ===== *)
theory AdminClient
  imports ScoreService
begin

text \<open>
  The client of Shopify's Admin API (\<open>packages/shopify/src/admin\<close>): the cost tracker, which
  predicts the budget of a shop's leaky bucket (\<open>cost-tracker.ts\<close>), the resolver of offline
  tokens (\<open>token-resolver.ts\<close>), and the request loop with its retries (\<open>client.ts\<close>). The
  HTTP exchange, the decryption of a token and the random jitter are parameters. Numbers of
  the tracker are exact rationals; a sleep lasts as long as it was asked to.
\<close>

section \<open>The cost tracker\<close>

record throttle_status =
  ts_maximumAvailable :: rat
  ts_currentlyAvailable :: rat
  ts_restoreRate :: rat

record bucket_state = throttle_status +
  ts_observedAt :: time

record tracker_options =
  to_defaultMax :: rat
  to_defaultRestoreRate :: rat
  to_safetyFloor :: rat

definition TRACKER_DEFAULTS :: tracker_options where
  "TRACKER_DEFAULTS = \<lparr>to_defaultMax = 1000, to_defaultRestoreRate = 50, to_safetyFloor = 50\<rparr>"

type_synonym tracker = "string \<Rightarrow> bucket_state option"

definition observe :: "throttle_status \<Rightarrow> time \<Rightarrow> bucket_state" where
  "observe b now = \<lparr>ts_maximumAvailable = ts_maximumAvailable b,
     ts_currentlyAvailable = ts_currentlyAvailable b, ts_restoreRate = ts_restoreRate b,
     ts_observedAt = now\<rparr>"

definition on_response :: "time \<Rightarrow> string \<Rightarrow> throttle_status \<Rightarrow> tracker \<Rightarrow> tracker" where
  "on_response now shop status tr = tr(shop \<mapsto> observe status now)"

definition on_throttled ::
  "tracker_options \<Rightarrow> time \<Rightarrow> string \<Rightarrow> throttle_status option \<Rightarrow> tracker \<Rightarrow> tracker" where
  "on_throttled opts now shop status tr =
     (let prior = tr shop;
          base = (case status of
              Some b \<Rightarrow> b
            | None \<Rightarrow> \<lparr>ts_maximumAvailable = (case prior of Some p \<Rightarrow> ts_maximumAvailable p | None \<Rightarrow> to_defaultMax opts),
                ts_currentlyAvailable = 0,
                ts_restoreRate = (case prior of Some p \<Rightarrow> ts_restoreRate p | None \<Rightarrow> to_defaultRestoreRate opts)\<rparr>)
      in tr(shop \<mapsto> (observe base now)\<lparr>ts_currentlyAvailable := 0\<rparr>))"

definition projected_available :: "tracker_options \<Rightarrow> time \<Rightarrow> string \<Rightarrow> tracker \<Rightarrow> throttle_status" where
  "projected_available opts now shop tr =
     (case tr shop of
        None \<Rightarrow> \<lparr>ts_maximumAvailable = to_defaultMax opts, ts_currentlyAvailable = to_defaultMax opts,
                 ts_restoreRate = to_defaultRestoreRate opts\<rparr>
      | Some stored \<Rightarrow>
          (let elapsedSec = max 0 (of_int (now - ts_observedAt stored) / 1000) in
           \<lparr>ts_maximumAvailable = ts_maximumAvailable stored,
            ts_currentlyAvailable = min (ts_maximumAvailable stored)
              (ts_currentlyAvailable stored + elapsedSec * ts_restoreRate stored),
            ts_restoreRate = ts_restoreRate stored\<rparr>))"

definition ms_until_available :: "tracker_options \<Rightarrow> time \<Rightarrow> string \<Rightarrow> rat \<Rightarrow> tracker \<Rightarrow> int" where
  "ms_until_available opts now shop cost tr =
     (let projected = projected_available opts now shop tr;
          available = of_int \<lfloor>ts_currentlyAvailable projected\<rfloor>;
          required = cost + to_safetyFloor opts
      in if available \<ge> required then 0
         else \<lceil>(required - available) / ts_restoreRate projected * 1000\<rceil>)"

definition reserve :: "tracker_options \<Rightarrow> time \<Rightarrow> string \<Rightarrow> rat \<Rightarrow> tracker \<Rightarrow> tracker" where
  "reserve opts now shop cost tr =
     (let projected = projected_available opts now shop tr in
      tr(shop \<mapsto> observe (projected\<lparr>ts_currentlyAvailable :=
        max 0 (ts_currentlyAvailable projected - cost)\<rparr>) now))"

section \<open>Errors\<close>

definition shopify_token_revoked_error :: "string \<Rightarrow> exn" where
  "shopify_token_revoked_error message = AppErr (mk_app_error ''ShopifyTokenRevokedError'' \<lparr>
     opt_code = ''shopify.token_revoked'', opt_message = message, opt_statusCode = Some 401,
     opt_retryable = Some False, opt_context = None, opt_exposeMessage = Some False\<rparr>)"

definition shopify_admin_api_error :: "string \<Rightarrow> int option \<Rightarrow> exn" where
  "shopify_admin_api_error message providerStatus =
     AppErr ((integration_error message (Some ''shopify.admin_api_error'') (Some ''shopify'')
       providerStatus (Some True) None)\<lparr>err_name := ''ShopifyAdminApiError''\<rparr>)"

definition shopify_rate_limited :: "string \<Rightarrow> int option \<Rightarrow> exn" where
  "shopify_rate_limited message retryAfterSeconds =
     AppErr (rate_limit_error (Some message) (Some ''shopify.rate_limited'') retryAfterSeconds None)"

section \<open>Tokens\<close>

text \<open>
  Both run in a system scope: the merchant and its session are found by their keys, whatever
  tenant the caller is in. A token that does not decrypt counts as none.
\<close>

definition get_offline_token ::
  "(string \<Rightarrow> string option) \<Rightarrow> merchant_id \<Rightarrow> db \<Rightarrow> (string \<times> string) option" where
  "get_offline_token decrypt m s =
     (case find_merchant s m of
        None \<Rightarrow> None
      | Some mr \<Rightarrow>
          if me_tokenRevokedAt mr \<noteq> None then None
          else (case find_row (\<lambda>r. ss_id r = ''offline_'' @ me_shop mr) (sessions s) of
             None \<Rightarrow> None
           | Some ss \<Rightarrow>
               if ss_accessToken ss = [] then None
               else map_option (Pair (me_shop mr)) (decrypt (ss_accessToken ss))))"

definition mark_token_revoked :: "string \<Rightarrow> time \<Rightarrow> merchant_id \<Rightarrow> unit tx" where
  "mark_token_revoked eid now m s =
     (if find_merchant s m = None then Inl record_not_found
      else create_outbox (System ''admin.token_revoke'') eid m (event_string MerchantNeedsReauth)
             (JsonPayload (JObj [(''reason'', JStr ''token_revoked_401'')])) now
             (s\<lparr>merchants := update_many (\<lambda>r. me_id r = m) (\<lambda>r. r\<lparr>me_tokenRevokedAt := Some now\<rparr>)
                  (merchants s)\<rparr>))"

section \<open>The request loop\<close>

record graphql_error =
  ge_message :: string
  ge_code :: "string option"

record 'd graphql_response =
  rp_data :: "'d option"
  rp_errors :: "graphql_error list option"
  rp_throttleStatus :: "throttle_status option"

text \<open>
  What a request comes back with: a network error, or a status, the number that
  \<open>parseFloat\<close> reads in the header \<open>retry-after\<close> (none if there is no header or no finite
  number in it) and the body, which may not be JSON.
\<close>

datatype 'd http_result =
    NetworkError
  | HttpResponse (http_status: int) (http_retryAfter: "rat option") (http_json: "'d graphql_response option")

text \<open>
  The world outside, a state \<open>'w\<close> that a request \<open>'q\<close> may change, and how long the request
  took. \<open>ad_requests\<close> records every request sent, with its time and the predicted budget.
\<close>

record ('w, 'q, 'd) admin_env =
  ae_fetch :: "'w \<Rightarrow> string \<Rightarrow> string \<Rightarrow> 'q \<Rightarrow> 'w \<times> int \<times> 'd http_result"
  ae_decrypt :: "string \<Rightarrow> string option"
  ae_jitter :: "nat \<Rightarrow> int"
  ae_eventId :: string
  ae_maxRetries :: nat
  ae_options :: tracker_options

record 'w admin_state =
  ad_db :: db
  ad_now :: time
  ad_tracker :: tracker
  ad_world :: 'w
  ad_requests :: "(time \<times> rat) list"

definition DEFAULT_ESTIMATED_COST :: rat where "DEFAULT_ESTIMATED_COST = 50"
definition DEFAULT_MAX_RETRIES :: nat where "DEFAULT_MAX_RETRIES = 3"
definition MAX_BACKOFF_MS :: int where "MAX_BACKOFF_MS = 8000"

definition backoff_ms :: "(nat \<Rightarrow> int) \<Rightarrow> nat \<Rightarrow> int" where
  "backoff_ms jitter attempt = min MAX_BACKOFF_MS (500 * 2 ^ attempt) + jitter attempt"

definition parse_retry_after :: "rat option \<Rightarrow> int" where
  "parse_retry_after header =
     (case header of None \<Rightarrow> 1000
      | Some seconds \<Rightarrow> if seconds > 0 then \<lceil>seconds * 1000\<rceil> else 1000)"

definition sleep :: "int \<Rightarrow> 'w admin_state \<Rightarrow> 'w admin_state" where
  "sleep ms st = st\<lparr>ad_now := ad_now st + ms\<rparr>"

text \<open>Wait for the budget, reserve the cost, send.\<close>

definition send_request ::
  "('w, 'q, 'd) admin_env \<Rightarrow> string \<Rightarrow> string \<Rightarrow> 'q \<Rightarrow> rat \<Rightarrow> 'w admin_state \<Rightarrow> 'w admin_state \<times> 'd http_result" where
  "send_request e shop token q cost st =
     (let wait = ms_until_available (ae_options e) (ad_now st) shop cost (ad_tracker st);
          st1 = (if wait > 0 then sleep wait st else st);
          budget = ts_currentlyAvailable (projected_available (ae_options e) (ad_now st1) shop (ad_tracker st1));
          st2 = st1\<lparr>ad_tracker := reserve (ae_options e) (ad_now st1) shop cost (ad_tracker st1)\<rparr>
      in case ae_fetch e (ad_world st2) shop token q of
           (w, duration, response) \<Rightarrow>
             (st2\<lparr>ad_world := w, ad_now := ad_now st2 + duration,
                  ad_requests := ad_requests st2 @ [(ad_now st2, budget)]\<rparr>, response))"

text \<open>What one response means: stop with a result, or sleep and try again.\<close>

datatype 'd verdict = Stop "exn + 'd" | RetryAfter int exn | Unauthorized

definition is_throttled :: "graphql_error \<Rightarrow> bool" where
  "is_throttled e \<longleftrightarrow> ge_code e = Some ''THROTTLED''"

definition judge_body ::
  "('w, 'q, 'd) admin_env \<Rightarrow> string \<Rightarrow> nat \<Rightarrow> 'd graphql_response \<Rightarrow> 'w admin_state \<Rightarrow> 'w admin_state \<times> 'd verdict" where
  "judge_body e shop attempt body st =
     (let st1 = (case rp_throttleStatus body of None \<Rightarrow> st
               | Some status \<Rightarrow> st\<lparr>ad_tracker := on_response (ad_now st) shop status (ad_tracker st)\<rparr>);
          errors = or_default (rp_errors body) []
      in if errors \<noteq> [] then
           (if List.find is_throttled errors \<noteq> None
            then (st1\<lparr>ad_tracker := on_throttled (ae_options e) (ad_now st1) shop (rp_throttleStatus body) (ad_tracker st1)\<rparr>,
                  RetryAfter (backoff_ms (ae_jitter e) attempt) (shopify_rate_limited ''Shopify GraphQL THROTTLED'' None))
            else (st1, Stop (Inl (shopify_admin_api_error
                  (''GraphQL errors: '' @ join ''; '' (map ge_message errors)) None))))
         else (case rp_data body of
             None \<Rightarrow> (st1, Stop (Inl (shopify_admin_api_error ''GraphQL response missing data field'' None)))
           | Some d \<Rightarrow> (st1, Stop (Inr d))))"

definition judge ::
  "('w, 'q, 'd) admin_env \<Rightarrow> string \<Rightarrow> nat \<Rightarrow> 'd http_result \<Rightarrow> 'w admin_state \<Rightarrow> 'w admin_state \<times> 'd verdict" where
  "judge e shop attempt response st =
     (case response of
        NetworkError \<Rightarrow> (st, RetryAfter (backoff_ms (ae_jitter e) attempt)
          (shopify_admin_api_error (''Network error after '' @ nat_string attempt @ '' retries'') None))
      | HttpResponse status header json \<Rightarrow>
          if status = 401 then (st, Unauthorized)
          else if status = 429 then
            (st\<lparr>ad_tracker := on_throttled (ae_options e) (ad_now st) shop None (ad_tracker st)\<rparr>,
             RetryAfter (parse_retry_after header)
               (shopify_rate_limited (''Shopify Admin API throttled after '' @ nat_string attempt @ '' retries'')
                  (Some \<lceil>(of_int (parse_retry_after header) / 1000 :: rat)\<rceil>)))
          else if \<not> (200 \<le> status \<and> status \<le> 299) then
            (st, RetryAfter (backoff_ms (ae_jitter e) attempt)
               (shopify_admin_api_error (''Shopify Admin API returned '' @ int_string status) (Some status)))
          else (case json of
              None \<Rightarrow> (st, Stop (Inl (shopify_admin_api_error ''Admin API response not valid JSON'' None)))
            | Some body \<Rightarrow> judge_body e shop attempt body st))"

function graphql_loop ::
  "('w, 'q, 'd) admin_env \<Rightarrow> merchant_id \<Rightarrow> string \<Rightarrow> string \<Rightarrow> 'q \<Rightarrow> rat \<Rightarrow> nat \<Rightarrow> 'w admin_state \<Rightarrow>
   'w admin_state \<times> (exn + 'd)" where
  "graphql_loop e m shop token q cost attempt st =
     (case send_request e shop token q cost st of
        (st1, response) \<Rightarrow>
          (case judge e shop attempt response st1 of
             (st2, Stop r) \<Rightarrow> (st2, r)
           | (st2, Unauthorized) \<Rightarrow>
               (case transaction (mark_token_revoked (ae_eventId e) (ad_now st2) m) (ad_db st2) of
                  (s', Inl err) \<Rightarrow> (st2\<lparr>ad_db := s'\<rparr>, Inl err)
                | (s', Inr _) \<Rightarrow> (st2\<lparr>ad_db := s'\<rparr>,
                    Inl (shopify_token_revoked_error (''Merchant '' @ m @ '' returned 401 (token revoked)''))))
           | (st2, RetryAfter ms err) \<Rightarrow>
               if attempt \<ge> ae_maxRetries e then (st2, Inl err)
               else graphql_loop e m shop token q cost (attempt + 1) (sleep ms st2)))"
  by pat_completeness auto

termination
  by (relation "measure (\<lambda>(e, m, shop, token, q, cost, attempt, st). ae_maxRetries e - attempt)") auto

declare graphql_loop.simps [simp del]

definition graphql ::
  "('w, 'q, 'd) admin_env \<Rightarrow> merchant_id \<Rightarrow> 'q \<Rightarrow> rat option \<Rightarrow> 'w admin_state \<Rightarrow> 'w admin_state \<times> (exn + 'd)" where
  "graphql e m q estimatedCost st =
     (case get_offline_token (ae_decrypt e) m (ad_db st) of
        None \<Rightarrow> (st, Inl (shopify_token_revoked_error (''No usable offline token for merchant '' @ m)))
      | Some (shop, token) \<Rightarrow>
          graphql_loop e m shop token q (or_default estimatedCost DEFAULT_ESTIMATED_COST) 0 st)"

text \<open>\<open>buildAdminClient\<close>: a client with a tracker of its own.\<close>

definition build_admin_client :: "'w admin_state \<Rightarrow> 'w admin_state" where
  "build_admin_client st = st\<lparr>ad_tracker := Map.empty\<rparr>"

section \<open>The budget is respected\<close>

text \<open>
  A tracker whose buckets can hold \<open>req\<close>, refill and were observed in the past, and an
  environment whose answers keep it so.
\<close>

definition tracker_ok :: "rat \<Rightarrow> time \<Rightarrow> tracker \<Rightarrow> bool" where
  "tracker_ok req now tr \<longleftrightarrow> (\<forall>shop b. tr shop = Some b \<longrightarrow>
     req \<le> ts_maximumAvailable b \<and> 0 < ts_restoreRate b \<and> ts_observedAt b \<le> now)"

definition options_ok :: "rat \<Rightarrow> tracker_options \<Rightarrow> bool" where
  "options_ok req opts \<longleftrightarrow> req \<le> to_defaultMax opts \<and> 0 < to_defaultRestoreRate opts"

definition answer_ok :: "rat \<Rightarrow> 'd http_result \<Rightarrow> bool" where
  "answer_ok req r = (case r of
      HttpResponse _ _ (Some body) \<Rightarrow>
        (case rp_throttleStatus body of None \<Rightarrow> True
         | Some b \<Rightarrow> req \<le> ts_maximumAvailable b \<and> 0 < ts_restoreRate b)
    | _ \<Rightarrow> True)"

definition env_ok :: "rat \<Rightarrow> ('w, 'q, 'd) admin_env \<Rightarrow> bool" where
  "env_ok req e \<longleftrightarrow> options_ok req (ae_options e) \<and> (\<forall>n. 0 \<le> ae_jitter e n)
     \<and> (\<forall>w shop token q. 0 \<le> fst (snd (ae_fetch e w shop token q))
          \<and> answer_ok req (snd (snd (ae_fetch e w shop token q))))"

lemma tracker_ok_later: "tracker_ok req now tr \<Longrightarrow> now \<le> later \<Longrightarrow> tracker_ok req later tr"
  unfolding tracker_ok_def by (meson order_trans)

lemma projected_ok:
  assumes "tracker_ok req now tr" and "options_ok req opts"
  shows "req \<le> ts_maximumAvailable (projected_available opts now shop tr)
    \<and> 0 < ts_restoreRate (projected_available opts now shop tr)"
  using assms by (auto simp: projected_available_def tracker_ok_def options_ok_def Let_def split: option.splits)

lemma tracker_ok_updates:
  assumes "tracker_ok req now tr" and "options_ok req opts"
  shows "tracker_ok req now (reserve opts now shop cost tr)"
    and "tracker_ok req now (on_throttled opts now shop None tr)"
    and "req \<le> ts_maximumAvailable b \<Longrightarrow> 0 < ts_restoreRate b \<Longrightarrow> tracker_ok req now (on_response now shop b tr)"
    and "req \<le> ts_maximumAvailable b \<Longrightarrow> 0 < ts_restoreRate b \<Longrightarrow>
      tracker_ok req now (on_throttled opts now shop (Some b) tr)"
  using assms projected_ok [OF assms, of shop]
  by (simp_all add: tracker_ok_def reserve_def on_throttled_def on_response_def observe_def
      options_ok_def Let_def split: option.splits)

text \<open>After the computed wait the projection covers the cost and the safety floor.\<close>

lemma wait_suffices:
  fixes opts :: tracker_options and shop :: string
  assumes ok: "tracker_ok (cost + to_safetyFloor opts) now tr"
    and opts: "options_ok (cost + to_safetyFloor opts) opts"
  defines "wait \<equiv> ms_until_available opts now shop cost tr"
  shows "0 \<le> wait \<and> cost + to_safetyFloor opts
    \<le> ts_currentlyAvailable (projected_available opts (now + wait) shop tr)"
proof -
  let ?req = "cost + to_safetyFloor opts"
  let ?p = "projected_available opts now shop tr"
  let ?a = "of_int \<lfloor>ts_currentlyAvailable ?p\<rfloor> :: rat"
  have a_le: "?a \<le> ts_currentlyAvailable ?p" by simp
  show ?thesis
  proof (cases "?a \<ge> ?req")
    case True
    then have "wait = 0" by (simp add: wait_def ms_until_available_def Let_def)
    with order_trans [OF True a_le] show ?thesis by simp
  next
    case False
    note low = this
    have rate: "0 < ts_restoreRate ?p" using projected_ok [OF ok opts] by simp
    have wait: "wait = \<lceil>(?req - ?a) / ts_restoreRate ?p * 1000\<rceil>"
      using low by (simp add: wait_def ms_until_available_def Let_def)
    have w_ge: "(?req - ?a) / ts_restoreRate ?p * 1000 \<le> of_int wait"
      unfolding wait by (rule le_of_int_ceiling)
    moreover have "0 \<le> (?req - ?a) / ts_restoreRate ?p * 1000" using low rate by simp
    ultimately have w0: "(0::rat) \<le> of_int wait" by linarith
    have gain: "?req \<le> ?a + of_int wait / 1000 * ts_restoreRate ?p"
      using w_ge rate by (simp add: field_simps)
    show ?thesis
    proof (cases "tr shop")
      case None
      then show ?thesis using opts w0 by (simp add: projected_available_def options_ok_def)
    next
      case (Some b)
      have b: "?req \<le> ts_maximumAvailable b" "0 < ts_restoreRate b" "ts_observedAt b \<le> now"
        using ok Some by (auto simp: tracker_ok_def)
      let ?el = "of_int (now - ts_observedAt b) / 1000 :: rat"
      have el: "0 \<le> ?el" using b(3) by simp
      have pcur: "ts_currentlyAvailable ?p \<le> ts_currentlyAvailable b + ?el * ts_restoreRate b"
        and prate: "ts_restoreRate ?p = ts_restoreRate b"
        using Some el by (simp_all add: projected_available_def Let_def)
      have "ts_currentlyAvailable (projected_available opts (now + wait) shop tr)
          = min (ts_maximumAvailable b)
              (ts_currentlyAvailable b + (?el + of_int wait / 1000) * ts_restoreRate b)"
        using Some el w0 by (simp add: projected_available_def Let_def max_def add_divide_distrib diff_divide_distrib algebra_simps)
      moreover have "?req \<le> ts_currentlyAvailable b + (?el + of_int wait / 1000) * ts_restoreRate b"
        using order_trans [OF gain add_right_mono [OF order_trans [OF a_le pcur]]]
        by (simp add: prate distrib_right add.assoc)
      ultimately show ?thesis using b(1) w0 by simp
    qed
  qed
qed

text \<open>
  Every request of the loop is sent within the budget, and at most \<open>maxRetries - attempt + 1\<close>
  are sent.
\<close>

definition sent_within :: "rat \<Rightarrow> nat \<Rightarrow> 'w admin_state \<Rightarrow> 'w admin_state \<Rightarrow> bool" where
  "sent_within req n st st' \<longleftrightarrow> (\<exists>new. ad_requests st' = ad_requests st @ new \<and> length new \<le> n
     \<and> (\<forall>(t, budget) \<in> set new. req \<le> budget))"

lemma sent_within_trans:
  "sent_within req n st st1 \<Longrightarrow> sent_within req k st1 st2 \<Longrightarrow> n + k \<le> l \<Longrightarrow> sent_within req l st st2"
  unfolding sent_within_def by fastforce

lemma send_request_within:
  assumes "tracker_ok (cost + to_safetyFloor (ae_options e)) (ad_now st) (ad_tracker st)"
    and "env_ok (cost + to_safetyFloor (ae_options e)) e"
    and "send_request e shop token q cost st = (st1, response)"
  shows "sent_within (cost + to_safetyFloor (ae_options e)) 1 st st1
    \<and> tracker_ok (cost + to_safetyFloor (ae_options e)) (ad_now st1) (ad_tracker st1)
    \<and> answer_ok (cost + to_safetyFloor (ae_options e)) response \<and> ad_db st1 = ad_db st"
proof -
  let ?req = "cost + to_safetyFloor (ae_options e)"
  let ?wait = "ms_until_available (ae_options e) (ad_now st) shop cost (ad_tracker st)"
  have opts: "options_ok ?req (ae_options e)" using assms(2) by (simp add: env_ok_def)
  note wait = wait_suffices [OF assms(1) opts, of shop]
  let ?st1 = "if ?wait > 0 then sleep ?wait st else st"
  have now1: "ad_now ?st1 = ad_now st + ?wait" and same: "ad_tracker ?st1 = ad_tracker st"
    "ad_db ?st1 = ad_db st" "ad_requests ?st1 = ad_requests st" "ad_world ?st1 = ad_world st"
    using wait by (simp_all add: sleep_def)
  have ok1: "tracker_ok ?req (ad_now st + ?wait) (ad_tracker st)"
    using tracker_ok_later [OF assms(1)] wait by simp
  obtain w d r where f: "ae_fetch e (ad_world st) shop token q = (w, d, r)" by (metis surj_pair)
  with assms(2) have d: "0 \<le> d" "answer_ok ?req r" unfolding env_ok_def by (metis fst_conv snd_conv)+
  have st1: "st1 = ?st1\<lparr>ad_tracker := reserve (ae_options e) (ad_now st + ?wait) shop cost (ad_tracker st),
        ad_world := w, ad_now := ad_now st + ?wait + d,
        ad_requests := ad_requests st @ [(ad_now st + ?wait,
          ts_currentlyAvailable (projected_available (ae_options e) (ad_now st + ?wait) shop (ad_tracker st)))]\<rparr>"
    and "response = r"
    using assms(3) f unfolding send_request_def Let_def now1 same by (simp_all add: same now1)
  then show ?thesis
    using wait d tracker_ok_later [OF tracker_ok_updates(1) [OF ok1 opts, of shop cost]] same
    by (simp add: sent_within_def)
qed

lemma judge_ok:
  assumes "tracker_ok req (ad_now st) (ad_tracker st)" and "env_ok req e" and "answer_ok req response"
    and "judge e shop attempt response st = (st1, v)"
  shows "tracker_ok req (ad_now st1) (ad_tracker st1) \<and> ad_now st1 = ad_now st \<and> ad_db st1 = ad_db st
    \<and> ad_requests st1 = ad_requests st \<and> (\<forall>ms err. v = RetryAfter ms err \<longrightarrow> 0 \<le> ms)"
proof -
  have opts: "options_ok req (ae_options e)" and j: "\<And>n. 0 \<le> ae_jitter e n"
    using assms(2) by (simp_all add: env_ok_def)
  have b: "0 \<le> backoff_ms (ae_jitter e) attempt"
    using j [of attempt] by (simp add: backoff_ms_def MAX_BACKOFF_MS_def)
  have r: "0 \<le> parse_retry_after h" for h
    by (auto simp: parse_retry_after_def split: option.splits)
  show ?thesis
    using assms(1,3,4) b r tracker_ok_updates [OF assms(1) opts]
      tracker_ok_updates(4) [OF tracker_ok_updates(3) [OF assms(1) opts] opts]
    by (auto simp: judge_def judge_body_def answer_ok_def Let_def
        split: http_result.splits if_splits option.splits)
qed

lemma graphql_loop_within:
  assumes "tracker_ok (cost + to_safetyFloor (ae_options e)) (ad_now st) (ad_tracker st)"
    and "env_ok (cost + to_safetyFloor (ae_options e)) e"
  shows "sent_within (cost + to_safetyFloor (ae_options e)) (ae_maxRetries e - attempt + 1) st
    (fst (graphql_loop e m shop token q cost attempt st))"
  using assms
proof (induction e m shop token q cost attempt st rule: graphql_loop.induct)
  case (1 e m shop token q cost attempt st)
  let ?req = "cost + to_safetyFloor (ae_options e)"
  obtain st1 response where s: "send_request e shop token q cost st = (st1, response)" by (metis surj_pair)
  note sent = send_request_within [OF 1(2,3) s]
  obtain st2 v where j: "judge e shop attempt response st1 = (st2, v)" by (metis surj_pair)
  from sent have "tracker_ok ?req (ad_now st1) (ad_tracker st1)" and "answer_ok ?req response" by simp_all
  note judged = judge_ok [OF this(1) 1(3) this(2) j]
  have here: "sent_within ?req 1 st st2" using sent judged by (simp add: sent_within_def)
  show ?case
  proof (cases "\<exists>ms err. v = RetryAfter ms err \<and> attempt < ae_maxRetries e")
    case True
    then obtain ms err where v: "v = RetryAfter ms err" and more: "attempt < ae_maxRetries e" by blast
    have later: "tracker_ok ?req (ad_now (sleep ms st2)) (ad_tracker (sleep ms st2))"
      using judged v tracker_ok_later [of ?req "ad_now st2" "ad_tracker st2" "ad_now st2 + ms"]
      by (auto simp: sleep_def)
    have "sent_within ?req (ae_maxRetries e - (attempt + 1) + 1) (sleep ms st2)
        (fst (graphql_loop e m shop token q cost (attempt + 1) (sleep ms st2)))"
      using 1(1) [OF s [symmetric] j [symmetric] v] more later 1(3) by simp
    then have "sent_within ?req (ae_maxRetries e - (attempt + 1) + 1) st2
        (fst (graphql_loop e m shop token q cost (attempt + 1) (sleep ms st2)))"
      by (simp add: sent_within_def sleep_def)
    from sent_within_trans [OF here this] more show ?thesis
      by (subst graphql_loop.simps) (simp add: s j v)
  next
    case False
    have "ad_requests (fst (graphql_loop e m shop token q cost attempt st)) = ad_requests st2"
      using False by (subst graphql_loop.simps) (auto simp: s j split: verdict.splits prod.splits sum.splits)
    with here show ?thesis by (auto simp: sent_within_def)
  qed
qed

text \<open>
  C28. The Admin API client stays within the shop's budget: whatever fails, a call sends at
  most \<open>maxRetries + 1\<close> requests, and each of them only when the predicted budget covers its
  cost and the safety floor, so no request is sent that the prediction says will be refused.
\<close>

theorem requests_within_budget:
  fixes e :: "('w, 'q, 'd) admin_env" and c :: "rat option"
  defines "req \<equiv> or_default c DEFAULT_ESTIMATED_COST + to_safetyFloor (ae_options e)"
  assumes "tracker_ok req (ad_now st) (ad_tracker st)" and "env_ok req e"
  shows "\<exists>new. ad_requests (fst (graphql e m q c st)) = ad_requests st @ new
    \<and> length new \<le> ae_maxRetries e + 1 \<and> (\<forall>(t, budget) \<in> set new. req \<le> budget)"
proof (cases "get_offline_token (ae_decrypt e) m (ad_db st)")
  case (Some st')
  obtain shop token where "st' = (shop, token)" by (cases st')
  with Some graphql_loop_within [of "or_default c DEFAULT_ESTIMATED_COST" e st 0 m shop token q] assms
  show ?thesis by (simp add: graphql_def sent_within_def)
qed (simp add: graphql_def)

text \<open>A sample: a shop that throttles twice and then answers.\<close>

definition throttling_env :: "(nat, unit, nat) admin_env" where
  "throttling_env = \<lparr>ae_fetch = (\<lambda>n _ _ _. (Suc n, 100, if n < 2 then HttpResponse 429 (Some 2) None
       else HttpResponse 200 None (Some \<lparr>rp_data = Some n, rp_errors = None, rp_throttleStatus =
         Some \<lparr>ts_maximumAvailable = 1000, ts_currentlyAvailable = 900, ts_restoreRate = 50\<rparr>\<rparr>))),
     ae_decrypt = Some, ae_jitter = (\<lambda>_. 0), ae_eventId = ''e1'', ae_maxRetries = 3,
     ae_options = TRACKER_DEFAULTS\<rparr>"

definition sample_shop :: db where
  "sample_shop = empty_db\<lparr>merchants := [\<lparr>me_id = ''m'', me_shop = ''s'', me_name = None,
       me_currency = None, me_timezone = None, me_uninstalledAt = None, me_tokenRevokedAt = None,
       me_scoringInitializedAt = None, me_installedAt = 0, me_email = None, me_country = None,
       me_shopifyPlan = None, me_shopDetailsFetchedAt = None\<rparr>],
     sessions := [\<lparr>ss_id = ''offline_s'', ss_shop = ''s'', ss_accessToken = ''t''\<rparr>]\<rparr>"

definition sample_admin :: "nat admin_state" where
  "sample_admin = \<lparr>ad_db = sample_shop, ad_now = 0, ad_tracker = Map.empty, ad_world = 0, ad_requests = []\<rparr>"

lemma requests_within_budget_witness:
  "\<exists>new. ad_requests (fst (graphql throttling_env ''m'' () None sample_admin)) = ad_requests sample_admin @ new
    \<and> length new \<le> ae_maxRetries throttling_env + 1
    \<and> list_all (\<lambda>(t, budget). 100 \<le> budget) new"
proof -
  have "tracker_ok 100 (ad_now sample_admin) (ad_tracker sample_admin)"
    by (simp add: tracker_ok_def sample_admin_def)
  moreover have "env_ok 100 throttling_env"
    by (simp add: env_ok_def throttling_env_def options_ok_def TRACKER_DEFAULTS_def answer_ok_def)
  ultimately show ?thesis
    using requests_within_budget [of None throttling_env sample_admin "''m''" "()"]
    by (simp add: DEFAULT_ESTIMATED_COST_def throttling_env_def TRACKER_DEFAULTS_def list_all_iff)
qed

section \<open>Revoked tokens\<close>

definition token_revoked :: "exn \<Rightarrow> bool" where
  "token_revoked e = (case e of AppErr a \<Rightarrow> err_code a = ''shopify.token_revoked'' | _ \<Rightarrow> False)"

lemma token_revoked_simps [simp]:
  "token_revoked (shopify_token_revoked_error msg)"
  "\<not> token_revoked (shopify_admin_api_error msg k)"
  "\<not> token_revoked (shopify_rate_limited msg r)"
  "\<not> token_revoked record_not_found"
  by (simp_all add: token_revoked_def shopify_token_revoked_error_def shopify_admin_api_error_def
      shopify_rate_limited_def record_not_found_def error_constructors)

lemma judge_errors:
  "judge e shop attempt response st = (st1, v) \<Longrightarrow>
    ad_db st1 = ad_db st \<and> ad_requests st1 = ad_requests st
    \<and> (\<forall>err. v = Stop (Inl err) \<longrightarrow> \<not> token_revoked err)
    \<and> (\<forall>ms err. v = RetryAfter ms err \<longrightarrow> \<not> token_revoked err)
    \<and> (v = Unauthorized \<longleftrightarrow> (\<exists>h b. response = HttpResponse 401 h b))"
  by (auto simp: judge_def judge_body_def Let_def split: http_result.splits if_splits option.splits)

lemma send_request_db: "send_request e shop token q cost st = (st1, response) \<Longrightarrow> ad_db st1 = ad_db st"
  by (auto simp: send_request_def sleep_def Let_def split: prod.splits if_splits)

lemma mark_token_revoked_D:
  "mark_token_revoked eid now m s = Inr (s', u) \<Longrightarrow>
    get_offline_token decrypt m s' = None
    \<and> (\<exists>r. outbox s' = outbox s @ [r] \<and> ob_merchantId r = m \<and> ob_type r = event_string MerchantNeedsReauth)"
  by (auto simp: mark_token_revoked_def create_outbox_def get_offline_token_def find_merchant_def
      find_update_many_key set_update_many dest!: find_row_Some_D split: if_splits option.splits)

lemma mark_token_revoked_error: "mark_token_revoked eid now m s = Inl err \<Longrightarrow> err = record_not_found"
  by (auto simp: mark_token_revoked_def create_outbox_def split: if_splits)

lemma graphql_loop_revokes:
  assumes "graphql_loop e m shop token q cost attempt st = (st', Inl err)" and "token_revoked err"
  shows "get_offline_token (ae_decrypt e) m (ad_db st') = None
    \<and> (\<exists>r. outbox (ad_db st') = outbox (ad_db st) @ [r] \<and> ob_merchantId r = m
        \<and> ob_type r = event_string MerchantNeedsReauth)"
  using assms
proof (induction e m shop token q cost attempt st rule: graphql_loop.induct)
  case (1 e m shop token q cost attempt st)
  obtain st1 response where s: "send_request e shop token q cost st = (st1, response)" by (metis surj_pair)
  obtain st2 v where j: "judge e shop attempt response st1 = (st2, v)" by (metis surj_pair)
  note db = send_request_db [OF s] and errs = judge_errors [OF j]
  show ?case
  proof (cases v)
    case (Stop r)
    with 1(2,3) errs show ?thesis by (subst (asm) graphql_loop.simps) (auto simp: s j)
  next
    case (RetryAfter ms err')
    show ?thesis
    proof (cases "attempt \<ge> ae_maxRetries e")
      case True
      with RetryAfter 1(2,3) errs show ?thesis by (subst (asm) graphql_loop.simps) (auto simp: s j)
    next
      case False
      with 1(2) RetryAfter have "graphql_loop e m shop token q cost (attempt + 1) (sleep ms st2) = (st', Inl err)"
        by (subst (asm) graphql_loop.simps) (simp add: s j)
      with 1(1) [OF s [symmetric] j [symmetric] RetryAfter False _ 1(3)] db errs
      show ?thesis by (simp add: sleep_def)
    qed
  next
    case Unauthorized
    show ?thesis
    proof (cases "mark_token_revoked (ae_eventId e) (ad_now st2) m (ad_db st)")
      case (Inl err')
      with Unauthorized 1(2,3) db errs mark_token_revoked_error [OF Inl] show ?thesis
        by (subst (asm) graphql_loop.simps) (auto simp: s j transaction_def)
    next
      case (Inr su)
      obtain s' u where "su = (s', u)" by (cases su)
      with Inr Unauthorized 1(2,3) db errs mark_token_revoked_D show ?thesis
        by (subst (asm) graphql_loop.simps) (auto simp: s j transaction_def)
    qed
  qed
qed

text \<open>
  C39. A revoked token is never used again: once a call has failed because the token is
  revoked, every later call of the merchant fails at once without a request and without
  changing anything, until the merchant is installed anew; and if it was Shopify's answer 401
  that said so, the event that asks the merchant to authorize again was published with it.
\<close>

theorem revoked_token_unused:
  assumes "graphql e m q c st = (st', Inl err)" and "token_revoked err"
  shows "graphql e m q' c' st' = (st', Inl (shopify_token_revoked_error (''No usable offline token for merchant '' @ m)))
    \<and> (st' = st \<or> (\<exists>r. outbox (ad_db st') = outbox (ad_db st) @ [r] \<and> ob_merchantId r = m
          \<and> ob_type r = event_string MerchantNeedsReauth))"
proof (cases "get_offline_token (ae_decrypt e) m (ad_db st)")
  case None
  with assms(1) show ?thesis by (auto simp: graphql_def)
next
  case (Some t)
  obtain shop token where "t = (shop, token)" by (cases t)
  with Some assms(1) have "graphql_loop e m shop token q (or_default c DEFAULT_ESTIMATED_COST) 0 st = (st', Inl err)"
    by (simp add: graphql_def)
  from graphql_loop_revokes [OF this assms(2)] show ?thesis by (simp add: graphql_def)
qed

definition revoking_env :: "(unit, unit, unit) admin_env" where
  "revoking_env = \<lparr>ae_fetch = (\<lambda>_ _ _ _. ((), 100, HttpResponse 401 None None)), ae_decrypt = Some,
     ae_jitter = (\<lambda>_. 0), ae_eventId = ''e1'', ae_maxRetries = 3, ae_options = TRACKER_DEFAULTS\<rparr>"

definition before_revocation :: "unit admin_state" where
  "before_revocation = \<lparr>ad_db = sample_shop, ad_now = 0, ad_tracker = Map.empty, ad_world = (), ad_requests = []\<rparr>"

definition after_revocation :: "unit admin_state" where
  "after_revocation = fst (graphql revoking_env ''m'' () None before_revocation)"

lemma graphql_revoking:
  "graphql revoking_env ''m'' () None before_revocation
    = (after_revocation, Inl (shopify_token_revoked_error ''Merchant m returned 401 (token revoked)''))
   \<and> ad_requests after_revocation \<noteq> []"
proof -
  have token: "get_offline_token Some ''m'' sample_shop = Some (''s'', ''t'')"
    by (simp add: get_offline_token_def sample_shop_def find_merchant_def find_row_Cons)
  have "\<exists>st. graphql_loop revoking_env ''m'' ''s'' ''t'' () 50 0 before_revocation
      = (st, Inl (shopify_token_revoked_error ''Merchant m returned 401 (token revoked)'')) \<and> ad_requests st \<noteq> []"
    by (subst graphql_loop.simps)
      (simp add: send_request_def judge_def revoking_env_def before_revocation_def sleep_def Let_def
        transaction_def mark_token_revoked_def create_outbox_def sample_shop_def find_merchant_def find_row_Cons)
  then show ?thesis
    using token unfolding after_revocation_def
    by (auto simp: graphql_def DEFAULT_ESTIMATED_COST_def revoking_env_def before_revocation_def)
qed

lemma revoked_token_unused_witness:
  "snd (graphql revoking_env ''m'' () (Some 20) after_revocation)
      = Inl (shopify_token_revoked_error ''No usable offline token for merchant m'')
   \<and> ad_requests (fst (graphql revoking_env ''m'' () (Some 20) after_revocation)) = ad_requests after_revocation"
  using revoked_token_unused [OF conjunct1 [OF graphql_revoking] token_revoked_simps(1), of "()" "Some 20"]
  by simp

end
