(* ===== verification/ShopDiscounts.thy ===== *)
theory ShopDiscounts
  imports AdminClient
begin

text \<open>
  \<open>packages/shopify/src/admin/discounts.ts\<close>: minting the single-customer discount of a
  message through the Admin API. The shop is the world of the client; what a shop owes is
  stated as \<open>discount_shop\<close>.
\<close>

section \<open>Requests and answers\<close>

record discount_input =
  di_title :: string
  di_code :: string
  di_startsAt :: time
  di_endsAt :: time
  di_customers :: "string list"
  di_percentage :: rat
  di_allItems :: bool
  di_appliesOncePerCustomer :: bool

datatype discount_query = CreateDiscount discount_input | LookupDiscount string

record user_error =
  ue_field :: "string list option"
  ue_code :: "string option"
  ue_message :: "string option"

record create_payload =
  py_nodeId :: "string option"
  py_userErrors :: "user_error list option"

record discount_data =
  dd_create :: "create_payload option"
  dd_lookupId :: "string option"

type_synonym 'w discount_env = "('w, discount_query, discount_data) admin_env"

record create_winback_discount_args =
  wd_merchantId :: merchant_id
  wd_customerGid :: string
  wd_code :: string
  wd_valuePercent :: int
  wd_endsAt :: time
  wd_startsAt :: "time option"
  wd_title :: "string option"

record create_winback_discount_result =
  wr_code :: string
  wr_shopifyDiscountId :: string
  wr_alreadyExisted :: bool

definition TAKEN_ERROR_CODE :: string where "TAKEN_ERROR_CODE = ''TAKEN''"
definition CREATE_ESTIMATED_COST :: rat where "CREATE_ESTIMATED_COST = 20"
definition LOOKUP_ESTIMATED_COST :: rat where "LOOKUP_ESTIMATED_COST = 10"

definition discount_input_of :: "time \<Rightarrow> create_winback_discount_args \<Rightarrow> discount_input" where
  "discount_input_of now a = \<lparr>di_title = or_default (wd_title a) (''Winback offer ('' @ wd_code a @ '')''),
     di_code = wd_code a, di_startsAt = or_default (wd_startsAt a) now, di_endsAt = wd_endsAt a,
     di_customers = [wd_customerGid a], di_percentage = of_int (wd_valuePercent a) / 100,
     di_allItems = True, di_appliesOncePerCustomer = True\<rparr>"

lemma di_code_of [simp]: "di_code (discount_input_of now a) = wd_code a"
  by (simp add: discount_input_of_def)

section \<open>Minting\<close>

definition lookup_discount_id_by_code ::
  "'w discount_env \<Rightarrow> merchant_id \<Rightarrow> string \<Rightarrow> 'w admin_state \<Rightarrow> 'w admin_state \<times> (exn + string option)" where
  "lookup_discount_id_by_code e m code st =
     (case graphql e m (LookupDiscount code) (Some LOOKUP_ESTIMATED_COST) st of
        (st1, Inl err) \<Rightarrow> (st1, Inl err)
      | (st1, Inr d) \<Rightarrow> (st1, Inr (dd_lookupId d)))"

definition create_winback_discount_code ::
  "'w discount_env \<Rightarrow> create_winback_discount_args \<Rightarrow> 'w admin_state \<Rightarrow>
   'w admin_state \<times> (exn + create_winback_discount_result)" where
  "create_winback_discount_code e a st =
     (case graphql e (wd_merchantId a) (CreateDiscount (discount_input_of (ad_now st) a))
             (Some CREATE_ESTIMATED_COST) st of
        (st1, Inl err) \<Rightarrow> (st1, Inl err)
      | (st1, Inr d) \<Rightarrow>
          (let createdId = Option.bind (dd_create d) py_nodeId;
               userErrors = or_default (Option.bind (dd_create d) py_userErrors) []
           in if createdId \<noteq> None \<and> userErrors = []
              then (st1, Inr \<lparr>wr_code = wd_code a, wr_shopifyDiscountId = the createdId, wr_alreadyExisted = False\<rparr>)
              else if list_ex (\<lambda>u. ue_code u = Some TAKEN_ERROR_CODE) userErrors
              then (case lookup_discount_id_by_code e (wd_merchantId a) (wd_code a) st1 of
                  (st2, Inl err) \<Rightarrow> (st2, Inl err)
                | (st2, Inr None) \<Rightarrow> (st2, Inl (shopify_admin_api_error
                    ''discountCodeBasicCreate returned TAKEN but codeDiscountNodeByCode found no node'' None))
                | (st2, Inr (Some existing)) \<Rightarrow>
                    (st2, Inr \<lparr>wr_code = wd_code a, wr_shopifyDiscountId = existing, wr_alreadyExisted = True\<rparr>))
              else (st1, Inl (shopify_admin_api_error ''discountCodeBasicCreate returned userErrors'' None))))"

section \<open>One discount per code\<close>

text \<open>
  \<open>codes w shop c\<close> is the id of the discount that the shop has for the code \<open>c\<close>: a code has at most
  one discount in a shop, each shop has codes of its own, and a discount may be deleted. What an
  answer says, at the time of the answer: the id of a created discount, or of the discount found
  by a code, is the id of the discount that the code has in that shop.
\<close>

definition names_discount :: "('w \<Rightarrow> string \<Rightarrow> string \<Rightarrow> string option) \<Rightarrow> 'w \<Rightarrow> string \<Rightarrow>
    discount_query \<Rightarrow> discount_data \<Rightarrow> bool" where
  "names_discount codes w shop q d =
     (case q of
        CreateDiscount i \<Rightarrow> (case dd_create d of None \<Rightarrow> True | Some p \<Rightarrow>
          (case py_nodeId p of None \<Rightarrow> True | Some did \<Rightarrow>
             or_default (py_userErrors p) [] = [] \<longrightarrow> codes w shop (di_code i) = Some did))
      | LookupDiscount c \<Rightarrow> (case dd_lookupId d of None \<Rightarrow> True | Some did \<Rightarrow> codes w shop c = Some did))"

definition discount_shop :: "('w \<Rightarrow> string \<Rightarrow> string \<Rightarrow> string option) \<Rightarrow> 'w discount_env \<Rightarrow> bool" where
  "discount_shop codes e \<longleftrightarrow> (\<forall>w shop token q w' k s h b d.
     ae_fetch e w shop token q = (w', k, HttpResponse s h (Some b)) \<longrightarrow> rp_data b = Some d \<longrightarrow>
       names_discount codes w' shop q d)"

text \<open>The shop still has the discount it had for the code.\<close>

definition keeps_discount :: "('w \<Rightarrow> string \<Rightarrow> string \<Rightarrow> string option) \<Rightarrow> string \<Rightarrow> string \<Rightarrow> 'w \<Rightarrow> 'w \<Rightarrow> bool" where
  "keeps_discount codes shop c w w' \<longleftrightarrow> (\<forall>d. codes w shop c = Some d \<longrightarrow> codes w' shop c = Some d)"

lemma judge_world: "judge e shop attempt response st = (st1, v) \<Longrightarrow> ad_world st1 = ad_world st
    \<and> (\<forall>d. v = Stop (Inr d) \<longrightarrow> (\<exists>s h b. response = HttpResponse s h (Some b) \<and> rp_data b = Some d))"
  by (auto simp: judge_def judge_body_def Let_def split: http_result.splits if_splits option.splits)

lemma judge_db: "judge e shop attempt response st = (st1, v) \<Longrightarrow> ad_db st1 = ad_db st"
  by (auto simp: judge_def judge_body_def Let_def split: http_result.splits if_splits option.splits)

lemma send_request_world:
  assumes "discount_shop codes e" and "send_request e shop token q cost st = (st1, HttpResponse s h (Some b))"
    and "rp_data b = Some d"
  shows "names_discount codes (ad_world st1) shop q d"
proof -
  obtain w k r where f: "ae_fetch e (ad_world st) shop token q = (w, k, r)" by (metis surj_pair)
  then have "ad_world st1 = w" "r = HttpResponse s h (Some b)"
    using assms(2) by (auto simp: send_request_def sleep_def Let_def split: if_splits)
  with assms(1,3) f show ?thesis unfolding discount_shop_def by blast
qed

text \<open>A call that succeeds names the discount of its shop, and leaves the database alone.\<close>

lemma graphql_loop_world:
  assumes "discount_shop codes e" and "graphql_loop e m shop token q cost attempt st = (st', Inr d)"
  shows "names_discount codes (ad_world st') shop q d \<and> ad_db st' = ad_db st"
  using assms
proof (induction e m shop token q cost attempt st rule: graphql_loop.induct)
  case (1 e m shop token q cost attempt st)
  obtain st1 response where s: "send_request e shop token q cost st = (st1, response)" by (metis surj_pair)
  obtain st2 v where j: "judge e shop attempt response st1 = (st2, v)" by (metis surj_pair)
  note w = send_request_world [OF 1(2)] judge_world [OF j] and db = send_request_db [OF s] judge_db [OF j]
  show ?case
  proof (cases "\<exists>ms err. v = RetryAfter ms err \<and> attempt < ae_maxRetries e")
    case True
    then obtain ms err where v: "v = RetryAfter ms err" and more: "\<not> attempt \<ge> ae_maxRetries e" by auto
    with 1(3) have "graphql_loop e m shop token q cost (attempt + 1) (sleep ms st2) = (st', Inr d)"
      by (subst (asm) graphql_loop.simps) (simp add: s j)
    from 1(1) [OF s [symmetric] j [symmetric] v more 1(2) this] db show ?thesis
      by (simp add: sleep_def)
  next
    case False
    with 1(3) have v: "v = Stop (Inr d)" "st' = st2"
      by (subst (asm) graphql_loop.simps, auto simp: s j split: verdict.splits prod.splits sum.splits)+
    with w(2) obtain x h b where "response = HttpResponse x h (Some b)" "rp_data b = Some d" by blast
    with w(1) [of shop token q cost st st1] s w(2) db v show ?thesis by simp
  qed
qed

lemma graphql_world:
  assumes "discount_shop codes e" and "graphql e m q c st = (st', Inr d)"
    and "get_offline_token (ae_decrypt e) m (ad_db st) = Some (shop, token)"
  shows "names_discount codes (ad_world st') shop q d \<and> ad_db st' = ad_db st"
  using assms by (auto simp: graphql_def dest: graphql_loop_world)

lemma created_discount:
  assumes "discount_shop codes e" and "create_winback_discount_code e a st = (st', Inr x)"
    and "get_offline_token (ae_decrypt e) (wd_merchantId a) (ad_db st) = Some (shop, token)"
  shows "wr_code x = wd_code a \<and> codes (ad_world st') shop (wd_code a) = Some (wr_shopifyDiscountId x)"
proof -
  let ?i = "discount_input_of (ad_now st) a"
  obtain st1 d where g: "graphql e (wd_merchantId a) (CreateDiscount ?i) (Some CREATE_ESTIMATED_COST) st
      = (st1, Inr d)"
    using assms(2) by (auto simp: create_winback_discount_code_def split: prod.splits sum.splits)
  note w1 = graphql_world [OF assms(1) g assms(3)]
  obtain st2 r where l: "graphql e (wd_merchantId a) (LookupDiscount (wd_code a)) (Some LOOKUP_ESTIMATED_COST) st1
      = (st2, r)" by (metis surj_pair)
  have "names_discount codes (ad_world st2) shop (LookupDiscount (wd_code a)) d'" if "r = Inr d'" for d'
    using graphql_world [OF assms(1) l [unfolded that]] w1 assms(3) by simp
  with assms(2) w1 show ?thesis
    by (auto simp: create_winback_discount_code_def lookup_discount_id_by_code_def g l Let_def
        names_discount_def split: sum.splits if_splits option.splits bind_splits)
qed

text \<open>
  C27. A code is minted once: two successful mints of the same code for the same merchant and
  shop give the same discount, however many failed attempts, lost answers and other calls lie
  between them, as long as the shop has not lost the discount in the meantime (the merchant may
  delete it). So a job that is retried after its discount was created ships that discount, and
  leaves no orphan.
\<close>

theorem minted_once:
  assumes "discount_shop codes e"
    and "get_offline_token (ae_decrypt e) (wd_merchantId a) (ad_db st) = Some (shop, t)"
    and "create_winback_discount_code e a st = (st1, Inr x)"
    and "get_offline_token (ae_decrypt e) (wd_merchantId a) (ad_db st2) = Some (shop, t')"
    and "create_winback_discount_code e a' st2 = (st3, Inr y)"
    and "wd_merchantId a' = wd_merchantId a" and "wd_code a' = wd_code a"
    and "keeps_discount codes shop (wd_code a) (ad_world st1) (ad_world st3)"
  shows "wr_shopifyDiscountId y = wr_shopifyDiscountId x \<and> wr_code x = wd_code a \<and> wr_code y = wd_code a"
proof -
  from created_discount [OF assms(1,3,2)]
  have x: "codes (ad_world st1) shop (wd_code a) = Some (wr_shopifyDiscountId x)" "wr_code x = wd_code a" by auto
  from created_discount [OF assms(1,5)] assms(4,6,7)
  have y: "codes (ad_world st3) shop (wd_code a) = Some (wr_shopifyDiscountId y)" "wr_code y = wd_code a" by auto
  from x(1) assms(8) have "codes (ad_world st3) shop (wd_code a) = Some (wr_shopifyDiscountId x)"
    by (simp add: keeps_discount_def)
  with x y show ?thesis by simp
qed

text \<open>A call that is answered at once.\<close>

definition ok_answer :: "discount_data \<Rightarrow> discount_data http_result" where
  "ok_answer d = HttpResponse 200 None (Some \<lparr>rp_data = Some d, rp_errors = None, rp_throttleStatus = None\<rparr>)"

lemma graphql_answered:
  assumes "get_offline_token (ae_decrypt e) m (ad_db st) = Some (shop, token)"
    and "ae_fetch e (ad_world st) shop token q = (w, k, ok_answer d)"
  shows "\<exists>st'. graphql e m q c st = (st', Inr d) \<and> ad_world st' = w \<and> ad_db st' = ad_db st"
proof -
  obtain st1 response where s: "send_request e shop token q (or_default c DEFAULT_ESTIMATED_COST) st = (st1, response)"
    by (metis surj_pair)
  then have "ad_world st1 = w" "response = ok_answer d" "ad_db st1 = ad_db st"
    using assms(2) by (auto simp: send_request_def sleep_def Let_def split: if_splits)
  then show ?thesis
    using assms(1) by (simp add: graphql_def) (subst graphql_loop.simps,
      simp add: s judge_def judge_body_def ok_answer_def)
qed

text \<open>Shops that keep their codes; the same code is minted twice.\<close>

type_synonym sample_world = "((string \<times> string) \<times> string) list"

definition taken_answer :: discount_data where
  "taken_answer = \<lparr>dd_create = Some \<lparr>py_nodeId = None, py_userErrors =
     Some [\<lparr>ue_field = None, ue_code = Some ''TAKEN'', ue_message = None\<rparr>]\<rparr>, dd_lookupId = None\<rparr>"

fun sample_fetch :: "sample_world \<Rightarrow> string \<Rightarrow> string \<Rightarrow> discount_query \<Rightarrow>
    sample_world \<times> int \<times> discount_data http_result" where
  "sample_fetch cs shop token (CreateDiscount i) =
     (if map_of cs (shop, di_code i) \<noteq> None then (cs, 100, ok_answer taken_answer)
      else (cs @ [((shop, di_code i), ''gid1'')], 100,
            ok_answer \<lparr>dd_create = Some \<lparr>py_nodeId = Some ''gid1'', py_userErrors = None\<rparr>, dd_lookupId = None\<rparr>))"
| "sample_fetch cs shop token (LookupDiscount c) =
     (cs, 100, ok_answer \<lparr>dd_create = None, dd_lookupId = map_of cs (shop, c)\<rparr>)"

definition sample_discount_env :: "sample_world discount_env" where
  "sample_discount_env = \<lparr>ae_fetch = sample_fetch, ae_decrypt = Some, ae_jitter = (\<lambda>_. 0),
     ae_eventId = ''e1'', ae_maxRetries = 3, ae_options = TRACKER_DEFAULTS\<rparr>"

lemma sample_env_simps [simp]:
  "ae_fetch sample_discount_env = sample_fetch" "ae_decrypt sample_discount_env = Some"
  by (simp_all add: sample_discount_env_def)

definition sample_codes :: "sample_world \<Rightarrow> string \<Rightarrow> string \<Rightarrow> string option" where
  "sample_codes cs shop c = map_of cs (shop, c)"

lemma sample_discount_shop: "discount_shop sample_codes sample_discount_env"
  unfolding discount_shop_def
proof (intro allI impI)
  fix w shop token q w' k s h b d
  assume "ae_fetch sample_discount_env w shop token q = (w', k, HttpResponse s h (Some b))" "rp_data b = Some d"
  then show "names_discount sample_codes w' shop q d"
    by (cases q) (auto simp: names_discount_def ok_answer_def sample_codes_def
        taken_answer_def map_add_Some_iff split: if_splits option.splits)
qed

definition sample_mint_args :: create_winback_discount_args where
  "sample_mint_args = \<lparr>wd_merchantId = ''m'', wd_customerGid = ''gid'', wd_code = ''WB-A'',
     wd_valuePercent = 10, wd_endsAt = 0, wd_startsAt = None, wd_title = None\<rparr>"

lemma sample_token: "get_offline_token Some ''m'' sample_shop = Some (''s'', ''t'')"
  by (simp add: get_offline_token_def sample_shop_def find_merchant_def find_row_Cons)

lemma first_mint:
  assumes "ad_db st = sample_shop" and "ad_world st = []"
  shows "\<exists>st1 x. create_winback_discount_code sample_discount_env sample_mint_args st = (st1, Inr x)
    \<and> ad_db st1 = sample_shop \<and> ad_world st1 = [((''s'', ''WB-A''), ''gid1'')] \<and> wr_shopifyDiscountId x = ''gid1''"
proof -
  obtain st1 where "graphql sample_discount_env ''m''
        (CreateDiscount (discount_input_of (ad_now st) sample_mint_args)) (Some CREATE_ESTIMATED_COST) st
      = (st1, Inr \<lparr>dd_create = Some \<lparr>py_nodeId = Some ''gid1'', py_userErrors = None\<rparr>, dd_lookupId = None\<rparr>)"
    and "ad_world st1 = [((''s'', ''WB-A''), ''gid1'')]" "ad_db st1 = sample_shop"
    using graphql_answered [of sample_discount_env "''m''" st "''s''" "''t''"
      "CreateDiscount (discount_input_of (ad_now st) sample_mint_args)" "[((''s'', ''WB-A''), ''gid1'')]" 100
      "\<lparr>dd_create = Some \<lparr>py_nodeId = Some ''gid1'', py_userErrors = None\<rparr>, dd_lookupId = None\<rparr>"
      "Some CREATE_ESTIMATED_COST"]
      sample_token assms by (auto simp: sample_mint_args_def)
  then show ?thesis by (auto simp: create_winback_discount_code_def sample_mint_args_def)
qed

lemma second_mint:
  assumes "ad_db st = sample_shop" and "ad_world st = [((''s'', ''WB-A''), ''gid1'')]"
  shows "\<exists>st1 x. create_winback_discount_code sample_discount_env sample_mint_args st = (st1, Inr x)
    \<and> ad_world st1 = [((''s'', ''WB-A''), ''gid1'')]"
proof -
  obtain st1 where c: "graphql sample_discount_env ''m''
        (CreateDiscount (discount_input_of (ad_now st) sample_mint_args)) (Some CREATE_ESTIMATED_COST) st
      = (st1, Inr taken_answer)" and "ad_world st1 = [((''s'', ''WB-A''), ''gid1'')]" "ad_db st1 = sample_shop"
    using graphql_answered [of sample_discount_env "''m''" st "''s''" "''t''"
      "CreateDiscount (discount_input_of (ad_now st) sample_mint_args)" "[((''s'', ''WB-A''), ''gid1'')]" 100 taken_answer
      "Some CREATE_ESTIMATED_COST"]
      sample_token assms by (auto simp: sample_mint_args_def)
  moreover from this(2,3) obtain st2 where "graphql sample_discount_env ''m'' (LookupDiscount ''WB-A'')
        (Some LOOKUP_ESTIMATED_COST) st1 = (st2, Inr \<lparr>dd_create = None, dd_lookupId = Some ''gid1''\<rparr>)"
        "ad_world st2 = [((''s'', ''WB-A''), ''gid1'')]"
    using graphql_answered [of sample_discount_env "''m''" st1 "''s''" "''t''" "LookupDiscount ''WB-A''"
        "[((''s'', ''WB-A''), ''gid1'')]" 100 "\<lparr>dd_create = None, dd_lookupId = Some ''gid1''\<rparr>" "Some LOOKUP_ESTIMATED_COST"]
      sample_token by auto
  ultimately show ?thesis
    by (auto simp: create_winback_discount_code_def lookup_discount_id_by_code_def taken_answer_def
        TAKEN_ERROR_CODE_def sample_mint_args_def)
qed

lemma minted_once_witness:
  "\<exists>st st1 st3 x y. create_winback_discount_code sample_discount_env sample_mint_args st = (st1, Inr x)
    \<and> create_winback_discount_code sample_discount_env sample_mint_args st1 = (st3, Inr y)
    \<and> wr_shopifyDiscountId y = ''gid1''"
proof -
  let ?st = "\<lparr>ad_db = sample_shop, ad_now = 0, ad_tracker = Map.empty, ad_world = [], ad_requests = []\<rparr>"
  obtain st1 x where x: "create_winback_discount_code sample_discount_env sample_mint_args ?st = (st1, Inr x)"
    and st1: "ad_db st1 = sample_shop" "ad_world st1 = [((''s'', ''WB-A''), ''gid1'')]" "wr_shopifyDiscountId x = ''gid1''"
    using first_mint [of ?st] by auto
  obtain st3 y where y: "create_winback_discount_code sample_discount_env sample_mint_args st1 = (st3, Inr y)"
    and st3: "ad_world st3 = [((''s'', ''WB-A''), ''gid1'')]" using second_mint [OF st1(1,2)] by auto
  have "keeps_discount sample_codes ''s'' (wd_code sample_mint_args) (ad_world st1) (ad_world st3)"
    by (simp add: keeps_discount_def st1 st3)
  then have "wr_shopifyDiscountId y = wr_shopifyDiscountId x \<and> wr_code x = wd_code sample_mint_args
      \<and> wr_code y = wd_code sample_mint_args"
    by (intro minted_once [OF sample_discount_shop _ x _ y refl refl, where shop = "''s''" and t = "''t''" and t' = "''t''"])
      (simp_all add: sample_token st1 sample_mint_args_def)
  with st1 x y show ?thesis by metis
qed

end
