(* ===== verification/AiWorker.thy ===== *)
theory AiWorker
  imports AiStore AiProviders Base32 ShopDiscounts
begin

text \<open>
  The generation worker (\<open>apps/drainer/src/workers/ai-generate.worker.ts\<close>): a job reads its
  pending generation, calls the language model, mints the discount when one is intended, and
  completes generation, message and spend in one transaction. The state is that of the Admin
  client, which carries the database, the clock and the shop; the model, the hash and the
  environment are parameters. The clock advances by the latency of an answered model call.
\<close>

section \<open>Jobs\<close>

record ai_generate_job_payload =
  ap_aiGenerationId :: string
  ap_merchantId :: merchant_id
  ap_customerId :: string

record ai_job =
  aj_id :: "string option"
  aj_attemptsMade :: int
  aj_data :: ai_generate_job_payload

record 'w worker_env =
  we_aiEnv :: ai_env
  we_clients :: ai_clients
  we_hmac :: "string \<Rightarrow> string \<Rightarrow> byte list"
  we_apiSecret :: string
  we_admin :: "'w discount_env"

definition AUDIT_ERROR_MESSAGE_MAX_CHARS :: nat where "AUDIT_ERROR_MESSAGE_MAX_CHARS = 500"
definition GENERATION_STALENESS_MS :: int where "GENERATION_STALENESS_MS = 24 * 60 * 60 * 1000"
definition DEFAULT_ATTRIBUTION_WINDOW_DAYS :: int where "DEFAULT_ATTRIBUTION_WINDOW_DAYS = 14"

definition truncate_error_message :: "string \<Rightarrow> string" where
  "truncate_error_message message =
     (if length message \<le> AUDIT_ERROR_MESSAGE_MAX_CHARS then message else take AUDIT_ERROR_MESSAGE_MAX_CHARS message)"

section \<open>Provider errors\<close>

definition provider_error_audit :: "ai_job \<Rightarrow> string \<Rightarrow> ai_error_code \<Rightarrow> string \<Rightarrow> audit_row" where
  "provider_error_audit job shop code message =
     \<lparr>au_merchantId = Some (ap_merchantId (aj_data job)), au_shop = Some shop,
      au_actorType = ActorSystem, au_actorId = ''drainer'',
      au_action = (if code = AiContentBlocked then AuContentBlocked else AuGenerationFailed),
      au_targetType = ''ai_generation'', au_targetId = ap_aiGenerationId (aj_data job),
      au_context = [(''providerErrorCode'', AStr (ai_code_string code)),
        (''jobId'', case aj_id job of None \<Rightarrow> ANull | Some i \<Rightarrow> AStr i),
        (''attempt'', AInt (aj_attemptsMade job)),
        (''errorMessage'', AStr (truncate_error_message message))]\<rparr>"

definition fail_tx :: "tenant_scope \<Rightarrow> time \<Rightarrow> string \<Rightarrow> string \<Rightarrow> audit_row \<Rightarrow> unit tx" where
  "fail_tx sc now gid err audit s = append_audit sc audit (fst (mark_generation_failed sc now gid err s))"

definition handle_provider_error ::
  "tenant_scope \<Rightarrow> time \<Rightarrow> ai_job \<Rightarrow> string \<Rightarrow> exn \<Rightarrow> db \<Rightarrow> db \<times> (exn + unit)" where
  "handle_provider_error sc now job shop err s =
     (case err of
        AiErr code message \<Rightarrow>
          if ai_retryable code then (s, Inl err)
          else transaction (fail_tx sc now (ap_aiGenerationId (aj_data job)) (ai_code_string code)
                 (provider_error_audit job shop code message)) s
      | _ \<Rightarrow> (s, Inl err))"

section \<open>Minting\<close>

record minted_discount =
  md_code :: string
  md_shopifyDiscountId :: string
  md_valuePercent :: int


definition mint_discount ::
  "'w worker_env \<Rightarrow> ai_generate_job_payload \<Rightarrow> string \<Rightarrow> int \<Rightarrow> 'w admin_state \<Rightarrow>
   'w admin_state \<times> (exn + minted_discount)" where
  "mint_discount e p customerGid valuePercent st =
     (let windowDays = (case find_settings (ad_db st) (ap_merchantId p) of
            None \<Rightarrow> DEFAULT_ATTRIBUTION_WINDOW_DAYS | Some se \<Rightarrow> se_attributionDirectWindowDays se);
          code = derive_winback_discount_code (we_hmac e) (we_apiSecret e) (ap_merchantId p) (ap_aiGenerationId p)
      in case create_winback_discount_code (we_admin e)
           \<lparr>wd_merchantId = ap_merchantId p, wd_customerGid = customerGid, wd_code = code,
            wd_valuePercent = valuePercent, wd_endsAt = ad_now st + windowDays * ms_per_day,
            wd_startsAt = None, wd_title = None\<rparr> (build_admin_client st) of
           (st1, Inl err) \<Rightarrow> (st1, Inl err)
         | (st1, Inr created) \<Rightarrow> (st1, Inr \<lparr>md_code = wr_code created,
             md_shopifyDiscountId = wr_shopifyDiscountId created, md_valuePercent = valuePercent\<rparr>))"

section \<open>Completion\<close>

definition discount_created_audit :: "merchant_id \<Rightarrow> string \<Rightarrow> string \<Rightarrow> minted_discount \<Rightarrow> audit_row" where
  "discount_created_audit m shop gid d =
     \<lparr>au_merchantId = Some m, au_shop = Some shop, au_actorType = ActorSystem, au_actorId = ''drainer'',
      au_action = AuDiscountCreated, au_targetType = ''ai_generation'', au_targetId = gid,
      au_context = [(''shopifyDiscountId'', AStr (md_shopifyDiscountId d)),
        (''valuePercent'', AInt (md_valuePercent d))]\<rparr>"

definition completed_args ::
  "string \<Rightarrow> ai_generate_result \<Rightarrow> string \<Rightarrow> int \<Rightarrow> minted_discount option \<Rightarrow> mark_completed_args" where
  "completed_args gid result text cost minted =
     \<lparr>mc_aiGenerationId = gid, mc_generatedText = text, mc_inputTokens = gr_inputTokens result,
      mc_outputTokens = gr_outputTokens result, mc_totalTokens = gr_totalTokens result,
      mc_latencyMs = gr_latencyMs result, mc_costMicrocents = cost,
      mc_discountCode = map_option md_code minted,
      mc_shopifyDiscountId = map_option md_shopifyDiscountId minted\<rparr>"

text \<open>
  The completion transaction. The compare-and-set decides: a job that comes second changes
  nothing, neither the text nor the spend.
\<close>

definition complete_tx ::
  "tenant_scope \<Rightarrow> time \<Rightarrow> merchant_id \<Rightarrow> string \<Rightarrow> mark_completed_args \<Rightarrow> minted_discount option \<Rightarrow> unit tx" where
  "complete_tx sc now m shop a minted s =
     (case mark_completed sc now a s of
        (s1, n) \<Rightarrow>
          if n = 0 then Inr (s1, ())
          else rbind (increment_spend sc m now (mc_costMicrocents a)
                 (fst (update_generated_text sc (mc_aiGenerationId a) (mc_generatedText a) s1)))
            (\<lambda>(s2, _). case minted of
                None \<Rightarrow> Inr (s2, ())
              | Some d \<Rightarrow> append_audit sc (discount_created_audit m shop (mc_aiGenerationId a) d) s2))"

definition run_tx :: "unit tx \<Rightarrow> 'w admin_state \<Rightarrow> 'w admin_state \<times> (exn + unit)" where
  "run_tx body st = (case transaction body (ad_db st) of (s, r) \<Rightarrow> (st\<lparr>ad_db := s\<rparr>, r))"

section \<open>The job\<close>

text \<open>The part after the model has answered: price, mint and substitute, complete.\<close>

definition finish_generation ::
  "'w worker_env \<Rightarrow> ai_job \<Rightarrow> ai_config \<Rightarrow> generation_row \<Rightarrow> string \<Rightarrow> customer_row \<Rightarrow> ai_generate_result \<Rightarrow>
   'w admin_state \<Rightarrow> 'w admin_state \<times> (exn + unit)" where
  "finish_generation e job config row shop customer result st =
     (let p = aj_data job; sc = Tenant (ap_merchantId p); gid = ap_aiGenerationId p in
      case estimate_cost_microcents (AI_PROVIDER config) (AI_MODEL config)
             (gr_inputTokens result) (gr_outputTokens result) of
        Inl err \<Rightarrow> (st, Inl err)
      | Inr cost \<Rightarrow>
          (case ge_discountValuePercent row of
             None \<Rightarrow> run_tx (complete_tx sc (ad_now st) (ap_merchantId p) shop
                 (completed_args gid result (gr_content result) cost None) None) st
           | Some percent \<Rightarrow>
               if cu_deletedAt customer \<noteq> None
               then (st\<lparr>ad_db := fst (mark_generation_failed sc (ad_now st) gid ''discount_customer_redacted'' (ad_db st))\<rparr>,
                     Inr ())
               else (case mint_discount e p (cu_shopifyCustomerId customer) percent st of
                   (st1, Inl err) \<Rightarrow> (st1, Inl err)
                 | (st1, Inr d) \<Rightarrow>
                     run_tx (complete_tx sc (ad_now st1) (ap_merchantId p) shop
                       (completed_args gid result
                          (sr_text (substitute_discount_tokens (gr_content result)
                             (Some \<lparr>ds_code = md_code d, ds_valuePercent = percent\<rparr>))) cost (Some d)) (Some d)) st1)))"

definition generate_args_of :: "ai_config \<Rightarrow> generation_row \<Rightarrow> ai_generate_args" where
  "generate_args_of config row = \<lparr>ag_model = ge_modelId row, ag_systemPrompt = ge_systemPrompt row,
     ag_userPrompt = ge_userPrompt row, ag_maxTokens = AI_MAX_TOKENS config,
     ag_temperature = AI_TEMPERATURE config\<rparr>"

text \<open>
  The row with the merchant and the customer it belongs to; \<open>findUnique\<close> is not filtered by
  tenant, and the relation reaches a soft-deleted customer.
\<close>

definition pickup :: "string \<Rightarrow> db \<Rightarrow> (generation_row \<times> merchant_row \<times> customer_row) option" where
  "pickup gid s =
     Option.bind (find_row (\<lambda>g. ge_id g = gid) (generations s)) (\<lambda>g.
       Option.bind (find_merchant s (ge_merchantId g)) (\<lambda>m.
         map_option (\<lambda>c. (g, m, c)) (find_row (\<lambda>c. cu_id c = ge_customerId g) (customers s))))"

definition process_ai_generate_job ::
  "'w worker_env \<Rightarrow> ai_job \<Rightarrow> 'w admin_state \<Rightarrow> 'w admin_state \<times> (exn + unit)" where
  "process_ai_generate_job e job st =
     (let p = aj_data job; sc = Tenant (ap_merchantId p); gid = ap_aiGenerationId p in
      case pickup gid (ad_db st) of
        None \<Rightarrow> (st, Inr ())
      | Some (row, merchant, customer) \<Rightarrow>
          if ge_status row \<noteq> GPending then (st, Inr ())
          else if ad_now st - ge_createdAt row > GENERATION_STALENESS_MS
          then (st\<lparr>ad_db := fst (mark_generation_failed sc (ad_now st) gid ''generation_stale'' (ad_db st))\<rparr>, Inr ())
          else (case get_ai_config (we_aiEnv e) of
              Inl err \<Rightarrow> (st, Inl err)
            | Inr config \<Rightarrow>
                (case active_generate (we_clients e) config (generate_args_of config row) of
                   Inl err \<Rightarrow>
                     (case handle_provider_error sc (ad_now st) job (me_shop merchant) err (ad_db st) of
                        (s, r) \<Rightarrow> (st\<lparr>ad_db := s\<rparr>, r))
                 | Inr result \<Rightarrow>
                     finish_generation e job config row (me_shop merchant) customer result
                       (sleep (gr_latencyMs result) st))))"

end
