(* ===== verification/StateChanged.thy ===== *)
theory StateChanged
  imports AiStore PromptBuilder RateLimiter
begin

text \<open>
  The handler of \<open>customer.state_changed\<close> (\<open>apps/drainer/src/handlers/customer-state-changed.ts\<close>):
  from the event to a pending generation, its draft message and the job that will generate it,
  past the billing check, the hourly limit and the monthly cap. Parameters: the environment,
  the clock, fresh ids, and what the queue answers to \<open>add\<close>.
\<close>

section \<open>State and environment\<close>

record generate_job =
  gj_jobId :: string
  gj_aiGenerationId :: string
  gj_merchantId :: merchant_id
  gj_customerId :: string

record handler_state =
  hs_db :: db
  hs_redis :: "bool \<times> redis_server"
  hs_queue :: "generate_job list"

record handler_env =
  he_aiEnv :: ai_env
  he_now :: time
  he_generationId :: string
  he_messageId :: string
  he_queueError :: "exn option"

fun winback_trigger_of :: "customer_state \<Rightarrow> winback_trigger option" where
  "winback_trigger_of AtRisk = Some TrAtRisk"
| "winback_trigger_of Dormant = Some TrDormant"
| "winback_trigger_of Lost = Some TrLost"
| "winback_trigger_of _ = None"

definition ESTIMATED_INPUT_TOKENS_FOR_CEILING_CHECK :: int where
  "ESTIMATED_INPUT_TOKENS_FOR_CEILING_CHECK = 500"

text \<open>The payload of another event lacks the keys that the schema requires.\<close>

fun parse_state_changed :: "outbox_payload \<Rightarrow> exn + state_changed_payload" where
  "parse_state_changed (StateChangedPayload p) = (if payload_schema p then Inr p else Inl zod_error)"
| "parse_state_changed (JsonPayload _) = Inl zod_error"

definition denied_audit ::
  "state_changed_payload \<Rightarrow> string \<Rightarrow> audit_action \<Rightarrow> (string \<times> audit_value) list \<Rightarrow> audit_row" where
  "denied_audit p shop action ctx =
     \<lparr>au_merchantId = Some (pl_merchantId p), au_shop = Some shop, au_actorType = ActorSystem,
      au_actorId = ''drainer'', au_action = action, au_targetType = ''customer'',
      au_targetId = pl_customerId p, au_context = ctx\<rparr>"

section \<open>The prompt and the rows\<close>

definition discount_intent :: "settings_row \<Rightarrow> int option" where
  "discount_intent se = (if se_winbackDiscountEnabled se then Some (se_winbackDiscountPercent se) else None)"

definition prompt_args ::
  "state_changed_payload \<Rightarrow> winback_trigger \<Rightarrow> merchant_row \<Rightarrow> settings_row \<Rightarrow> customer_row \<Rightarrow>
   ai_tone option \<Rightarrow> string list \<Rightarrow> winback_prompt_args" where
  "prompt_args p trigger merchant se customer tone titles =
     (let promptCurrency = or_default (me_currency merchant) ''USD'' in
      \<lparr>pc_firstName = cu_firstName customer, pc_lastName = cu_lastName customer,
       pc_rDays = rf_rDays (pl_rfmScore p), pc_fCount = rf_fCount (pl_rfmScore p),
       pc_mCents = rf_mCents (pl_rfmScore p), pc_currency = promptCurrency,
       pc_triggerState = trigger, pc_previousState = state_string (pl_oldState p),
       pm_name = me_name merchant, pm_shopCurrency = promptCurrency, pm_aiTone = tone,
       pp_recentProducts = titles, pp_discount = discount_intent se\<rparr>)"

definition pending_args ::
  "state_changed_payload \<Rightarrow> merchant_row \<Rightarrow> settings_row \<Rightarrow> ai_config \<Rightarrow> winback_prompt_result \<Rightarrow> create_pending_args" where
  "pending_args p merchant se config prompt =
     \<lparr>cp_merchantId = pl_merchantId p, cp_customerId = pl_customerId p,
      cp_triggerState = pl_newState p, cp_previousState = pl_oldState p,
      cp_rDays = rf_rDays (pl_rfmScore p), cp_fCount = rf_fCount (pl_rfmScore p),
      cp_mCents = rf_mCents (pl_rfmScore p), cp_currency = or_default (me_currency merchant) ''USD'',
      cp_churnRiskScore = None, cp_provider = provider_string (AI_PROVIDER config),
      cp_modelId = AI_MODEL config, cp_systemPrompt = wp_systemPrompt prompt,
      cp_userPrompt = wp_userPrompt prompt, cp_discountValuePercent = discount_intent se\<rparr>"

text \<open>The transaction: the pending generation and its draft.\<close>

definition create_generation_tx ::
  "tenant_scope \<Rightarrow> string \<Rightarrow> string \<Rightarrow> time \<Rightarrow> create_pending_args \<Rightarrow> string tx" where
  "create_generation_tx sc gid mid now a s =
     rbind (create_pending sc gid now a s) (\<lambda>(s1, newId).
       rbind (create_draft sc mid (cp_merchantId a) (cp_customerId a) newId s1) (\<lambda>(s2, _). Inr (s2, newId)))"

definition enqueue_generation ::
  "exn option \<Rightarrow> state_changed_payload \<Rightarrow> string \<Rightarrow> handler_state \<Rightarrow> handler_state \<times> (exn + unit)" where
  "enqueue_generation queueError p gid st =
     (case queueError of
        Some err \<Rightarrow> (st, Inl err)
      | None \<Rightarrow> (st\<lparr>hs_queue := hs_queue st @ [\<lparr>gj_jobId = gid, gj_aiGenerationId = gid,
                   gj_merchantId = pl_merchantId p, gj_customerId = pl_customerId p\<rparr>]\<rparr>, Inr ()))"

section \<open>The handler\<close>

definition append_denial :: "audit_row \<Rightarrow> tenant_scope \<Rightarrow> handler_state \<Rightarrow> handler_state \<times> (exn + unit)" where
  "append_denial row sc st =
     (case transaction (append_audit sc row) (hs_db st) of (s, r) \<Rightarrow> (st\<lparr>hs_db := s\<rparr>, r))"

text \<open>From the prompt on: steps 6 to 9.\<close>

definition generate_for_customer ::
  "handler_env \<Rightarrow> state_changed_payload \<Rightarrow> winback_trigger \<Rightarrow> merchant_row \<Rightarrow> settings_row \<Rightarrow> ai_config \<Rightarrow>
   handler_state \<Rightarrow> handler_state \<times> (exn + unit)" where
  "generate_for_customer e p trigger merchant se config st =
     (let sc = Tenant (pl_merchantId p) in
      case find_live_customer (hs_db st) (pl_customerId p) of
        None \<Rightarrow> (st, Inr ())
      | Some customer \<Rightarrow>
          (case find_recent_purchased_titles sc (pl_merchantId p) (pl_customerId p) None (hs_db st) of
             Inl err \<Rightarrow> (st, Inl err)
           | Inr titles \<Rightarrow>
               (case parse_ai_tone (se_aiTone se) of
                  Inl err \<Rightarrow> (st, Inl err)
                | Inr tone \<Rightarrow>
                    (let prompt = build_winback_prompt (prompt_args p trigger merchant se customer tone titles) in
                     case transaction (create_generation_tx sc (he_generationId e) (he_messageId e) (he_now e)
                            (pending_args p merchant se config prompt)) (hs_db st) of
                       (s, Inl err) \<Rightarrow> (st\<lparr>hs_db := s\<rparr>, Inl err)
                     | (s, Inr gid) \<Rightarrow> enqueue_generation (he_queueError e) p gid (st\<lparr>hs_db := s\<rparr>)))))"

text \<open>Step 5, the monthly cap: cents against microcents.\<close>

definition spend_cap_step ::
  "handler_env \<Rightarrow> string \<Rightarrow> state_changed_payload \<Rightarrow> winback_trigger \<Rightarrow> merchant_row \<Rightarrow> settings_row \<Rightarrow>
   handler_state \<Rightarrow> handler_state \<times> (exn + unit)" where
  "spend_cap_step e eventId p trigger merchant se st =
     (let sc = Tenant (pl_merchantId p) in
      case get_ai_config (he_aiEnv e) of
        Inl err \<Rightarrow> (st, Inl err)
      | Inr config \<Rightarrow>
          (let current = sum_month_spend sc (pl_merchantId p) (he_now e) (hs_db st) in
           case estimate_cost_microcents (AI_PROVIDER config) (AI_MODEL config)
                  ESTIMATED_INPUT_TOKENS_FOR_CEILING_CHECK (AI_MAX_TOKENS config) of
             Inl err \<Rightarrow> (st, Inl err)
           | Inr estimated \<Rightarrow>
               (let cap = se_monthlyAiSpendCapCents se * 100000 in
                if current + estimated > cap
                then append_denial (denied_audit p (me_shop merchant) AuSpendCapExceeded
                       [(''currentSpendMicrocents'', AStr (int_string current)), (''capMicrocents'', AStr (int_string cap)),
                        (''estimatedCallMicrocents'', AStr (int_string estimated)),
                        (''monthlyAiSpendCapCents'', AStr (int_string (se_monthlyAiSpendCapCents se))),
                        (''eventId'', AStr eventId)]) sc st
                else generate_for_customer e p trigger merchant se config st)))"

text \<open>Step 4.5, the hourly limit.\<close>

definition rate_limit_step ::
  "handler_env \<Rightarrow> string \<Rightarrow> state_changed_payload \<Rightarrow> winback_trigger \<Rightarrow> merchant_row \<Rightarrow> settings_row \<Rightarrow>
   handler_state \<Rightarrow> handler_state \<times> (exn + unit)" where
  "rate_limit_step e eventId p trigger merchant se st =
     (case increment_and_check (pl_merchantId p) (se_hourlyGenerationCap se) (he_now e) (hs_redis st) of
        (redis, None) \<Rightarrow> (st\<lparr>hs_redis := redis\<rparr>, Inl (PlainErr ''NOSCRIPT''))
      | (redis, Some r) \<Rightarrow>
          (let st1 = st\<lparr>hs_redis := redis\<rparr> in
           if \<not> ic_allowed r
           then append_denial (denied_audit p (me_shop merchant) AuRateLimited
                  [(''currentCount'', AInt (ic_currentCount r)),
                   (''hourlyGenerationCap'', AInt (se_hourlyGenerationCap se)),
                   (''hourBucket'', AInt (he_now e div 3600000)), (''eventId'', AStr eventId)])
                  (Tenant (pl_merchantId p)) st1
           else spend_cap_step e eventId p trigger merchant se st1))"

definition billing_admits :: "db \<Rightarrow> merchant_id \<Rightarrow> bool" where
  "billing_admits s m = (case find_row (\<lambda>b. bi_merchantId b = m) (billing s) of
     None \<Rightarrow> False | Some b \<Rightarrow> bi_status b = BillingActive \<or> bi_status b = Trialing)"

definition handle_customer_state_changed ::
  "handler_env \<Rightarrow> outbox_row \<Rightarrow> handler_state \<Rightarrow> handler_state \<times> (exn + unit)" where
  "handle_customer_state_changed e row st =
     (case parse_state_changed (ob_payload row) of
        Inl err \<Rightarrow> (st, Inl err)
      | Inr p \<Rightarrow>
          (case winback_trigger_of (pl_newState p) of
             None \<Rightarrow> (st, Inr ())
           | Some trigger \<Rightarrow>
               if pl_oldState p = pl_newState p then (st, Inr ())
               else if \<not> billing_admits (hs_db st) (pl_merchantId p) then (st, Inr ())
               else (case (find_merchant (hs_db st) (pl_merchantId p), find_settings (hs_db st) (pl_merchantId p)) of
                   (Some merchant, Some se) \<Rightarrow> rate_limit_step e (ob_id row) p trigger merchant se st
                 | _ \<Rightarrow> (st, Inr ()))))"

section \<open>When a generation is created\<close>

text \<open>The conditions of the steps, in their order.\<close>

definition cap_admits :: "handler_env \<Rightarrow> merchant_id \<Rightarrow> settings_row \<Rightarrow> db \<Rightarrow> bool" where
  "cap_admits e m se s =
     (case get_ai_config (he_aiEnv e) of
        Inl _ \<Rightarrow> False
      | Inr config \<Rightarrow>
          (case estimate_cost_microcents (AI_PROVIDER config) (AI_MODEL config)
                  ESTIMATED_INPUT_TOKENS_FOR_CEILING_CHECK (AI_MAX_TOKENS config) of
             Inl _ \<Rightarrow> False
           | Inr estimated \<Rightarrow>
               sum_month_spend (Tenant m) m (he_now e) s + estimated \<le> se_monthlyAiSpendCapCents se * 100000))"

definition rate_admits :: "handler_env \<Rightarrow> merchant_id \<Rightarrow> settings_row \<Rightarrow> handler_state \<Rightarrow> bool" where
  "rate_admits e m se st =
     (case snd (increment_and_check m (se_hourlyGenerationCap se) (he_now e) (hs_redis st)) of
        None \<Rightarrow> False | Some r \<Rightarrow> ic_allowed r)"

definition admitted :: "handler_env \<Rightarrow> state_changed_payload \<Rightarrow> handler_state \<Rightarrow> bool" where
  "admitted e p st \<longleftrightarrow>
     pl_newState p \<in> {AtRisk, Dormant, Lost} \<and> pl_oldState p \<noteq> pl_newState p
     \<and> billing_admits (hs_db st) (pl_merchantId p)
     \<and> (case (find_merchant (hs_db st) (pl_merchantId p), find_settings (hs_db st) (pl_merchantId p)) of
          (Some merchant, Some se) \<Rightarrow>
            rate_admits e (pl_merchantId p) se st \<and> cap_admits e (pl_merchantId p) se (hs_db st)
            \<and> find_live_customer (hs_db st) (pl_customerId p) \<noteq> None
            \<and> \<not> is_error (parse_ai_tone (se_aiTone se))
        | _ \<Rightarrow> False)"

definition generation_created ::
  "handler_env \<Rightarrow> state_changed_payload \<Rightarrow> handler_state \<Rightarrow> handler_state \<times> (exn + unit) \<Rightarrow> bool" where
  "generation_created e p st res \<longleftrightarrow> (case res of (st', r) \<Rightarrow>
     r = (case he_queueError e of None \<Rightarrow> Inr () | Some err \<Rightarrow> Inl err)
     \<and> (\<exists>a d. generations (hs_db st') = generations (hs_db st) @ [pending_row (he_generationId e) (he_now e) a]
        \<and> cp_merchantId a = pl_merchantId p \<and> cp_customerId a = pl_customerId p
        \<and> cp_triggerState a = pl_newState p
        \<and> messages (hs_db st') = messages (hs_db st) @ [d] \<and> ms_aiGenerationId d = he_generationId e
        \<and> ms_status d = MDraft \<and> ms_generatedText d = [])
     \<and> audits (hs_db st') = audits (hs_db st)
     \<and> hs_queue st' = hs_queue st @ (if he_queueError e \<noteq> None then [] else
          [\<lparr>gj_jobId = he_generationId e, gj_aiGenerationId = he_generationId e,
            gj_merchantId = pl_merchantId p, gj_customerId = pl_customerId p\<rparr>]))"

definition nothing_created :: "handler_state \<Rightarrow> handler_state \<Rightarrow> bool" where
  "nothing_created st st' \<longleftrightarrow> generations (hs_db st') = generations (hs_db st)
     \<and> messages (hs_db st') = messages (hs_db st) \<and> hs_queue st' = hs_queue st
     \<and> (audits (hs_db st') = audits (hs_db st)
        \<or> (\<exists>r. audits (hs_db st') = audits (hs_db st) @ [r] \<and> au_action r \<in> {AuRateLimited, AuSpendCapExceeded}))"

lemma nothing_created_refl [simp]: "nothing_created st st"
  by (simp add: nothing_created_def)

lemma append_denial_spec:
  "au_action row \<in> {AuRateLimited, AuSpendCapExceeded} \<Longrightarrow> nothing_created st (fst (append_denial row sc st))"
  by (auto simp: append_denial_def transaction_def nothing_created_def split: sum.splits dest!: append_audit_D)

lemma generate_spec:
  assumes "he_generationId e \<notin> ms_aiGenerationId ` set (messages (hs_db st))"
  shows "if find_live_customer (hs_db st) (pl_customerId p) \<noteq> None \<and> \<not> is_error (parse_ai_tone (se_aiTone se))
    then generation_created e p st (generate_for_customer e p trigger merchant se config st)
    else nothing_created st (fst (generate_for_customer e p trigger merchant se config st))"
proof (cases "find_live_customer (hs_db st) (pl_customerId p)")
  case (Some c)
  have "find_row (\<lambda>x. ms_aiGenerationId x = he_generationId e) (messages (hs_db st)) = None"
    using assms by (force simp: find_row_None_iff)
  with Some show ?thesis
    by (auto simp: generate_for_customer_def find_recent_purchased_titles_def Let_def is_error_iff
        create_generation_tx_def create_pending_def create_draft_def transaction_def enqueue_generation_def
        generation_created_def pending_args_def split: sum.splits option.splits)
qed (simp add: generate_for_customer_def Let_def)

lemma spend_cap_spec:
  assumes "he_generationId e \<notin> ms_aiGenerationId ` set (messages (hs_db st))"
  shows "if cap_admits e (pl_merchantId p) se (hs_db st)
      \<and> find_live_customer (hs_db st) (pl_customerId p) \<noteq> None \<and> \<not> is_error (parse_ai_tone (se_aiTone se))
    then generation_created e p st (spend_cap_step e eventId p trigger merchant se st)
    else nothing_created st (fst (spend_cap_step e eventId p trigger merchant se st))"
  using generate_spec [OF assms, of p se trigger merchant] append_denial_spec
  by (auto simp: spend_cap_step_def cap_admits_def Let_def denied_audit_def split: sum.splits if_splits)

lemma rate_limit_spec:
  assumes "he_generationId e \<notin> ms_aiGenerationId ` set (messages (hs_db st))"
  shows "if rate_admits e (pl_merchantId p) se st \<and> cap_admits e (pl_merchantId p) se (hs_db st)
      \<and> find_live_customer (hs_db st) (pl_customerId p) \<noteq> None \<and> \<not> is_error (parse_ai_tone (se_aiTone se))
    then generation_created e p st (rate_limit_step e eventId p trigger merchant se st)
    else nothing_created st (fst (rate_limit_step e eventId p trigger merchant se st))"
proof -
  obtain redis r where i: "increment_and_check (pl_merchantId p) (se_hourlyGenerationCap se) (he_now e) (hs_redis st)
      = (redis, r)" by (metis surj_pair)
  let ?st = "st\<lparr>hs_redis := redis\<rparr>"
  have lift: "generation_created e p ?st x = generation_created e p st x" "nothing_created ?st y = nothing_created st y"
    for x y by (simp_all add: generation_created_def nothing_created_def)
  show ?thesis
    using spend_cap_spec [of e ?st p se eventId trigger merchant] assms append_denial_spec [of _ ?st]
    by (auto simp: rate_limit_step_def rate_admits_def i Let_def lift denied_audit_def nothing_created_def
        split: option.splits if_splits)
qed

text \<open>
  C8. When a message is generated: for a change into a lapsed band, a generation with its
  draft and its job is created exactly if the billing is active or on trial, the hour's limit
  and the month's cap admit one more call at its worst-case price, the customer is live and
  the tone of voice is valid. When the queue refuses the job, generation and draft stay and the
  handler throws, so the retried event creates them again. In every other case nothing is created and nothing is queued,
  and the only trace is the audit row of a denied limit or cap.
\<close>

theorem generation_policy:
  assumes "parse_state_changed (ob_payload row) = Inr p"
    and "he_generationId e \<notin> ms_aiGenerationId ` set (messages (hs_db st))"
  shows "if admitted e p st
    then generation_created e p st (handle_customer_state_changed e row st)
    else nothing_created st (fst (handle_customer_state_changed e row st))"
proof -
  have trigger: "(winback_trigger_of (pl_newState p) = None) = (pl_newState p \<notin> {AtRisk, Dormant, Lost})"
    by (cases "pl_newState p") simp_all
  show ?thesis
    using rate_limit_spec [OF assms(2), of p] trigger
    by (auto simp: handle_customer_state_changed_def assms(1) admitted_def split: option.splits if_splits)
qed

text \<open>A customer drifts from warm to at risk, and the queue takes the job.\<close>

definition sample_event :: outbox_row where
  "sample_event = \<lparr>ob_id = ''e'', ob_merchantId = ''m'', ob_type = event_string CustomerStateChanged,
     ob_payload = StateChangedPayload \<lparr>pl_merchantId = ''m'', pl_customerId = ''c'',
       pl_shopifyCustomerId = ''gid://shopify/Customer/1'', pl_oldState = Warm, pl_newState = AtRisk,
       pl_computedAt = 0, pl_rfmScore = \<lparr>rf_rDays = 90, rf_fCount = 2, rf_mCents = 5000,
         rf_rQuintile = None, rf_fQuintile = None, rf_mQuintile = None\<rparr>\<rparr>,
     ob_createdAt = 0, ob_processedAt = None, ob_attempts = 0, ob_lastError = None,
     ob_deadLetteredAt = None, ob_deferredFailedAt = None\<rparr>"

definition sample_handler_env :: "exn option \<Rightarrow> handler_env" where
  "sample_handler_env err = \<lparr>he_aiEnv = sample_ai_env, he_now = 1000, he_generationId = ''g'',
     he_messageId = ''x'', he_queueError = err\<rparr>"

definition sample_handler_state :: handler_state where
  "sample_handler_state = \<lparr>hs_db = empty_db\<lparr>
       merchants := [\<lparr>me_id = ''m'', me_shop = ''s'', me_name = None, me_currency = None, me_timezone = None,
         me_uninstalledAt = None, me_tokenRevokedAt = None, me_scoringInitializedAt = None, me_installedAt = 0,
         me_email = None, me_country = None, me_shopifyPlan = None, me_shopDetailsFetchedAt = None\<rparr>],
       settings := [\<lparr>se_merchantId = ''m'', se_attributionDirectWindowDays = 14,
         se_attributionAssistedWindowDays = 30, se_sendTimeStartHour = 9, se_sendTimeEndHour = 21,
         se_defaultCooldownHours = 72, se_maxDailySendsPerCustomer = 1, se_dailySendCap = 100,
         se_monthlySendsCap = 1000, se_monthlyAiSpendCapCents = 1000, se_hourlyGenerationCap = 10,
         se_winbackDiscountEnabled = False, se_winbackDiscountPercent = 10, se_aiTone = JNull\<rparr>],
       billing := [\<lparr>bi_merchantId = ''m'', bi_status = Trialing\<rparr>],
       customers := [\<lparr>cu_id = ''c'', cu_merchantId = ''m'', cu_shopifyCustomerId = ''gid://shopify/Customer/1'',
         cu_email = None, cu_firstName = None, cu_lastName = None, cu_consent = Subscribed, cu_state = AtRisk,
         cu_shopifyCreatedAt = None, cu_createdAt = 0, cu_deletedAt = None, cu_phone = None,
         cu_acceptsMarketing = True, cu_acceptsSms = False, cu_ordersCount = 1, cu_tags = [],
         cu_shopifyUpdatedAt = None\<rparr>]\<rparr>,
     hs_redis = (False, \<lparr>rs_scriptLoaded = False, rs_keys = Map.empty\<rparr>), hs_queue = []\<rparr>"

definition sample_payload :: state_changed_payload where
  "sample_payload = (case ob_payload sample_event of StateChangedPayload p \<Rightarrow> p)"

lemma sample_admitted: "admitted (sample_handler_env None) sample_payload sample_handler_state"
  by code_simp

lemma generation_policy_witness:
  "generation_created (sample_handler_env None) sample_payload sample_handler_state
    (handle_customer_state_changed (sample_handler_env None) sample_event sample_handler_state)"
proof -
  have "parse_state_changed (ob_payload sample_event) = Inr sample_payload"
    by (simp add: sample_event_def sample_payload_def payload_schema_def rfm_score_schema_def quintile_ok_def)
  from generation_policy [OF this, of "sample_handler_env None" sample_handler_state] sample_admitted
  show ?thesis by (simp add: sample_handler_state_def empty_db_def)
qed

end
