(* ===== verification/AiLedger.thy ===== *)
theory AiLedger
  imports AiWorker StateChanged
begin

text \<open>
  The books of the generation pipeline: whatever interleaving of handlers, jobs, retries and
  failures, the spend of a merchant is the cost of its completed generations, and the draft of
  a generation carries exactly the text that the generation completed with.
\<close>

section \<open>The ledger\<close>

definition completed_by :: "merchant_id \<Rightarrow> generation_row \<Rightarrow> bool" where
  "completed_by m g \<longleftrightarrow> ge_merchantId g = m \<and> ge_status g = GCompleted"

definition charge :: "generation_row \<Rightarrow> int" where
  "charge g = or_default (ge_costMicrocents g) 0"

definition final_text :: "generation_row \<Rightarrow> string" where
  "final_text g = (if ge_status g = GCompleted then or_default (ge_generatedText g) [] else [])"

definition generation_view :: "generation_row \<Rightarrow> string \<times> merchant_id \<times> string \<times> string" where
  "generation_view g = (ge_id g, ge_merchantId g, ge_customerId g, final_text g)"

definition message_view :: "message_row \<Rightarrow> string \<times> merchant_id \<times> string \<times> string" where
  "message_view x = (ms_aiGenerationId x, ms_merchantId x, ms_customerId x, ms_generatedText x)"

definition ledger :: "db \<Rightarrow> bool" where
  "ledger s \<longleftrightarrow> buckets_unique s \<and> distinct (map ge_id (generations s))
     \<and> map message_view (messages s) = map generation_view (generations s)
     \<and> (\<forall>m. spent m s = sum_list (map charge (filter (completed_by m) (generations s))))
     \<and> (\<forall>m. counted m s = int (length (filter (completed_by m) (generations s))))"

section \<open>The steps\<close>

text \<open>
  The transactions of the pipeline, with any arguments: so a job may act on what it read long
  ago. Everything else in the program leaves the generations, the spend and the texts alone.
\<close>

definition untouched :: "db \<Rightarrow> db \<Rightarrow> bool" where
  "untouched s s' \<longleftrightarrow> generations s' = generations s \<and> spend_buckets s' = spend_buckets s
     \<and> map message_view (messages s') = map message_view (messages s)"

inductive ai_step :: "db \<Rightarrow> db \<Rightarrow> bool" where
  create: "create_generation_tx sc gid mid now a s = Inr (s', x) \<Longrightarrow> gid \<notin> ge_id ` set (generations s)
    \<Longrightarrow> ai_step s s'"
| complete: "complete_tx (Tenant m) now m shop a minted s = Inr (s', u) \<Longrightarrow> ai_step s s'"
| fail: "mark_generation_failed sc now gid err s = (s', n) \<Longrightarrow> ai_step s s'"
| other: "untouched s s' \<Longrightarrow> ai_step s s'"

inductive_cases ai_step_cases: "ai_step s s'"

abbreviation ai_run :: "db \<Rightarrow> db \<Rightarrow> bool" where
  "ai_run \<equiv> ai_step\<^sup>*\<^sup>*"

section \<open>Every step keeps the ledger\<close>

lemma map_view_update:
  assumes "map v xs = map w ys" and "\<And>x. P x = p (v x)" and "\<And>y. Q y = p (w y)"
    and "\<And>x. P x \<Longrightarrow> v (f x) = h (v x)" and "\<And>y. Q y \<Longrightarrow> w (g y) = h (w y)"
  shows "map v (update_many P f xs) = map w (update_many Q g ys)"
proof -
  have "map v (update_many P f xs) = map (\<lambda>t. if p t then h t else t) (map v xs)"
    using assms(2,4) by (induction xs) auto
  moreover have "map w (update_many Q g ys) = map (\<lambda>t. if p t then h t else t) (map w ys)"
    using assms(3,5) by (induction ys) auto
  ultimately show ?thesis using assms(1) by simp
qed

text \<open>A compare-and-set that hits changes exactly the row with the id, which is pending.\<close>

lemma cas_generation_hit:
  assumes "cas_generation sc gid f s = (s', n)" and "n \<noteq> 0" and "distinct (map ge_id (generations s))"
  shows "gid \<in> ge_id ` set (generations s)
    \<and> (\<forall>x \<in> set (generations s). ge_id x = gid \<longrightarrow> ge_status x = GPending \<and> in_scope sc (ge_merchantId x))
    \<and> s' = s\<lparr>generations := update_many (\<lambda>x. ge_id x = gid) f (generations s)\<rparr>"
proof -
  from assms(1,2) obtain g where g: "g \<in> set (generations s)" "ge_id g = gid" "ge_status g = GPending"
      "in_scope sc (ge_merchantId g)"
    by (auto simp: cas_generation_def Let_def update_count_pos_iff)
  have one: "x = g" if "x \<in> set (generations s)" "ge_id x = gid" for x
    using assms(3) g(1,2) that by (simp add: distinct_map inj_on_def)
  have pending: "\<forall>x \<in> set (generations s). ge_id x = gid \<longrightarrow> ge_status x = GPending \<and> in_scope sc (ge_merchantId x)"
    using one g by metis
  then have "update_many (\<lambda>x. ge_id x = gid \<and> ge_status x \<in> {GPending} \<and> in_scope sc (ge_merchantId x)) f (generations s)
      = update_many (\<lambda>x. ge_id x = gid) f (generations s)"
    unfolding update_many_def by (intro map_cong) auto
  moreover have "s' = fst (cas_generation sc gid f s)" using assms(1) by simp
  ultimately have "s' = s\<lparr>generations := update_many (\<lambda>x. ge_id x = gid) f (generations s)\<rparr>"
    by (simp only: cas_generation_def Let_def fst_conv)
  moreover have "gid \<in> ge_id ` set (generations s)" using g by auto
  ultimately show ?thesis using pending by simp
qed

lemma cas_generation_miss:
  "cas_generation sc gid f s = (s', 0) \<Longrightarrow> s' = s"
  by (auto simp: cas_generation_def Let_def update_many_none)

lemma length_filter_sum: "int (length (filter P xs)) = sum_list (map (\<lambda>x. if P x then 1 else 0) xs)"
  by (induction xs) auto

text \<open>The two sums of the ledger over all rows.\<close>

definition charged_to :: "merchant_id \<Rightarrow> generation_row \<Rightarrow> int" where
  "charged_to m g = (if completed_by m g then charge g else 0)"

definition counted_to :: "merchant_id \<Rightarrow> generation_row \<Rightarrow> int" where
  "counted_to m g = (if completed_by m g then 1 else 0)"

lemma ledger_iff:
  "ledger s \<longleftrightarrow> buckets_unique s \<and> distinct (map ge_id (generations s))
     \<and> map message_view (messages s) = map generation_view (generations s)
     \<and> (\<forall>m. spent m s = sum_list (map (charged_to m) (generations s)))
     \<and> (\<forall>m. counted m s = sum_list (map (counted_to m) (generations s)))"
  by (simp add: ledger_def length_filter_sum sum_list_map_filter' charged_to_def [abs_def] counted_to_def [abs_def])

lemmas ledger_views = charged_to_def counted_to_def completed_by_def generation_view_def
  message_view_def final_text_def charge_def

lemma ledger_create:
  assumes "ledger s" and "create_generation_tx sc gid mid now a s = Inr (s', x)"
    and "gid \<notin> ge_id ` set (generations s)"
  shows "ledger s'"
  using assms
  by (auto simp: ledger_iff create_generation_tx_def create_pending_def create_draft_def pending_row_def
      buckets_unique_def spent_def counted_def ledger_views split: if_splits)

lemma ledger_untouched:
  assumes "ledger s" and "untouched s s'"
  shows "ledger s'"
  using assms by (simp add: ledger_def untouched_def buckets_unique_def spent_def counted_def)

lemma ledger_fail:
  assumes "ledger s" and "mark_generation_failed sc now gid err s = (s', n)"
  shows "ledger s'"
proof (cases "n = 0")
  case True
  with assms show ?thesis by (auto simp: mark_generation_failed_def dest: cas_generation_miss)
next
  case False
  have d: "distinct (map ge_id (generations s))" using assms(1) by (simp add: ledger_def)
  from cas_generation_hit [OF assms(2) [unfolded mark_generation_failed_def] False d]
  have pending: "ge_status x = GPending" if "x \<in> set (generations s)" "ge_id x = gid" for x using that by blast
  have s': "s' = s\<lparr>generations := update_many (\<lambda>x. ge_id x = gid) (fail_generation now err) (generations s)\<rparr>"
    using cas_generation_hit [OF assms(2) [unfolded mark_generation_failed_def] False d] by blast
  have view: "map generation_view (generations s') = map generation_view (generations s)"
    using pending unfolding s' update_many_def by (auto simp: fail_generation_def ledger_views)
  have sums: "sum_list (map (charged_to m) (generations s')) = sum_list (map (charged_to m) (generations s))"
    "sum_list (map (counted_to m) (generations s')) = sum_list (map (counted_to m) (generations s))" for m
    unfolding s' using pending
    by (auto intro!: sum_update_same simp: fail_generation_def ledger_views)
  from s' have same: "messages s' = messages s" "spend_buckets s' = spend_buckets s"
    "map ge_id (generations s') = map ge_id (generations s)"
    by (auto simp: fail_generation_def map_update_many)
  from assms(1) view sums same show ?thesis
    by (simp add: ledger_iff buckets_unique_def spent_def counted_def)
qed

text \<open>What the completion of a pending generation changes.\<close>

lemma complete_tx_hit:
  assumes "complete_tx (Tenant m) now m shop a minted s = Inr (s', u)" and "ledger s" and "s' \<noteq> s"
  shows "mc_aiGenerationId a \<in> ge_id ` set (generations s)
    \<and> (\<forall>x \<in> set (generations s). ge_id x = mc_aiGenerationId a \<longrightarrow> ge_status x = GPending \<and> ge_merchantId x = m)
    \<and> generations s' = update_many (\<lambda>x. ge_id x = mc_aiGenerationId a) (complete_change now a) (generations s)
    \<and> messages s' = update_many (\<lambda>x. ms_aiGenerationId x = mc_aiGenerationId a \<and> ms_merchantId x = m)
       (\<lambda>x. x\<lparr>ms_generatedText := mc_generatedText a\<rparr>) (messages s)
    \<and> buckets_unique s'
    \<and> (\<forall>m'. spent m' s' = spent m' s + (if m' = m then mc_costMicrocents a else 0)
         \<and> counted m' s' = counted m' s + (if m' = m then 1 else 0))"
proof -
  let ?gid = "mc_aiGenerationId a"
  obtain s1 n where c: "cas_generation (Tenant m) ?gid (complete_change now a) s = (s1, n)" by (metis surj_pair)
  have n: "n \<noteq> 0"
  proof
    assume "n = 0"
    with c have "s1 = s" using cas_generation_miss by blast
    with assms(1,3) c \<open>n = 0\<close> show False by (simp add: complete_tx_def mark_completed_def)
  qed
  have d: "distinct (map ge_id (generations s))" using assms(2) by (simp add: ledger_def)
  note hit = cas_generation_hit [OF c n d]
  have s1: "s1 = s\<lparr>generations := update_many (\<lambda>x. ge_id x = ?gid) (complete_change now a) (generations s)\<rparr>"
    using hit by blast
  let ?s2 = "fst (update_generated_text (Tenant m) ?gid (mc_generatedText a) s1)"
  obtain s3 u' where inc: "increment_spend (Tenant m) m now (mc_costMicrocents a) ?s2 = Inr (s3, u')"
    and s': "generations s' = generations s3" "messages s' = messages s3" "spend_buckets s' = spend_buckets s3"
    using assms(1) c n
    by (auto simp: complete_tx_def mark_completed_def split: option.splits dest!: append_audit_D)
  have s2: "?s2 = s1\<lparr>messages := update_many (\<lambda>x. ms_aiGenerationId x = ?gid \<and> ms_merchantId x = m)
      (\<lambda>x. x\<lparr>ms_generatedText := mc_generatedText a\<rparr>) (messages s)\<rparr>"
    by (simp add: update_generated_text_def Let_def s1)
  have keep: "spend_buckets ?s2 = spend_buckets s" "generations ?s2 = generations s1"
    unfolding s2 unfolding s1 by simp_all
  then have "buckets_unique ?s2" using assms(2) by (simp add: ledger_def buckets_unique_def)
  note D = increment_spend_D [OF inc this]
  then obtain B where B: "s3 = ?s2\<lparr>spend_buckets := B\<rparr>" by blast
  have "generations s' = generations s1" using keep(2) unfolding s'(1) B by simp
  moreover have "messages s' = messages ?s2" unfolding s'(2) B by simp
  moreover have "spent m' s' = spent m' s3" "counted m' s' = counted m' s3" "buckets_unique s' = buckets_unique s3"
    "spent m' ?s2 = spent m' s" "counted m' ?s2 = counted m' s" for m'
    by (simp_all add: spent_def counted_def buckets_unique_def s'(3) keep(1))
  moreover have "messages ?s2 = update_many (\<lambda>x. ms_aiGenerationId x = ?gid \<and> ms_merchantId x = m)
      (\<lambda>x. x\<lparr>ms_generatedText := mc_generatedText a\<rparr>) (messages s)" unfolding s2 by simp
  moreover have "generations s1 = update_many (\<lambda>x. ge_id x = ?gid) (complete_change now a) (generations s)"
    unfolding s1 by simp
  ultimately show ?thesis using D hit by simp
qed

lemma ledger_complete:
  assumes "ledger s" and "complete_tx (Tenant m) now m shop a minted s = Inr (s', u)"
  shows "ledger s'"
proof (cases "s' = s")
  case True
  with assms show ?thesis by simp
next
  case False
  let ?gid = "mc_aiGenerationId a"
  note hit = complete_tx_hit [OF assms(2,1) False]
  from hit obtain g where g: "g \<in> set (generations s)" "ge_id g = ?gid" by auto
  have mine: "ge_status x = GPending \<and> ge_merchantId x = m" if "x \<in> set (generations s)" "ge_id x = ?gid" for x
    using hit that by blast
  have s': "generations s' = update_many (\<lambda>x. ge_id x = ?gid) (complete_change now a) (generations s)"
    "messages s' = update_many (\<lambda>x. ms_aiGenerationId x = ?gid \<and> ms_merchantId x = m)
       (\<lambda>x. x\<lparr>ms_generatedText := mc_generatedText a\<rparr>) (messages s)"
    using hit by blast+
  have d: "distinct (map ge_id (generations s))" using assms(1) by (simp add: ledger_def)
  have gens: "generations s' = update_many (\<lambda>x. ge_id x = ?gid \<and> ge_merchantId x = m)
      (complete_change now a) (generations s)"
    unfolding s'(1) update_many_def using mine by (intro map_cong) auto
  have "map message_view (messages s') = map generation_view (generations s')"
    using assms(1) unfolding gens s'(2)
    by (intro map_view_update [where p = "\<lambda>(i, o1, c, t). i = ?gid \<and> o1 = m"
          and h = "\<lambda>(i, o1, c, t). (i, o1, c, mc_generatedText a)"])
      (auto simp: ledger_iff ledger_views complete_change_def)
  moreover have "sum_list (map (charged_to m') (generations s'))
      = sum_list (map (charged_to m') (generations s)) + (if m' = m then mc_costMicrocents a else 0)" for m'
    unfolding s'(1) using mine
    by (intro sum_update_one [OF d g]) (auto simp: ledger_views complete_change_def)
  moreover have "sum_list (map (counted_to m') (generations s'))
      = sum_list (map (counted_to m') (generations s)) + (if m' = m then 1 else 0)" for m'
    unfolding s'(1) using mine
    by (intro sum_update_one [OF d g]) (auto simp: ledger_views complete_change_def)
  moreover have "distinct (map ge_id (generations s'))"
    using d by (simp add: s'(1) complete_change_def map_update_many)
  ultimately show ?thesis using assms(1) hit by (simp add: ledger_iff)
qed

lemma ai_step_ledger: "ai_step s s' \<Longrightarrow> ledger s \<Longrightarrow> ledger s'"
  by (erule ai_step_cases) (blast intro: ledger_create ledger_complete ledger_fail ledger_untouched)+

lemma ai_run_ledger: "ai_run s s' \<Longrightarrow> ledger s \<Longrightarrow> ledger s'"
  by (induction rule: rtranclp_induct) (auto intro: ai_step_ledger)

text \<open>
  C3. The books of the generation pipeline balance: after any interleaving of handler
  transactions, completions by any jobs, failures and other activity (redactions, which delete
  generations, are not among the steps), what the buckets say a
  merchant has spent is the cost of its completed generations, each counted once, however
  often its job ran; every generation has one draft of the same customer; and that draft
  carries the text its generation completed with, or none.
\<close>

theorem generation_ledger:
  assumes "ai_run s s'" and "ledger s"
  shows "spent m s' = sum_list (map charge (filter (completed_by m) (generations s')))
    \<and> counted m s' = int (length (filter (completed_by m) (generations s')))
    \<and> map message_view (messages s') = map generation_view (generations s')"
  using ai_run_ledger [OF assms] by (simp add: ledger_def)

text \<open>A generation created and completed.\<close>

definition sample_pending :: create_pending_args where
  "sample_pending = \<lparr>cp_merchantId = ''m'', cp_customerId = ''c'', cp_triggerState = Lost,
     cp_previousState = Dormant, cp_rDays = 400, cp_fCount = 1, cp_mCents = 100, cp_currency = ''USD'',
     cp_churnRiskScore = None, cp_provider = ''openai'', cp_modelId = ''gpt-4.1'', cp_systemPrompt = ''s'',
     cp_userPrompt = ''u'', cp_discountValuePercent = None\<rparr>"

definition sample_created :: db where
  "sample_created = empty_db\<lparr>generations := [pending_row ''g'' 0 sample_pending],
     messages := [\<lparr>ms_id = ''x'', ms_merchantId = ''m'', ms_customerId = ''c'', ms_aiGenerationId = ''g'',
       ms_generatedText = [], ms_status = MDraft, ms_sentAt = None, ms_provider = None,
       ms_providerMessageId = None\<rparr>]\<rparr>"

definition sample_completion :: mark_completed_args where
  "sample_completion = \<lparr>mc_aiGenerationId = ''g'', mc_generatedText = ''hi'', mc_inputTokens = 10,
     mc_outputTokens = 5, mc_totalTokens = 15, mc_latencyMs = 100, mc_costMicrocents = 7,
     mc_discountCode = None, mc_shopifyDiscountId = None\<rparr>"

definition sample_completed :: db where
  "sample_completed = sample_created\<lparr>
     generations := [complete_change 200 sample_completion (pending_row ''g'' 0 sample_pending)],
     messages := map (\<lambda>x. x\<lparr>ms_generatedText := ''hi''\<rparr>) (messages sample_created),
     spend_buckets := [\<lparr>sp_merchantId = ''m'', sp_date = 0, sp_spentMicrocents = 7, sp_generationCount = 1\<rparr>]\<rparr>"

lemma sample_create:
  "create_generation_tx (Tenant ''m'') ''g'' ''x'' 0 sample_pending empty_db = Inr (sample_created, ''g'')"
  by (simp add: create_generation_tx_def create_pending_def create_draft_def sample_created_def
      sample_pending_def empty_db_def)

lemma sample_complete:
  "complete_tx (Tenant ''m'') 200 ''m'' ''s'' sample_completion None sample_created = Inr (sample_completed, ())"
  by (simp add: complete_tx_def mark_completed_def cas_generation_def update_generated_text_def
      increment_spend_def spend_upsert_def utc_midnight_def sample_created_def sample_completed_def
      sample_completion_def pending_row_def sample_pending_def empty_db_def Let_def)

lemma sample_run: "ai_run empty_db sample_completed"
  using ai_step.create [OF sample_create] ai_step.complete [OF sample_complete]
  by (simp add: empty_db_def)

lemma empty_ledger: "ledger empty_db"
  by (simp add: ledger_def empty_db_def buckets_unique_def spent_def counted_def)

lemma generation_ledger_witness:
  "spent ''m'' sample_completed = 7 \<and> counted ''m'' sample_completed = 1
    \<and> map message_view (messages sample_completed) = [(''g'', ''m'', ''c'', ''hi'')]"
proof -
  have "generations sample_completed = [complete_change 200 sample_completion (pending_row ''g'' 0 sample_pending)]"
    by (simp add: sample_completed_def)
  with generation_ledger [OF sample_run empty_ledger, of "''m''"] show ?thesis
    by (simp add: completed_by_def charge_def complete_change_def pending_row_def sample_pending_def
        sample_completion_def generation_view_def final_text_def)
qed

section \<open>Jobs are runs of these steps\<close>

lemma untouched_refl [simp]: "untouched s s"
  and untouched_trans: "untouched s s1 \<Longrightarrow> untouched s1 s2 \<Longrightarrow> untouched s s2"
  by (simp_all add: untouched_def)

lemma untouched_audit: "append_audit sc row s = Inr (s', u) \<Longrightarrow> untouched s s'"
  by (auto simp: untouched_def dest!: append_audit_D)

lemma untouched_revoke: "untouched s (fst (transaction (mark_token_revoked eid now m) s))"
  by (auto simp: untouched_def transaction_def mark_token_revoked_def create_outbox_def)

lemma graphql_loop_untouched: "untouched (ad_db st) (ad_db (fst (graphql_loop e m shop token q cost attempt st)))"
proof (induction e m shop token q cost attempt st rule: graphql_loop.induct)
  case (1 e m shop token q cost attempt st)
  obtain st1 response where s: "send_request e shop token q cost st = (st1, response)" by (metis surj_pair)
  obtain st2 v where j: "judge e shop attempt response st1 = (st2, v)" by (metis surj_pair)
  have db: "ad_db st2 = ad_db st" using send_request_db [OF s] judge_errors [OF j] by simp
  show ?case
  proof (cases "\<exists>ms err. v = RetryAfter ms err \<and> attempt < ae_maxRetries e")
    case True
    then obtain ms err where v: "v = RetryAfter ms err" and more: "\<not> attempt \<ge> ae_maxRetries e" by auto
    from 1 [OF s [symmetric] j [symmetric] v more] db show ?thesis
      using more by (subst graphql_loop.simps) (simp add: s j v sleep_def)
  next
    case False
    with db untouched_revoke [of "ad_db st" "ae_eventId e" "ad_now st2" m] show ?thesis
      by (subst graphql_loop.simps)
        (auto simp: s j split: verdict.splits prod.splits sum.splits)
  qed
qed

lemma graphql_untouched: "graphql e m q c st = (st', r) \<Longrightarrow> untouched (ad_db st) (ad_db st')"
  using graphql_loop_untouched [of st e m _ _ q "or_default c DEFAULT_ESTIMATED_COST" 0]
  by (auto simp: graphql_def split: option.splits prod.splits) (metis fst_conv)

lemma create_discount_untouched:
  "create_winback_discount_code e a st = (st', r) \<Longrightarrow> untouched (ad_db st) (ad_db st')"
  by (auto simp: create_winback_discount_code_def lookup_discount_id_by_code_def Let_def
      dest!: graphql_untouched intro: untouched_trans split: prod.splits sum.splits if_splits option.splits)

lemma mint_untouched: "mint_discount e p g v st = (st', r) \<Longrightarrow> untouched (ad_db st) (ad_db st')"
  by (auto simp: mint_discount_def build_admin_client_def Let_def
      dest!: create_discount_untouched split: prod.splits sum.splits)

lemma run_complete: "ai_run (ad_db st) (ad_db (fst (run_tx (complete_tx (Tenant m) now m shop a d) st)))"
  by (auto simp: run_tx_def transaction_def intro: ai_step.complete split: sum.splits)

lemma run_fail: "ai_run s (fst (mark_generation_failed sc now gid err s))"
  by (rule r_into_rtranclp) (rule ai_step.fail [OF prod.collapse [symmetric]])

lemma run_finish: "ai_run (ad_db st) (ad_db (fst (finish_generation e job config row shop cu result st)))"
proof (cases "estimate_cost_microcents (AI_PROVIDER config) (AI_MODEL config)
    (gr_inputTokens result) (gr_outputTokens result)")
  case (Inr cost)
  let ?p = "aj_data job"
  show ?thesis
  proof (cases "ge_discountValuePercent row")
    case (Some percent)
    obtain st1 r where m: "mint_discount e ?p (cu_shopifyCustomerId cu) percent st = (st1, r)" by (metis surj_pair)
    from mint_untouched [OF m] have "ai_run (ad_db st) (ad_db st1)" by (blast intro: ai_step.other)
    with run_complete [of st1 "ap_merchantId ?p"] Inr Some m run_fail show ?thesis
      by (auto simp: finish_generation_def Let_def intro: rtranclp_trans split: sum.splits)
  qed (use Inr run_complete in \<open>simp add: finish_generation_def Let_def\<close>)
qed (simp add: finish_generation_def Let_def)

lemma fail_tx_run: "fail_tx sc now gid err audit s = Inr (s', u) \<Longrightarrow> ai_run s s'"
  unfolding fail_tx_def
  using run_fail [of s sc now gid err] by (blast intro: rtranclp.rtrancl_into_rtrancl ai_step.other untouched_audit)

lemma run_provider_error: "ai_run s (fst (handle_provider_error sc now job shop err s))"
  by (auto simp: handle_provider_error_def transaction_def intro: fail_tx_run split: exn.splits sum.splits)

text \<open>Every job is a run of the steps, whatever the model, the shop and the environment do.\<close>

lemma job_run: "ai_run (ad_db st) (ad_db (fst (process_ai_generate_job e job st)))"
proof (cases "pickup (ap_aiGenerationId (aj_data job)) (ad_db st)")
  case (Some x)
  obtain row mr cu where x: "x = (row, mr, cu)" by (cases x)
  have "ai_run (ad_db st) (ad_db (fst (finish_generation e job config row shop cu result (sleep ms st))))"
    for config shop result ms
    using run_finish [of "sleep ms st"] by (simp add: sleep_def)
  then show ?thesis
    using Some x run_provider_error run_fail
    by (auto simp: process_ai_generate_job_def Let_def split: sum.splits prod.splits) (metis fst_conv)
qed (simp add: process_ai_generate_job_def Let_def)

section \<open>A job settles its generation or leaves it for the retry\<close>

definition generation_status_of :: "string \<Rightarrow> db \<Rightarrow> generation_status option" where
  "generation_status_of gid s = map_option ge_status (find_row (\<lambda>g. ge_id g = gid) (generations s))"

definition own_pending :: "merchant_id \<Rightarrow> string \<Rightarrow> db \<Rightarrow> bool" where
  "own_pending m gid s \<longleftrightarrow> (case find_row (\<lambda>g. ge_id g = gid) (generations s) of
     None \<Rightarrow> False | Some g \<Rightarrow> ge_merchantId g = m \<and> ge_status g = GPending)"

lemma own_pending_untouched: "untouched s s' \<Longrightarrow> own_pending m gid s' = own_pending m gid s"
  by (simp add: own_pending_def untouched_def)

lemma cas_own_pending:
  assumes "own_pending m gid s" and "cas_generation (Tenant m) gid f s = (s', n)"
    and "\<And>g. ge_id (f g) = ge_id g" and "\<And>g. ge_status (f g) = st"
  shows "n \<noteq> 0 \<and> generation_status_of gid s' = Some st"
proof -
  let ?guard = "\<lambda>g. ge_id g = gid \<and> ge_status g \<in> {GPending} \<and> in_scope (Tenant m) (ge_merchantId g)"
  obtain g where g: "find_row (\<lambda>g. ge_id g = gid) (generations s) = Some g" "ge_merchantId g = m"
      "ge_status g = GPending"
    using assms(1) by (auto simp: own_pending_def split: option.splits)
  note in_table = find_row_Some_D [OF g(1)]
  have s': "s' = s\<lparr>generations := update_many ?guard f (generations s)\<rparr>" "n = update_count ?guard (generations s)"
    using assms(2) by (simp_all add: cas_generation_def Let_def prod_eq_iff)
  have "0 < n" unfolding s'(2) update_count_pos_iff using in_table g by auto
  moreover have "find_row (\<lambda>g. ge_id g = gid) (generations s') = Some (f g)"
    using find_update_many_key [of "\<lambda>g. ge_id g = gid" f ?guard "generations s"] g in_table assms(3)
    by (simp add: s'(1))
  ultimately show ?thesis by (simp add: generation_status_of_def assms(4))
qed

lemma failed_settles:
  "own_pending m gid s \<Longrightarrow>
    generation_status_of gid (fst (mark_generation_failed (Tenant m) now gid err s)) = Some GFailed"
  using cas_own_pending [of m gid s "fail_generation now err" _ _ GFailed]
  by (cases "mark_generation_failed (Tenant m) now gid err s")
    (auto simp: mark_generation_failed_def fail_generation_def)

lemma increment_own: "\<exists>s'. increment_spend (Tenant m) m now d s = Inr (s', ()) \<and> generations s' = generations s"
  by (simp add: increment_spend_def spend_upsert_def Let_def)

lemma complete_settles:
  assumes "own_pending m (mc_aiGenerationId a) s"
  shows "\<exists>s'. complete_tx (Tenant m) now m shop a minted s = Inr (s', ())
    \<and> generation_status_of (mc_aiGenerationId a) s' = Some GCompleted"
proof -
  let ?gid = "mc_aiGenerationId a"
  obtain s1 n where c: "cas_generation (Tenant m) ?gid (complete_change now a) s = (s1, n)" by (metis surj_pair)
  have hit: "n \<noteq> 0 \<and> generation_status_of ?gid s1 = Some GCompleted"
    by (rule cas_own_pending [OF assms c]) (simp_all add: complete_change_def)
  let ?s2 = "fst (update_generated_text (Tenant m) ?gid (mc_generatedText a) s1)"
  obtain s3 where s3: "increment_spend (Tenant m) m now (mc_costMicrocents a) ?s2 = Inr (s3, ())"
    and "generations s3 = generations ?s2" using increment_own by blast
  then have "generation_status_of ?gid s3 = Some GCompleted"
    using hit by (simp add: generation_status_of_def update_generated_text_def Let_def)
  with c hit s3 show ?thesis
    by (auto simp: complete_tx_def mark_completed_def append_audit_def discount_created_audit_def
        generation_status_of_def split: option.splits)
qed

definition settled :: "string \<Rightarrow> db \<Rightarrow> 'w admin_state \<times> (exn + unit) \<Rightarrow> bool" where
  "settled gid s res = (case res of
     (st', Inr _) \<Rightarrow> generation_status_of gid (ad_db st') = Some GCompleted
       \<or> generation_status_of gid (ad_db st') = Some GFailed
   | (st', Inl err) \<Rightarrow> untouched s (ad_db st'))"

lemma run_tx_settles:
  assumes "own_pending m (mc_aiGenerationId a) s" and "untouched s (ad_db st)"
  shows "settled (mc_aiGenerationId a) s (run_tx (complete_tx (Tenant m) now m shop a minted) st)"
  using complete_settles [of m a "ad_db st" now shop minted] assms own_pending_untouched [OF assms(2)]
  by (auto simp: run_tx_def settled_def)

lemma finish_settles:
  assumes "own_pending (ap_merchantId (aj_data job)) (ap_aiGenerationId (aj_data job)) (ad_db st)"
  shows "settled (ap_aiGenerationId (aj_data job)) (ad_db st) (finish_generation e job config row shop cu result st)"
proof (cases "estimate_cost_microcents (AI_PROVIDER config) (AI_MODEL config)
    (gr_inputTokens result) (gr_outputTokens result)")
  case (Inl err)
  then show ?thesis by (simp add: finish_generation_def settled_def Let_def)
next
  case (Inr cost)
  have complete: "settled (ap_aiGenerationId (aj_data job)) (ad_db st)
      (run_tx (complete_tx (Tenant (ap_merchantId (aj_data job))) now (ap_merchantId (aj_data job)) shop
        (completed_args (ap_aiGenerationId (aj_data job)) result content cost d) d) st1)"
    if "untouched (ad_db st) (ad_db st1)" for now content d st1
    using run_tx_settles [of _ "completed_args (ap_aiGenerationId (aj_data job)) result content cost d"] assms that
    by (simp add: completed_args_def)
  show ?thesis
  proof (cases "ge_discountValuePercent row")
    case (Some percent)
    obtain st1 r where m: "mint_discount e (aj_data job) (cu_shopifyCustomerId cu) percent st = (st1, r)"
      by (metis surj_pair)
    note un = mint_untouched [OF m]
    show ?thesis
    proof (cases "cu_deletedAt cu")
      case None
      with Inr Some m un complete [OF un] show ?thesis
        by (cases r) (simp_all add: finish_generation_def Let_def settled_def)
    qed (use Inr Some failed_settles [OF assms] in \<open>simp add: finish_generation_def Let_def settled_def\<close>)
  qed (use Inr complete [OF untouched_refl] in \<open>simp add: finish_generation_def Let_def\<close>)
qed

lemma provider_error_settles:
  assumes "own_pending (ap_merchantId (aj_data job)) (ap_aiGenerationId (aj_data job)) s"
  shows "handle_provider_error (Tenant (ap_merchantId (aj_data job))) now job shop err s = (s', Inr u) \<Longrightarrow>
      generation_status_of (ap_aiGenerationId (aj_data job)) s' = Some GFailed"
    and "handle_provider_error (Tenant (ap_merchantId (aj_data job))) now job shop err s = (s', Inl e) \<Longrightarrow> s' = s"
  using failed_settles [OF assms]
  by (auto simp: handle_provider_error_def transaction_def fail_tx_def append_audit_def
      provider_error_audit_def generation_status_of_def split: exn.splits if_splits)

text \<open>
  C23. A job settles its generation or leaves it for the retry: a job that returns has
  completed or failed the pending generation it was given, and a job that throws has changed
  neither generation, message nor spend, so that its retry starts from the same state. There
  is no outcome in between, whatever the model, the shop and the configuration answer.
\<close>

theorem job_settles:
  assumes "own_pending (ap_merchantId (aj_data job)) (ap_aiGenerationId (aj_data job)) (ad_db st)"
    and "pickup (ap_aiGenerationId (aj_data job)) (ad_db st) \<noteq> None"
  shows "case process_ai_generate_job e job st of
     (st', Inr _) \<Rightarrow> generation_status_of (ap_aiGenerationId (aj_data job)) (ad_db st') = Some GCompleted
       \<or> generation_status_of (ap_aiGenerationId (aj_data job)) (ad_db st') = Some GFailed
   | (st', Inl err) \<Rightarrow> untouched (ad_db st) (ad_db st')"
proof -
  let ?gid = "ap_aiGenerationId (aj_data job)"
  let ?sc = "Tenant (ap_merchantId (aj_data job))"
  obtain row mr cu where p: "pickup ?gid (ad_db st) = Some (row, mr, cu)" using assms(2) by auto
  then have "find_row (\<lambda>g. ge_id g = ?gid) (generations (ad_db st)) = Some row"
    by (auto simp: pickup_def bind_eq_Some_conv)
  with assms(1) have pending: "ge_status row = GPending" by (simp add: own_pending_def)
  have "settled ?gid (ad_db st) (finish_generation e job config row shop cu result (sleep ms st))"
    for config shop result ms
    using finish_settles [of job "sleep ms st"] assms(1) by (simp add: sleep_def)
  then have "settled ?gid (ad_db st) (process_ai_generate_job e job st)"
    using failed_settles [OF assms(1)] p pending
    by (auto simp: process_ai_generate_job_def Let_def settled_def
        dest: provider_error_settles [OF assms(1)] split: sum.splits prod.splits)
  then show ?thesis by (simp add: settled_def)
qed

definition sample_job :: ai_job where
  "sample_job = \<lparr>aj_id = Some ''g'', aj_attemptsMade = 0,
     aj_data = \<lparr>ap_aiGenerationId = ''g'', ap_merchantId = ''m'', ap_customerId = ''c''\<rparr>\<rparr>"

definition sample_customer :: customer_row where
  "sample_customer = \<lparr>cu_id = ''c'', cu_merchantId = ''m'', cu_shopifyCustomerId = ''gid'', cu_email = None,
     cu_firstName = None, cu_lastName = None, cu_consent = Subscribed, cu_state = Lost,
     cu_shopifyCreatedAt = None, cu_createdAt = 0, cu_deletedAt = None, cu_phone = None,
     cu_acceptsMarketing = True, cu_acceptsSms = False, cu_ordersCount = 1, cu_tags = [],
     cu_shopifyUpdatedAt = None\<rparr>"

definition before_job :: "sample_world admin_state" where
  "before_job = \<lparr>ad_db = sample_created\<lparr>merchants := merchants sample_shop, customers := [sample_customer]\<rparr>,
     ad_now = 1000, ad_tracker = Map.empty, ad_world = [], ad_requests = []\<rparr>"

text \<open>A model that is overloaded: the job throws, and nothing has changed.\<close>

definition busy_model :: sdk_thrown where
  "busy_model = dropped_connection\<lparr>th_isConnectionError := False, th_status := Some 503\<rparr>"

definition sample_worker_env :: "sdk_thrown \<Rightarrow> sample_world worker_env" where
  "sample_worker_env thrown = \<lparr>we_aiEnv = sample_ai_env,
     we_clients = \<lparr>cl_openai = (\<lambda>_. (Inl thrown, 5)), cl_anthropic = (\<lambda>_. (Inl thrown, 5)),
       cl_deepseek = (\<lambda>_. (Inl thrown, 5))\<rparr>,
     we_hmac = sample_hmac, we_apiSecret = ''k'', we_admin = sample_discount_env\<rparr>"

lemma before_job_ok: "own_pending ''m'' ''g'' (ad_db before_job)" "pickup ''g'' (ad_db before_job) \<noteq> None"
  by (simp_all add: own_pending_def pickup_def before_job_def sample_created_def sample_shop_def
      pending_row_def sample_pending_def sample_customer_def find_row_Cons find_merchant_def)

lemma job_settles_witness:
  "case process_ai_generate_job (sample_worker_env busy_model) sample_job before_job of
     (st', Inr _) \<Rightarrow> generation_status_of ''g'' (ad_db st') = Some GCompleted
       \<or> generation_status_of ''g'' (ad_db st') = Some GFailed
   | (st', Inl err) \<Rightarrow> untouched (ad_db before_job) (ad_db st')"
  using job_settles [of sample_job before_job "sample_worker_env busy_model"] before_job_ok
  by (simp add: sample_job_def)

end
