(* ===== verification/Upserts.thy ===== *)
theory Upserts
  imports Prelude
begin

text \<open>
  Prisma's \<open>upsert\<close> on a unique key, as the webhook and backfill paths use it: the row of the
  key is updated where it stands, or a new row, which is the update of a blank one, is
  inserted. The two contracts below say what an update may do; every client reads its facts
  about redelivered and reordered items off them.
\<close>

definition upsert_row :: "('r \<Rightarrow> bool) \<Rightarrow> ('r \<Rightarrow> 'r) \<Rightarrow> 'r \<Rightarrow> 'r list \<Rightarrow> 'r list" where
  "upsert_row mine change blank rows =
     (if find_row mine rows = None then rows @ [change blank] else update_many mine change rows)"

lemma find_row_key: "distinct (map f xs) \<Longrightarrow> x \<in> set xs \<Longrightarrow> find_row (\<lambda>y. f y = f x) xs = Some x"
  by (induction xs) (auto simp: find_row_Cons)

lemma filter_key: "distinct (map f xs) \<Longrightarrow> x \<in> set xs \<Longrightarrow> filter (\<lambda>y. f y = f x) xs = [x]"
  by (induction xs) (auto simp: filter_empty_conv image_iff)

text \<open>Items have keys; an update writes the item into a row and keeps the row's key.\<close>

locale keyed_upsert =
  fixes row_key :: "'r \<Rightarrow> 'k" and item_key :: "'i \<Rightarrow> 'k" and fill :: "'i \<Rightarrow> 'r \<Rightarrow> 'r" and blank :: "'i \<Rightarrow> 'r"
  assumes key_fill: "row_key (fill i r) = row_key r"
    and key_blank: "row_key (blank i) = item_key i"
    and fill_again: "fill i (fill i r) = fill i r"
begin

abbreviation put :: "'i \<Rightarrow> 'r list \<Rightarrow> 'r list" where
  "put i rows \<equiv> upsert_row (\<lambda>r. row_key r = item_key i) (fill i) (blank i) rows"

lemma put_found: "\<exists>r \<in> set rows. row_key r = item_key i \<Longrightarrow>
    put i rows = update_many (\<lambda>r. row_key r = item_key i) (fill i) rows"
  by (auto simp: upsert_row_def find_row_None_iff)

lemma put_new: "\<forall>r \<in> set rows. row_key r \<noteq> item_key i \<Longrightarrow> put i rows = rows @ [fill i (blank i)]"
  by (auto simp: upsert_row_def find_row_None_iff)

lemma key_after: "row_key (if P then fill i r else r) = row_key r"
  by (simp add: key_fill)

lemma put_keys: "set (map row_key (put i rows)) = insert (item_key i) (set (map row_key rows))"
proof (cases "\<exists>r \<in> set rows. row_key r = item_key i")
  case True
  have "map row_key (update_many (\<lambda>r. row_key r = item_key i) (fill i) rows) = map row_key rows"
    by (rule map_update_many) (simp add: key_fill)
  moreover have "item_key i \<in> set (map row_key rows)" using True by force
  ultimately show ?thesis using put_found [OF True] by (simp add: insert_absorb)
next
  case False
  then show ?thesis by (simp add: put_new key_fill key_blank)
qed

lemma put_distinct: "distinct (map row_key rows) \<Longrightarrow> distinct (map row_key (put i rows))"
  by (cases "\<exists>r \<in> set rows. row_key r = item_key i")
    (auto simp: put_found put_new key_fill key_blank update_many_def o_def key_after)

text \<open>The rows of the other keys stay; the key's row is the item's, over what it was.\<close>

lemma put_other: "k \<noteq> item_key i \<Longrightarrow>
    filter (\<lambda>r. row_key r = k) (put i rows) = filter (\<lambda>r. row_key r = k) rows"
proof (cases "\<exists>r \<in> set rows. row_key r = item_key i")
  case True
  assume "k \<noteq> item_key i"
  then have "filter (\<lambda>r. row_key r = k) (update_many (\<lambda>r. row_key r = item_key i) (fill i) rows)
      = filter (\<lambda>r. row_key r = k) rows"
    by (induction rows) (auto simp: key_fill)
  with True show ?thesis by (simp add: put_found)
qed (auto simp: put_new key_fill key_blank)

lemma put_filled: "r \<in> set (put i rows) \<Longrightarrow> row_key r = item_key i \<Longrightarrow> fill i r = r"
  by (cases "\<exists>r \<in> set rows. row_key r = item_key i")
    (auto simp: put_found put_new set_update_many key_fill key_blank fill_again split: if_splits)

lemma find_put: "find_row (\<lambda>r. row_key r = item_key i) (put i rows)
    = Some (fill i (case find_row (\<lambda>r. row_key r = item_key i) rows of None \<Rightarrow> blank i | Some r \<Rightarrow> r))"
proof (cases "find_row (\<lambda>r. row_key r = item_key i) rows")
  case None
  then show ?thesis by (simp add: upsert_row_def find_row_append find_row_Cons key_fill key_blank)
next
  case (Some r)
  have "find_row (\<lambda>r. row_key r = item_key i) (update_many (\<lambda>r. row_key r = item_key i) (fill i) rows)
      = Some (fill i r)"
    using Some find_row_Some_D [OF Some]
    by (subst find_update_many_key) (simp_all add: key_fill)
  with Some show ?thesis by (simp add: upsert_row_def)
qed

text \<open>Delivering an item again changes nothing.\<close>

lemma put_settled:
  assumes "\<exists>r \<in> set rows. row_key r = item_key i" and "\<forall>r \<in> set rows. row_key r = item_key i \<longrightarrow> fill i r = r"
  shows "put i rows = rows"
  using assms(2) unfolding put_found [OF assms(1)] update_many_def by (intro map_idI) auto

lemma put_again: "put i (put i rows) = put i rows"
proof (rule put_settled)
  have "item_key i \<in> row_key ` set (put i rows)" using put_keys [of i rows] by simp
  then show "\<exists>r \<in> set (put i rows). row_key r = item_key i" by force
qed (use put_filled in blast)

end

text \<open>An update that overwrites every column an earlier one wrote: the last delivery decides.\<close>

locale overwriting_upsert = keyed_upsert row_key item_key fill blank
  for row_key :: "'r \<Rightarrow> 'k" and item_key :: "'i \<Rightarrow> 'k" and fill :: "'i \<Rightarrow> 'r \<Rightarrow> 'r" and blank :: "'i \<Rightarrow> 'r" +
  assumes fill_fill: "fill i (fill j r) = fill i r"
begin

abbreviation put_all :: "'i list \<Rightarrow> 'r list \<Rightarrow> 'r list" where
  "put_all is rows \<equiv> fold put is rows"

text \<open>
  Items written one after the other are settled: every key is there, and every row holds the
  last item of its key. Then writing them all again changes nothing, whatever keys they share.
\<close>

definition settled :: "'i list \<Rightarrow> 'r list \<Rightarrow> bool" where
  "settled is rows \<longleftrightarrow> item_key ` set is \<subseteq> row_key ` set rows
     \<and> (\<forall>r \<in> set rows. \<forall>i. find_row (\<lambda>i. item_key i = row_key r) (rev is) = Some i \<longrightarrow> fill i r = r)"

lemma put_all_settled: "settled is (put_all is rows)"
proof (induction "is" rule: rev_induct)
  case (snoc i "is")
  let ?rows = "put_all is rows"
  have "item_key ` set (is @ [i]) \<subseteq> row_key ` set (put i ?rows)"
    using snoc put_keys [of i ?rows] by (auto simp: settled_def)
  moreover have "fill j r = r" if r: "r \<in> set (put i ?rows)"
    and j: "find_row (\<lambda>i. item_key i = row_key r) (rev (is @ [i])) = Some j" for r j
  proof (cases "item_key i = row_key r")
    case True
    with j have "j = i" by (simp add: find_row_Cons)
    with put_filled [OF r True [symmetric]] show ?thesis by simp
  next
    case False
    then have "filter (\<lambda>q. row_key q = row_key r) (put i ?rows) = filter (\<lambda>q. row_key q = row_key r) ?rows"
      by (intro put_other) simp
    from arg_cong [OF this, of set] r have "r \<in> set ?rows" by auto
    moreover have "find_row (\<lambda>i. item_key i = row_key r) (rev is) = Some j"
      using False j by (simp add: find_row_Cons)
    ultimately show ?thesis using snoc unfolding settled_def by blast
  qed
  ultimately show ?case by (simp add: settled_def)
qed (simp add: settled_def)

definition overwrite :: "'i list \<Rightarrow> 'r \<Rightarrow> 'r" where
  "overwrite is r = fold (\<lambda>i r. if row_key r = item_key i then fill i r else r) is r"

lemma overwrite_last:
  "overwrite is r = (case find_row (\<lambda>i. item_key i = row_key r) (rev is) of None \<Rightarrow> r | Some i \<Rightarrow> fill i r)"
proof (induction "is" rule: rev_induct)
  case (snoc i "is")
  have "row_key (overwrite is r) = row_key r"
    by (auto simp: snoc key_fill split: option.splits)
  with snoc show ?case
    by (auto simp: overwrite_def find_row_Cons fill_fill split: option.splits)
qed (simp add: overwrite_def)

lemma put_all_found:
  "item_key ` set is \<subseteq> row_key ` set rows \<Longrightarrow> put_all is rows = map (overwrite is) rows"
proof (induction "is" rule: rev_induct)
  case (snoc i "is")
  have keys: "row_key (overwrite js r) = row_key r" for js r
    by (auto simp: overwrite_last key_fill split: option.splits)
  from snoc.prems have "item_key i \<in> row_key ` set rows" by auto
  then have "\<exists>r \<in> set (map (overwrite is) rows). row_key r = item_key i"
    by (force simp: keys)
  note found = put_found [OF this]
  have "overwrite (is @ [i]) = (\<lambda>r. if row_key r = item_key i then fill i r else r) \<circ> overwrite is"
    by (simp add: overwrite_def fun_eq_iff)
  with found snoc show ?case by (simp add: update_many_def)
next
  case Nil
  show ?case by (simp add: overwrite_def [abs_def])
qed

lemma put_all_again: "put_all is (put_all is rows) = put_all is rows"
proof -
  have "put_all is (put_all is rows) = map (overwrite is) (put_all is rows)"
    using put_all_settled [of "is" rows] by (intro put_all_found) (simp add: settled_def)
  also have "\<dots> = put_all is rows"
    using put_all_settled [of "is" rows]
    by (intro map_idI) (auto simp: settled_def overwrite_last split: option.splits)
  finally show ?thesis .
qed

text \<open>Items of different keys, over rows of different keys: each has its own row afterwards.\<close>

lemma put_all_distinct: "distinct (map row_key rows) \<Longrightarrow> distinct (map row_key (put_all is rows))"
  by (induction "is" arbitrary: rows) (simp_all add: put_distinct)

lemma put_all_other: "k \<notin> item_key ` set is \<Longrightarrow>
    filter (\<lambda>r. row_key r = k) (put_all is rows) = filter (\<lambda>r. row_key r = k) rows"
  by (induction "is" arbitrary: rows) (simp_all add: put_other)

lemma put_all_exact:
  assumes "distinct (map row_key rows)" and "distinct (map item_key is)" and "i \<in> set is"
  shows "\<exists>r. filter (\<lambda>r. row_key r = item_key i) (put_all is rows) = [r] \<and> fill i r = r"
proof -
  note s = put_all_settled [of "is" rows, unfolded settled_def]
  from s assms(3) have "item_key i \<in> row_key ` set (put_all is rows)" by blast
  then obtain r where r: "r \<in> set (put_all is rows)" "row_key r = item_key i" by force
  have "find_row (\<lambda>i. item_key i = row_key r) (rev is) = Some i"
    using find_row_key [of item_key "rev is" i] assms(2,3) r(2) by (simp add: rev_map [symmetric])
  with s r(1) have "fill i r = r" by blast
  moreover have "filter (\<lambda>q. row_key q = row_key r) (put_all is rows) = [r]"
    by (rule filter_key) (use put_all_distinct [OF assms(1)] r(1) in simp_all)
  ultimately show ?thesis using r(2) by auto
qed

text \<open>Two deliveries of one key end as the second alone.\<close>

lemma put_put:
  assumes "item_key i = item_key j" and "blank i = blank j"
  shows "put i (put j rows) = put i rows"
proof -
  have "\<exists>r \<in> set (put j rows). row_key r = item_key i"
  proof -
    have "item_key i \<in> row_key ` set (put j rows)" using put_keys [of j rows] assms(1) by simp
    then show ?thesis by force
  qed
  note found = put_found [OF this]
  show ?thesis
  proof (cases "\<exists>r \<in> set rows. row_key r = item_key j")
    case True
    with put_found [of rows i] put_found [of rows j] found assms show ?thesis
      by (simp add: update_many_def fill_fill key_fill)
  next
    case False
    with put_new [of rows i] put_new [of rows j] found assms show ?thesis
      by (simp add: update_many_def fill_fill key_fill key_blank map_idI)
  qed
qed

end

end
