(* ===== verification/CustomerRepo.thy ===== *)
theory CustomerRepo
  imports Store Upserts
begin

text \<open>
  Customers as Shopify's webhooks report them: the identifiers of Shopify
  (\<open>packages/db/src/gid.ts\<close>) and \<open>CustomerRepository\<close> (\<open>customer.repository.ts\<close>). A webhook
  body is what its schema lets through.
\<close>

section \<open>Identifiers\<close>

text \<open>The string of a numeric id is \<open>String(id)\<close>; the pattern is \<open>/^\d+$/\<close>.\<close>

definition numeric :: "string \<Rightarrow> bool" where
  "numeric s \<longleftrightarrow> s \<noteq> [] \<and> list_all digit s"

definition gid_wrap :: "string \<Rightarrow> string \<Rightarrow> string option" where
  "gid_wrap resource s =
     (if numeric s then Some (''gid://shopify/'' @ resource @ ''/'' @ s) else None)"

definition to_shopify_customer_gid :: "string \<Rightarrow> string option" where
  "to_shopify_customer_gid = gid_wrap ''Customer''"

definition to_shopify_order_gid :: "string \<Rightarrow> string option" where
  "to_shopify_order_gid = gid_wrap ''Order''"

definition to_shopify_product_gid :: "string \<Rightarrow> string option" where
  "to_shopify_product_gid = gid_wrap ''Product''"

definition to_shopify_variant_gid :: "string \<Rightarrow> string option" where
  "to_shopify_variant_gid = gid_wrap ''ProductVariant''"

definition to_shopify_line_item_gid :: "string \<Rightarrow> string option" where
  "to_shopify_line_item_gid = gid_wrap ''LineItem''"

lemma gid_wrap_inject: "gid_wrap r a = Some g \<Longrightarrow> gid_wrap r b = Some g \<Longrightarrow> a = b"
  by (auto simp: gid_wrap_def split: if_splits)

section \<open>Consent\<close>

definition to_email_marketing_consent_state :: "string option \<Rightarrow> consent_state" where
  "to_email_marketing_consent_state st =
     (let k = map lower_char (or_default st []) in
      if k = ''subscribed'' then Subscribed
      else if k = ''pending'' then ConsentPending
      else if k = ''unsubscribed'' then Unsubscribed
      else NotSubscribed)"

definition split_tags :: "string option \<Rightarrow> string list" where
  "split_tags tags = (case tags of None \<Rightarrow> []
     | Some t \<Rightarrow> filter (\<lambda>x. x \<noteq> []) (map trim (split_on '','' t)))"

section \<open>The repository\<close>

text \<open>A consent object is present with its state, or absent.\<close>

record customer_body =
  cb_id :: string
  cb_email :: "string option"
  cb_phone :: "string option"
  cb_first_name :: "string option"
  cb_last_name :: "string option"
  cb_created_at :: string
  cb_updated_at :: string
  cb_orders_count :: "int option"
  cb_tags :: "string option"
  cb_email_consent :: "string option option"
  cb_sms_consent :: "string option option"

record upsert_customer_result =
  uc_customerId :: string
  uc_isNewCustomer :: bool

definition find_by_email :: "tenant_scope \<Rightarrow> merchant_id \<Rightarrow> string \<Rightarrow> db \<Rightarrow> exn + customer_row option" where
  "find_by_email sc m email s =
     rbind (assert_scope_matches_merchant (Some sc) m) (\<lambda>_.
       Inr (find_row (\<lambda>c. cu_merchantId c = m \<and> cu_deletedAt c = None
         \<and> map_option (map lower_char) (cu_email c) = Some (map lower_char email)) (customers s)))"

text \<open>\<open>findUnique\<close> by \<open>(merchantId, shopifyCustomerId)\<close>: live rows only.\<close>

definition find_by_shopify_id :: "merchant_id \<Rightarrow> string \<Rightarrow> db \<Rightarrow> customer_row option" where
  "find_by_shopify_id m gid s =
     find_row (\<lambda>c. cu_merchantId c = m \<and> cu_shopifyCustomerId c = gid \<and> cu_deletedAt c = None) (customers s)"

text \<open>
  The parameter \<open>date_of\<close> is \<open>new Date(text)\<close>, \<open>None\<close> for an invalid date, which Prisma refuses
  to store.
\<close>

definition invalid_date :: exn where
  "invalid_date = PlainErr ''PrismaClientValidationError''"

definition need_date :: "(string \<Rightarrow> time option) \<Rightarrow> string \<Rightarrow> exn + time" where
  "need_date date_of t = (case date_of t of None \<Rightarrow> Inl invalid_date | Some x \<Rightarrow> Inr x)"

text \<open>The columns that create and update share; an absent consent leaves the column alone.\<close>

definition shared_fields :: "customer_body \<Rightarrow> time \<Rightarrow> time \<Rightarrow> customer_row \<Rightarrow> customer_row" where
  "shared_fields b created updated c = c\<lparr>cu_email := cb_email b, cu_phone := cb_phone b,
     cu_firstName := cb_first_name b, cu_lastName := cb_last_name b,
     cu_acceptsMarketing := (if cb_email_consent b = Some (Some ''subscribed'') then True else cu_acceptsMarketing c),
     cu_acceptsSms := (if cb_sms_consent b = Some (Some ''subscribed'') then True else cu_acceptsSms c),
     cu_consent := (case cb_email_consent b of None \<Rightarrow> cu_consent c | Some st \<Rightarrow> to_email_marketing_consent_state st),
     cu_ordersCount := (case cb_orders_count b of None \<Rightarrow> cu_ordersCount c | Some n \<Rightarrow> n),
     cu_tags := split_tags (cb_tags b),
     cu_shopifyCreatedAt := Some created, cu_shopifyUpdatedAt := Some updated\<rparr>"

text \<open>The defaults of the schema for a new row.\<close>

definition fresh_customer :: "string \<Rightarrow> merchant_id \<Rightarrow> string \<Rightarrow> time \<Rightarrow> customer_row" where
  "fresh_customer cid m gid now = \<lparr>cu_id = cid, cu_merchantId = m, cu_shopifyCustomerId = gid,
     cu_email = None, cu_firstName = None, cu_lastName = None, cu_consent = NotSubscribed,
     cu_state = InsufficientData, cu_shopifyCreatedAt = None, cu_createdAt = now, cu_deletedAt = None,
     cu_phone = None, cu_acceptsMarketing = False, cu_acceptsSms = False, cu_ordersCount = 0,
     cu_tags = [], cu_shopifyUpdatedAt = None\<rparr>"

definition invalid_customer_id :: "string \<Rightarrow> exn" where
  "invalid_customer_id i = AppErr (validation_error ''Customer webhook body.id is not a valid numeric id''
     (Some ''customer.invalid_id'') (Some [(''received'', i)]))"

text \<open>
  The upsert reaches the row of the key whether it is deleted or not, while \<open>isNewCustomer\<close>
  comes from the filtered read.
\<close>

definition upsert_from_webhook ::
  "(string \<Rightarrow> time option) \<Rightarrow> tenant_scope \<Rightarrow> string \<Rightarrow> time \<Rightarrow> merchant_id \<Rightarrow> customer_body \<Rightarrow> upsert_customer_result tx" where
  "upsert_from_webhook date_of sc newId now m b s =
     rbind (assert_scope_matches_merchant (Some sc) m) (\<lambda>_.
       case to_shopify_customer_gid (cb_id b) of
         None \<Rightarrow> Inl (invalid_customer_id (cb_id b))
       | Some gid \<Rightarrow>
           rbind (need_date date_of (cb_created_at b)) (\<lambda>created.
           rbind (need_date date_of (cb_updated_at b)) (\<lambda>updated.
             let mine = (\<lambda>c. (cu_merchantId c, cu_shopifyCustomerId c) = (m, gid))
             in Inr (s\<lparr>customers := upsert_row mine (shared_fields b created updated)
                       (fresh_customer newId m gid now) (customers s)\<rparr>,
                   \<lparr>uc_customerId = (case find_row mine (customers s) of None \<Rightarrow> newId | Some c \<Rightarrow> cu_id c),
                    uc_isNewCustomer = (find_by_shopify_id m gid s = None)\<rparr>))))"

definition soft_delete :: "tenant_scope \<Rightarrow> time \<Rightarrow> merchant_id \<Rightarrow> string \<Rightarrow> bool tx" where
  "soft_delete sc now m gid s =
     rbind (assert_scope_matches_merchant (Some sc) m) (\<lambda>_.
       let mine = (\<lambda>c. cu_merchantId c = m \<and> cu_shopifyCustomerId c = gid \<and> cu_deletedAt c = None) in
       Inr (s\<lparr>customers := update_many mine (\<lambda>c. c\<lparr>cu_deletedAt := Some now\<rparr>) (customers s)\<rparr>,
            update_count mine (customers s) > 0))"

section \<open>Facts\<close>

text \<open>Marketing acceptance is only ever switched on, whatever later webhooks say.\<close>

lemma accepts_marketing_sticks: "cu_acceptsMarketing c \<Longrightarrow> cu_acceptsMarketing (shared_fields b cr up c)"
  by (simp add: shared_fields_def)

text \<open>The column that gates sending, in contrast, follows the webhook and fails closed.\<close>

lemma consent_follows_webhook:
  "cb_email_consent b = Some st \<Longrightarrow>
    (cu_consent (shared_fields b cr up c) = Subscribed \<longleftrightarrow> map lower_char (or_default st []) = ''subscribed'')"
  by (simp add: shared_fields_def to_email_marketing_consent_state_def Let_def)

lemma shared_fields_keep [simp]:
  "cu_id (shared_fields b cr up c) = cu_id c" "cu_merchantId (shared_fields b cr up c) = cu_merchantId c"
  "cu_shopifyCustomerId (shared_fields b cr up c) = cu_shopifyCustomerId c"
  "cu_deletedAt (shared_fields b cr up c) = cu_deletedAt c" "cu_state (shared_fields b cr up c) = cu_state c"
  by (simp_all add: shared_fields_def)

text \<open>
  The webhook's update keeps keys and is idempotent, but does not overwrite every column: an
  absent consent or count leaves what there was, so only the weaker contract holds.
\<close>

interpretation webhook_upsert: keyed_upsert "\<lambda>c. (cu_merchantId c, cu_shopifyCustomerId c)" "\<lambda>_. (m, gid)"
    "\<lambda>(b, created, updated). shared_fields b created updated" "\<lambda>_. fresh_customer newId m gid now" for m gid newId now
  by unfold_locales (auto simp: fresh_customer_def shared_fields_def split: prod.splits option.splits)

end
