(* ===== verification/Gdpr.thy ===== *)
theory Gdpr
  imports CustomerRepo "HOL-Library.While_Combinator"
begin

text \<open>
  The compliance processors (\<open>packages/db/src/compliance/gdpr-processor.ts\<close>) and the handlers
  that call them (\<open>apps/drainer/src/handlers/gdpr.ts\<close>): the log of a data request, the
  redaction of a customer and the redaction of a shop, which deletes a merchant's tables in
  batches. Deletes cascade as the foreign keys of the schema say. An absent target of an audit
  row is the empty string.
\<close>

section \<open>Payloads\<close>

record gdpr_payload =
  gp_shop_domain :: string
  gp_shop_id :: "string option"
  gp_customer_id :: "string option"
  gp_orders :: "string list"
  gp_data_request_id :: "string option"

text \<open>\<open>z.union([z.number(), z.string()]).optional()\<close>, rendered by \<open>String\<close>.\<close>

fun parse_numeric_or_string :: "json \<Rightarrow> string option option" where
  "parse_numeric_or_string JUndef = Some None"
| "parse_numeric_or_string (JNum n) = Some (Some (int_string n))"
| "parse_numeric_or_string (JStr s) = Some (Some s)"
| "parse_numeric_or_string _ = None"

fun parse_ids_aux :: "json list \<Rightarrow> string list option" where
  "parse_ids_aux [] = Some []"
| "parse_ids_aux (j # js) =
     (case parse_numeric_or_string j of
        Some (Some i) \<Rightarrow> map_option ((#) i) (parse_ids_aux js) | _ \<Rightarrow> None)"

fun parse_ids :: "json \<Rightarrow> string list option" where
  "parse_ids JUndef = Some []"
| "parse_ids (JArr js) = parse_ids_aux js"
| "parse_ids _ = None"

fun nullish_string :: "json \<Rightarrow> bool" where
  "nullish_string JUndef = True"
| "nullish_string JNull = True"
| "nullish_string (JStr _) = True"
| "nullish_string _ = False"

text \<open>The optional node \<open>customer\<close>: its id, after its other fields are checked.\<close>

fun parse_customer_node :: "json \<Rightarrow> string option option" where
  "parse_customer_node JUndef = Some None"
| "parse_customer_node (JObj kvs) =
     (if nullish_string (jget kvs ''email'') \<and> nullish_string (jget kvs ''phone'')
      then parse_numeric_or_string (jget kvs ''id'') else None)"
| "parse_customer_node _ = None"

fun parse_data_request :: "json \<Rightarrow> string option option" where
  "parse_data_request JUndef = Some None"
| "parse_data_request (JObj kvs) = parse_numeric_or_string (jget kvs ''id'')"
| "parse_data_request _ = None"

fun parse_domain :: "json \<Rightarrow> string option" where
  "parse_domain (JStr s) = (if s \<noteq> [] then Some s else None)"
| "parse_domain _ = None"

definition gdpr_payload_of ::
  "json \<Rightarrow> json \<Rightarrow> json \<Rightarrow> json \<Rightarrow> json \<Rightarrow> exn + gdpr_payload" where
  "gdpr_payload_of shopId domain customer orderIds request =
     (case (parse_numeric_or_string shopId, parse_domain domain, parse_customer_node customer,
            parse_ids orderIds, parse_data_request request) of
        (Some sid, Some d, Some cid, Some os, Some rid) \<Rightarrow>
          Inr \<lparr>gp_shop_domain = d, gp_shop_id = sid, gp_customer_id = cid, gp_orders = os,
               gp_data_request_id = rid\<rparr>
      | _ \<Rightarrow> Inl zod_error)"

fun json_fields :: "outbox_payload \<Rightarrow> (string \<times> json) list option" where
  "json_fields (JsonPayload (JObj kvs)) = Some kvs"
| "json_fields _ = None"

definition customer_data_request_payload :: "outbox_payload \<Rightarrow> exn + gdpr_payload" where
  "customer_data_request_payload p = (case json_fields p of None \<Rightarrow> Inl zod_error | Some kvs \<Rightarrow>
     gdpr_payload_of (jget kvs ''shop_id'') (jget kvs ''shop_domain'') (jget kvs ''customer'')
       (jget kvs ''orders_requested'') (jget kvs ''data_request''))"

definition customer_redact_payload :: "outbox_payload \<Rightarrow> exn + gdpr_payload" where
  "customer_redact_payload p = (case json_fields p of None \<Rightarrow> Inl zod_error | Some kvs \<Rightarrow>
     gdpr_payload_of (jget kvs ''shop_id'') (jget kvs ''shop_domain'') (jget kvs ''customer'')
       (jget kvs ''orders_to_redact'') JUndef)"

definition shop_redact_payload :: "outbox_payload \<Rightarrow> exn + gdpr_payload" where
  "shop_redact_payload p = (case json_fields p of None \<Rightarrow> Inl zod_error | Some kvs \<Rightarrow>
     gdpr_payload_of (jget kvs ''shop_id'') (jget kvs ''shop_domain'') JUndef JUndef JUndef)"

section \<open>Deletes with their cascades\<close>

definition remove_messages :: "(message_row \<Rightarrow> bool) \<Rightarrow> db \<Rightarrow> db" where
  "remove_messages P s =
     (let ids = ms_id ` set (filter P (messages s)) in
      s\<lparr>messages := filter (\<lambda>x. \<not> P x) (messages s),
        targets := filter (\<lambda>t. tg_messageId t \<notin> ids) (targets s),
        message_events := filter (\<lambda>v. mv_messageId v \<notin> ids) (message_events s)\<rparr>)"

definition remove_generations :: "(generation_row \<Rightarrow> bool) \<Rightarrow> db \<Rightarrow> db" where
  "remove_generations P s =
     (let ids = ge_id ` set (filter P (generations s)) in
      remove_messages (\<lambda>x. ms_aiGenerationId x \<in> ids)
        (s\<lparr>generations := filter (\<lambda>g. \<not> P g) (generations s)\<rparr>))"

definition remove_orders :: "(order_row \<Rightarrow> bool) \<Rightarrow> db \<Rightarrow> db" where
  "remove_orders P s =
     (let ids = or_id ` set (filter P (orders s)) in
      s\<lparr>orders := filter (\<lambda>o1. \<not> P o1) (orders s),
        line_items := filter (\<lambda>l. li_orderId l \<notin> ids) (line_items s)\<rparr>)"

definition remove_variants :: "(variant_row \<Rightarrow> bool) \<Rightarrow> db \<Rightarrow> db" where
  "remove_variants P s =
     (let ids = va_id ` set (filter P (variants s)) in
      s\<lparr>variants := filter (\<lambda>v. \<not> P v) (variants s),
        line_items := map (\<lambda>l. if li_productVariantId l \<in> Some ` ids then l\<lparr>li_productVariantId := None\<rparr> else l)
          (line_items s)\<rparr>)"

definition remove_products :: "(product_row \<Rightarrow> bool) \<Rightarrow> db \<Rightarrow> db" where
  "remove_products P s =
     (let ids = pr_id ` set (filter P (products s)) in
      remove_variants (\<lambda>v. va_productId v \<in> ids)
        (s\<lparr>products := filter (\<lambda>p. \<not> P p) (products s),
           line_items := map (\<lambda>l. if li_productId l \<in> Some ` ids then l\<lparr>li_productId := None\<rparr> else l)
             (line_items s)\<rparr>))"

definition remove_campaigns :: "(campaign_row \<Rightarrow> bool) \<Rightarrow> db \<Rightarrow> db" where
  "remove_campaigns P s =
     (let ids = ca_id ` set (filter P (campaigns s)) in
      s\<lparr>campaigns := filter (\<lambda>c. \<not> P c) (campaigns s),
        targets := filter (\<lambda>t. tg_campaignId t \<notin> ids) (targets s)\<rparr>)"

definition remove_customers :: "(customer_row \<Rightarrow> bool) \<Rightarrow> db \<Rightarrow> db" where
  "remove_customers P s =
     (let ids = cu_id ` set (filter P (customers s)) in
      remove_generations (\<lambda>g. ge_customerId g \<in> ids)
        (remove_messages (\<lambda>x. ms_customerId x \<in> ids)
          (s\<lparr>customers := filter (\<lambda>c. \<not> P c) (customers s),
             scores := filter (\<lambda>r. sc_customerId r \<notin> ids) (scores s),
             suppressions := filter (\<lambda>r. su_customerId r \<notin> ids) (suppressions s),
             targets := filter (\<lambda>t. tg_customerId t \<notin> ids) (targets s),
             orders := map (\<lambda>o1. if or_customerId o1 \<in> Some ` ids then o1\<lparr>or_customerId := None\<rparr> else o1)
               (orders s)\<rparr>)))"

text \<open>Deleting a merchant: every tenant table cascades, the audit log keeps its rows.\<close>

definition remove_merchant :: "merchant_id \<Rightarrow> db \<Rightarrow> db" where
  "remove_merchant m s = s\<lparr>
     merchants := filter (\<lambda>r. me_id r \<noteq> m) (merchants s),
     settings := filter (\<lambda>r. se_merchantId r \<noteq> m) (settings s),
     billing := filter (\<lambda>r. bi_merchantId r \<noteq> m) (billing s),
     customers := filter (\<lambda>r. cu_merchantId r \<noteq> m) (customers s),
     scores := filter (\<lambda>r. sc_merchantId r \<noteq> m) (scores s),
     orders := filter (\<lambda>r. or_merchantId r \<noteq> m) (orders s),
     outbox := filter (\<lambda>r. ob_merchantId r \<noteq> m) (outbox s),
     audits := map (\<lambda>r. if au_merchantId r = Some m then r\<lparr>au_merchantId := None\<rparr> else r) (audits s),
     generations := filter (\<lambda>r. ge_merchantId r \<noteq> m) (generations s),
     messages := filter (\<lambda>r. ms_merchantId r \<noteq> m) (messages s),
     campaigns := filter (\<lambda>r. ca_merchantId r \<noteq> m) (campaigns s),
     targets := filter (\<lambda>r. tg_merchantId r \<noteq> m) (targets s),
     suppressions := filter (\<lambda>r. su_merchantId r \<noteq> m) (suppressions s),
     quota_buckets := filter (\<lambda>r. qu_merchantId r \<noteq> m) (quota_buckets s),
     spend_buckets := filter (\<lambda>r. sp_merchantId r \<noteq> m) (spend_buckets s),
     line_items := filter (\<lambda>r. li_merchantId r \<noteq> m) (line_items s),
     products := filter (\<lambda>r. pr_merchantId r \<noteq> m) (products s),
     variants := filter (\<lambda>r. va_merchantId r \<noteq> m) (variants s),
     message_events := filter (\<lambda>r. mv_merchantId r \<noteq> m) (message_events s),
     idempotency_keys := filter (\<lambda>r. ik_merchantId r \<noteq> m) (idempotency_keys s),
     backfill_jobs := filter (\<lambda>r. bf_merchantId r \<noteq> m) (backfill_jobs s)\<rparr>"

section \<open>Data requests\<close>

definition gdpr_audit ::
  "merchant_id option \<Rightarrow> string \<Rightarrow> audit_action \<Rightarrow> string \<Rightarrow> string \<Rightarrow> (string \<times> audit_value) list \<Rightarrow> audit_row" where
  "gdpr_audit m shop action targetType targetId ctx =
     \<lparr>au_merchantId = m, au_shop = Some shop, au_actorType = ActorSystem, au_actorId = ''gdpr.processor'',
      au_action = action, au_targetType = targetType, au_targetId = targetId, au_context = ctx\<rparr>"

definition opt_str :: "string option \<Rightarrow> audit_value" where
  "opt_str x = (case x of None \<Rightarrow> ANull | Some s \<Rightarrow> AStr s)"

definition process_customer_data_request ::
  "merchant_id \<Rightarrow> string \<Rightarrow> gdpr_payload \<Rightarrow> db \<Rightarrow> db \<times> (exn + unit)" where
  "process_customer_data_request m shop p s =
     transaction (append_audit (Tenant m) (gdpr_audit (Some m) shop AuGdprDataRequest ''customer''
       (or_default (gp_customer_id p) [])
       [(''dataRequestId'', opt_str (gp_data_request_id p)), (''shopDomain'', AStr (gp_shop_domain p)),
        (''ordersRequested'', AStrs (gp_orders p))])) s"

section \<open>Customer redaction\<close>

definition REDACTED_GID_SENTINEL_PREFIX :: string where
  "REDACTED_GID_SENTINEL_PREFIX = ''redacted:''"

datatype child_table = CtCampaignTarget | CtMessage | CtAiGeneration | CtCustomerScore | CtSuppression

definition CUSTOMER_REDACT_CHILD_TABLES :: "child_table list" where
  "CUSTOMER_REDACT_CHILD_TABLES = [CtCampaignTarget, CtMessage, CtAiGeneration, CtCustomerScore, CtSuppression]"

text \<open>\<open>deleteMany({ where: { merchantId, customerId } })\<close> on a child table.\<close>

fun delete_child :: "merchant_id \<Rightarrow> string \<Rightarrow> child_table \<Rightarrow> db \<Rightarrow> db" where
  "delete_child m cid CtCampaignTarget s =
     s\<lparr>targets := filter (\<lambda>t. \<not> (tg_merchantId t = m \<and> tg_customerId t = cid)) (targets s)\<rparr>"
| "delete_child m cid CtMessage s = remove_messages (\<lambda>x. ms_merchantId x = m \<and> ms_customerId x = cid) s"
| "delete_child m cid CtAiGeneration s = remove_generations (\<lambda>g. ge_merchantId g = m \<and> ge_customerId g = cid) s"
| "delete_child m cid CtCustomerScore s =
     s\<lparr>scores := filter (\<lambda>r. \<not> (sc_merchantId r = m \<and> sc_customerId r = cid)) (scores s)\<rparr>"
| "delete_child m cid CtSuppression s =
     s\<lparr>suppressions := filter (\<lambda>r. \<not> (su_merchantId r = m \<and> su_customerId r = cid)) (suppressions s)\<rparr>"

definition erase_pii :: "time \<Rightarrow> customer_row \<Rightarrow> customer_row" where
  "erase_pii now c = c\<lparr>cu_email := None, cu_phone := None, cu_firstName := None, cu_lastName := None,
     cu_shopifyCustomerId := REDACTED_GID_SENTINEL_PREFIX @ cu_id c,
     cu_deletedAt := (if cu_deletedAt c = None then Some now else cu_deletedAt c)\<rparr>"

definition redact_audit :: "merchant_id \<Rightarrow> string \<Rightarrow> gdpr_payload \<Rightarrow> string \<Rightarrow> string \<Rightarrow> audit_row" where
  "redact_audit m shop p gid cid = gdpr_audit (Some m) shop AuGdprCustomerRedact ''customer'' cid
     [(''shopifyCustomerGid'', AStr gid), (''shopDomain'', AStr (gp_shop_domain p)),
      (''ordersToRedact'', AStrs (gp_orders p))]"

definition no_record_audit :: "merchant_id \<Rightarrow> string \<Rightarrow> gdpr_payload \<Rightarrow> string \<Rightarrow> string \<Rightarrow> audit_row" where
  "no_record_audit m shop p gid numericId = gdpr_audit (Some m) shop AuGdprRedactNoLocalRecord ''customer'' numericId
     [(''shopifyCustomerGid'', AStr gid), (''shopDomain'', AStr (gp_shop_domain p))]"

definition redact_rows :: "time \<Rightarrow> merchant_id \<Rightarrow> string \<Rightarrow> db \<Rightarrow> db" where
  "redact_rows now m cid s =
     fold (delete_child m cid) CUSTOMER_REDACT_CHILD_TABLES
       (s\<lparr>customers := update_many (\<lambda>c. cu_id c = cid \<and> cu_merchantId c = m) (erase_pii now) (customers s),
          orders := update_many (\<lambda>o1. or_merchantId o1 = m \<and> or_customerId o1 = Some cid)
            (\<lambda>o1. o1\<lparr>or_customerId := None\<rparr>) (orders s)\<rparr>)"

definition redact_tx :: "time \<Rightarrow> merchant_id \<Rightarrow> string \<Rightarrow> gdpr_payload \<Rightarrow> string \<Rightarrow> string \<Rightarrow> unit tx" where
  "redact_tx now m shop p numericId gid s =
     (case find_by_shopify_id m gid s of
        None \<Rightarrow> append_audit (Tenant m) (no_record_audit m shop p gid numericId) s
      | Some c \<Rightarrow> append_audit (Tenant m) (redact_audit m shop p gid (cu_id c)) (redact_rows now m (cu_id c) s))"

definition process_customer_redact ::
  "time \<Rightarrow> merchant_id \<Rightarrow> string \<Rightarrow> gdpr_payload \<Rightarrow> db \<Rightarrow> db \<times> (exn + unit)" where
  "process_customer_redact now m shop p s =
     (case Option.bind (gp_customer_id p) (\<lambda>n. map_option (Pair n) (to_shopify_customer_gid n)) of
        None \<Rightarrow> transaction (append_audit (Tenant m) (gdpr_audit (Some m) shop AuGdprRedactMalformed ''customer''
                 (or_default (gp_customer_id p) []) [(''shopDomain'', AStr (gp_shop_domain p))])) s
      | Some (numericId, gid) \<Rightarrow> transaction (redact_tx now m shop p numericId gid) s)"

section \<open>Batched deletes\<close>

text \<open>
  \<open>chunkedDeleteTenant\<close>: rounds of finding at most a batch of rows and deleting them, until a
  round deletes fewer than a batch. \<open>seen\<close> is what the filtered \<open>findMany\<close> returns; a batch
  size of 0 never ends.
\<close>

definition chunk_round :: "nat \<Rightarrow> (db \<Rightarrow> 'k list) \<Rightarrow> ('k list \<Rightarrow> db \<Rightarrow> db) \<Rightarrow> db \<Rightarrow> db \<times> nat" where
  "chunk_round batchSize seen del s =
     (let rows = take batchSize (seen s) in if rows = [] then (s, 0) else (del rows s, length rows))"

definition chunked_delete :: "nat \<Rightarrow> (db \<Rightarrow> 'k list) \<Rightarrow> ('k list \<Rightarrow> db \<Rightarrow> db) \<Rightarrow> db \<Rightarrow> db option" where
  "chunked_delete batchSize seen del s =
     map_option fst (while_option snd
       (\<lambda>(s, more). case chunk_round batchSize seen del s of (s', deleted) \<Rightarrow> (s', deleted = batchSize)) (s, True))"

text \<open>
  The contract of a table: deleting keys removes exactly them from what is seen, and keeps
  what has to be kept. Then the rounds end, and nothing is seen any more.
\<close>

locale batched_table =
  fixes seen :: "db \<Rightarrow> 'k list" and del :: "'k list \<Rightarrow> db \<Rightarrow> db" and keep :: "db \<Rightarrow> db \<Rightarrow> bool"
  assumes seen_del: "seen (del ks s) = filter (\<lambda>k. k \<notin> set ks) (seen s)"
    and keep_refl: "keep s s"
    and keep_del: "keep s s1 \<Longrightarrow> keep s (del ks s1)"
begin

lemma round_shrinks:
  assumes "0 < batchSize" and "chunk_round batchSize seen del s = (s', deleted)" and "deleted = batchSize"
  shows "length (seen s') < length (seen s)"
proof -
  let ?ks = "take batchSize (seen s)"
  have ne: "?ks \<noteq> []" and s': "s' = del ?ks s"
    using assms by (auto simp: chunk_round_def Let_def split: if_splits)
  then obtain k where k: "k \<in> set ?ks" "k \<in> set (seen s)" by (metis in_set_takeD last_in_set)
  show ?thesis unfolding s' seen_del using k(2) k(1) by (intro length_filter_less) auto
qed

lemma round_last:
  assumes "chunk_round batchSize seen del s = (s', deleted)" and "deleted \<noteq> batchSize"
  shows "seen s' = []"
proof (cases "take batchSize (seen s) = []")
  case True
  with assms show ?thesis by (auto simp: chunk_round_def Let_def)
next
  case False
  with assms have "take batchSize (seen s) = seen s" "s' = del (take batchSize (seen s)) s"
    by (auto simp: chunk_round_def Let_def min_def split: if_splits)
  then show ?thesis by (simp add: seen_del)
qed

lemma round_keeps: "chunk_round batchSize seen del s1 = (s', d) \<Longrightarrow> keep s s1 \<Longrightarrow> keep s s'"
  by (auto simp: chunk_round_def Let_def keep_del split: if_splits)

lemma chunked_delete_empties:
  assumes "0 < batchSize"
  shows "\<exists>s'. chunked_delete batchSize seen del s = Some s' \<and> seen s' = [] \<and> keep s s'"
proof -
  let ?c = "\<lambda>(s, more). case chunk_round batchSize seen del s of (s', deleted) \<Rightarrow> (s', deleted = batchSize)"
  let ?P = "\<lambda>(x, more). keep s x \<and> (\<not> more \<longrightarrow> seen x = [])"
  have "\<exists>t. while_option snd ?c (s, True) = Some t"
    by (rule measure_while_option_Some [where P = "\<lambda>_. True" and f = "\<lambda>(x, more). if more then Suc (length (seen x)) else 0"])
      (auto split: prod.splits dest: round_shrinks [OF assms])
  then obtain t where t: "while_option snd ?c (s, True) = Some t" by blast
  have "?P t"
    by (rule while_option_rule [where P = ?P, OF _ t])
      (auto simp: keep_refl split: prod.splits dest: round_keeps round_last)
  moreover have "\<not> snd t" using while_option_stop [OF t] by simp
  ultimately show ?thesis using t by (auto simp: chunked_delete_def split: prod.splits)
qed

end

datatype shop_redact_table =
    SrOrderLineItem | SrOrder | SrCampaignTarget | SrMessageEvent | SrMessage | SrAiGeneration
  | SrCustomerScore | SrSuppression | SrProductVariant | SrProduct | SrCustomer | SrCampaign
  | SrOutboxEvent | SrIdempotencyKey | SrBackfillJob | SrAiSpendBucket | SrMessageQuotaBucket
  | SrMerchantSettings | SrBillingSubscription

definition SHOP_REDACT_TABLES_IN_ORDER :: "shop_redact_table list" where
  "SHOP_REDACT_TABLES_IN_ORDER = [SrOrderLineItem, SrOrder, SrCampaignTarget, SrMessageEvent, SrMessage,
     SrAiGeneration, SrCustomerScore, SrSuppression, SrProductVariant, SrProduct, SrCustomer, SrCampaign,
     SrOutboxEvent, SrIdempotencyKey, SrBackfillJob, SrAiSpendBucket, SrMessageQuotaBucket,
     SrMerchantSettings, SrBillingSubscription]"

definition DEFAULT_SHOP_REDACT_BATCH_SIZE :: nat where "DEFAULT_SHOP_REDACT_BATCH_SIZE = 1000"

text \<open>
  What names a row: its id, or the unique columns that the model has for it. \<open>findMany\<close> on
  customers sees live rows only.
\<close>

datatype row_key = KeyId string | KeyDate time | KeyResource backfill_resource

fun seen_rows :: "merchant_id \<Rightarrow> shop_redact_table \<Rightarrow> db \<Rightarrow> row_key list" where
  "seen_rows m SrOrderLineItem s = map (KeyId \<circ> li_shopifyLineItemId) (filter (\<lambda>r. li_merchantId r = m) (line_items s))"
| "seen_rows m SrOrder s = map (KeyId \<circ> or_id) (filter (\<lambda>r. or_merchantId r = m) (orders s))"
| "seen_rows m SrCampaignTarget s = map (KeyId \<circ> tg_messageId) (filter (\<lambda>r. tg_merchantId r = m) (targets s))"
| "seen_rows m SrMessageEvent s = map (KeyId \<circ> mv_id) (filter (\<lambda>r. mv_merchantId r = m) (message_events s))"
| "seen_rows m SrMessage s = map (KeyId \<circ> ms_id) (filter (\<lambda>r. ms_merchantId r = m) (messages s))"
| "seen_rows m SrAiGeneration s = map (KeyId \<circ> ge_id) (filter (\<lambda>r. ge_merchantId r = m) (generations s))"
| "seen_rows m SrCustomerScore s = map (KeyId \<circ> sc_customerId) (filter (\<lambda>r. sc_merchantId r = m) (scores s))"
| "seen_rows m SrSuppression s = map (KeyId \<circ> su_customerId) (filter (\<lambda>r. su_merchantId r = m) (suppressions s))"
| "seen_rows m SrProductVariant s = map (KeyId \<circ> va_id)
     (filter (\<lambda>r. va_merchantId r = m \<and> va_deletedAt r = None) (variants s))"
| "seen_rows m SrProduct s = map (KeyId \<circ> pr_id)
     (filter (\<lambda>r. pr_merchantId r = m \<and> pr_deletedAt r = None) (products s))"
| "seen_rows m SrCustomer s = map (KeyId \<circ> cu_id)
     (filter (\<lambda>r. cu_merchantId r = m \<and> cu_deletedAt r = None) (customers s))"
| "seen_rows m SrCampaign s = map (KeyId \<circ> ca_id) (filter (\<lambda>r. ca_merchantId r = m) (campaigns s))"
| "seen_rows m SrOutboxEvent s = map (KeyId \<circ> ob_id) (filter (\<lambda>r. ob_merchantId r = m) (outbox s))"
| "seen_rows m SrIdempotencyKey s = map (KeyId \<circ> ik_key) (filter (\<lambda>r. ik_merchantId r = m) (idempotency_keys s))"
| "seen_rows m SrBackfillJob s = map (KeyResource \<circ> bf_resource) (filter (\<lambda>r. bf_merchantId r = m) (backfill_jobs s))"
| "seen_rows m SrAiSpendBucket s = map (KeyDate \<circ> sp_date) (filter (\<lambda>r. sp_merchantId r = m) (spend_buckets s))"
| "seen_rows m SrMessageQuotaBucket s = map (KeyDate \<circ> qu_date) (filter (\<lambda>r. qu_merchantId r = m) (quota_buckets s))"
| "seen_rows m SrMerchantSettings s = map (KeyId \<circ> se_merchantId) (filter (\<lambda>r. se_merchantId r = m) (settings s))"
| "seen_rows m SrBillingSubscription s = map (KeyId \<circ> bi_merchantId) (filter (\<lambda>r. bi_merchantId r = m) (billing s))"

text \<open>\<open>deleteMany({ where: { merchantId, id: { in: ks } } })\<close>: live or not.\<close>

fun delete_rows :: "merchant_id \<Rightarrow> shop_redact_table \<Rightarrow> row_key list \<Rightarrow> db \<Rightarrow> db" where
  "delete_rows m SrOrderLineItem ks s = s\<lparr>line_items :=
     filter (\<lambda>r. \<not> (li_merchantId r = m \<and> KeyId (li_shopifyLineItemId r) \<in> set ks)) (line_items s)\<rparr>"
| "delete_rows m SrOrder ks s = remove_orders (\<lambda>r. or_merchantId r = m \<and> KeyId (or_id r) \<in> set ks) s"
| "delete_rows m SrCampaignTarget ks s = s\<lparr>targets :=
     filter (\<lambda>r. \<not> (tg_merchantId r = m \<and> KeyId (tg_messageId r) \<in> set ks)) (targets s)\<rparr>"
| "delete_rows m SrMessageEvent ks s = s\<lparr>message_events :=
     filter (\<lambda>r. \<not> (mv_merchantId r = m \<and> KeyId (mv_id r) \<in> set ks)) (message_events s)\<rparr>"
| "delete_rows m SrMessage ks s = remove_messages (\<lambda>r. ms_merchantId r = m \<and> KeyId (ms_id r) \<in> set ks) s"
| "delete_rows m SrAiGeneration ks s = remove_generations (\<lambda>r. ge_merchantId r = m \<and> KeyId (ge_id r) \<in> set ks) s"
| "delete_rows m SrCustomerScore ks s = s\<lparr>scores :=
     filter (\<lambda>r. \<not> (sc_merchantId r = m \<and> KeyId (sc_customerId r) \<in> set ks)) (scores s)\<rparr>"
| "delete_rows m SrSuppression ks s = s\<lparr>suppressions :=
     filter (\<lambda>r. \<not> (su_merchantId r = m \<and> KeyId (su_customerId r) \<in> set ks)) (suppressions s)\<rparr>"
| "delete_rows m SrProductVariant ks s = remove_variants (\<lambda>r. va_merchantId r = m \<and> KeyId (va_id r) \<in> set ks) s"
| "delete_rows m SrProduct ks s = remove_products (\<lambda>r. pr_merchantId r = m \<and> KeyId (pr_id r) \<in> set ks) s"
| "delete_rows m SrCustomer ks s = remove_customers (\<lambda>r. cu_merchantId r = m \<and> KeyId (cu_id r) \<in> set ks) s"
| "delete_rows m SrCampaign ks s = remove_campaigns (\<lambda>r. ca_merchantId r = m \<and> KeyId (ca_id r) \<in> set ks) s"
| "delete_rows m SrOutboxEvent ks s = s\<lparr>outbox :=
     filter (\<lambda>r. \<not> (ob_merchantId r = m \<and> KeyId (ob_id r) \<in> set ks)) (outbox s)\<rparr>"
| "delete_rows m SrIdempotencyKey ks s = s\<lparr>idempotency_keys :=
     filter (\<lambda>r. \<not> (ik_merchantId r = m \<and> KeyId (ik_key r) \<in> set ks)) (idempotency_keys s)\<rparr>"
| "delete_rows m SrBackfillJob ks s = s\<lparr>backfill_jobs :=
     filter (\<lambda>r. \<not> (bf_merchantId r = m \<and> KeyResource (bf_resource r) \<in> set ks)) (backfill_jobs s)\<rparr>"
| "delete_rows m SrAiSpendBucket ks s = s\<lparr>spend_buckets :=
     filter (\<lambda>r. \<not> (sp_merchantId r = m \<and> KeyDate (sp_date r) \<in> set ks)) (spend_buckets s)\<rparr>"
| "delete_rows m SrMessageQuotaBucket ks s = s\<lparr>quota_buckets :=
     filter (\<lambda>r. \<not> (qu_merchantId r = m \<and> KeyDate (qu_date r) \<in> set ks)) (quota_buckets s)\<rparr>"
| "delete_rows m SrMerchantSettings ks s = s\<lparr>settings :=
     filter (\<lambda>r. \<not> (se_merchantId r = m \<and> KeyId (se_merchantId r) \<in> set ks)) (settings s)\<rparr>"
| "delete_rows m SrBillingSubscription ks s = s\<lparr>billing :=
     filter (\<lambda>r. \<not> (bi_merchantId r = m \<and> KeyId (bi_merchantId r) \<in> set ks)) (billing s)\<rparr>"

text \<open>The two tables with one row per merchant are deleted in one statement.\<close>

definition chunked_delete_tenant :: "merchant_id \<Rightarrow> nat \<Rightarrow> shop_redact_table \<Rightarrow> db \<Rightarrow> db option" where
  "chunked_delete_tenant m batchSize T s =
     (if T = SrMerchantSettings then Some (s\<lparr>settings := filter (\<lambda>r. se_merchantId r \<noteq> m) (settings s)\<rparr>)
      else if T = SrBillingSubscription then Some (s\<lparr>billing := filter (\<lambda>r. bi_merchantId r \<noteq> m) (billing s)\<rparr>)
      else chunked_delete batchSize (seen_rows m T) (delete_rows m T) s)"

fun delete_tables :: "merchant_id \<Rightarrow> nat \<Rightarrow> shop_redact_table list \<Rightarrow> db \<Rightarrow> db option" where
  "delete_tables m batchSize [] s = Some s"
| "delete_tables m batchSize (T # Ts) s =
     Option.bind (chunked_delete_tenant m batchSize T s) (delete_tables m batchSize Ts)"

definition hard_delete :: "tenant_scope \<Rightarrow> merchant_id \<Rightarrow> unit tx" where
  "hard_delete sc m s =
     (case sc of
        Tenant _ \<Rightarrow> Inl (PlainErr ''MerchantRepository.hardDelete requires system scope'')
      | System _ \<Rightarrow> if find_merchant s m = None then Inl record_not_found
                    else Inr (remove_merchant m s, ()))"

definition shop_redact_audit :: "merchant_id option \<Rightarrow> string \<Rightarrow> audit_action \<Rightarrow> string \<Rightarrow> gdpr_payload \<Rightarrow> audit_row" where
  "shop_redact_audit m shop action targetId p = gdpr_audit m shop action ''merchant'' targetId
     ((if action = AuGdprShopRedact then [(''shopId'', opt_str (gp_shop_id p))] else [])
      @ [(''shopDomain'', AStr (gp_shop_domain p))])"

text \<open>The result is \<open>None\<close> when a batched delete does not end.\<close>

definition process_shop_redact :: "nat option \<Rightarrow> string \<Rightarrow> gdpr_payload \<Rightarrow> db \<Rightarrow> (db \<times> (exn + unit)) option" where
  "process_shop_redact batch shop p s =
     (let batchSize = or_default batch DEFAULT_SHOP_REDACT_BATCH_SIZE; system = System ''gdpr.shop_redact'' in
      case find_row (\<lambda>r. me_shop r = shop) (merchants s) of
        None \<Rightarrow> Some (transaction (append_audit system (shop_redact_audit None shop AuGdprShopRedactIdempotent [] p)) s)
      | Some merchant \<Rightarrow>
          (let m = me_id merchant in
           case transaction (append_audit (Tenant m) (shop_redact_audit (Some m) shop AuGdprShopRedact m p)) s of
             (s1, Inl e) \<Rightarrow> Some (s1, Inl e)
           | (s1, Inr _) \<Rightarrow>
               map_option (\<lambda>s2. transaction (hard_delete system m)
                   (s2\<lparr>sessions := filter (\<lambda>r. ss_shop r \<noteq> shop) (sessions s2)\<rparr>))
                 (delete_tables m batchSize SHOP_REDACT_TABLES_IN_ORDER s1)))"

section \<open>The handlers\<close>

definition handle_customer_data_requested :: "outbox_row \<Rightarrow> db \<Rightarrow> db \<times> (exn + unit)" where
  "handle_customer_data_requested row s =
     (case customer_data_request_payload (ob_payload row) of
        Inl e \<Rightarrow> (s, Inl e)
      | Inr p \<Rightarrow> process_customer_data_request (ob_merchantId row) (gp_shop_domain p) p s)"

definition handle_customer_redacted :: "time \<Rightarrow> outbox_row \<Rightarrow> db \<Rightarrow> db \<times> (exn + unit)" where
  "handle_customer_redacted now row s =
     (case customer_redact_payload (ob_payload row) of
        Inl e \<Rightarrow> (s, Inl e)
      | Inr p \<Rightarrow> process_customer_redact now (ob_merchantId row) (gp_shop_domain p) p s)"

definition handle_shop_redacted :: "outbox_row \<Rightarrow> db \<Rightarrow> (db \<times> (exn + unit)) option" where
  "handle_shop_redacted row s =
     (case shop_redact_payload (ob_payload row) of
        Inl e \<Rightarrow> Some (s, Inl e)
      | Inr p \<Rightarrow> process_shop_redact None (gp_shop_domain p) p s)"

end
