(* ===== verification/GdprFacts.thy ===== *)
theory GdprFacts
  imports Gdpr
begin

text \<open>
  What the redactions delete and what they leave: the links between rows, the deletions
  confined to a tenant, the batched deletes of a shop (through the contract \<open>batched_table\<close>)
  and the erasure of a customer.
\<close>

section \<open>Links between rows\<close>

lemma filter_cut:
  assumes "\<forall>r \<in> set rs. A r \<longrightarrow> tenant r = m" and "\<And>r. tenant (h r) = tenant r"
  shows "filter (\<lambda>r. tenant r \<noteq> m) (map (\<lambda>r. if A r then h r else r) rs) = filter (\<lambda>r. tenant r \<noteq> m) rs"
  using assms(1) by (induction rs) (simp_all add: assms(2))

lemmas remove_defs = remove_messages_def remove_generations_def remove_orders_def remove_variants_def
  remove_products_def remove_campaigns_def remove_customers_def

text \<open>
  The links between rows, by table: a row that names another row belongs to the same tenant.
  \<open>edges\<close> pairs the key a row holds with its tenant; a null foreign key is no edge.
\<close>

definition edges :: "('r \<Rightarrow> string option) \<Rightarrow> ('r \<Rightarrow> merchant_id) \<Rightarrow> 'r list \<Rightarrow> (string option \<times> merchant_id) set" where
  "edges key tenant rows = set (map (\<lambda>r. (key r, tenant r)) (filter (\<lambda>r. key r \<noteq> None) rows))"

type_synonym edge_set = "(string option \<times> merchant_id) set"

definition linked :: "edge_set \<times> edge_set \<Rightarrow> bool" where
  "linked EF \<longleftrightarrow> (\<forall>e \<in> fst EF. \<forall>f \<in> snd EF. fst e = fst f \<longrightarrow> snd e = snd f)"

definition link_list :: "db \<Rightarrow> (edge_set \<times> edge_set) list" where
  "link_list s =
     (let message = edges (Some \<circ> ms_id) ms_merchantId (messages s);
          customer = edges (Some \<circ> cu_id) cu_merchantId (customers s);
          product = edges (Some \<circ> pr_id) pr_merchantId (products s) in
      [(edges (Some \<circ> tg_messageId) tg_merchantId (targets s), message),
       (edges (Some \<circ> mv_messageId) mv_merchantId (message_events s), message),
       (edges (Some \<circ> ms_aiGenerationId) ms_merchantId (messages s),
        edges (Some \<circ> ge_id) ge_merchantId (generations s)),
       (edges (Some \<circ> tg_campaignId) tg_merchantId (targets s),
        edges (Some \<circ> ca_id) ca_merchantId (campaigns s)),
       (edges (Some \<circ> tg_customerId) tg_merchantId (targets s), customer),
       (edges (Some \<circ> ms_customerId) ms_merchantId (messages s), customer),
       (edges (Some \<circ> ge_customerId) ge_merchantId (generations s), customer),
       (edges (Some \<circ> sc_customerId) sc_merchantId (scores s), customer),
       (edges (Some \<circ> su_customerId) su_merchantId (suppressions s), customer),
       (edges or_customerId or_merchantId (orders s), customer),
       (edges (Some \<circ> li_orderId) li_merchantId (line_items s),
        edges (Some \<circ> or_id) or_merchantId (orders s)),
       (edges li_productId li_merchantId (line_items s), product),
       (edges li_productVariantId li_merchantId (line_items s),
        edges (Some \<circ> va_id) va_merchantId (variants s)),
       (edges (Some \<circ> va_productId) va_merchantId (variants s), product)])"

definition tenant_links :: "db \<Rightarrow> bool" where
  "tenant_links s \<longleftrightarrow> list_all linked (link_list s)"

definition shrinks :: "db \<Rightarrow> db \<Rightarrow> bool" where
  "shrinks s s' \<longleftrightarrow> list_all2 (\<lambda>p q. fst q \<subseteq> fst p \<and> snd q \<subseteq> snd p) (link_list s) (link_list s')"

lemma shrinks_trans: "shrinks s s1 \<Longrightarrow> shrinks s1 s2 \<Longrightarrow> shrinks s s2"
  unfolding shrinks_def by (erule (1) list_all2_trans [rotated -2]) auto

lemma shrinks_links: "shrinks s s' \<Longrightarrow> tenant_links s \<Longrightarrow> tenant_links s'"
  unfolding shrinks_def tenant_links_def list_all_def list_all2_conv_all_nth all_set_conv_all_nth
  by (auto simp: linked_def) (metis (no_types, opaque_lifting) fst_conv snd_conv subsetD)

lemma edges_filter [simp]: "edges key tenant (filter P rows) \<subseteq> edges key tenant rows"
  by (auto simp: edges_def)

lemma edges_cut [simp]:
  "edges or_customerId or_merchantId (map (\<lambda>r. if A r then r\<lparr>or_customerId := None\<rparr> else r) os)
     \<subseteq> edges or_customerId or_merchantId os"
  "edges li_productId li_merchantId (map (\<lambda>l. if B l then l\<lparr>li_productId := None\<rparr> else l) ls)
     \<subseteq> edges li_productId li_merchantId ls"
  "edges li_productVariantId li_merchantId (map (\<lambda>l. if B l then l\<lparr>li_productVariantId := None\<rparr> else l) ls)
     \<subseteq> edges li_productVariantId li_merchantId ls"
  by (auto simp: edges_def)

lemma edges_map: "(\<And>r. f (h r) = f r \<and> t (h r) = t r) \<Longrightarrow> edges f t (map h rows) = edges f t rows"
  by (simp add: edges_def filter_map o_def)

lemma edges_cut_other [simp]:
  "edges (Some \<circ> or_id) or_merchantId (map (\<lambda>r. if A r then r\<lparr>or_customerId := None\<rparr> else r) os)
     = edges (Some \<circ> or_id) or_merchantId os"
  "edges (Some \<circ> li_orderId) li_merchantId (map (\<lambda>l. if B l then l\<lparr>li_productId := None\<rparr> else l) ls)
     = edges (Some \<circ> li_orderId) li_merchantId ls"
  "edges li_productVariantId li_merchantId (map (\<lambda>l. if B l then l\<lparr>li_productId := None\<rparr> else l) ls)
     = edges li_productVariantId li_merchantId ls"
  "edges (Some \<circ> li_orderId) li_merchantId (map (\<lambda>l. if B l then l\<lparr>li_productVariantId := None\<rparr> else l) ls)
     = edges (Some \<circ> li_orderId) li_merchantId ls"
  "edges li_productId li_merchantId (map (\<lambda>l. if B l then l\<lparr>li_productVariantId := None\<rparr> else l) ls)
     = edges li_productId li_merchantId ls"
  by (rule edges_map, simp)+

lemma linked_edges_iff [simp]:
  "linked (edges f t xs, edges g u ys) \<longleftrightarrow>
     (\<forall>x \<in> set xs. \<forall>y \<in> set ys. f x \<noteq> None \<longrightarrow> f x = g y \<longrightarrow> t x = u y)"
  by (fastforce simp: linked_def edges_def)


lemma filter_same_iff: "filter P xs = filter Q xs \<longleftrightarrow> (\<forall>x \<in> set xs. P x = Q x)"
  by (induction xs) (auto simp: Cons_eq_filter_iff dest: sym)

text \<open>The rows of the other tenants.\<close>

definition others_kept :: "merchant_id \<Rightarrow> db \<Rightarrow> db \<Rightarrow> bool" where
  "others_kept m s s' \<longleftrightarrow> filter (\<lambda>r. me_id r \<noteq> m) (merchants s') = filter (\<lambda>r. me_id r \<noteq> m) (merchants s)
     \<and> filter (\<lambda>r. se_merchantId r \<noteq> m) (settings s') = filter (\<lambda>r. se_merchantId r \<noteq> m) (settings s)
     \<and> filter (\<lambda>r. bi_merchantId r \<noteq> m) (billing s') = filter (\<lambda>r. bi_merchantId r \<noteq> m) (billing s)
     \<and> filter (\<lambda>r. cu_merchantId r \<noteq> m) (customers s') = filter (\<lambda>r. cu_merchantId r \<noteq> m) (customers s)
     \<and> filter (\<lambda>r. sc_merchantId r \<noteq> m) (scores s') = filter (\<lambda>r. sc_merchantId r \<noteq> m) (scores s)
     \<and> filter (\<lambda>r. or_merchantId r \<noteq> m) (orders s') = filter (\<lambda>r. or_merchantId r \<noteq> m) (orders s)
     \<and> filter (\<lambda>r. ob_merchantId r \<noteq> m) (outbox s') = filter (\<lambda>r. ob_merchantId r \<noteq> m) (outbox s)
     \<and> filter (\<lambda>r. ge_merchantId r \<noteq> m) (generations s') = filter (\<lambda>r. ge_merchantId r \<noteq> m) (generations s)
     \<and> filter (\<lambda>r. ms_merchantId r \<noteq> m) (messages s') = filter (\<lambda>r. ms_merchantId r \<noteq> m) (messages s)
     \<and> filter (\<lambda>r. ca_merchantId r \<noteq> m) (campaigns s') = filter (\<lambda>r. ca_merchantId r \<noteq> m) (campaigns s)
     \<and> filter (\<lambda>r. tg_merchantId r \<noteq> m) (targets s') = filter (\<lambda>r. tg_merchantId r \<noteq> m) (targets s)
     \<and> filter (\<lambda>r. su_merchantId r \<noteq> m) (suppressions s') = filter (\<lambda>r. su_merchantId r \<noteq> m) (suppressions s)
     \<and> filter (\<lambda>r. qu_merchantId r \<noteq> m) (quota_buckets s') = filter (\<lambda>r. qu_merchantId r \<noteq> m) (quota_buckets s)
     \<and> filter (\<lambda>r. sp_merchantId r \<noteq> m) (spend_buckets s') = filter (\<lambda>r. sp_merchantId r \<noteq> m) (spend_buckets s)
     \<and> filter (\<lambda>r. li_merchantId r \<noteq> m) (line_items s') = filter (\<lambda>r. li_merchantId r \<noteq> m) (line_items s)
     \<and> filter (\<lambda>r. pr_merchantId r \<noteq> m) (products s') = filter (\<lambda>r. pr_merchantId r \<noteq> m) (products s)
     \<and> filter (\<lambda>r. va_merchantId r \<noteq> m) (variants s') = filter (\<lambda>r. va_merchantId r \<noteq> m) (variants s)
     \<and> filter (\<lambda>r. mv_merchantId r \<noteq> m) (message_events s') = filter (\<lambda>r. mv_merchantId r \<noteq> m) (message_events s)
     \<and> filter (\<lambda>r. ik_merchantId r \<noteq> m) (idempotency_keys s') = filter (\<lambda>r. ik_merchantId r \<noteq> m) (idempotency_keys s)
     \<and> filter (\<lambda>r. bf_merchantId r \<noteq> m) (backfill_jobs s') = filter (\<lambda>r. bf_merchantId r \<noteq> m) (backfill_jobs s)"

lemma others_kept_refl [simp]: "others_kept m s s"
  by (simp add: others_kept_def)

lemma others_kept_trans: "others_kept m s s1 \<Longrightarrow> others_kept m s1 s2 \<Longrightarrow> others_kept m s s2"
  by (simp add: others_kept_def)

text \<open>Every deletion shrinks the links; one that starts from a tenant's rows stays within it.\<close>

lemma remove_shrinks:
  "shrinks s (remove_messages P s)" "shrinks s (remove_orders Q s)" "shrinks s (remove_variants R s)"
  "shrinks s (remove_campaigns T s)"
  by (simp_all add: shrinks_def link_list_def remove_messages_def remove_orders_def remove_variants_def
      remove_campaigns_def Let_def)

lemma linkD:
  assumes "tenant_links s"
  shows "x \<in> set (messages s) \<Longrightarrow> t \<in> set (targets s) \<Longrightarrow> tg_messageId t = ms_id x \<Longrightarrow> tg_merchantId t = ms_merchantId x"
    and "x \<in> set (messages s) \<Longrightarrow> v \<in> set (message_events s) \<Longrightarrow> mv_messageId v = ms_id x \<Longrightarrow> mv_merchantId v = ms_merchantId x"
    and "g \<in> set (generations s) \<Longrightarrow> x \<in> set (messages s) \<Longrightarrow> ms_aiGenerationId x = ge_id g \<Longrightarrow> ms_merchantId x = ge_merchantId g"
    and "c \<in> set (campaigns s) \<Longrightarrow> t \<in> set (targets s) \<Longrightarrow> tg_campaignId t = ca_id c \<Longrightarrow> tg_merchantId t = ca_merchantId c"
    and "c' \<in> set (customers s) \<Longrightarrow> t \<in> set (targets s) \<Longrightarrow> tg_customerId t = cu_id c' \<Longrightarrow> tg_merchantId t = cu_merchantId c'"
    and "c' \<in> set (customers s) \<Longrightarrow> x \<in> set (messages s) \<Longrightarrow> ms_customerId x = cu_id c' \<Longrightarrow> ms_merchantId x = cu_merchantId c'"
    and "c' \<in> set (customers s) \<Longrightarrow> g \<in> set (generations s) \<Longrightarrow> ge_customerId g = cu_id c' \<Longrightarrow> ge_merchantId g = cu_merchantId c'"
    and "c' \<in> set (customers s) \<Longrightarrow> r \<in> set (scores s) \<Longrightarrow> sc_customerId r = cu_id c' \<Longrightarrow> sc_merchantId r = cu_merchantId c'"
    and "c' \<in> set (customers s) \<Longrightarrow> u \<in> set (suppressions s) \<Longrightarrow> su_customerId u = cu_id c' \<Longrightarrow> su_merchantId u = cu_merchantId c'"
    and "c' \<in> set (customers s) \<Longrightarrow> o1 \<in> set (orders s) \<Longrightarrow> or_customerId o1 = Some (cu_id c') \<Longrightarrow> or_merchantId o1 = cu_merchantId c'"
    and "o1 \<in> set (orders s) \<Longrightarrow> l \<in> set (line_items s) \<Longrightarrow> li_orderId l = or_id o1 \<Longrightarrow> li_merchantId l = or_merchantId o1"
    and "p \<in> set (products s) \<Longrightarrow> l \<in> set (line_items s) \<Longrightarrow> li_productId l = Some (pr_id p) \<Longrightarrow> li_merchantId l = pr_merchantId p"
    and "w \<in> set (variants s) \<Longrightarrow> l \<in> set (line_items s) \<Longrightarrow> li_productVariantId l = Some (va_id w) \<Longrightarrow> li_merchantId l = va_merchantId w"
    and "p \<in> set (products s) \<Longrightarrow> w \<in> set (variants s) \<Longrightarrow> va_productId w = pr_id p \<Longrightarrow> va_merchantId w = pr_merchantId p"
  using assms by (simp_all add: tenant_links_def link_list_def Let_def)

lemma others_remove_messages:
  assumes "tenant_links s" and "\<forall>x \<in> set (messages s). P x \<longrightarrow> ms_merchantId x = m"
  shows "others_kept m s (remove_messages P s)"
proof -
  have "\<forall>x \<in> set (messages s). \<forall>t \<in> set (targets s). P x \<longrightarrow> tg_messageId t = ms_id x \<longrightarrow> tg_merchantId t = m"
    "\<forall>x \<in> set (messages s). \<forall>v \<in> set (message_events s). P x \<longrightarrow> mv_messageId v = ms_id x \<longrightarrow> mv_merchantId v = m"
    using assms(2) linkD(1,2) [OF assms(1)] by simp_all
  with assms(2) show ?thesis
    by (auto simp: others_kept_def remove_messages_def Let_def filter_same_iff)
qed

lemma others_remove_rows:
  assumes "tenant_links s"
  shows "\<forall>x \<in> set (orders s). Q x \<longrightarrow> or_merchantId x = m \<Longrightarrow> others_kept m s (remove_orders Q s)"
    and "\<forall>x \<in> set (variants s). V x \<longrightarrow> va_merchantId x = m \<Longrightarrow> others_kept m s (remove_variants V s)"
    and "\<forall>x \<in> set (campaigns s). C x \<longrightarrow> ca_merchantId x = m \<Longrightarrow> others_kept m s (remove_campaigns C s)"
proof -
  have 1: "\<forall>x \<in> set (orders s). \<forall>l \<in> set (line_items s). li_orderId l = or_id x \<longrightarrow> li_merchantId l = or_merchantId x"
    and 2: "\<forall>x \<in> set (variants s). \<forall>l \<in> set (line_items s). li_productVariantId l = Some (va_id x) \<longrightarrow> li_merchantId l = va_merchantId x"
    and 3: "\<forall>x \<in> set (campaigns s). \<forall>t \<in> set (targets s). tg_campaignId t = ca_id x \<longrightarrow> tg_merchantId t = ca_merchantId x"
    using linkD(4,11,13) [OF assms] by simp_all
  show "others_kept m s (remove_orders Q s)" if "\<forall>x \<in> set (orders s). Q x \<longrightarrow> or_merchantId x = m"
    using 1 that by (auto simp: others_kept_def remove_orders_def Let_def filter_same_iff)
  show "others_kept m s (remove_campaigns C s)" if "\<forall>x \<in> set (campaigns s). C x \<longrightarrow> ca_merchantId x = m"
    using 3 that by (auto simp: others_kept_def remove_campaigns_def Let_def filter_same_iff)
  show "others_kept m s (remove_variants V s)" if "\<forall>x \<in> set (variants s). V x \<longrightarrow> va_merchantId x = m"
  proof -
    have "\<forall>l \<in> set (line_items s). li_productVariantId l \<in> Some ` va_id ` {x \<in> set (variants s). V x} \<longrightarrow> li_merchantId l = m"
      using 2 that by auto
    from filter_cut [OF this, of "\<lambda>l. l\<lparr>li_productVariantId := None\<rparr>"] that show ?thesis
      by (auto simp: others_kept_def remove_variants_def Let_def filter_same_iff)
  qed
qed

text \<open>A deletion confined to the tenant: the links stay, and so do the rows of the others.\<close>

definition confined :: "merchant_id \<Rightarrow> db \<Rightarrow> db \<Rightarrow> bool" where
  "confined m s s' \<longleftrightarrow> tenant_links s' \<and> others_kept m s s'"

lemma confined_remove:
  assumes "tenant_links s"
  shows "\<forall>x \<in> set (messages s). P x \<longrightarrow> ms_merchantId x = m \<Longrightarrow> confined m s (remove_messages P s)"
    and "\<forall>x \<in> set (orders s). Q x \<longrightarrow> or_merchantId x = m \<Longrightarrow> confined m s (remove_orders Q s)"
    and "\<forall>x \<in> set (variants s). V x \<longrightarrow> va_merchantId x = m \<Longrightarrow> confined m s (remove_variants V s)"
    and "\<forall>x \<in> set (campaigns s). C x \<longrightarrow> ca_merchantId x = m \<Longrightarrow> confined m s (remove_campaigns C s)"
  unfolding confined_def
  using shrinks_links [OF remove_shrinks(1) assms] shrinks_links [OF remove_shrinks(2) assms]
    shrinks_links [OF remove_shrinks(3) assms] shrinks_links [OF remove_shrinks(4) assms]
    others_remove_messages [OF assms] others_remove_rows [OF assms] by simp_all

lemma confined_trans: "confined m s s1 \<Longrightarrow> confined m s1 s2 \<Longrightarrow> confined m s s2"
  by (auto simp: confined_def intro: others_kept_trans)

lemma confined_links: "confined m s s' \<Longrightarrow> tenant_links s'"
  by (simp add: confined_def)

lemma confined_remove_generations:
  assumes "tenant_links s" and "\<forall>g \<in> set (generations s). P g \<longrightarrow> ge_merchantId g = m"
  shows "confined m s (remove_generations P s)"
proof -
  let ?s1 = "s\<lparr>generations := filter (\<lambda>g. \<not> P g) (generations s)\<rparr>"
  have "shrinks s ?s1" by (simp add: shrinks_def link_list_def Let_def)
  then have 1: "confined m s ?s1"
    using shrinks_links [OF _ assms(1)] assms(2) by (auto simp: confined_def others_kept_def filter_same_iff)
  have "\<forall>x \<in> set (messages ?s1). ms_aiGenerationId x \<in> ge_id ` set (filter P (generations s)) \<longrightarrow> ms_merchantId x = m"
    using linkD(3) [OF assms(1)] assms(2) by auto
  from confined_trans [OF 1 confined_remove(1) [OF confined_links [OF 1] this]]
  show ?thesis by (simp add: remove_generations_def Let_def)
qed

lemma confined_remove_products:
  assumes "tenant_links s" and "\<forall>p \<in> set (products s). P p \<longrightarrow> pr_merchantId p = m"
  shows "confined m s (remove_products P s)"
proof -
  let ?ids = "pr_id ` set (filter P (products s))"
  let ?s1 = "s\<lparr>products := filter (\<lambda>p. \<not> P p) (products s),
     line_items := map (\<lambda>l. if li_productId l \<in> Some ` ?ids then l\<lparr>li_productId := None\<rparr> else l) (line_items s)\<rparr>"
  have "\<forall>l \<in> set (line_items s). li_productId l \<in> Some ` ?ids \<longrightarrow> li_merchantId l = m"
    using linkD(12) [OF assms(1)] assms(2) by auto
  from filter_cut [OF this, of "\<lambda>l. l\<lparr>li_productId := None\<rparr>"] have "others_kept m s ?s1"
    using assms(2) by (simp add: others_kept_def filter_same_iff) blast
  moreover have "shrinks s ?s1" by (simp add: shrinks_def link_list_def Let_def)
  ultimately have 1: "confined m s ?s1" using shrinks_links [OF _ assms(1)] by (simp add: confined_def)
  have "\<forall>v \<in> set (variants ?s1). va_productId v \<in> ?ids \<longrightarrow> va_merchantId v = m"
    using linkD(14) [OF assms(1)] assms(2) by auto
  from confined_trans [OF 1 confined_remove(3) [OF confined_links [OF 1] this]]
  show ?thesis by (simp add: remove_products_def Let_def)
qed

lemma confined_remove_customers:
  assumes "tenant_links s" and "\<forall>c \<in> set (customers s). P c \<longrightarrow> cu_merchantId c = m"
  shows "confined m s (remove_customers P s)"
proof -
  let ?ids = "cu_id ` set (filter P (customers s))"
  let ?s1 = "s\<lparr>customers := filter (\<lambda>c. \<not> P c) (customers s),
     scores := filter (\<lambda>r. sc_customerId r \<notin> ?ids) (scores s),
     suppressions := filter (\<lambda>r. su_customerId r \<notin> ?ids) (suppressions s),
     targets := filter (\<lambda>t. tg_customerId t \<notin> ?ids) (targets s),
     orders := map (\<lambda>o1. if or_customerId o1 \<in> Some ` ?ids then o1\<lparr>or_customerId := None\<rparr> else o1) (orders s)\<rparr>"
  let ?s2 = "remove_messages (\<lambda>x. ms_customerId x \<in> ?ids) ?s1"
  note L = linkD(5-10) [OF assms(1)]
  have "\<forall>o1 \<in> set (orders s). or_customerId o1 \<in> Some ` ?ids \<longrightarrow> or_merchantId o1 = m"
    using L(6) assms(2) by auto
  note cut = filter_cut [OF this, of "\<lambda>o1. o1\<lparr>or_customerId := None\<rparr>"]
  have "\<forall>t \<in> set (targets s). tg_customerId t \<in> ?ids \<longrightarrow> tg_merchantId t = m"
    "\<forall>r \<in> set (scores s). sc_customerId r \<in> ?ids \<longrightarrow> sc_merchantId r = m"
    "\<forall>u \<in> set (suppressions s). su_customerId u \<in> ?ids \<longrightarrow> su_merchantId u = m"
    using L(1,4,5) assms(2) by auto
  with cut assms(2) have "others_kept m s ?s1"
    by (simp add: others_kept_def filter_same_iff) blast
  moreover have "shrinks s ?s1" by (simp add: shrinks_def link_list_def Let_def)
  ultimately have 1: "confined m s ?s1" using shrinks_links [OF _ assms(1)] by (simp add: confined_def)
  have "\<forall>x \<in> set (messages ?s1). ms_customerId x \<in> ?ids \<longrightarrow> ms_merchantId x = m"
    using L(2) assms(2) by auto
  from confined_trans [OF 1 confined_remove(1) [OF confined_links [OF 1] this]] have 2: "confined m s ?s2" .
  have "\<forall>g \<in> set (generations ?s2). ge_customerId g \<in> ?ids \<longrightarrow> ge_merchantId g = m"
    using L(3) assms(2) by (auto simp: remove_messages_def Let_def)
  from confined_trans [OF 2 confined_remove_generations [OF confined_links [OF 2] this]]
  show ?thesis by (simp add: remove_customers_def Let_def)
qed

text \<open>The audit log, the sessions and the merchants are out of every deletion's reach.\<close>

definition own_rows_only :: "merchant_id \<Rightarrow> db \<Rightarrow> db \<Rightarrow> bool" where
  "own_rows_only m s s' \<longleftrightarrow> (tenant_links s \<longrightarrow> confined m s s')
     \<and> audits s' = audits s \<and> sessions s' = sessions s \<and> merchants s' = merchants s"

lemma own_rows_only_refl [simp]: "own_rows_only m s s"
  and own_rows_only_trans: "own_rows_only m s s1 \<Longrightarrow> own_rows_only m s1 s2 \<Longrightarrow> own_rows_only m s s2"
  by (auto simp: own_rows_only_def confined_def intro: others_kept_trans)

lemma confined_delete_rows:
  assumes "tenant_links s"
  shows "confined m s (delete_rows m T ks s)"
proof -
  note cascades = confined_remove [OF assms] confined_remove_generations [OF assms]
    confined_remove_products [OF assms] confined_remove_customers [OF assms]
  have plain: "shrinks s s' \<Longrightarrow> others_kept m s s' \<Longrightarrow> confined m s s'" for s'
    using shrinks_links [OF _ assms] by (simp add: confined_def)
  show ?thesis
    by (cases T; ((simp add: cascades; fail)
        | (simp only: delete_rows.simps, rule plain;
            auto simp: shrinks_def link_list_def Let_def others_kept_def filter_same_iff)))
qed

lemma delete_rows_frame:
  "audits (delete_rows m T ks s) = audits s" "sessions (delete_rows m T ks s) = sessions s"
  "merchants (delete_rows m T ks s) = merchants s"
  by (cases T, simp_all add: remove_defs Let_def)+

lemma delete_rows_own: "own_rows_only m s (delete_rows m T ks s)"
  by (simp add: own_rows_only_def confined_delete_rows delete_rows_frame)

lemma conj_imp_absorb: "((A \<longrightarrow> B) \<and> A) = (A \<and> B)" "((A \<longrightarrow> B) \<and> A \<and> C) = (A \<and> C \<and> B)"
  by blast+

lemma seen_delete: "seen_rows m T (delete_rows m T ks s) = filter (\<lambda>k. k \<notin> set ks) (seen_rows m T s)"
  by (cases T) (simp_all add: remove_defs Let_def filter_map o_def conj_imp_absorb cong: conj_cong)

interpretation redact_batches: batched_table "seen_rows m T" "delete_rows m T" "own_rows_only m" for m T
  by unfold_locales (auto simp: seen_delete delete_rows_own intro: own_rows_only_trans)

lemma chunked_delete_tenant_own:
  assumes "0 < batchSize"
  shows "\<exists>s'. chunked_delete_tenant m batchSize T s = Some s' \<and> own_rows_only m s s'"
proof -
  have "own_rows_only m s (s\<lparr>settings := filter (\<lambda>r. se_merchantId r \<noteq> m) (settings s)\<rparr>)"
    "own_rows_only m s (s\<lparr>billing := filter (\<lambda>r. bi_merchantId r \<noteq> m) (billing s)\<rparr>)"
    by (simp_all add: own_rows_only_def confined_def tenant_links_def link_list_def others_kept_def)
  with redact_batches.chunked_delete_empties [OF assms, of m T s] show ?thesis
    by (auto simp: chunked_delete_tenant_def)
qed

lemma delete_tables_own:
  assumes "0 < batchSize"
  shows "\<exists>s'. delete_tables m batchSize Ts s = Some s' \<and> own_rows_only m s s'"
proof (induction Ts arbitrary: s)
  case (Cons T Ts)
  obtain s1 where "chunked_delete_tenant m batchSize T s = Some s1" "own_rows_only m s s1"
    using chunked_delete_tenant_own [OF assms] by blast
  with Cons.IH [of s1] show ?case by (auto intro: own_rows_only_trans)
qed simp

text \<open>No table has a row of the merchant, and no audit row names it.\<close>

definition tenant_rows_gone :: "merchant_id \<Rightarrow> db \<Rightarrow> bool" where
  "tenant_rows_gone m s \<longleftrightarrow>
     m \<notin> me_id ` set (merchants s)
   \<and> m \<notin> se_merchantId ` set (settings s)
   \<and> m \<notin> bi_merchantId ` set (billing s)
   \<and> m \<notin> cu_merchantId ` set (customers s)
   \<and> m \<notin> sc_merchantId ` set (scores s)
   \<and> m \<notin> or_merchantId ` set (orders s)
   \<and> m \<notin> ob_merchantId ` set (outbox s)
   \<and> m \<notin> ge_merchantId ` set (generations s)
   \<and> m \<notin> ms_merchantId ` set (messages s)
   \<and> m \<notin> ca_merchantId ` set (campaigns s)
   \<and> m \<notin> tg_merchantId ` set (targets s)
   \<and> m \<notin> su_merchantId ` set (suppressions s)
   \<and> m \<notin> qu_merchantId ` set (quota_buckets s)
   \<and> m \<notin> sp_merchantId ` set (spend_buckets s)
   \<and> m \<notin> li_merchantId ` set (line_items s)
   \<and> m \<notin> pr_merchantId ` set (products s)
   \<and> m \<notin> va_merchantId ` set (variants s)
   \<and> m \<notin> mv_merchantId ` set (message_events s)
   \<and> m \<notin> ik_merchantId ` set (idempotency_keys s)
   \<and> m \<notin> bf_merchantId ` set (backfill_jobs s)
   \<and> Some m \<notin> au_merchantId ` set (audits s)"

text \<open>
  C17. Redacting a shop ends and erases exactly that shop: with any positive batch size the
  batched deletes end; then no table has a row of the merchant, its sessions are gone, every
  row of every other merchant is still there, unchanged, and the audit log keeps the evidence,
  without the merchant's id.
\<close>

theorem shop_redact_exact:
  assumes "tenant_links s" and "find_row (\<lambda>r. me_shop r = shop) (merchants s) = Some merchant"
    and "0 < batchSize"
  shows "\<exists>s'. process_shop_redact (Some batchSize) shop p s = Some (s', Inr ())
    \<and> tenant_rows_gone (me_id merchant) s' \<and> sessions s' = filter (\<lambda>r. ss_shop r \<noteq> shop) (sessions s)
    \<and> others_kept (me_id merchant) s s'
    \<and> (\<exists>r \<in> set (audits s'). au_action r = AuGdprShopRedact \<and> au_shop r = Some shop \<and> au_merchantId r = None)"
proof -
  let ?m = "me_id merchant"
  let ?row = "shop_redact_audit (Some ?m) shop AuGdprShopRedact ?m p"
  let ?s1 = "s\<lparr>audits := audits s @ [?row]\<rparr>"
  have audit: "transaction (append_audit (Tenant ?m) ?row) s = (?s1, Inr ())"
    by (simp add: append_audit_def shop_redact_audit_def gdpr_audit_def)
  obtain s2 where s2: "delete_tables ?m batchSize SHOP_REDACT_TABLES_IN_ORDER ?s1 = Some s2"
    and own: "own_rows_only ?m ?s1 s2" using delete_tables_own [OF assms(3)] by blast
  let ?s3 = "s2\<lparr>sessions := filter (\<lambda>r. ss_shop r \<noteq> shop) (sessions s2)\<rparr>"
  let ?s' = "remove_merchant ?m ?s3"
  have "find_merchant ?s3 ?m \<noteq> None"
    using find_row_Some_D [OF assms(2)] own by (auto simp: find_merchant_def find_row_None_iff own_rows_only_def)
  then have "process_shop_redact (Some batchSize) shop p s = Some (?s', Inr ())"
    using assms(2) audit s2 by (simp add: process_shop_redact_def hard_delete_def transaction_def Let_def)
  moreover have "tenant_rows_gone ?m ?s'"
    by (auto simp: tenant_rows_gone_def remove_merchant_def)
  moreover have "others_kept ?m s2 ?s'"
    by (simp add: others_kept_def remove_merchant_def)
  moreover have "others_kept ?m s ?s1" "tenant_links ?s1"
    using assms(1) by (simp_all add: others_kept_def tenant_links_def link_list_def)
  moreover from this(2) have "others_kept ?m ?s1 s2"
    using own by (simp add: own_rows_only_def confined_def)
  moreover have "?row\<lparr>au_merchantId := None\<rparr> \<in> set (audits ?s')"
    using own by (force simp: remove_merchant_def own_rows_only_def shop_redact_audit_def gdpr_audit_def)
  moreover have "sessions ?s' = filter (\<lambda>r. ss_shop r \<noteq> shop) (sessions s)"
    using own by (simp add: remove_merchant_def own_rows_only_def)
  ultimately show ?thesis
    by (intro exI [of _ ?s'] conjI)
      (auto simp: shop_redact_audit_def gdpr_audit_def intro: others_kept_trans intro!: bexI)
qed


definition redact_demo_payload :: gdpr_payload where
  "redact_demo_payload = \<lparr>gp_shop_domain = ''a.myshopify.com'', gp_shop_id = Some ''1'', gp_customer_id = Some ''7'',
     gp_orders = [], gp_data_request_id = None\<rparr>"

definition redact_demo_merchant :: "merchant_id \<Rightarrow> string \<Rightarrow> merchant_row" where
  "redact_demo_merchant m shop = \<lparr>me_id = m, me_shop = shop, me_name = None, me_currency = None,
     me_timezone = None, me_uninstalledAt = None, me_tokenRevokedAt = None, me_scoringInitializedAt = None,
     me_installedAt = 0, me_email = None, me_country = None, me_shopifyPlan = None, me_shopDetailsFetchedAt = None\<rparr>"

definition redact_demo_customer :: "string \<Rightarrow> merchant_id \<Rightarrow> customer_row" where
  "redact_demo_customer cid m =
     (fresh_customer cid m ''gid://shopify/Customer/7'' 0)\<lparr>cu_email := Some ''ann@example.com''\<rparr>"

definition redact_demo :: db where
  "redact_demo = empty_db\<lparr>
     merchants := [redact_demo_merchant ''m1'' ''a.myshopify.com'', redact_demo_merchant ''m2'' ''b.myshopify.com''],
     customers := [redact_demo_customer ''c1'' ''m1'', redact_demo_customer ''c2'' ''m2''],
     suppressions := [\<lparr>su_merchantId = ''m1'', su_customerId = ''c1''\<rparr>, \<lparr>su_merchantId = ''m2'', su_customerId = ''c2''\<rparr>]\<rparr>"

lemmas redact_demo_defs = redact_demo_def redact_demo_payload_def redact_demo_merchant_def
  redact_demo_customer_def fresh_customer_def empty_db_def

lemma redact_demo_links: "tenant_links redact_demo"
  by (simp add: tenant_links_def link_list_def Let_def redact_demo_defs)

lemma redact_demo_shop:
  "find_row (\<lambda>r. me_shop r = ''a.myshopify.com'') (merchants redact_demo) = Some (redact_demo_merchant ''m1'' ''a.myshopify.com'')"
  by (simp add: redact_demo_defs find_row_def)

theorem shop_redact_exact_witness:
  "\<exists>s'. process_shop_redact (Some 1) ''a.myshopify.com'' redact_demo_payload redact_demo = Some (s', Inr ())
    \<and> tenant_rows_gone ''m1'' s' \<and> others_kept ''m1'' redact_demo s'"
  using shop_redact_exact [OF redact_demo_links redact_demo_shop, of 1 redact_demo_payload]
  by (auto simp: redact_demo_merchant_def)

section \<open>Customer redaction\<close>

text \<open>The tables a customer's rows live in, without those rows.\<close>

definition customer_rows_gone :: "merchant_id \<Rightarrow> string \<Rightarrow> db \<Rightarrow> bool" where
  "customer_rows_gone m cid s \<longleftrightarrow>
     list_all (\<lambda>t. \<not> (tg_merchantId t = m \<and> tg_customerId t = cid)) (targets s)
   \<and> list_all (\<lambda>x. \<not> (ms_merchantId x = m \<and> ms_customerId x = cid)) (messages s)
   \<and> list_all (\<lambda>g. \<not> (ge_merchantId g = m \<and> ge_customerId g = cid)) (generations s)
   \<and> list_all (\<lambda>r. \<not> (sc_merchantId r = m \<and> sc_customerId r = cid)) (scores s)
   \<and> list_all (\<lambda>r. \<not> (su_merchantId r = m \<and> su_customerId r = cid)) (suppressions s)
   \<and> list_all (\<lambda>o1. \<not> (or_merchantId o1 = m \<and> or_customerId o1 = Some cid)) (orders s)"

definition erased :: "string \<Rightarrow> customer_row \<Rightarrow> bool" where
  "erased gid c \<longleftrightarrow> cu_email c = None \<and> cu_phone c = None \<and> cu_firstName c = None \<and> cu_lastName c = None
     \<and> cu_shopifyCustomerId c = ''redacted:'' @ cu_id c \<and> cu_shopifyCustomerId c \<noteq> gid \<and> cu_deletedAt c \<noteq> None"

lemma customer_gid_prefix: "to_shopify_customer_gid n = Some gid \<Longrightarrow> take 1 gid = ''g''"
  by (auto simp: to_shopify_customer_gid_def gid_wrap_def split: if_splits)

lemma erase_pii_erased: "to_shopify_customer_gid n = Some gid \<Longrightarrow> erased gid (erase_pii now c)"
  by (auto simp: erased_def erase_pii_def REDACTED_GID_SENTINEL_PREFIX_def dest!: customer_gid_prefix)

lemma list_all_update_many:
  "list_all P (update_many q f rows) = list_all (\<lambda>r. P (if q r then f r else r)) rows"
  by (induction rows) simp_all

lemma find_row_update_None:
  "(\<And>r. \<not> p (if q r then f r else r)) \<Longrightarrow> find_row p (update_many q f rows) = None"
  by (induction rows) (simp_all only: update_many_simps find_row_Cons find_row_Nil if_False not_False_eq_True)

lemma redact_rows_gone: "customer_rows_gone m cid (redact_rows now m cid s)"
  by (simp add: customer_rows_gone_def redact_rows_def CUSTOMER_REDACT_CHILD_TABLES_def remove_messages_def
      remove_generations_def Let_def list_all_update_many) (simp add: list_all_iff)

lemma redact_rows_customers:
  "customers (redact_rows now m cid s) =
     update_many (\<lambda>c. cu_id c = cid \<and> cu_merchantId c = m) (erase_pii now) (customers s)"
  "audits (redact_rows now m cid s) = audits s"
  by (simp_all add: redact_rows_def CUSTOMER_REDACT_CHILD_TABLES_def remove_messages_def remove_generations_def Let_def)

text \<open>Nothing of another tenant changes.\<close>

lemma confined_delete_child: "tenant_links s \<Longrightarrow> confined m s (delete_child m cid T s)"
  by (cases T; ((simp add: confined_remove confined_remove_generations; fail)
      | (simp only: delete_child.simps confined_def, intro conjI, rule shrinks_links, auto simp: shrinks_def
          link_list_def Let_def others_kept_def filter_same_iff)))

lemma confined_step: "confined m s s1 \<Longrightarrow> confined m s (delete_child m cid T s1)"
  by (rule confined_trans [OF _ confined_delete_child [OF confined_links]])

lemma confined_redact_rows:
  assumes "tenant_links s"
  shows "confined m s (redact_rows now m cid s)"
proof -
  let ?s1 = "s\<lparr>customers := update_many (\<lambda>c. cu_id c = cid \<and> cu_merchantId c = m) (erase_pii now) (customers s),
      orders := update_many (\<lambda>o1. or_merchantId o1 = m \<and> or_customerId o1 = Some cid)
        (\<lambda>o1. o1\<lparr>or_customerId := None\<rparr>) (orders s)\<rparr>"
  have "edges (Some \<circ> cu_id) cu_merchantId (customers ?s1) = edges (Some \<circ> cu_id) cu_merchantId (customers s)"
    unfolding update_many_def by simp (rule edges_map, simp add: erase_pii_def)
  then have "shrinks s ?s1"
    by (simp add: shrinks_def link_list_def Let_def update_many_def)
  moreover have "others_kept m s ?s1"
    by (simp add: others_kept_def update_many_def filter_cut [where h = "erase_pii now"]
        filter_cut [where h = "\<lambda>o1. o1\<lparr>or_customerId := None\<rparr>"] erase_pii_def)
  ultimately have "confined m s ?s1" using shrinks_links [OF _ assms] by (simp add: confined_def)
  moreover have "confined m s (fold (delete_child m cid) Ts s1)" if "confined m s s1" for Ts s1
    using that by (induction Ts arbitrary: s1) (simp_all add: confined_step)
  ultimately show ?thesis by (simp add: redact_rows_def)
qed

lemma update_many_other: "filter (\<lambda>r. \<not> P r) (update_many P f rows) = filter (\<lambda>r. \<not> P r) rows"
  if "\<And>r. P r \<Longrightarrow> P (f r)"
  using that by (induction rows) auto

text \<open>
  The links between a customer's own rows: a target has the customer of its message, and a
  message the customer of its generation (the code copies the customer from one to the other).
\<close>

definition customer_links :: "db \<Rightarrow> bool" where
  "customer_links s \<longleftrightarrow>
     list_all (\<lambda>x. list_all (\<lambda>t. tg_messageId t = ms_id x \<longrightarrow> tg_customerId t = ms_customerId x) (targets s)
       \<and> list_all (\<lambda>g. ms_aiGenerationId x = ge_id g \<longrightarrow> ms_customerId x = ge_customerId g) (generations s))
       (messages s)"

text \<open>
  Every table but those of the customer is as it was, and those of the customer have lost the
  customer's rows and no others; an order stays and only loses the name of the customer.
\<close>

definition only_customer_lost :: "merchant_id \<Rightarrow> string \<Rightarrow> db \<Rightarrow> db \<Rightarrow> bool" where
  "only_customer_lost m cid s s' \<longleftrightarrow>
     targets s' = filter (\<lambda>t. \<not> (tg_merchantId t = m \<and> tg_customerId t = cid)) (targets s)
   \<and> messages s' = filter (\<lambda>x. \<not> (ms_merchantId x = m \<and> ms_customerId x = cid)) (messages s)
   \<and> generations s' = filter (\<lambda>g. \<not> (ge_merchantId g = m \<and> ge_customerId g = cid)) (generations s)
   \<and> scores s' = filter (\<lambda>r. \<not> (sc_merchantId r = m \<and> sc_customerId r = cid)) (scores s)
   \<and> suppressions s' = filter (\<lambda>r. \<not> (su_merchantId r = m \<and> su_customerId r = cid)) (suppressions s)
   \<and> message_events s' = filter (\<lambda>v. \<not> list_ex (\<lambda>x. ms_merchantId x = m \<and> ms_customerId x = cid
         \<and> mv_messageId v = ms_id x) (messages s)) (message_events s)
   \<and> orders s' = map (\<lambda>o1. if or_merchantId o1 = m \<and> or_customerId o1 = Some cid
         then o1\<lparr>or_customerId := None\<rparr> else o1) (orders s)
   \<and> s' = s\<lparr>customers := customers s', orders := orders s', targets := targets s', messages := messages s',
         generations := generations s', scores := scores s', suppressions := suppressions s',
         message_events := message_events s', audits := audits s'\<rparr>"

lemma customer_linkD:
  assumes "customer_links s" and "x \<in> set (messages s)"
  shows "t \<in> set (targets s) \<Longrightarrow> tg_messageId t = ms_id x \<Longrightarrow> tg_customerId t = ms_customerId x"
    and "g \<in> set (generations s) \<Longrightarrow> ms_aiGenerationId x = ge_id g \<Longrightarrow> ms_customerId x = ge_customerId g"
  using assms by (auto simp: customer_links_def list_all_iff)

lemma only_customer_lost_audits:
  assumes "only_customer_lost m cid s s1"
  shows "only_customer_lost m cid s (s1\<lparr>audits := a\<rparr>)"
proof -
  have "s1\<lparr>audits := a\<rparr> = s\<lparr>customers := customers s1, orders := orders s1, targets := targets s1,
      messages := messages s1, generations := generations s1, scores := scores s1,
      suppressions := suppressions s1, message_events := message_events s1, audits := a\<rparr>"
    using assms by (subst (asm) only_customer_lost_def, elim conjE) (erule ssubst, simp)
  with assms show ?thesis by (simp add: only_customer_lost_def)
qed

text \<open>The cascades of the customer's messages and generations reach nothing of anybody else.\<close>

lemma remove_messages_own:
  assumes "\<And>x t. x \<in> set (messages s) \<Longrightarrow> P x \<Longrightarrow> t \<in> set (targets s) \<Longrightarrow> tg_messageId t \<noteq> ms_id x"
  shows "remove_messages P s = s\<lparr>messages := filter (\<lambda>x. \<not> P x) (messages s),
    message_events := filter (\<lambda>v. \<not> list_ex (\<lambda>x. P x \<and> mv_messageId v = ms_id x) (messages s)) (message_events s)\<rparr>"
proof -
  have "filter (\<lambda>t. tg_messageId t \<notin> ms_id ` set (filter P (messages s))) (targets s) = targets s"
    using assms by (auto simp: filter_id_conv)
  moreover have "filter (\<lambda>v. mv_messageId v \<notin> ms_id ` set (filter P (messages s))) (message_events s)
      = filter (\<lambda>v. \<not> list_ex (\<lambda>x. P x \<and> mv_messageId v = ms_id x) (messages s)) (message_events s)"
    by (rule filter_cong [OF refl]) (auto simp: list_ex_iff)
  ultimately show ?thesis by (simp only: remove_messages_def Let_def) simp
qed

lemma remove_generations_own:
  assumes "\<And>g x. g \<in> set (generations s) \<Longrightarrow> P g \<Longrightarrow> x \<in> set (messages s) \<Longrightarrow> ms_aiGenerationId x \<noteq> ge_id g"
  shows "remove_generations P s = s\<lparr>generations := filter (\<lambda>g. \<not> P g) (generations s)\<rparr>"
proof -
  let ?s1 = "s\<lparr>generations := filter (\<lambda>g. \<not> P g) (generations s)\<rparr>"
  let ?Q = "\<lambda>x. ms_aiGenerationId x \<in> ge_id ` set (filter P (generations s))"
  have no: "\<not> ?Q x" if "x \<in> set (messages s)" for x using assms that by auto
  then have "remove_messages ?Q ?s1 = ?s1\<lparr>messages := filter (\<lambda>x. \<not> ?Q x) (messages ?s1),
    message_events := filter (\<lambda>v. \<not> list_ex (\<lambda>x. ?Q x \<and> mv_messageId v = ms_id x) (messages ?s1)) (message_events ?s1)\<rparr>"
    by (intro remove_messages_own) auto
  also have "filter (\<lambda>x. \<not> ?Q x) (messages ?s1) = messages ?s1"
    unfolding filter_id_conv using no by auto
  also have "filter (\<lambda>v. \<not> list_ex (\<lambda>x. ?Q x \<and> mv_messageId v = ms_id x) (messages ?s1)) (message_events ?s1)
      = message_events ?s1"
    unfolding filter_id_conv list_ex_iff using no by auto
  finally show ?thesis by (simp only: remove_generations_def Let_def) simp
qed

lemma redact_rows_only:
  assumes "tenant_links s" and "customer_links s"
  shows "only_customer_lost m cid s (redact_rows now m cid s)"
proof -
  let ?own = "\<lambda>x. ms_merchantId x = m \<and> ms_customerId x = cid"
  let ?gen = "\<lambda>g. ge_merchantId g = m \<and> ge_customerId g = cid"
  let ?s1 = "s\<lparr>customers := update_many (\<lambda>c. cu_id c = cid \<and> cu_merchantId c = m) (erase_pii now) (customers s),
      orders := update_many (\<lambda>o1. or_merchantId o1 = m \<and> or_customerId o1 = Some cid)
        (\<lambda>o1. o1\<lparr>or_customerId := None\<rparr>) (orders s),
      targets := filter (\<lambda>t. \<not> (tg_merchantId t = m \<and> tg_customerId t = cid)) (targets s)\<rparr>"
  let ?s2 = "?s1\<lparr>messages := filter (\<lambda>x. \<not> ?own x) (messages s),
      message_events := filter (\<lambda>v. \<not> list_ex (\<lambda>x. ?own x \<and> mv_messageId v = ms_id x) (messages s)) (message_events s)\<rparr>"
  have m: "remove_messages ?own ?s1 = ?s2"
    using linkD(1) [OF assms(1)] customer_linkD(1) [OF assms(2)]
    by (subst remove_messages_own) auto
  have g: "remove_generations ?gen ?s2 = ?s2\<lparr>generations := filter (\<lambda>g. \<not> ?gen g) (generations s)\<rparr>"
    using linkD(3) [OF assms(1)] customer_linkD(2) [OF assms(2)]
    by (subst remove_generations_own) auto
  have "redact_rows now m cid s = ?s2\<lparr>generations := filter (\<lambda>g. \<not> ?gen g) (generations s),
      scores := filter (\<lambda>r. \<not> (sc_merchantId r = m \<and> sc_customerId r = cid)) (scores s),
      suppressions := filter (\<lambda>r. \<not> (su_merchantId r = m \<and> su_customerId r = cid)) (suppressions s)\<rparr>"
    unfolding redact_rows_def CUSTOMER_REDACT_CHILD_TABLES_def fold_simps delete_child.simps
    using m g by simp
  then show ?thesis by (simp add: only_customer_lost_def update_many_def)
qed

text \<open>
  C18. Redacting a customer who is live erases them and only them: the row keeps its id but loses
  email, phone, names and Shopify id, and is marked deleted; no target, message, generation,
  score or suppression of the customer is left and none of their orders names them. Nobody else
  is touched: the other customers' rows stay, each of these tables keeps exactly the rows that
  are not the customer's (those of the tenant's other customers included), every other table but
  the audit log is as it was, and an audit row records it.
\<close>

theorem customer_redact_erases:
  assumes "tenant_links s" and "customer_links s"
    and "gp_customer_id p = Some n" and "to_shopify_customer_gid n = Some gid"
    and "find_by_shopify_id m gid s = Some c"
  shows "\<exists>s'. process_customer_redact now m shop p s = (s', Inr ())
    \<and> list_all (\<lambda>r. cu_id r = cu_id c \<and> cu_merchantId r = m \<longrightarrow> erased gid r) (customers s')
    \<and> map cu_id (customers s') = map cu_id (customers s)
    \<and> filter (\<lambda>r. \<not> (cu_id r = cu_id c \<and> cu_merchantId r = m)) (customers s')
        = filter (\<lambda>r. \<not> (cu_id r = cu_id c \<and> cu_merchantId r = m)) (customers s)
    \<and> customer_rows_gone m (cu_id c) s' \<and> others_kept m s s'
    \<and> only_customer_lost m (cu_id c) s s'
    \<and> audits s' = audits s @ [redact_audit m shop p gid (cu_id c)]"
proof -
  let ?s1 = "redact_rows now m (cu_id c) s"
  let ?s' = "?s1\<lparr>audits := audits s @ [redact_audit m shop p gid (cu_id c)]\<rparr>"
  have "process_customer_redact now m shop p s = (?s', Inr ())"
    using assms(3-5) by (simp add: process_customer_redact_def redact_tx_def append_audit_def redact_audit_def
        gdpr_audit_def redact_rows_customers)
  moreover have "others_kept m s ?s1" using confined_redact_rows [OF assms(1)] by (simp add: confined_def)
  then have "others_kept m s ?s'" by (simp add: others_kept_def)
  moreover have "customer_rows_gone m (cu_id c) ?s'"
    using redact_rows_gone [of m "cu_id c" now s] by (simp add: customer_rows_gone_def)
  moreover have "only_customer_lost m (cu_id c) s ?s'"
    by (rule only_customer_lost_audits [OF redact_rows_only [OF assms(1,2)]])
  moreover have "list_all (\<lambda>r. cu_id r = cu_id c \<and> cu_merchantId r = m \<longrightarrow> erased gid r) (customers ?s')"
    using erase_pii_erased [OF assms(4)]
    by (auto simp: redact_rows_customers list_all_iff set_update_many split: if_splits)
  moreover have "map cu_id (customers ?s') = map cu_id (customers s)"
    by (simp add: redact_rows_customers update_many_def erase_pii_def)
  moreover have "filter (\<lambda>r. \<not> (cu_id r = cu_id c \<and> cu_merchantId r = m)) (customers ?s')
      = filter (\<lambda>r. \<not> (cu_id r = cu_id c \<and> cu_merchantId r = m)) (customers s)"
    using update_many_other [of "\<lambda>r. cu_id r = cu_id c \<and> cu_merchantId r = m" "erase_pii now" "customers s"]
    by (simp add: redact_rows_customers erase_pii_def)
  ultimately show ?thesis by (intro exI [of _ ?s'] conjI) simp_all
qed

lemma redact_demo_customer_links: "customer_links redact_demo"
  by (simp add: customer_links_def redact_demo_defs)

theorem customer_redact_erases_witness:
  "customer_rows_gone ''m1'' ''c1'' (fst (process_customer_redact 5 ''m1'' ''a.myshopify.com'' redact_demo_payload redact_demo))
   \<and> others_kept ''m1'' redact_demo (fst (process_customer_redact 5 ''m1'' ''a.myshopify.com'' redact_demo_payload redact_demo))"
proof -
  have "find_by_shopify_id ''m1'' ''gid://shopify/Customer/7'' redact_demo = Some (redact_demo_customer ''c1'' ''m1'')"
    "to_shopify_customer_gid ''7'' = Some ''gid://shopify/Customer/7''"
    by (simp_all add: redact_demo_defs find_by_shopify_id_def find_row_def to_shopify_customer_gid_def
        gid_wrap_def numeric_def digit_def)
  from customer_redact_erases [OF redact_demo_links redact_demo_customer_links _ this(2,1), of redact_demo_payload 5 "''a.myshopify.com''"]
  show ?thesis by (auto simp: redact_demo_payload_def redact_demo_customer_def fresh_customer_def)
qed

text \<open>
  C35. A customer deleted before the redaction is not erased: after \<open>customers/delete\<close> the
  redaction of the same customer finds no live row, so it changes no table but the audit log, and
  the deleted row keeps its email, phone and names.
\<close>

theorem deleted_customer_keeps_pii:
  assumes "gp_customer_id p = Some n" and "to_shopify_customer_gid n = Some gid"
  shows "\<exists>s1 b. soft_delete (Tenant m) t m gid s = Inr (s1, b)
    \<and> process_customer_redact now m shop p s1 = (s1\<lparr>audits := audits s @ [no_record_audit m shop p gid n]\<rparr>, Inr ())
    \<and> map (\<lambda>c. (cu_email c, cu_phone c, cu_firstName c, cu_lastName c, cu_shopifyCustomerId c)) (customers s1)
      = map (\<lambda>c. (cu_email c, cu_phone c, cu_firstName c, cu_lastName c, cu_shopifyCustomerId c)) (customers s)
    \<and> messages s1 = messages s \<and> generations s1 = generations s"
proof -
  let ?mine = "\<lambda>c. cu_merchantId c = m \<and> cu_shopifyCustomerId c = gid \<and> cu_deletedAt c = None"
  let ?s1 = "s\<lparr>customers := update_many ?mine (\<lambda>c. c\<lparr>cu_deletedAt := Some t\<rparr>) (customers s)\<rparr>"
  have "find_by_shopify_id m gid ?s1 = None"
    unfolding find_by_shopify_id_def by simp (rule find_row_update_None, simp)
  then have "process_customer_redact now m shop p ?s1
      = (?s1\<lparr>audits := audits s @ [no_record_audit m shop p gid n]\<rparr>, Inr ())"
    using assms by (simp add: process_customer_redact_def redact_tx_def append_audit_def no_record_audit_def gdpr_audit_def)
  then show ?thesis
    by (intro exI [of _ ?s1]) (auto simp: soft_delete_def update_many_def Let_def)
qed

theorem deleted_customer_keeps_pii_witness:
  "\<exists>s1 b. soft_delete (Tenant ''m1'') 4 ''m1'' ''gid://shopify/Customer/7'' redact_demo = Inr (s1, b)
    \<and> map cu_email (customers (fst (process_customer_redact 5 ''m1'' ''a.myshopify.com'' redact_demo_payload s1)))
      = [Some ''ann@example.com'', Some ''ann@example.com'']"
proof -
  have "to_shopify_customer_gid ''7'' = Some ''gid://shopify/Customer/7''"
    by (simp add: to_shopify_customer_gid_def gid_wrap_def numeric_def digit_def)
  from deleted_customer_keeps_pii [OF _ this, of redact_demo_payload "''m1''" 4 redact_demo 5 "''a.myshopify.com''"]
  show ?thesis by (auto simp: redact_demo_defs)
qed

end
