(* ===== verification/Backfill.thy ===== *)
theory Backfill
  imports AdminClient
begin

text \<open>
  Backfills: the repository of their jobs
  (\<open>packages/db/src/repositories/backfill-job.repository.ts\<close>) and the runner
  (\<open>packages/shopify/src/backfill/runner.ts\<close>), which fetches page after page from Shopify,
  stores each page in one transaction with the cursor it ends at, and resumes at the cursor of
  the job. How a page is fetched and stored are its parameters, as in the code.
\<close>

section \<open>Jobs\<close>

definition my_job :: "merchant_id \<Rightarrow> backfill_resource \<Rightarrow> backfill_row \<Rightarrow> bool" where
  "my_job m r b \<longleftrightarrow> bf_merchantId b = m \<and> bf_resource b = r"

definition find_by_resource :: "merchant_id \<Rightarrow> backfill_resource \<Rightarrow> db \<Rightarrow> backfill_row option" where
  "find_by_resource m r s = find_row (my_job m r) (backfill_jobs s)"

definition fresh_job :: "merchant_id \<Rightarrow> backfill_resource \<Rightarrow> int \<Rightarrow> backfill_row" where
  "fresh_job m r pageSize = \<lparr>bf_merchantId = m, bf_resource = r, bf_status = BfPending, bf_cursor = None,
     bf_pageSize = pageSize, bf_itemsProcessed = 0, bf_pagesProcessed = 0, bf_attempts = 0,
     bf_lastError = None, bf_startedAt = None, bf_completedAt = None\<rparr>"

definition get_or_create :: "merchant_id \<Rightarrow> backfill_resource \<Rightarrow> int \<Rightarrow> db \<Rightarrow> db \<times> backfill_row" where
  "get_or_create m r pageSize s =
     (case find_by_resource m r s of
        Some j \<Rightarrow> (s, j)
      | None \<Rightarrow> (s\<lparr>backfill_jobs := backfill_jobs s @ [fresh_job m r pageSize]\<rparr>, fresh_job m r pageSize))"

definition update_job :: "merchant_id \<Rightarrow> backfill_resource \<Rightarrow> (backfill_row \<Rightarrow> backfill_row) \<Rightarrow> unit tx" where
  "update_job m r change s =
     (if find_by_resource m r s = None then Inl record_not_found
      else Inr (s\<lparr>backfill_jobs := update_many (my_job m r) change (backfill_jobs s)\<rparr>, ()))"

definition mark_started :: "time \<Rightarrow> merchant_id \<Rightarrow> backfill_resource \<Rightarrow> unit tx" where
  "mark_started now m r =
     update_job m r (\<lambda>b. b\<lparr>bf_status := BfRunning, bf_startedAt := Some now, bf_lastError := None\<rparr>)"

definition commit_page :: "merchant_id \<Rightarrow> backfill_resource \<Rightarrow> string option \<Rightarrow> nat \<Rightarrow> unit tx" where
  "commit_page m r newCursor itemsInPage =
     update_job m r (\<lambda>b. b\<lparr>bf_cursor := newCursor, bf_itemsProcessed := bf_itemsProcessed b + int itemsInPage,
       bf_pagesProcessed := bf_pagesProcessed b + 1\<rparr>)"

definition mark_job_completed :: "time \<Rightarrow> merchant_id \<Rightarrow> backfill_resource \<Rightarrow> unit tx" where
  "mark_job_completed now m r =
     update_job m r (\<lambda>b. b\<lparr>bf_status := BfCompleted, bf_completedAt := Some now, bf_lastError := None\<rparr>)"

definition mark_paused :: "merchant_id \<Rightarrow> backfill_resource \<Rightarrow> string \<Rightarrow> unit tx" where
  "mark_paused m r message =
     update_job m r (\<lambda>b. b\<lparr>bf_status := BfPaused, bf_lastError := Some (take 1000 message)\<rparr>)"

definition mark_job_failed :: "merchant_id \<Rightarrow> backfill_resource \<Rightarrow> string \<Rightarrow> unit tx" where
  "mark_job_failed m r message =
     update_job m r (\<lambda>b. b\<lparr>bf_status := BfFailed, bf_attempts := bf_attempts b + 1,
       bf_lastError := Some (take 1000 message)\<rparr>)"

section \<open>The runner\<close>

record 'i resource_page =
  pg_items :: "'i list"
  pg_endCursor :: "string option"
  pg_hasNextPage :: bool

type_synonym ('w, 'i) page_fetcher =
  "string option \<Rightarrow> int \<Rightarrow> 'w admin_state \<Rightarrow> 'w admin_state \<times> (exn + 'i resource_page)"
type_synonym 'i page_processor = "time \<Rightarrow> 'i list \<Rightarrow> unit tx"

record backfill_run_result =
  br_pagesProcessed :: int
  br_itemsProcessed :: int
  br_finalStatus :: backfill_status

definition MAX_PAGES_HARD_LIMIT :: nat where "MAX_PAGES_HARD_LIMIT = 10000"

definition page_limit_error :: exn where
  "page_limit_error = PlainErr ''Backfill page limit (10000) exceeded - likely a non-advancing cursor.''"

definition store_page ::
  "'i page_processor \<Rightarrow> time \<Rightarrow> merchant_id \<Rightarrow> backfill_resource \<Rightarrow> 'i resource_page \<Rightarrow> unit tx" where
  "store_page process now m r page s =
     rbind (if pg_items page = [] then Inr (s, ()) else process now (pg_items page) s) (\<lambda>(s1, _).
       commit_page m r (pg_endCursor page) (length (pg_items page)) s1)"

text \<open>
  The loop, with the number of pages it may still fetch. It gives the failure that ended it,
  if any; the limit counts as one also when the last allowed page was the last page.
\<close>

fun page_loop ::
  "('w, 'i) page_fetcher \<Rightarrow> 'i page_processor \<Rightarrow> merchant_id \<Rightarrow> backfill_resource \<Rightarrow> int \<Rightarrow> nat \<Rightarrow>
   string option \<Rightarrow> int \<times> int \<Rightarrow> 'w admin_state \<Rightarrow> 'w admin_state \<times> (int \<times> int) \<times> exn option" where
  "page_loop fetch process m r pageSize 0 cursor counts st = (st, counts, Some page_limit_error)"
| "page_loop fetch process m r pageSize (Suc n) cursor counts st =
     (case fetch cursor pageSize st of
        (st1, Inl e) \<Rightarrow> (st1, counts, Some e)
      | (st1, Inr page) \<Rightarrow>
          (case transaction (store_page process (ad_now st1) m r page) (ad_db st1) of
             (s2, Inl e) \<Rightarrow> (st1\<lparr>ad_db := s2\<rparr>, counts, Some e)
           | (s2, Inr _) \<Rightarrow>
               (let st2 = st1\<lparr>ad_db := s2\<rparr>;
                    counts' = (fst counts + 1, snd counts + int (length (pg_items page)))
                in if pg_hasNextPage page
                   then page_loop fetch process m r pageSize n (pg_endCursor page) counts' st2
                   else (st2, counts', if n = 0 then Some page_limit_error else None))))"

definition resource_name :: "backfill_resource \<Rightarrow> string" where
  "resource_name r = (case r of BackfillCustomers \<Rightarrow> ''customers'' | BackfillOrders \<Rightarrow> ''orders'')"

definition complete_backfill ::
  "string \<Rightarrow> time \<Rightarrow> merchant_id \<Rightarrow> backfill_resource \<Rightarrow> int \<times> int \<Rightarrow> unit tx" where
  "complete_backfill eid now m r counts s =
     rbind (mark_job_completed now m r s) (\<lambda>(s1, _).
       create_outbox (Tenant m) eid m (event_string MerchantBackfillCompleted)
         (JsonPayload (JObj [(''resource'', JStr (resource_name r)), (''pagesProcessed'', JNum (fst counts)),
            (''itemsProcessed'', JNum (snd counts))])) now s1)"

text \<open>The \<open>catch\<close>: a revoked token pauses the job, anything else fails it.\<close>

definition settle_failure ::
  "merchant_id \<Rightarrow> backfill_resource \<Rightarrow> int \<times> int \<Rightarrow> exn \<Rightarrow> 'w admin_state \<Rightarrow>
   'w admin_state \<times> (exn + backfill_run_result)" where
  "settle_failure m r counts e st =
     (if token_revoked e then
        (case transaction (mark_paused m r (exn_message e)) (ad_db st) of
           (s, Inl e') \<Rightarrow> (st\<lparr>ad_db := s\<rparr>, Inl e')
         | (s, Inr _) \<Rightarrow> (st\<lparr>ad_db := s\<rparr>, Inr \<lparr>br_pagesProcessed = fst counts,
             br_itemsProcessed = snd counts, br_finalStatus = BfPaused\<rparr>))
      else
        (case transaction (mark_job_failed m r (exn_message e)) (ad_db st) of
           (s, Inl e') \<Rightarrow> (st\<lparr>ad_db := s\<rparr>, Inl e')
         | (s, Inr _) \<Rightarrow> (st\<lparr>ad_db := s\<rparr>, Inl e)))"

definition run_backfill ::
  "nat \<Rightarrow> string \<Rightarrow> ('w, 'i) page_fetcher \<Rightarrow> 'i page_processor \<Rightarrow> merchant_id \<Rightarrow> backfill_resource \<Rightarrow> int option \<Rightarrow>
   'w admin_state \<Rightarrow> 'w admin_state \<times> (exn + backfill_run_result)" where
  "run_backfill limit eid fetch process m r pageSize st =
     (case get_or_create m r (or_default pageSize 50) (ad_db st) of
        (s0, job) \<Rightarrow>
          if bf_status job = BfCompleted
          then (st\<lparr>ad_db := s0\<rparr>, Inr \<lparr>br_pagesProcessed = bf_pagesProcessed job,
                  br_itemsProcessed = bf_itemsProcessed job, br_finalStatus = BfCompleted\<rparr>)
          else (case mark_started (ad_now st) m r s0 of
             Inl e \<Rightarrow> (st\<lparr>ad_db := s0\<rparr>, Inl e)
           | Inr (s1, _) \<Rightarrow>
               (case page_loop fetch process m r (bf_pageSize job) limit (bf_cursor job)
                       (bf_pagesProcessed job, bf_itemsProcessed job) (st\<lparr>ad_db := s1\<rparr>) of
                  (st2, counts, Some e) \<Rightarrow> settle_failure m r counts e st2
                | (st2, counts, None) \<Rightarrow>
                    (case transaction (complete_backfill eid (ad_now st2) m r counts) (ad_db st2) of
                       (s3, Inl e) \<Rightarrow> settle_failure m r counts e (st2\<lparr>ad_db := s3\<rparr>)
                     | (s3, Inr _) \<Rightarrow> (st2\<lparr>ad_db := s3\<rparr>, Inr \<lparr>br_pagesProcessed = fst counts,
                         br_itemsProcessed = snd counts, br_finalStatus = BfCompleted\<rparr>)))))"

text \<open>
  Any number of runs, one after the other, each in a world and at a time of its own: the
  database is what the run before left.
\<close>

fun backfill_runs ::
  "nat \<Rightarrow> string \<Rightarrow> ('w, 'i) page_fetcher \<Rightarrow> 'i page_processor \<Rightarrow> merchant_id \<Rightarrow> backfill_resource \<Rightarrow> int option \<Rightarrow>
   ('w admin_state \<Rightarrow> 'w admin_state) list \<Rightarrow> 'w admin_state \<Rightarrow> 'w admin_state" where
  "backfill_runs limit eid fetch process m r ps [] st = st"
| "backfill_runs limit eid fetch process m r ps (g # gs) st = backfill_runs limit eid fetch process m r ps gs
     (fst (run_backfill limit eid fetch process m r ps ((g st)\<lparr>ad_db := ad_db st\<rparr>)))"

section \<open>Facts about jobs\<close>

lemma find_update_job:
  assumes "\<And>b. my_job m r (change b) = my_job m r b"
  shows "find_row (my_job m r) (update_many (my_job m r) change js) = map_option change (find_row (my_job m r) js)"
  using assms by (induction js) (auto simp: find_row_Cons)

lemma update_job_iff:
  assumes "\<And>b. my_job m r (change b) = my_job m r b"
  shows "update_job m r change s = Inr (s', u) \<longleftrightarrow>
    (\<exists>j. find_by_resource m r s = Some j \<and> find_by_resource m r s' = Some (change j)
       \<and> s' = s\<lparr>backfill_jobs := update_many (my_job m r) change (backfill_jobs s)\<rparr>)"
  using assms by (auto simp: update_job_def find_by_resource_def find_update_job)

lemma update_job_Inl: "update_job m r change s = Inl e \<longleftrightarrow> find_by_resource m r s = None \<and> e = record_not_found"
  by (auto simp: update_job_def)

lemma find_created: "find_by_resource m r (fst (get_or_create m r pageSize s)) = Some (snd (get_or_create m r pageSize s))"
  by (auto simp: get_or_create_def find_by_resource_def find_row_append find_row_Cons fresh_job_def my_job_def
      split: option.splits)

text \<open>What fetching, storing and writing jobs and events all keep, a run keeps.\<close>

lemma transaction_keeps:
  assumes "P s" and "transaction body s = (s1, res)" and "\<And>s' u. body s = Inr (s', u) \<Longrightarrow> P s'"
  shows "P s1"
  using assms by (cases "body s") (auto simp: transaction_def)

lemma update_job_keeps:
  assumes "update_job m r change s = Inr (s', u)" and "P s" and "\<And>s js. P s \<Longrightarrow> P (s\<lparr>backfill_jobs := js\<rparr>)"
  shows "P s'"
proof -
  from assms(1) have "s' = s\<lparr>backfill_jobs := update_many (my_job m r) change (backfill_jobs s)\<rparr>"
    by (auto simp: update_job_def split: if_splits)
  with assms(3) [OF assms(2)] show ?thesis by simp
qed

lemma store_page_keeps:
  assumes "store_page process now m r page s = Inr (s', u)" and "P s"
    and jobs: "\<And>s js. P s \<Longrightarrow> P (s\<lparr>backfill_jobs := js\<rparr>)"
    and stores: "\<And>now xs s s' u. process now xs s = Inr (s', u) \<Longrightarrow> P s \<Longrightarrow> P s'"
  shows "P s'"
proof -
  obtain s1 u1 where s1: "(if pg_items page = [] then Inr (s, ()) else process now (pg_items page) s) = Inr (s1, u1)"
    and c: "commit_page m r (pg_endCursor page) (length (pg_items page)) s1 = Inr (s', u)"
    using assms(1) by (auto simp: store_page_def)
  have "P s1" using s1 assms(2) stores by (cases "pg_items page = []") auto
  from update_job_keeps [OF c [unfolded commit_page_def], of P, OF this jobs] show ?thesis .
qed

lemma page_loop_keeps:
  assumes "page_loop fetch process m r n k c counts st = (st', out)" and "P (ad_db st)"
    and jobs: "\<And>s js. P s \<Longrightarrow> P (s\<lparr>backfill_jobs := js\<rparr>)"
    and fetches: "\<And>c n st st' res. fetch c n st = (st', res) \<Longrightarrow> P (ad_db st) \<Longrightarrow> P (ad_db st')"
    and stores: "\<And>now xs s s' u. process now xs s = Inr (s', u) \<Longrightarrow> P s \<Longrightarrow> P s'"
  shows "P (ad_db st')"
  using assms(1,2)
proof (induction k arbitrary: c counts st)
  case (Suc k)
  obtain st1 res where f: "fetch c n st = (st1, res)" by (metis surj_pair)
  note p1 = fetches [OF f Suc.prems(2)]
  show ?case
  proof (cases res)
    case (Inl e)
    with f p1 Suc.prems(1) show ?thesis by auto
  next
    case (Inr pg)
    obtain s2 q where t: "transaction (store_page process (ad_now st1) m r pg) (ad_db st1) = (s2, q)" by (metis surj_pair)
    have p2: "P s2"
    proof (rule transaction_keeps [of P, OF p1 t])
      fix s' u assume "store_page process (ad_now st1) m r pg (ad_db st1) = Inr (s', u)"
      from store_page_keeps [OF this, of P, OF p1 jobs stores] show "P s'" .
    qed
    show ?thesis
    proof (cases "\<exists>u. q = Inr u \<and> pg_hasNextPage pg")
      case True
      with f Inr t Suc.prems(1) have "page_loop fetch process m r n k (pg_endCursor pg)
          (fst counts + 1, snd counts + int (length (pg_items pg))) (st1\<lparr>ad_db := s2\<rparr>) = (st', out)"
        by (auto simp: Let_def)
      from Suc.IH [OF this] p2 show ?thesis by simp
    next
      case False
      with f Inr t Suc.prems(1) have "st' = st1\<lparr>ad_db := s2\<rparr>" by (cases q) (auto simp: Let_def)
      with p2 show ?thesis by simp
    qed
  qed
qed simp

lemma settle_failure_keeps:
  assumes "settle_failure m r counts e st = (st', out)" and "P (ad_db st)"
    and jobs: "\<And>s js. P s \<Longrightarrow> P (s\<lparr>backfill_jobs := js\<rparr>)"
  shows "P (ad_db st')"
proof -
  let ?body = "if token_revoked e then mark_paused m r (exn_message e) else mark_job_failed m r (exn_message e)"
  obtain s q where t: "transaction ?body (ad_db st) = (s, q)" by (metis surj_pair)
  have "P s"
  proof (rule transaction_keeps [of P, OF assms(2) t])
    fix s' u assume "?body (ad_db st) = Inr (s', u)"
    then obtain change where "update_job m r change (ad_db st) = Inr (s', u)"
      by (auto simp: mark_paused_def mark_job_failed_def split: if_splits)
    from update_job_keeps [OF this, of P, OF assms(2) jobs] show "P s'" .
  qed
  moreover have "st' = st\<lparr>ad_db := s\<rparr>"
    using assms(1) t by (cases "token_revoked e"; cases q) (auto simp: settle_failure_def)
  ultimately show ?thesis by simp
qed

lemma run_backfill_keeps:
  assumes run: "run_backfill limit eid fetch process m r ps st = (st', res)" and "P (ad_db st)"
    and jobs: "\<And>s js. P s \<Longrightarrow> P (s\<lparr>backfill_jobs := js\<rparr>)" and obs: "\<And>s ob. P s \<Longrightarrow> P (s\<lparr>outbox := ob\<rparr>)"
    and fetches: "\<And>c n st st' res. fetch c n st = (st', res) \<Longrightarrow> P (ad_db st) \<Longrightarrow> P (ad_db st')"
    and stores: "\<And>now xs s s' u. process now xs s = Inr (s', u) \<Longrightarrow> P s \<Longrightarrow> P s'"
  shows "P (ad_db st')"
proof -
  obtain s0 job where g: "get_or_create m r (or_default ps 50) (ad_db st) = (s0, job)" by (metis surj_pair)
  then have p0: "P s0" using assms(2) jobs [OF assms(2)] by (auto simp: get_or_create_def split: option.splits)
  consider "bf_status job = BfCompleted" | e where "bf_status job \<noteq> BfCompleted" "mark_started (ad_now st) m r s0 = Inl e"
    | s1 where "bf_status job \<noteq> BfCompleted" "mark_started (ad_now st) m r s0 = Inr (s1, ())"
    by (cases "mark_started (ad_now st) m r s0") auto
  then show ?thesis
  proof cases
    case 1
    with run g p0 show ?thesis by (auto simp: run_backfill_def)
  next
    case 2
    with run g p0 show ?thesis by (auto simp: run_backfill_def)
  next
    case 3
    from update_job_keeps [OF 3(2) [unfolded mark_started_def], of P, OF p0 jobs] have "P s1" .
    obtain st2 counts failure where l: "page_loop fetch process m r (bf_pageSize job) limit (bf_cursor job)
        (bf_pagesProcessed job, bf_itemsProcessed job) (st\<lparr>ad_db := s1\<rparr>) = (st2, counts, failure)" by (metis surj_pair)
    have "P (ad_db (st\<lparr>ad_db := s1\<rparr>))" using \<open>P s1\<close> by simp
    from page_loop_keeps [OF l, of P, OF this jobs fetches stores] have p2: "P (ad_db st2)" .
    obtain s3 q where t: "transaction (complete_backfill eid (ad_now st2) m r counts) (ad_db st2) = (s3, q)" by (metis surj_pair)
    have "P s3"
    proof (rule transaction_keeps [of P, OF p2 t])
      fix s' u assume "complete_backfill eid (ad_now st2) m r counts (ad_db st2) = Inr (s', u)"
      then obtain s4 ob where "mark_job_completed (ad_now st2) m r (ad_db st2) = Inr (s4, ())" "s' = s4\<lparr>outbox := ob\<rparr>"
        by (auto simp: complete_backfill_def create_outbox_def split: if_splits)
      with update_job_keeps [OF this(1) [unfolded mark_job_completed_def], of P, OF p2 jobs] obs show "P s'" by simp
    qed
    then have p3: "P (ad_db (st2\<lparr>ad_db := s3\<rparr>))" by simp
    show ?thesis
    proof (cases failure)
      case (Some e)
      with run g 3 l have "settle_failure m r counts e st2 = (st', res)" by (simp add: run_backfill_def)
      from settle_failure_keeps [OF this, of P, OF p2 jobs] show ?thesis .
    next
      case None
      show ?thesis
      proof (cases q)
        case (Inl e)
        with run g 3 l t None have "settle_failure m r counts e (st2\<lparr>ad_db := s3\<rparr>) = (st', res)"
          by (simp add: run_backfill_def)
        from settle_failure_keeps [OF this, of P, OF p3 jobs] show ?thesis .
      next
        case (Inr u)
        with run g 3 l t None p3 show ?thesis by (auto simp: run_backfill_def)
      qed
    qed
  qed
qed

text \<open>A request of the Admin client writes at most the revocation of the token.\<close>

lemma graphql_loop_keeps:
  assumes "graphql_loop e m shop token q cost attempt st = (st', res)" and "P (ad_db st)"
    and "\<And>eid now s s' u. mark_token_revoked eid now m s = Inr (s', u) \<Longrightarrow> P s \<Longrightarrow> P s'"
  shows "P (ad_db st')"
  using assms
proof (induction e m shop token q cost attempt st rule: graphql_loop.induct)
  case (1 e m shop token q cost attempt st)
  obtain st1 response where s: "send_request e shop token q cost st = (st1, response)" by (metis surj_pair)
  obtain st2 v where j: "judge e shop attempt response st1 = (st2, v)" by (metis surj_pair)
  have db: "ad_db st2 = ad_db st" using send_request_db [OF s] judge_errors [OF j] by simp
  have p2: "P (ad_db st2)" using db 1(3) by simp
  show ?case
  proof (cases v)
    case (Stop r)
    with 1(2) p2 show ?thesis by (subst (asm) graphql_loop.simps) (auto simp: s j)
  next
    case (RetryAfter ms err')
    show ?thesis
    proof (cases "attempt \<ge> ae_maxRetries e")
      case True
      with RetryAfter 1(2) p2 show ?thesis by (subst (asm) graphql_loop.simps) (auto simp: s j)
    next
      case False
      with 1(2) RetryAfter have "graphql_loop e m shop token q cost (attempt + 1) (sleep ms st2) = (st', res)"
        by (subst (asm) graphql_loop.simps) (simp add: s j)
      from 1(1) [OF s [symmetric] j [symmetric] RetryAfter False this _ 1(4)] p2 show ?thesis by (simp add: sleep_def)
    qed
  next
    case Unauthorized
    show ?thesis
    proof (cases "mark_token_revoked (ae_eventId e) (ad_now st2) m (ad_db st2)")
      case (Inl err')
      with Unauthorized 1(2) p2 show ?thesis
        by (subst (asm) graphql_loop.simps) (auto simp: s j transaction_def)
    next
      case (Inr su)
      obtain s' u where su: "su = (s', u)" by (cases su)
      with 1(4) Inr p2 have "P s'" by blast
      with su Inr Unauthorized 1(2) show ?thesis
        by (subst (asm) graphql_loop.simps) (auto simp: s j transaction_def)
    qed
  qed
qed

lemma graphql_keeps:
  assumes "graphql e m q c st = (st', res)" and "P (ad_db st)"
    and "\<And>eid now s s' u. mark_token_revoked eid now m s = Inr (s', u) \<Longrightarrow> P s \<Longrightarrow> P s'"
  shows "P (ad_db st')"
  using assms(1,2) graphql_loop_keeps [of e m _ _ q _ 0 st st' res P, OF _ assms(2,3)]
  by (auto simp: graphql_def split: option.splits)

lemmas job_updates = mark_started_def commit_page_def mark_job_completed_def mark_paused_def mark_job_failed_def

end
