(* ===== verification/BackfillFacts.thy ===== *)
theory BackfillFacts
  imports Backfill
begin

text \<open>
  What a backfill promises, for any resource whose source pages a fixed list: the contract of
  the page fetcher and the page processor, and the invariant that the job's cursor always says
  exactly which items have been stored.
\<close>

section \<open>The contract\<close>

text \<open>
  \<open>items\<close> is the collection in Shopify's order, \<open>pos c\<close> the number of items before the
  cursor \<open>c\<close>, and \<open>applied k s\<close> says that the database has the first \<open>k\<close> items stored, each
  once. A fetch that answers gives the next items and says whether more follow; the cursor of
  a page that has items is behind them. Fetching changes no stored item and no job.
\<close>

locale paged_backfill =
  fixes fetch :: "('w, 'i) page_fetcher" and process :: "'i page_processor"
    and m :: merchant_id and r :: backfill_resource and items :: "'i list"
    and pos :: "string option \<Rightarrow> nat" and applied :: "nat \<Rightarrow> db \<Rightarrow> bool" and pageSize :: int
  assumes pos_start: "pos None = 0"
    and some_page: "0 < pageSize"
    and page: "fetch c pageSize st = (st', Inr p) \<Longrightarrow> pg_items p = take (nat pageSize) (drop (pos c) items)
      \<and> (pg_hasNextPage p \<longleftrightarrow> pos c + nat pageSize < length items)
      \<and> (pg_items p \<noteq> [] \<longrightarrow> pos (pg_endCursor p) = pos c + length (pg_items p))"
    and fetch_keeps: "fetch c pageSize st = (st', res) \<Longrightarrow>
      backfill_jobs (ad_db st') = backfill_jobs (ad_db st) \<and> (applied k (ad_db st) \<longrightarrow> applied k (ad_db st'))"
    and process_applies: "applied k s \<Longrightarrow> xs = take j (drop k items) \<Longrightarrow> process now xs s = Inr (s', u) \<Longrightarrow>
      applied (k + length xs) s' \<and> backfill_jobs s' = backfill_jobs s"
    and applied_frame: "applied k (s\<lparr>backfill_jobs := js\<rparr>) = applied k s" "applied k (s\<lparr>outbox := obs\<rparr>) = applied k s"
begin

text \<open>The job's cursor and count say how many items are stored.\<close>

definition in_step :: "backfill_row \<Rightarrow> db \<Rightarrow> bool" where
  "in_step j s \<longleftrightarrow> find_by_resource m r s = Some j \<and> bf_status j \<noteq> BfCompleted \<and> bf_pageSize j = pageSize
     \<and> pos (bf_cursor j) \<le> length items \<and> applied (pos (bf_cursor j)) s
     \<and> bf_itemsProcessed j = int (pos (bf_cursor j))"

definition all_stored :: "backfill_row \<Rightarrow> db \<Rightarrow> bool" where
  "all_stored j s \<longleftrightarrow> find_by_resource m r s = Some j \<and> bf_pageSize j = pageSize \<and> applied (length items) s
     \<and> bf_itemsProcessed j = int (length items)"

text \<open>One stored page keeps job and items in step.\<close>

lemma store_page_step:
  assumes "in_step j s" and "fetch (bf_cursor j) pageSize st = (st1, Inr p)"
    and "applied (pos (bf_cursor j)) s1" and "find_by_resource m r s1 = Some j"
    and "store_page process now m r p s1 = Inr (s2, u)"
  shows "\<exists>j'. find_by_resource m r s2 = Some j' \<and> bf_status j' = bf_status j \<and> bf_pageSize j' = pageSize
    \<and> bf_cursor j' = pg_endCursor p
    \<and> bf_itemsProcessed j' = int (pos (bf_cursor j) + length (pg_items p))
    \<and> applied (pos (bf_cursor j) + length (pg_items p)) s2
    \<and> pos (bf_cursor j) + length (pg_items p) = min (pos (bf_cursor j) + nat pageSize) (length items)
    \<and> (pg_items p \<noteq> [] \<longrightarrow> pos (pg_endCursor p) = pos (bf_cursor j) + length (pg_items p))"
proof -
  let ?k = "pos (bf_cursor j)"
  note pg = page [OF assms(2)]
  have len: "?k + length (pg_items p) = min (?k + nat pageSize) (length items)"
    using pg assms(1) by (auto simp: in_step_def)
  obtain s3 where s3: "applied (?k + length (pg_items p)) s3" "backfill_jobs s3 = backfill_jobs s1"
    and c: "commit_page m r (pg_endCursor p) (length (pg_items p)) s3 = Inr (s2, ())"
  proof (cases "pg_items p = []")
    case True
    with assms(3,5) show ?thesis by (intro that [of s1]) (auto simp: store_page_def)
  next
    case False
    with assms(5) obtain s3 where "process now (pg_items p) s1 = Inr (s3, ())"
      "commit_page m r (pg_endCursor p) (length (pg_items p)) s3 = Inr (s2, ())"
      by (auto simp: store_page_def)
    with process_applies [OF assms(3), of "pg_items p" "nat pageSize" now s3 "()"] pg show ?thesis
      by (intro that [of s3]) auto
  qed
  let ?change = "\<lambda>b. b\<lparr>bf_cursor := pg_endCursor p, bf_itemsProcessed := bf_itemsProcessed b + int (length (pg_items p)),
       bf_pagesProcessed := bf_pagesProcessed b + 1\<rparr>"
  have "find_by_resource m r s3 = Some j" using s3(2) assms(4) by (simp add: find_by_resource_def)
  with c have "find_by_resource m r s2 = Some (?change j)"
    "s2 = s3\<lparr>backfill_jobs := update_many (my_job m r) ?change (backfill_jobs s3)\<rparr>"
    unfolding commit_page_def by (subst (asm) update_job_iff; auto simp: my_job_def)+
  with s3(1) len pg assms(1) show ?thesis
    by (intro exI [of _ "?change j"]) (auto simp: applied_frame in_step_def)
qed

lemma store_page_fails:
  assumes "transaction (store_page process now m r p) s = (s', Inl e)"
  shows "s' = s"
  using assms by (auto simp: transaction_def split: sum.splits)

text \<open>The loop ends with everything stored, or in step.\<close>

lemma page_loop_step:
  assumes "page_loop fetch process m r pageSize n c counts st = (st', counts', failure)"
    and "in_step j (ad_db st)" and "bf_cursor j = c" and "n = 0 \<or> 1 < n \<or> pos c < length items"
  shows "\<exists>j'. (failure \<noteq> None \<longrightarrow> in_step j' (ad_db st'))
    \<and> (failure = None \<longrightarrow> all_stored j' (ad_db st') \<and> bf_status j' \<noteq> BfCompleted
         \<and> snd counts' = snd counts + int (length items) - int (pos c))"
  using assms
proof (induction n arbitrary: c counts st j)
  case (Suc n)
  obtain st1 res where f: "fetch c pageSize st = (st1, res)" by (metis surj_pair)
  note keeps = fetch_keeps [OF f]
  have j1: "find_by_resource m r (ad_db st1) = Some j" "applied (pos c) (ad_db st1)"
    using keeps Suc.prems(2,3) by (auto simp: in_step_def find_by_resource_def)
  then have step1: "in_step j (ad_db st1)" using Suc.prems(2,3) by (simp add: in_step_def)
  show ?case
  proof (cases res)
    case (Inl e)
    with Suc.prems(1) f step1 show ?thesis by auto
  next
    case (Inr p)
    obtain s2 q where t: "transaction (store_page process (ad_now st1) m r p) (ad_db st1) = (s2, q)" by (metis surj_pair)
    show ?thesis
    proof (cases q)
      case (Inl e)
      with t Suc.prems(1) f Inr step1 store_page_fails [of "ad_now st1" p "ad_db st1" s2 e] show ?thesis by auto
    next
      case q: (Inr u)
      with t have "store_page process (ad_now st1) m r p (ad_db st1) = Inr (s2, u)"
        by (auto simp: transaction_def split: sum.splits)
      from store_page_step [OF step1 _ _ _ this, of st st1] f Inr j1 Suc.prems(3)
      obtain j' where j': "find_by_resource m r s2 = Some j'" "bf_status j' = bf_status j" "bf_pageSize j' = pageSize"
          "bf_cursor j' = pg_endCursor p" "bf_itemsProcessed j' = int (pos c + length (pg_items p))"
          "applied (pos c + length (pg_items p)) s2"
        and len: "pos c + length (pg_items p) = min (pos c + nat pageSize) (length items)"
        and cur: "pg_items p \<noteq> [] \<longrightarrow> pos (pg_endCursor p) = pos c + length (pg_items p)"
        by auto
      have some: "0 < nat pageSize" using some_page by simp
      note pg = page [OF f [unfolded Inr]]
      let ?counts = "(fst counts + 1, snd counts + int (length (pg_items p)))"
      show ?thesis
      proof (cases "pg_hasNextPage p")
        case True
        then have more: "pos c + nat pageSize < length items" using pg by simp
        with len have l: "length (pg_items p) = nat pageSize" by simp
        with some cur have pc: "pos (pg_endCursor p) = pos c + nat pageSize" by auto
        have "in_step j' (ad_db (st1\<lparr>ad_db := s2\<rparr>))"
          using j' l pc more Suc.prems(2) by (auto simp: in_step_def)
        moreover have "page_loop fetch process m r pageSize n (pg_endCursor p) ?counts (st1\<lparr>ad_db := s2\<rparr>)
            = (st', counts', failure)"
          using Suc.prems(1) f Inr t q True by (simp add: Let_def)
        ultimately obtain j2 where "(failure \<noteq> None \<longrightarrow> in_step j2 (ad_db st'))
            \<and> (failure = None \<longrightarrow> all_stored j2 (ad_db st') \<and> bf_status j2 \<noteq> BfCompleted
                \<and> snd counts' = snd ?counts + int (length items) - int (pos (pg_endCursor p)))"
          using Suc.IH [of "pg_endCursor p" ?counts "st1\<lparr>ad_db := s2\<rparr>" j'] j'(4) pc more by auto
        then show ?thesis using l pc by (intro exI [of _ j2]) auto
      next
        case False
        with pg len have l: "pos c + length (pg_items p) = length items" by simp
        have res: "st' = st1\<lparr>ad_db := s2\<rparr>" "counts' = ?counts" "failure = (if n = 0 then Some page_limit_error else None)"
          using Suc.prems(1) f Inr t q False by (auto simp: Let_def)
        have "in_step j' s2" if "n = 0"
        proof -
          have "pg_items p \<noteq> []" using that Suc.prems(4) l by auto
          with cur j' l Suc.prems(2) show ?thesis by (auto simp: in_step_def)
        qed
        moreover have "all_stored j' s2" using j' l by (simp add: all_stored_def)
        ultimately show ?thesis using res j'(2) Suc.prems(2) l
          by (intro exI [of _ j']) (auto simp: in_step_def)
      qed
    qed
  qed
qed auto

text \<open>Before the first run there is no job and nothing is stored; later the job is in step.\<close>

definition underway :: "db \<Rightarrow> bool" where
  "underway s \<longleftrightarrow> (case find_by_resource m r s of None \<Rightarrow> applied 0 s | Some j \<Rightarrow> in_step j s)"

definition finished :: "db \<Rightarrow> bool" where
  "finished s \<longleftrightarrow> (\<exists>j. all_stored j s \<and> bf_status j = BfCompleted)"

lemma update_step:
  assumes "update_job m r change s = Inr (s', u)" and "in_step j s"
    and "\<And>b. bf_merchantId (change b) = bf_merchantId b \<and> bf_resource (change b) = bf_resource b
      \<and> bf_cursor (change b) = bf_cursor b \<and> bf_itemsProcessed (change b) = bf_itemsProcessed b
      \<and> bf_pageSize (change b) = bf_pageSize b \<and> bf_status (change b) \<noteq> BfCompleted"
  shows "in_step (change j) s'"
proof -
  have keep: "my_job m r (change b) = my_job m r b" for b using assms(3) by (simp add: my_job_def)
  from assms(1,2) obtain
    "find_by_resource m r s' = Some (change j)"
    "s' = s\<lparr>backfill_jobs := update_many (my_job m r) change (backfill_jobs s)\<rparr>"
    unfolding update_job_iff [of m r change, OF keep] by (auto simp: in_step_def)
  then show ?thesis using assms(2) assms(3) [of j] by (simp add: in_step_def applied_frame)
qed

lemma in_step_underway: "in_step j s \<Longrightarrow> underway s"
  by (simp add: underway_def in_step_def)

lemma settle_failure_step:
  assumes "settle_failure m r counts e st = (st', res)" and "in_step j (ad_db st)"
  shows "underway (ad_db st') \<and> (\<forall>b. res = Inr b \<longrightarrow> br_finalStatus b \<noteq> BfCompleted)"
proof (cases "token_revoked e")
  case True
  obtain s q where t: "transaction (mark_paused m r (exn_message e)) (ad_db st) = (s, q)" by (metis surj_pair)
  show ?thesis
  proof (cases q)
    case Inl
    with t have "s = ad_db st" by (auto simp: transaction_def split: sum.splits)
    with assms True t Inl show ?thesis by (auto simp: settle_failure_def intro: in_step_underway)
  next
    case (Inr u)
    with t have "mark_paused m r (exn_message e) (ad_db st) = Inr (s, u)" by (auto simp: transaction_def split: sum.splits)
    from update_step [OF this [unfolded mark_paused_def] assms(2)] have "underway s" by (auto intro: in_step_underway)
    with assms True t Inr show ?thesis by (auto simp: settle_failure_def)
  qed
next
  case False
  obtain s q where t: "transaction (mark_job_failed m r (exn_message e)) (ad_db st) = (s, q)" by (metis surj_pair)
  show ?thesis
  proof (cases q)
    case Inl
    with t have "s = ad_db st" by (auto simp: transaction_def split: sum.splits)
    with assms False t Inl show ?thesis by (auto simp: settle_failure_def intro: in_step_underway)
  next
    case (Inr u)
    with t have "mark_job_failed m r (exn_message e) (ad_db st) = Inr (s, u)" by (auto simp: transaction_def split: sum.splits)
    from update_step [OF this [unfolded mark_job_failed_def] assms(2)] have "underway s" by (auto intro: in_step_underway)
    with assms False t Inr show ?thesis by (auto simp: settle_failure_def)
  qed
qed

lemma complete_step:
  assumes "all_stored j s" and "bf_status j \<noteq> BfCompleted"
  shows "\<exists>s'. transaction (complete_backfill eid now m r counts) s = (s', Inr ()) \<and> finished s'"
proof -
  let ?change = "\<lambda>b. b\<lparr>bf_status := BfCompleted, bf_completedAt := Some now, bf_lastError := None\<rparr>"
  let ?s1 = "s\<lparr>backfill_jobs := update_many (my_job m r) ?change (backfill_jobs s)\<rparr>"
  have j: "find_by_resource m r s = Some j" using assms(1) by (simp add: all_stored_def)
  have "find_by_resource m r ?s1 = Some (?change j)"
    using j find_update_job [of m r ?change "backfill_jobs s"] by (simp add: find_by_resource_def my_job_def)
  moreover have "mark_job_completed now m r s = Inr (?s1, ())"
    using j by (simp add: mark_job_completed_def update_job_def)
  ultimately show ?thesis using assms
    by (auto simp: complete_backfill_def create_outbox_def transaction_def finished_def all_stored_def
        applied_frame find_by_resource_def)
qed

text \<open>One run from there: it finishes with everything stored, or leaves the backfill underway.\<close>

lemma run_step:
  assumes "run_backfill limit eid fetch process m r ps st = (st', res)" and "underway (ad_db st)"
    and "or_default ps 50 = pageSize" and "1 < limit"
  shows "if \<exists>b. res = Inr b \<and> br_finalStatus b = BfCompleted
    then finished (ad_db st') \<and> br_itemsProcessed (projr res) = int (length items)
    else underway (ad_db st')"
proof -
  obtain s0 job where g: "get_or_create m r (or_default ps 50) (ad_db st) = (s0, job)" by (metis surj_pair)
  have job: "in_step job s0"
    using g assms(2,3) pos_start some_page
    by (auto simp: get_or_create_def underway_def in_step_def fresh_job_def applied_frame find_by_resource_def
        find_row_append find_row_Cons my_job_def split: option.splits)
  then have pending: "bf_status job \<noteq> BfCompleted" and ps: "bf_pageSize job = pageSize" by (simp_all add: in_step_def)
  show ?thesis
  proof (cases "mark_started (ad_now st) m r s0")
    case (Inl e)
    with job show ?thesis by (simp add: mark_started_def update_job_Inl in_step_def)
  next
    case (Inr su)
    then obtain s1 where s1: "mark_started (ad_now st) m r s0 = Inr (s1, ())" by (cases su) auto
    let ?started = "\<lambda>b. b\<lparr>bf_status := BfRunning, bf_startedAt := Some (ad_now st), bf_lastError := None\<rparr>"
    from update_step [OF s1 [unfolded mark_started_def] job] have step: "in_step (?started job) s1" by simp
    obtain st2 counts failure where l: "page_loop fetch process m r pageSize limit (bf_cursor job)
        (bf_pagesProcessed job, bf_itemsProcessed job) (st\<lparr>ad_db := s1\<rparr>) = (st2, counts, failure)"
      by (metis surj_pair)
    from page_loop_step [OF l, of "?started job"] step assms(4) obtain j'
      where j': "failure \<noteq> None \<longrightarrow> in_step j' (ad_db st2)"
        "failure = None \<longrightarrow> all_stored j' (ad_db st2) \<and> bf_status j' \<noteq> BfCompleted
           \<and> snd counts = bf_itemsProcessed job + int (length items) - int (pos (bf_cursor job))" by auto
    show ?thesis
    proof (cases failure)
      case (Some e)
      with assms(1) g pending s1 ps l have "settle_failure m r counts e st2 = (st', res)"
        by (simp add: run_backfill_def)
      from settle_failure_step [OF this] j'(1) Some show ?thesis by auto
    next
      case None
      with j'(2) complete_step [of j' "ad_db st2" eid "ad_now st2" counts] obtain s3
        where "transaction (complete_backfill eid (ad_now st2) m r counts) (ad_db st2) = (s3, Inr ())" "finished s3" by auto
      with None assms(1) g pending s1 ps l j'(2) job show ?thesis
        by (auto simp: run_backfill_def in_step_def)
    qed
  qed
qed

text \<open>
  A source that always answers and a processor that never fails, while the database is usable:
  the run completes, provided the collection fits one page less than the limit allows.
\<close>

lemma page_loop_completes:
  assumes answers: "\<And>c st. usable (ad_db st) \<Longrightarrow> \<exists>st' p. fetch c pageSize st = (st', Inr p) \<and> usable (ad_db st')"
    and stores: "\<And>k s xs j now. applied k s \<Longrightarrow> usable s \<Longrightarrow> xs = take j (drop k items) \<Longrightarrow>
      \<exists>s'. process now xs s = Inr (s', ()) \<and> usable s'"
    and jobs: "\<And>s js. usable (s\<lparr>backfill_jobs := js\<rparr>) = usable s"
    and "usable (ad_db st)" and "in_step j (ad_db st)" and "bf_cursor j = c" and "1 < n"
    and "length items \<le> pos c + (n - 1) * nat pageSize"
  shows "snd (snd (page_loop fetch process m r pageSize n c counts st)) = None"
  using assms(4-8)
proof (induction n arbitrary: c counts st j)
  case (Suc n)
  obtain st1 p where f: "fetch c pageSize st = (st1, Inr p)" and u1: "usable (ad_db st1)"
    using answers [OF Suc.prems(1)] by blast
  note pg = page [OF f]
  have j1: "find_by_resource m r (ad_db st1) = Some j" "applied (pos c) (ad_db st1)"
    using fetch_keeps [OF f] Suc.prems(2,3) by (auto simp: in_step_def find_by_resource_def)
  then have step1: "in_step j (ad_db st1)" using Suc.prems(2,3) by (simp add: in_step_def)
  obtain s3 where s3: "(if pg_items p = [] then Inr (ad_db st1, ()) else process (ad_now st1) (pg_items p) (ad_db st1))
      = Inr (s3, ())" "backfill_jobs s3 = backfill_jobs (ad_db st1)" "usable s3"
    using stores [OF j1(2) u1, of "pg_items p" "nat pageSize" "ad_now st1"] pg u1
      process_applies [OF j1(2), of "pg_items p" "nat pageSize" "ad_now st1"] by (cases "pg_items p = []") auto
  then have "find_by_resource m r s3 = Some j" using j1(1) by (simp add: find_by_resource_def)
  then obtain s2 where s2: "store_page process (ad_now st1) m r p (ad_db st1) = Inr (s2, ())" and u2: "usable s2"
    using s3(1,3) by (auto simp: store_page_def commit_page_def update_job_def jobs)
  show ?case
  proof (cases "pg_hasNextPage p")
    case True
    then have more: "pos c + nat pageSize < length items" using pg by simp
    from store_page_step [OF step1 _ _ _ s2, of st st1] f j1 Suc.prems(3) obtain j'
      where j': "find_by_resource m r s2 = Some j'" "bf_status j' = bf_status j" "bf_pageSize j' = pageSize"
        "bf_cursor j' = pg_endCursor p" "bf_itemsProcessed j' = int (pos c + length (pg_items p))"
        "applied (pos c + length (pg_items p)) s2"
      and len: "pos c + length (pg_items p) = min (pos c + nat pageSize) (length items)"
      and cur: "pg_items p \<noteq> [] \<longrightarrow> pos (pg_endCursor p) = pos c + length (pg_items p)" by auto
    have l: "length (pg_items p) = nat pageSize" using len more by simp
    with cur some_page have pc: "pos (pg_endCursor p) = pos c + nat pageSize" by auto
    have fits: "length items \<le> pos c + n * nat pageSize" using Suc.prems(5) by simp
    then have n1: "1 < n" using more by (cases n) (auto simp: not_less_eq intro: gr0I)
    then have "length items \<le> pos (pg_endCursor p) + (n - 1) * nat pageSize"
      using fits pc by (cases n) auto
    moreover have "in_step j' (ad_db (st1\<lparr>ad_db := s2\<rparr>))"
      using j' l pc more Suc.prems(2) by (auto simp: in_step_def)
    ultimately show ?thesis using Suc.IH [of "st1\<lparr>ad_db := s2\<rparr>" j' "pg_endCursor p"] j'(4) n1 f s2 u2 True
      by (simp add: Let_def)
  next
    case False
    with f s2 Suc.prems(4) show ?thesis by (simp add: Let_def)
  qed
qed simp

lemma run_completes:
  assumes answers: "\<And>c st. usable (ad_db st) \<Longrightarrow> \<exists>st' p. fetch c pageSize st = (st', Inr p) \<and> usable (ad_db st')"
    and stores: "\<And>k s xs j now. applied k s \<Longrightarrow> usable s \<Longrightarrow> xs = take j (drop k items) \<Longrightarrow>
      \<exists>s'. process now xs s = Inr (s', ()) \<and> usable s'"
    and jobs: "\<And>s js. usable (s\<lparr>backfill_jobs := js\<rparr>) = usable s"
    and "usable (ad_db st)" and "underway (ad_db st)" and "or_default ps 50 = pageSize" and "1 < limit"
    and "length items \<le> (limit - 1) * nat pageSize"
  shows "\<exists>st' b. run_backfill limit eid fetch process m r ps st = (st', Inr b) \<and> br_finalStatus b = BfCompleted"
proof -
  obtain s0 job where g: "get_or_create m r (or_default ps 50) (ad_db st) = (s0, job)" by (metis surj_pair)
  have job: "in_step job s0"
    using g assms(5,6) pos_start some_page
    by (auto simp: get_or_create_def underway_def in_step_def fresh_job_def applied_frame find_by_resource_def
        find_row_append find_row_Cons my_job_def split: option.splits)
  then have pending: "bf_status job \<noteq> BfCompleted" and ps: "bf_pageSize job = pageSize" by (simp_all add: in_step_def)
  obtain s1 where s1: "mark_started (ad_now st) m r s0 = Inr (s1, ())"
    using job by (auto simp: mark_started_def update_job_def in_step_def)
  let ?started = "\<lambda>b. b\<lparr>bf_status := BfRunning, bf_startedAt := Some (ad_now st), bf_lastError := None\<rparr>"
  from update_step [OF s1 [unfolded mark_started_def] job] have step: "in_step (?started job) s1" by simp
  obtain st2 counts failure where l: "page_loop fetch process m r pageSize limit (bf_cursor job)
      (bf_pagesProcessed job, bf_itemsProcessed job) (st\<lparr>ad_db := s1\<rparr>) = (st2, counts, failure)"
    by (metis surj_pair)
  have "usable s1"
    using s1 g assms(4) by (auto simp: mark_started_def update_job_def get_or_create_def jobs split: if_splits option.splits)
  with assms(7,8) step have "snd (snd (page_loop fetch process m r pageSize limit (bf_cursor job)
      (bf_pagesProcessed job, bf_itemsProcessed job) (st\<lparr>ad_db := s1\<rparr>))) = None"
    by (intro page_loop_completes [where usable = usable and j = "?started job"] answers stores jobs) auto
  with l have "failure = None" by simp
  moreover from page_loop_step [OF l, of "?started job"] step assms(7) this obtain j'
    where "all_stored j' (ad_db st2)" "bf_status j' \<noteq> BfCompleted" by auto
  with complete_step [of j' "ad_db st2" eid "ad_now st2" counts] obtain s3
    where "transaction (complete_backfill eid (ad_now st2) m r counts) (ad_db st2) = (s3, Inr ())" by auto
  ultimately show ?thesis using g pending s1 ps l by (simp add: run_backfill_def)
qed

lemma run_finished:
  assumes "finished (ad_db st)"
  shows "ad_db (fst (run_backfill limit eid fetch process m r ps st)) = ad_db st"
  using assms by (auto simp: finished_def all_stored_def run_backfill_def get_or_create_def)

lemma runs_step:
  assumes "underway (ad_db st) \<or> finished (ad_db st)" and "or_default ps 50 = pageSize" and "1 < limit"
  shows "underway (ad_db (backfill_runs limit eid fetch process m r ps gs st)) \<or> finished (ad_db (backfill_runs limit eid fetch process m r ps gs st))"
  using assms(1)
proof (induction gs arbitrary: st)
  case (Cons g gs)
  let ?st = "(g st)\<lparr>ad_db := ad_db st\<rparr>"
  obtain st' res where run: "run_backfill limit eid fetch process m r ps ?st = (st', res)" by (metis surj_pair)
  have "underway (ad_db st') \<or> finished (ad_db st')"
  proof (cases "finished (ad_db st)")
    case True
    with run_finished [of ?st limit eid ps] run show ?thesis by simp
  next
    case False
    with Cons.prems have "underway (ad_db ?st)" by simp
    from run_step [OF run this assms(2,3)] show ?thesis by (auto split: if_splits)
  qed
  with Cons.IH run show ?case by simp
qed simp

end

end
