(* ===== verification/Money.thy ===== *)
theory Money
  imports JsString Errors
begin

text \<open>
  Money as Shopify writes it (\<open>packages/db/src/money.ts\<close>): a decimal string with at most two
  decimals, read into whole cents.
\<close>

definition digits_value :: "string \<Rightarrow> nat" where
  "digits_value s = foldl (\<lambda>a c. 10 * a + digit_value c) 0 s"

text \<open>
  The two captures of the pattern, a run of digits and optionally a dot with one or two digits,
  or \<open>None\<close> when it does not match.
\<close>

definition money_pattern :: "string \<Rightarrow> (string \<times> string option) option" where
  "money_pattern v =
     (let intPart = takeWhile digit v; rest = dropWhile digit v in
      if intPart = [] then None
      else case rest of
        [] \<Rightarrow> Some (intPart, None)
      | c # ds \<Rightarrow>
          if c = CHR ''.'' \<and> list_all digit ds \<and> length ds \<in> {1, 2} then Some (intPart, Some ds) else None)"

definition pad_end :: "nat \<Rightarrow> char \<Rightarrow> string \<Rightarrow> string" where
  "pad_end n c s = s @ replicate (n - length s) c"

text \<open>\<open>JSON.stringify\<close> of a string.\<close>

definition json_escape :: "char \<Rightarrow> string" where
  "json_escape c =
     (let n = of_char c :: nat; bs = CHR 0x5C in
      if c = CHR 0x22 \<or> c = bs then [bs, c]
      else if n = 8 then [bs, CHR ''b'']
      else if n = 9 then [bs, CHR ''t'']
      else if n = 10 then [bs, CHR ''n'']
      else if n = 12 then [bs, CHR ''f'']
      else if n = 13 then [bs, CHR ''r'']
      else if n < 32 then [bs] @ ''u00'' @ [''0123456789abcdef'' ! (n div 16), ''0123456789abcdef'' ! (n mod 16)]
      else [c])"

definition json_quote :: "string \<Rightarrow> string" where
  "json_quote s = CHR 0x22 # concat (map json_escape s) @ [CHR 0x22]"

definition malformed_money :: "string \<Rightarrow> exn" where
  "malformed_money v = AppErr (validation_error (''parseMoneyToCents: malformed money string '' @ json_quote v)
     (Some ''money.invalid_format'') (Some [(''received'', v)]))"

definition parse_money_to_cents :: "string \<Rightarrow> exn + int" where
  "parse_money_to_cents v =
     (case money_pattern v of
        None \<Rightarrow> Inl (malformed_money v)
      | Some (intPart, dec) \<Rightarrow>
          (let decPart = take 2 (pad_end 2 (CHR ''0'') (case dec of None \<Rightarrow> [] | Some d \<Rightarrow> d)) in
           Inr (int (digits_value intPart) * 100 + int (digits_value decPart))))"

section \<open>Reading back\<close>

lemma digits_value_nat_string [simp]: "digits_value (nat_string n) = n"
proof -
  have "digits_value s = foldl (\<lambda>a d. 10 * a + d) 0 (map digit_value s)" for s
    by (simp add: digits_value_def foldl_map)
  then show ?thesis by (simp add: digit_values decimal_digits_value)
qed

lemma nat_string_all_digits [simp]: "list_all digit (nat_string n)"
  using nat_string_digits by (auto simp: list_all_iff)

lemma takeWhile_digits:
  assumes "list_all digit ds" and "rest = [] \<or> \<not> digit (hd rest)"
  shows "takeWhile digit (ds @ rest) = ds" and "dropWhile digit (ds @ rest) = rest"
  using assms by (induction ds) (cases rest; auto)+

lemma dot_not_digit [simp]: "\<not> digit (CHR ''.'')"
  by (simp add: digit_def)

lemma money_pattern_render:
  assumes "list_all digit ds" and "ds \<noteq> []"
  shows "money_pattern ds = Some (ds, None)"
    and "list_all digit ps \<Longrightarrow> length ps \<in> {1, 2} \<Longrightarrow> money_pattern (ds @ CHR ''.'' # ps) = Some (ds, Some ps)"
proof -
  have whole: "takeWhile digit ds = ds" "dropWhile digit ds = []"
    using assms(1) by (simp_all add: takeWhile_eq_all_conv list_all_iff)
  show "money_pattern ds = Some (ds, None)" using assms(2) unfolding money_pattern_def Let_def whole by simp
  show "list_all digit ps \<Longrightarrow> length ps \<in> {1, 2} \<Longrightarrow> money_pattern (ds @ CHR ''.'' # ps) = Some (ds, Some ps)"
    using takeWhile_digits [OF assms(1), of "CHR ''.'' # ps"] assms(2) by (simp add: money_pattern_def Let_def)
qed

definition two_digits :: "nat \<Rightarrow> string" where
  "two_digits n = [char_of (n div 10 + 48), char_of (n mod 10 + 48)]"

definition render_cents :: "nat \<Rightarrow> string" where
  "render_cents c = nat_string (c div 100) @ CHR ''.'' # two_digits (c mod 100)"

lemma two_digits_ok:
  assumes "n < 100"
  shows "list_all digit (two_digits n)" and "digits_value (two_digits n) = n"
proof -
  have "n div 10 < 10" "n mod 10 < 10" using assms by auto
  then show "list_all digit (two_digits n)" "digits_value (two_digits n) = n"
    by (simp_all add: two_digits_def digit_def digits_value_def digit_value_def)
qed

lemma parse_render: "parse_money_to_cents (render_cents c) = Inr (int c)"
proof -
  have "money_pattern (render_cents c) = Some (nat_string (c div 100), Some (two_digits (c mod 100)))"
    unfolding render_cents_def
    by (rule money_pattern_render) (simp_all add: two_digits_ok, simp add: two_digits_def)
  then show ?thesis
    by (simp add: parse_money_to_cents_def pad_end_def two_digits_ok two_digits_def [of "c mod 100"] flip: of_nat_mult)
      (simp add: two_digits_ok flip: two_digits_def, presburger)
qed

text \<open>
  C38. Money survives the round trip: cents written out with two decimals are read back as the
  same cents, and the shorter forms Shopify may use, without decimals or with one, are read as
  the same amount.
\<close>

theorem money_round_trip:
  "parse_money_to_cents (render_cents c) = Inr (int c)
   \<and> parse_money_to_cents (nat_string n) = Inr (100 * int n)
   \<and> parse_money_to_cents (nat_string n @ CHR ''.'' # [char_of (d mod 10 + 48)]) = Inr (100 * int n + 10 * int (d mod 10))"
proof (intro conjI)
  show "parse_money_to_cents (nat_string n) = Inr (100 * int n)"
  proof -
    have "digits_value (replicate 2 (CHR ''0'')) = 0"
      by (simp add: digits_value_def digit_value_def numeral_2_eq_2)
    then show ?thesis using money_pattern_render(1) [of "nat_string n"]
      by (simp add: parse_money_to_cents_def pad_end_def Let_def)
  qed
  let ?d = "[char_of (d mod 10 + 48)] :: string"
  have d: "list_all digit ?d" "digits_value (?d @ ''0'') = 10 * (d mod 10)"
    by (simp_all add: digit_def digits_value_def digit_value_def)
  then have "money_pattern (nat_string n @ CHR ''.'' # ?d) = Some (nat_string n, Some ?d)"
    by (intro money_pattern_render(2)) simp_all
  with d(2) show "parse_money_to_cents (nat_string n @ CHR ''.'' # ?d) = Inr (100 * int n + 10 * int (d mod 10))"
    by (simp add: parse_money_to_cents_def pad_end_def Let_def)
qed (rule parse_render)

end
