(* ===== verification/OrderRepo.thy ===== *)
theory OrderRepo
  imports CustomerRepo Money Upserts
begin

text \<open>
  Orders as Shopify's webhooks report them: \<open>OrderRepository\<close>
  (\<open>packages/db/src/repositories/order.repository.ts\<close>).
\<close>

section \<open>Bodies\<close>

record money =
  mo_amount :: string
  mo_currency_code :: string

record money_set =
  mt_shop_money :: money
  mt_presentment_money :: money

record line_item_body =
  lw_id :: string
  lw_product_id :: "string option"
  lw_variant_id :: "string option"
  lw_title :: string
  lw_quantity :: int
  lw_price_set :: money_set

record order_body =
  ow_id :: string
  ow_name :: "string option"
  ow_test :: bool
  ow_financial_status :: "string option"
  ow_fulfillment_status :: "string option"
  ow_customer :: "string option"
  ow_currency :: string
  ow_presentment_currency :: "string option"
  ow_subtotal_price_set :: money_set
  ow_total_price_set :: money_set
  ow_total_tax_set :: "money_set option"
  ow_total_discounts_set :: "money_set option"
  ow_created_at :: string
  ow_updated_at :: string
  ow_processed_at :: "string option"
  ow_cancelled_at :: "string option"
  ow_line_items :: "line_item_body list"

datatype qualifying_transition = PaidNew | PaidContinued | NonPaid | NoChange

record upsert_order_result =
  uo_orderId :: string
  uo_customerId :: "string option"
  uo_isNewOrder :: bool
  uo_qualifyingTransition :: qualifying_transition
  uo_previousFinancialStatus :: "financial_status option"

section \<open>Fields\<close>

definition shop_cents :: "money_set \<Rightarrow> exn + int" where
  "shop_cents b = parse_money_to_cents (mo_amount (mt_shop_money b))"

definition money_or_zero :: "money_set option \<Rightarrow> exn + int" where
  "money_or_zero b = (case b of None \<Rightarrow> Inr 0 | Some x \<Rightarrow> shop_cents x)"

definition VALID_FINANCIAL_STATUSES :: "(string \<times> financial_status) list" where
  "VALID_FINANCIAL_STATUSES =
     [(''pending'', FPending), (''authorized'', FAuthorized), (''partially_paid'', FPartiallyPaid),
      (''paid'', FPaid), (''partially_refunded'', FPartiallyRefunded), (''refunded'', FRefunded),
      (''voided'', FVoided)]"

definition VALID_FULFILLMENT_STATUSES :: "(string \<times> fulfillment_status) list" where
  "VALID_FULFILLMENT_STATUSES =
     [(''fulfilled'', Fulfilled), (''partial'', Partial), (''unfulfilled'', Unfulfilled), (''restocked'', Restocked)]"

definition invalid_financial_status :: "string \<Rightarrow> exn" where
  "invalid_financial_status v = AppErr (validation_error (''Unknown Shopify financial_status: '' @ json_quote v)
     (Some ''order.invalid_financial_status'') (Some [(''received'', v)]))"

definition parse_financial_status :: "string option \<Rightarrow> exn + financial_status option" where
  "parse_financial_status v =
     (case v of None \<Rightarrow> Inr None
      | Some x \<Rightarrow> (case map_of VALID_FINANCIAL_STATUSES x of
          None \<Rightarrow> Inl (invalid_financial_status x) | Some st \<Rightarrow> Inr (Some st)))"

text \<open>An unknown fulfillment status is stored as null, with a warning.\<close>

definition parse_fulfillment_status :: "string option \<Rightarrow> fulfillment_status option" where
  "parse_fulfillment_status v = Option.bind v (map_of VALID_FULFILLMENT_STATUSES)"

definition compute_qualifying_transition ::
  "financial_status option \<Rightarrow> financial_status option \<Rightarrow> qualifying_transition" where
  "compute_qualifying_transition previous new =
     (if new \<noteq> Some FPaid then NonPaid
      else if previous = None then PaidNew
      else if previous \<noteq> Some FPaid then PaidContinued else NoChange)"

text \<open>The customer may not be here yet: then the order has none.\<close>

definition resolve_customer_fk :: "merchant_id \<Rightarrow> order_body \<Rightarrow> db \<Rightarrow> string option" where
  "resolve_customer_fk m b s =
     Option.bind (ow_customer b) (\<lambda>cid.
     Option.bind (to_shopify_customer_gid cid) (\<lambda>gid.
     map_option cu_id (find_by_shopify_id m gid s)))"

text \<open>The live products and variants that the line items name, by Shopify id.\<close>

definition wanted_gids :: "(string \<Rightarrow> string option) \<Rightarrow> string option list \<Rightarrow> string list" where
  "wanted_gids gid_of ids = List.map_filter (\<lambda>i. Option.bind i gid_of) ids"

definition batched_fk_lookups ::
  "merchant_id \<Rightarrow> line_item_body list \<Rightarrow> db \<Rightarrow> (string \<Rightarrow> string option) \<times> (string \<Rightarrow> string option)" where
  "batched_fk_lookups m items s =
     (let productGids = wanted_gids to_shopify_product_gid (map lw_product_id items);
          variantGids = wanted_gids to_shopify_variant_gid (map lw_variant_id items);
          ps = filter (\<lambda>p. pr_merchantId p = m \<and> pr_deletedAt p = None
                 \<and> pr_shopifyProductId p \<in> set productGids) (products s);
          vs = filter (\<lambda>v. va_merchantId v = m \<and> va_deletedAt v = None
                 \<and> va_shopifyVariantId v \<in> set variantGids) (variants s)
      in (map_of (rev (map (\<lambda>p. (pr_shopifyProductId p, pr_id p)) ps)),
          map_of (rev (map (\<lambda>v. (va_shopifyVariantId v, va_id v)) vs))))"

definition need_date_or_null :: "(string \<Rightarrow> time option) \<Rightarrow> string option \<Rightarrow> exn + time option" where
  "need_date_or_null date_of t =
     (case t of None \<Rightarrow> Inr None | Some x \<Rightarrow> rbind (need_date date_of x) (\<lambda>d. Inr (Some d)))"

section \<open>The upsert\<close>

text \<open>The columns an order webhook writes; a new row adds the key and an id.\<close>

record order_fields =
  of_shopifyOrderNumber :: "string option"
  of_isTest :: bool
  of_financialStatus :: "financial_status option"
  of_fulfillmentStatus :: "fulfillment_status option"
  of_customerId :: "string option"
  of_currency :: string
  of_presentmentCurrency :: "string option"
  of_subtotalAmountCents :: int
  of_totalAmountCents :: int
  of_totalTaxCents :: int
  of_totalDiscountCents :: int
  of_presentmentTotalCents :: "int option"
  of_placedAt :: time
  of_cancelledAt :: "time option"
  of_shopifyProcessedAt :: "time option"
  of_shopifyUpdatedAt :: time

definition write_order :: "order_fields \<Rightarrow> order_row \<Rightarrow> order_row" where
  "write_order f o1 = o1\<lparr>or_shopifyOrderNumber := of_shopifyOrderNumber f, or_isTest := of_isTest f,
     or_financialStatus := of_financialStatus f, or_fulfillmentStatus := of_fulfillmentStatus f,
     or_customerId := of_customerId f, or_currency := of_currency f,
     or_presentmentCurrency := of_presentmentCurrency f,
     or_subtotalAmountCents := of_subtotalAmountCents f, or_totalAmountCents := of_totalAmountCents f,
     or_totalTaxCents := of_totalTaxCents f, or_totalDiscountCents := of_totalDiscountCents f,
     or_presentmentTotalCents := of_presentmentTotalCents f, or_placedAt := of_placedAt f,
     or_cancelledAt := of_cancelledAt f, or_shopifyProcessedAt := of_shopifyProcessedAt f,
     or_shopifyUpdatedAt := Some (of_shopifyUpdatedAt f)\<rparr>"

definition blank_order :: "string \<Rightarrow> merchant_id \<Rightarrow> string \<Rightarrow> order_row" where
  "blank_order oid m gid = \<lparr>or_merchantId = m, or_customerId = None, or_financialStatus = None,
     or_isTest = False, or_totalAmountCents = 0, or_placedAt = 0, or_shopifyProcessedAt = None,
     or_id = oid, or_shopifyOrderId = gid, or_shopifyOrderNumber = None, or_fulfillmentStatus = None,
     or_currency = [], or_presentmentCurrency = None, or_subtotalAmountCents = 0, or_totalTaxCents = 0,
     or_totalDiscountCents = 0, or_presentmentTotalCents = None, or_cancelledAt = None,
     or_shopifyUpdatedAt = None\<rparr>"

definition order_fields_of ::
  "(string \<Rightarrow> time option) \<Rightarrow> merchant_id \<Rightarrow> order_body \<Rightarrow> db \<Rightarrow> exn + order_fields" where
  "order_fields_of date_of m b s =
     rbind (parse_financial_status (ow_financial_status b)) (\<lambda>financial.
     rbind (shop_cents (ow_subtotal_price_set b)) (\<lambda>subtotal.
     rbind (shop_cents (ow_total_price_set b)) (\<lambda>total.
     rbind (money_or_zero (ow_total_tax_set b)) (\<lambda>tax.
     rbind (money_or_zero (ow_total_discounts_set b)) (\<lambda>discount.
     rbind (case ow_presentment_currency b of None \<Rightarrow> Inr None
            | Some _ \<Rightarrow> rbind (parse_money_to_cents (mo_amount (mt_presentment_money (ow_total_price_set b))))
                          (\<lambda>c. Inr (Some c))) (\<lambda>presentment.
     rbind (need_date date_of (ow_created_at b)) (\<lambda>placed.
     rbind (need_date_or_null date_of (ow_cancelled_at b)) (\<lambda>cancelled.
     rbind (need_date_or_null date_of (ow_processed_at b)) (\<lambda>processed.
     rbind (need_date date_of (ow_updated_at b)) (\<lambda>updated.
     Inr \<lparr>of_shopifyOrderNumber = ow_name b, of_isTest = ow_test b, of_financialStatus = financial,
          of_fulfillmentStatus = parse_fulfillment_status (ow_fulfillment_status b),
          of_customerId = resolve_customer_fk m b s, of_currency = ow_currency b,
          of_presentmentCurrency = ow_presentment_currency b, of_subtotalAmountCents = subtotal,
          of_totalAmountCents = total, of_totalTaxCents = tax, of_totalDiscountCents = discount,
          of_presentmentTotalCents = presentment, of_placedAt = placed, of_cancelledAt = cancelled,
          of_shopifyProcessedAt = processed, of_shopifyUpdatedAt = updated\<rparr>))))))))))"

text \<open>A line item as it is stored.\<close>

record line_item_fields =
  lf_gid :: string
  lf_productId :: "string option"
  lf_productVariantId :: "string option"
  lf_title :: string
  lf_quantity :: int
  lf_unitPriceCents :: int
  lf_currency :: string

definition write_line_item :: "line_item_fields \<Rightarrow> line_item_row \<Rightarrow> line_item_row" where
  "write_line_item f l = l\<lparr>li_productId := lf_productId f, li_productVariantId := lf_productVariantId f,
     li_title := lf_title f, li_quantity := lf_quantity f, li_unitPriceCents := lf_unitPriceCents f,
     li_currency := lf_currency f\<rparr>"

definition blank_line_item :: "merchant_id \<Rightarrow> string \<Rightarrow> string \<Rightarrow> line_item_row" where
  "blank_line_item m oid gid = \<lparr>li_merchantId = m, li_orderId = oid, li_shopifyLineItemId = gid,
     li_productId = None, li_productVariantId = None, li_title = [], li_quantity = 0,
     li_unitPriceCents = 0, li_currency = []\<rparr>"

definition invalid_line_item_id :: "string \<Rightarrow> string \<Rightarrow> exn" where
  "invalid_line_item_id i oid = AppErr (validation_error ''Line item id is not a valid numeric id''
     (Some ''order.line_item.invalid_id'') (Some [(''received'', i), (''orderId'', oid)]))"

definition line_item_fields_of ::
  "(string \<Rightarrow> string option) \<times> (string \<Rightarrow> string option) \<Rightarrow> string \<Rightarrow> string \<Rightarrow> line_item_body
     \<Rightarrow> exn + line_item_fields" where
  "line_item_fields_of lookups oid currency b =
     (case to_shopify_line_item_gid (lw_id b) of
        None \<Rightarrow> Inl (invalid_line_item_id (lw_id b) oid)
      | Some gid \<Rightarrow>
          rbind (shop_cents (lw_price_set b)) (\<lambda>price.
          Inr \<lparr>lf_gid = gid,
               lf_productId = Option.bind (Option.bind (lw_product_id b) to_shopify_product_gid) (fst lookups),
               lf_productVariantId = Option.bind (Option.bind (lw_variant_id b) to_shopify_variant_gid) (snd lookups),
               lf_title = lw_title b, lf_quantity = lw_quantity b, lf_unitPriceCents = price,
               lf_currency = currency\<rparr>))"

fun rmap :: "('a \<Rightarrow> exn + 'b) \<Rightarrow> 'a list \<Rightarrow> exn + 'b list" where
  "rmap f [] = Inr []"
| "rmap f (x # xs) = rbind (f x) (\<lambda>y. rbind (rmap f xs) (\<lambda>ys. Inr (y # ys)))"

definition upsert_line_item :: "merchant_id \<Rightarrow> string \<Rightarrow> line_item_fields \<Rightarrow> line_item_row list \<Rightarrow> line_item_row list" where
  "upsert_line_item m oid f =
     upsert_row (\<lambda>l. (li_merchantId l, li_orderId l, li_shopifyLineItemId l) = (m, oid, lf_gid f))
       (write_line_item f) (blank_line_item m oid (lf_gid f))"

definition invalid_order_id :: "string \<Rightarrow> exn" where
  "invalid_order_id i = AppErr (validation_error ''Order webhook body.id is not a valid numeric id''
     (Some ''order.invalid_id'') (Some [(''received'', i)]))"

definition find_order :: "merchant_id \<Rightarrow> string \<Rightarrow> order_row list \<Rightarrow> order_row option" where
  "find_order m gid = find_row (\<lambda>o1. (or_merchantId o1, or_shopifyOrderId o1) = (m, gid))"

definition put_order :: "string \<Rightarrow> merchant_id \<Rightarrow> string \<Rightarrow> order_fields \<Rightarrow> order_row list \<Rightarrow> order_row list" where
  "put_order newId m gid f =
     upsert_row (\<lambda>o1. (or_merchantId o1, or_shopifyOrderId o1) = (m, gid)) (write_order f) (blank_order newId m gid)"

definition order_id_or :: "string \<Rightarrow> order_row option \<Rightarrow> string" where
  "order_id_or newId existing = (case existing of None \<Rightarrow> newId | Some o1 \<Rightarrow> or_id o1)"

text \<open>
  All of it runs in one transaction, so a line item that cannot be read undoes the order too:
  the items are read before the first is written.
\<close>

definition upsert_order_from_webhook ::
  "(string \<Rightarrow> time option) \<Rightarrow> string \<Rightarrow> merchant_id \<Rightarrow> order_body \<Rightarrow> upsert_order_result tx" where
  "upsert_order_from_webhook date_of newId m b s =
     (case to_shopify_order_gid (ow_id b) of
        None \<Rightarrow> Inl (invalid_order_id (ow_id b))
      | Some gid \<Rightarrow>
          (let existing = find_order m gid (orders s);
               previous = Option.bind existing or_financialStatus;
               oid = order_id_or newId existing
           in rbind (order_fields_of date_of m b s) (\<lambda>f.
              rbind (rmap (line_item_fields_of (batched_fk_lookups m (ow_line_items b) s) oid (ow_currency b))
                       (ow_line_items b)) (\<lambda>fs.
              Inr (s\<lparr>orders := put_order newId m gid f (orders s),
                     line_items := fold (upsert_line_item m oid) fs (line_items s)\<rparr>,
                   \<lparr>uo_orderId = oid, uo_customerId = of_customerId f, uo_isNewOrder = (existing = None),
                    uo_qualifyingTransition = compute_qualifying_transition previous (of_financialStatus f),
                    uo_previousFinancialStatus = previous\<rparr>)))))"

section \<open>Redelivered and reordered orders\<close>

text \<open>Both upserts overwrite every column they ever write: the contract of theory Upserts.\<close>

interpretation order_upsert: overwriting_upsert "\<lambda>o1. (or_merchantId o1, or_shopifyOrderId o1)"
    "\<lambda>_. (m, gid)" write_order "\<lambda>_. blank_order newId m gid" for m gid newId
  by unfold_locales (simp_all add: write_order_def blank_order_def)

interpretation line_item_upsert: overwriting_upsert "\<lambda>l. (li_merchantId l, li_orderId l, li_shopifyLineItemId l)"
    "\<lambda>f. (m, oid, lf_gid f)" write_line_item "\<lambda>f. blank_line_item m oid (lf_gid f)" for m oid
  by unfold_locales (simp_all add: write_line_item_def blank_line_item_def)

lemma find_put_order: "find_order m gid (put_order newId m gid f os)
    = Some (write_order f (case find_order m gid os of None \<Rightarrow> blank_order newId m gid | Some o1 \<Rightarrow> o1))"
  unfolding find_order_def put_order_def by (rule order_upsert.find_put)

lemma put_order_put: "put_order newId m gid g (put_order newId m gid f os) = put_order newId m gid g os"
  unfolding put_order_def by (rule order_upsert.put_put) simp_all

lemma put_order_again: "put_order newId' m gid f (put_order newId m gid f os) = put_order newId m gid f os"
proof -
  have "put_order newId' m gid f (put_order newId m gid f os) = put_order newId m gid f (put_order newId m gid f os)"
    using find_put_order [of m gid newId f os] by (simp add: put_order_def find_order_def upsert_row_def)
  then show ?thesis by (simp add: put_order_put)
qed

lemma put_line_items_again: "fold (upsert_line_item m oid) fs (fold (upsert_line_item m oid) fs ls)
    = fold (upsert_line_item m oid) fs ls"
  using line_item_upsert.put_all_again [of m oid fs ls] by (simp add: upsert_line_item_def [abs_def])

lemma write_order_keeps [simp]:
  "or_id (write_order f o1) = or_id o1" "or_financialStatus (write_order f o1) = of_financialStatus f"
  "or_shopifyUpdatedAt (write_order f o1) = Some (of_shopifyUpdatedAt f)"
  by (simp_all add: write_order_def)

lemma order_id_put: "order_id_or newId' (find_order m gid (put_order newId m gid f os))
    = order_id_or newId (find_order m gid os)"
  by (simp add: find_put_order order_id_or_def blank_order_def split: option.split)

lemma upsert_order_iff:
  "upsert_order_from_webhook date_of newId m b s = Inr (s', r) \<longleftrightarrow>
     (\<exists>gid f fs. to_shopify_order_gid (ow_id b) = Some gid
        \<and> order_fields_of date_of m b s = Inr f
        \<and> rmap (line_item_fields_of (batched_fk_lookups m (ow_line_items b) s)
             (order_id_or newId (find_order m gid (orders s))) (ow_currency b)) (ow_line_items b) = Inr fs
        \<and> s' = s\<lparr>orders := put_order newId m gid f (orders s),
            line_items := fold (upsert_line_item m (order_id_or newId (find_order m gid (orders s)))) fs (line_items s)\<rparr>
        \<and> r = \<lparr>uo_orderId = order_id_or newId (find_order m gid (orders s)), uo_customerId = of_customerId f,
            uo_isNewOrder = (find_order m gid (orders s) = None),
            uo_qualifyingTransition = compute_qualifying_transition
              (Option.bind (find_order m gid (orders s)) or_financialStatus) (of_financialStatus f),
            uo_previousFinancialStatus = Option.bind (find_order m gid (orders s)) or_financialStatus\<rparr>)"
  by (auto simp: upsert_order_from_webhook_def Let_def split: option.splits)

lemma upsert_orderE:
  assumes "upsert_order_from_webhook date_of newId m b s = Inr (s', r)"
  obtains gid f fs where "to_shopify_order_gid (ow_id b) = Some gid" and "order_fields_of date_of m b s = Inr f"
    and "rmap (line_item_fields_of (batched_fk_lookups m (ow_line_items b) s)
        (order_id_or newId (find_order m gid (orders s))) (ow_currency b)) (ow_line_items b) = Inr fs"
    and "s' = s\<lparr>orders := put_order newId m gid f (orders s),
        line_items := fold (upsert_line_item m (order_id_or newId (find_order m gid (orders s)))) fs (line_items s)\<rparr>"
    and "uo_orderId r = order_id_or newId (find_order m gid (orders s))" and "uo_customerId r = of_customerId f"
proof -
  from assms [unfolded upsert_order_iff]
  obtain gid f fs where A: "to_shopify_order_gid (ow_id b) = Some gid" and B: "order_fields_of date_of m b s = Inr f"
    and C: "rmap (line_item_fields_of (batched_fk_lookups m (ow_line_items b) s)
        (order_id_or newId (find_order m gid (orders s))) (ow_currency b)) (ow_line_items b) = Inr fs"
    and D: "s' = s\<lparr>orders := put_order newId m gid f (orders s),
        line_items := fold (upsert_line_item m (order_id_or newId (find_order m gid (orders s)))) fs (line_items s)\<rparr>"
    and r: "r = \<lparr>uo_orderId = order_id_or newId (find_order m gid (orders s)), uo_customerId = of_customerId f,
            uo_isNewOrder = (find_order m gid (orders s) = None),
            uo_qualifyingTransition = compute_qualifying_transition
              (Option.bind (find_order m gid (orders s)) or_financialStatus) (of_financialStatus f),
            uo_previousFinancialStatus = Option.bind (find_order m gid (orders s)) or_financialStatus\<rparr>"
    by (elim exE conjE)
  show thesis by (rule that [OF A B C D]) (simp_all add: r)
qed

lemma upsert_order_frame:
  assumes "upsert_order_from_webhook date_of newId m b s = Inr (s', r)"
  shows "order_fields_of date_of m b' s' = order_fields_of date_of m b' s"
    and "batched_fk_lookups m items s' = batched_fk_lookups m items s"
proof -
  have "customers s' = customers s" "products s' = products s" "variants s' = variants s"
    using assms by (auto elim!: upsert_orderE)
  then show "order_fields_of date_of m b' s' = order_fields_of date_of m b' s"
    and "batched_fk_lookups m items s' = batched_fk_lookups m items s"
    by (simp_all add: order_fields_of_def resolve_customer_fk_def find_by_shopify_id_def batched_fk_lookups_def)
qed

text \<open>A small order, for examples.\<close>

definition demo_money :: "string \<Rightarrow> money_set" where
  "demo_money a = \<lparr>mt_shop_money = \<lparr>mo_amount = a, mo_currency_code = ''EUR''\<rparr>,
     mt_presentment_money = \<lparr>mo_amount = a, mo_currency_code = ''EUR''\<rparr>\<rparr>"

definition demo_order :: "string \<Rightarrow> order_body" where
  "demo_order updated = \<lparr>ow_id = ''9'', ow_name = Some ''#1'', ow_test = False, ow_financial_status = Some ''paid'',
     ow_fulfillment_status = None, ow_customer = Some ''7'', ow_currency = ''EUR'', ow_presentment_currency = None,
     ow_subtotal_price_set = demo_money ''12.5'', ow_total_price_set = demo_money ''12.50'',
     ow_total_tax_set = None, ow_total_discounts_set = None, ow_created_at = ''1'', ow_updated_at = updated,
     ow_processed_at = None, ow_cancelled_at = None,
     ow_line_items = [\<lparr>lw_id = ''5'', lw_product_id = None, lw_variant_id = None, lw_title = ''Tea'',
        lw_quantity = 1, lw_price_set = demo_money ''12''\<rparr>]\<rparr>"

definition demo_date :: "string \<Rightarrow> time option" where
  "demo_date t = (if t = ''1'' then Some 1 else if t = ''2'' then Some 2 else None)"

lemma demo_orders_apply:
  "\<exists>s1 r1 s2 r2. upsert_order_from_webhook demo_date ''o'' ''m'' (demo_order ''2'') empty_db = Inr (s1, r1)
     \<and> upsert_order_from_webhook demo_date ''o'' ''m'' (demo_order ''1'') s1 = Inr (s2, r2)"
proof -
  have "case upsert_order_from_webhook demo_date ''o'' ''m'' (demo_order ''2'') empty_db of
      Inl _ \<Rightarrow> False
    | Inr (s1, r1) \<Rightarrow> (case upsert_order_from_webhook demo_date ''o'' ''m'' (demo_order ''1'') s1 of
        Inl _ \<Rightarrow> False | Inr (s2, r2) \<Rightarrow> True)"
    by code_simp
  then show ?thesis by (auto split: sum.splits)
qed

text \<open>
  An order that has been written stays as it is when it is written again, in any later state
  that has the same orders, line items and products and knows the same customers.
\<close>

lemma order_settled:
  assumes "upsert_order_from_webhook date_of newId m b s = Inr (s1, r)"
    and "orders s2 = orders s1" and "line_items s2 = line_items s1"
    and "products s2 = products s1" and "variants s2 = variants s1"
    and "\<And>gid. map_option cu_id (find_by_shopify_id m gid s2) = map_option cu_id (find_by_shopify_id m gid s1)"
  shows "\<exists>r'. upsert_order_from_webhook date_of newId' m b s2 = Inr (s2, r')
    \<and> uo_orderId r' = uo_orderId r \<and> uo_customerId r' = uo_customerId r
    \<and> \<not> uo_isNewOrder r' \<and> uo_qualifyingTransition r' \<in> {NonPaid, NoChange}"
proof -
  from assms(1) obtain gid f fs where gid: "to_shopify_order_gid (ow_id b) = Some gid"
    and f: "order_fields_of date_of m b s = Inr f"
    and fs: "rmap (line_item_fields_of (batched_fk_lookups m (ow_line_items b) s)
        (order_id_or newId (find_order m gid (orders s))) (ow_currency b)) (ow_line_items b) = Inr fs"
    and s1: "s1 = s\<lparr>orders := put_order newId m gid f (orders s),
        line_items := fold (upsert_line_item m (order_id_or newId (find_order m gid (orders s)))) fs (line_items s)\<rparr>"
    and r: "uo_orderId r = order_id_or newId (find_order m gid (orders s))" "uo_customerId r = of_customerId f"
    by (rule upsert_orderE)
  let ?row = "write_order f (case find_order m gid (orders s) of None \<Rightarrow> blank_order newId m gid | Some o1 \<Rightarrow> o1)"
  have o1: "orders s1 = put_order newId m gid f (orders s)"
    and l1: "line_items s1 = fold (upsert_line_item m (uo_orderId r)) fs (line_items s)"
    unfolding s1 r by simp_all
  have "find_order m gid (orders s2) = Some ?row" "order_id_or newId' (find_order m gid (orders s2)) = uo_orderId r"
    "put_order newId' m gid f (orders s2) = orders s2"
    unfolding assms(2) o1 r by (rule find_put_order order_id_put put_order_again)+
  moreover have "fold (upsert_line_item m (uo_orderId r)) fs (line_items s2) = line_items s2"
    unfolding assms(3) l1 by (rule put_line_items_again)
  moreover have "order_fields_of date_of m b s2 = Inr f" "batched_fk_lookups m items s2 = batched_fk_lookups m items s" for items
  proof -
    have "resolve_customer_fk m b s2 = resolve_customer_fk m b s1" by (simp add: resolve_customer_fk_def assms(6))
    then have "order_fields_of date_of m b s2 = order_fields_of date_of m b s1" by (simp add: order_fields_of_def)
    with f show "order_fields_of date_of m b s2 = Inr f" by (simp add: upsert_order_frame [OF assms(1)])
    have "batched_fk_lookups m items s2 = batched_fk_lookups m items s1" by (simp add: batched_fk_lookups_def assms(4,5))
    then show "batched_fk_lookups m items s2 = batched_fk_lookups m items s" by (simp add: upsert_order_frame [OF assms(1)])
  qed
  ultimately have "upsert_order_from_webhook date_of newId' m b s2 = Inr (s2,
      \<lparr>uo_orderId = uo_orderId r, uo_customerId = of_customerId f, uo_isNewOrder = False,
       uo_qualifyingTransition = compute_qualifying_transition (of_financialStatus f) (of_financialStatus f),
       uo_previousFinancialStatus = of_financialStatus f\<rparr>)"
    using gid fs [folded r(1)] by (simp add: upsert_order_from_webhook_def Let_def)
  then show ?thesis by (simp add: r compute_qualifying_transition_def)
qed

text \<open>
  C19. Delivering an order again changes nothing: once a webhook of an order has been applied,
  applying it again succeeds, leaves orders and line items exactly as they are, names the same
  row, and is neither a new order nor a new payment.
\<close>

theorem order_redelivery:
  assumes "upsert_order_from_webhook date_of newId m b s = Inr (s1, r)"
  shows "\<exists>r'. upsert_order_from_webhook date_of newId' m b s1 = Inr (s1, r')
    \<and> uo_orderId r' = uo_orderId r \<and> uo_customerId r' = uo_customerId r
    \<and> \<not> uo_isNewOrder r' \<and> uo_qualifyingTransition r' \<in> {NonPaid, NoChange}"
  using order_settled [OF assms refl refl refl refl refl] .

theorem order_redelivery_witness:
  "\<exists>s1 r1 r2. upsert_order_from_webhook demo_date ''o'' ''m'' (demo_order ''2'') empty_db = Inr (s1, r1)
     \<and> upsert_order_from_webhook demo_date ''p'' ''m'' (demo_order ''2'') s1 = Inr (s1, r2) \<and> \<not> uo_isNewOrder r2"
proof -
  obtain s1 r1 where "upsert_order_from_webhook demo_date ''o'' ''m'' (demo_order ''2'') empty_db = Inr (s1, r1)"
    using demo_orders_apply by blast
  with order_redelivery [OF this, of "''p''"] show ?thesis by blast
qed

text \<open>
  Orders are not protected from late deliveries: after two webhooks of one order the order's
  row holds what the second delivery says, whichever of the two Shopify wrote last; the state
  equals the one without the first delivery.
\<close>

theorem late_order_wins:
  assumes "upsert_order_from_webhook date_of newId m newer s = Inr (s1, r1)"
    and "upsert_order_from_webhook date_of newId m older s1 = Inr (s2, r2)"
    and "ow_id older = ow_id newer"
  shows "\<exists>s' r'. upsert_order_from_webhook date_of newId m older s = Inr (s', r') \<and> orders s2 = orders s'
    \<and> (\<exists>o1 \<in> set (orders s2). or_id o1 = uo_orderId r2 \<and> or_shopifyUpdatedAt o1 = date_of (ow_updated_at older))"
proof -
  from assms(1) obtain gid f fs where gid: "to_shopify_order_gid (ow_id newer) = Some gid"
    and s1_eq: "s1 = s\<lparr>orders := put_order newId m gid f (orders s),
        line_items := fold (upsert_line_item m (order_id_or newId (find_order m gid (orders s)))) fs (line_items s)\<rparr>"
    by (rule upsert_orderE)
  then have s1: "orders s1 = put_order newId m gid f (orders s)" by simp
  from assms(2) obtain gid' g gs where gid': "to_shopify_order_gid (ow_id older) = Some gid'"
    and g: "order_fields_of date_of m older s1 = Inr g"
    and gs': "rmap (line_item_fields_of (batched_fk_lookups m (ow_line_items older) s1)
        (order_id_or newId (find_order m gid' (orders s1))) (ow_currency older)) (ow_line_items older) = Inr gs"
    and s2_eq: "s2 = s1\<lparr>orders := put_order newId m gid' g (orders s1),
        line_items := fold (upsert_line_item m (order_id_or newId (find_order m gid' (orders s1)))) gs (line_items s1)\<rparr>"
    and oid': "uo_orderId r2 = order_id_or newId (find_order m gid' (orders s1))"
    by (rule upsert_orderE)
  have "gid' = gid" using gid gid' assms(3) by simp
  note gs = gs' [unfolded this] and oid2 = oid' [unfolded this]
    and s2 = arg_cong [OF s2_eq, of orders, simplified, unfolded this]
  note frame = upsert_order_frame [OF assms(1)]
  have "order_fields_of date_of m older s = Inr g" "rmap (line_item_fields_of (batched_fk_lookups m (ow_line_items older) s)
        (order_id_or newId (find_order m gid (orders s))) (ow_currency older)) (ow_line_items older) = Inr gs"
    using g gs by (simp_all add: frame s1 order_id_put)
  then have "\<exists>s' r'. upsert_order_from_webhook date_of newId m older s = Inr (s', r')
      \<and> orders s' = put_order newId m gid g (orders s)"
    using gid assms(3) by (simp add: upsert_order_from_webhook_def Let_def)
  moreover have "orders s2 = put_order newId m gid g (orders s)" by (simp add: s1 s2 put_order_put)
  moreover have "date_of (ow_updated_at older) = Some (of_shopifyUpdatedAt g)"
    using g by (auto simp: order_fields_of_def need_date_def split: option.splits)
  moreover obtain o1 where o1: "find_order m gid (orders s2) = Some o1" "or_id o1 = uo_orderId r2"
      "or_shopifyUpdatedAt o1 = Some (of_shopifyUpdatedAt g)"
    using find_put_order [of m gid newId g "orders s1"]
    by (auto simp: s2 oid2 order_id_or_def blank_order_def split: option.splits)
  moreover from o1(1) have "o1 \<in> set (orders s2)" by (auto simp: find_order_def dest: find_row_Some_D)
  ultimately show ?thesis by metis
qed

theorem late_order_wins_witness:
  "\<exists>s1 r1 s2 r2. upsert_order_from_webhook demo_date ''o'' ''m'' (demo_order ''2'') empty_db = Inr (s1, r1)
     \<and> upsert_order_from_webhook demo_date ''o'' ''m'' (demo_order ''1'') s1 = Inr (s2, r2)
     \<and> (\<exists>o1 \<in> set (orders s2). or_shopifyUpdatedAt o1 = Some 1)"
proof -
  obtain s1 r1 s2 r2 where *: "upsert_order_from_webhook demo_date ''o'' ''m'' (demo_order ''2'') empty_db = Inr (s1, r1)"
    "upsert_order_from_webhook demo_date ''o'' ''m'' (demo_order ''1'') s1 = Inr (s2, r2)"
    using demo_orders_apply by blast
  have "ow_id (demo_order ''1'') = ow_id (demo_order ''2'')" "demo_date (ow_updated_at (demo_order ''1'')) = Some 1"
    by (simp_all add: demo_order_def demo_date_def)
  with late_order_wins [OF * this(1)] * show ?thesis by metis
qed

end
