(* ===== verification/BackfillSources.thy ===== *)
theory BackfillSources
  imports BackfillFacts OrderRepo
begin

text \<open>
  The two backfills: customers (\<open>packages/shopify/src/backfill/customer-backfill.ts\<close>) and
  orders (\<open>order-backfill.ts\<close>), each a page fetcher over the Admin API and a page processor,
  with the adapter that turns a GraphQL order into the body of an order webhook.
\<close>

section \<open>Global ids\<close>

definition letter :: "char \<Rightarrow> bool" where
  "letter c \<longleftrightarrow> lower (lower_char c)"

definition alnum :: "char \<Rightarrow> bool" where
  "alnum c \<longleftrightarrow> letter c \<or> digit c"

text \<open>\<open>/^gid:\/\/shopify\/[A-Za-z][A-Za-z0-9]*\/(\d+)$/\<close>, giving its capture.\<close>

definition gid_pattern :: "string \<Rightarrow> string option" where
  "gid_pattern g =
     (if \<not> starts_with ''gid://shopify/'' g then None
      else (let rest = drop (length ''gid://shopify/'') g; res = takeWhile alnum rest in
        case dropWhile alnum rest of
          [] \<Rightarrow> None
        | c # n \<Rightarrow> if res \<noteq> [] \<and> letter (hd res) \<and> c = CHR ''/'' \<and> numeric n then Some n else None))"

definition parse_gid :: "string \<Rightarrow> string option" where
  "parse_gid g = (if gid_pattern g = None then None else Some g)"

definition extract_numeric_id_from_gid :: "string \<Rightarrow> string option" where
  "extract_numeric_id_from_gid g = gid_pattern g"

text \<open>\<open>Number.parseInt(v, 10)\<close>, with 0 for no number.\<close>

definition parse_int_or_zero :: "string option \<Rightarrow> int" where
  "parse_int_or_zero v =
     (case v of None \<Rightarrow> 0
      | Some s \<Rightarrow>
          (let t = dropWhile white s;
               (sign, ds) = (case t of [] \<Rightarrow> (1, [])
                 | c # cs \<Rightarrow> if c = CHR ''-'' then (-1, cs) else if c = CHR ''+'' then (1, cs) else (1, t))
           in sign * int (digits_value (takeWhile digit ds))))"

definition parse_date_or_null :: "(string \<Rightarrow> time option) \<Rightarrow> string option \<Rightarrow> time option" where
  "parse_date_or_null date_of v = Option.bind v date_of"

section \<open>Requests\<close>

record customer_node =
  cn_id :: string
  cn_email :: "string option"
  cn_phone :: "string option"
  cn_firstName :: "string option"
  cn_lastName :: "string option"
  cn_emailMarketingState :: "string option"
  cn_smsMarketingState :: "string option"
  cn_numberOfOrders :: "string option"
  cn_tags :: "string list option"
  cn_createdAt :: "string option"
  cn_updatedAt :: "string option"

record graphql_money =
  gm_amount :: string
  gm_currencyCode :: string

record money_bag =
  mb_shopMoney :: graphql_money
  mb_presentmentMoney :: graphql_money

record line_item_node =
  ln_id :: string
  ln_title :: string
  ln_quantity :: int
  ln_originalUnitPriceSet :: money_bag
  ln_product :: "string option"
  ln_variant :: "string option"

record order_node =
  on_id :: string
  on_name :: "string option"
  on_test :: bool
  on_displayFinancialStatus :: "string option"
  on_displayFulfillmentStatus :: "string option"
  on_currencyCode :: string
  on_presentmentCurrencyCode :: "string option"
  on_createdAt :: string
  on_updatedAt :: string
  on_processedAt :: "string option"
  on_cancelledAt :: "string option"
  on_subtotalPriceSet :: money_bag
  on_totalPriceSet :: money_bag
  on_totalTaxSet :: "money_bag option"
  on_totalDiscountsSet :: "money_bag option"
  on_customer :: "string option"
  on_lineItems :: "line_item_node list"

record raw_plan =
  pn_displayName :: "string option"
  pn_partnerDevelopment :: "bool option"
  pn_shopifyPlus :: "bool option"

record raw_shop =
  sh_email :: "string option"
  sh_name :: "string option"
  sh_countryCodeV2 :: "string option"
  sh_currencyCode :: "string option"
  sh_ianaTimezone :: "string option"
  sh_plan :: "raw_plan option"

record raw_subscription =
  sb_userErrors :: "string list"
  sb_id :: "string option"

text \<open>The documents the program sends, with their variables, and the data that answers them.\<close>

datatype admin_query = CustomersPage int "string option" | OrdersPage int "string option" nat
  | ShopDetailsQuery | SubscribeMutation string string

record admin_data =
  rd_customers :: "customer_node resource_page option"
  rd_orders :: "order_node resource_page option"
  rd_shop :: "raw_shop option"
  rd_subscription :: "raw_subscription option"

type_synonym 'w backfill_env = "('w, admin_query, admin_data) admin_env"

definition LINE_ITEMS_PER_ORDER :: nat where "LINE_ITEMS_PER_ORDER = 250"

definition no_page :: "'i resource_page" where
  "no_page = \<lparr>pg_items = [], pg_endCursor = None, pg_hasNextPage = False\<rparr>"

definition customer_page_fetch :: "'w backfill_env \<Rightarrow> merchant_id \<Rightarrow> ('w, customer_node) page_fetcher" where
  "customer_page_fetch e m cursor pageSize st =
     (case graphql e m (CustomersPage pageSize cursor) (Some (max 10 (of_int \<lceil>of_int pageSize / (5 :: rat)\<rceil>))) st of
        (st1, Inl err) \<Rightarrow> (st1, Inl err)
      | (st1, Inr d) \<Rightarrow> (st1, Inr (case rd_customers d of None \<Rightarrow> no_page | Some p \<Rightarrow> p)))"

definition order_page_fetch :: "'w backfill_env \<Rightarrow> merchant_id \<Rightarrow> ('w, order_node) page_fetcher" where
  "order_page_fetch e m cursor pageSize st =
     (case graphql e m (OrdersPage pageSize cursor LINE_ITEMS_PER_ORDER)
             (Some (max 20 (of_int \<lceil>of_int pageSize / (2 :: rat)\<rceil>))) st of
        (st1, Inl err) \<Rightarrow> (st1, Inl err)
      | (st1, Inr d) \<Rightarrow> (st1, Inr (case rd_orders d of None \<Rightarrow> no_page | Some p \<Rightarrow> p)))"

section \<open>Customers\<close>

definition write_customer_node :: "(string \<Rightarrow> time option) \<Rightarrow> customer_node \<Rightarrow> customer_row \<Rightarrow> customer_row" where
  "write_customer_node date_of node c = c\<lparr>cu_email := cn_email node, cu_phone := cn_phone node,
     cu_firstName := cn_firstName node, cu_lastName := cn_lastName node,
     cu_acceptsMarketing := (cn_emailMarketingState node = Some ''SUBSCRIBED''),
     cu_acceptsSms := (cn_smsMarketingState node = Some ''SUBSCRIBED''),
     cu_consent := to_email_marketing_consent_state (cn_emailMarketingState node),
     cu_ordersCount := parse_int_or_zero (cn_numberOfOrders node),
     cu_tags := or_default (cn_tags node) [],
     cu_shopifyUpdatedAt := parse_date_or_null date_of (cn_updatedAt node)\<rparr>"

definition new_customer ::
  "(string \<Rightarrow> time option) \<Rightarrow> (string \<Rightarrow> string) \<Rightarrow> time \<Rightarrow> merchant_id \<Rightarrow> customer_node \<Rightarrow> customer_row" where
  "new_customer date_of newId now m node = (fresh_customer (newId (cn_id node)) m (cn_id node) now)\<lparr>
     cu_shopifyCreatedAt := parse_date_or_null date_of (cn_createdAt node)\<rparr>"

text \<open>A customer with a malformed id is skipped.\<close>

definition put_customer_node ::
  "(string \<Rightarrow> time option) \<Rightarrow> (string \<Rightarrow> string) \<Rightarrow> merchant_id \<Rightarrow> time \<Rightarrow> customer_node \<Rightarrow>
   customer_row list \<Rightarrow> customer_row list" where
  "put_customer_node date_of newId m now node cs =
     (case parse_gid (cn_id node) of
        None \<Rightarrow> cs
      | Some gid \<Rightarrow> upsert_row (\<lambda>c. (cu_merchantId c, cu_shopifyCustomerId c) = (m, gid))
          (write_customer_node date_of node) (new_customer date_of newId now m node) cs)"

definition process_customers ::
  "(string \<Rightarrow> time option) \<Rightarrow> (string \<Rightarrow> string) \<Rightarrow> merchant_id \<Rightarrow> customer_node page_processor" where
  "process_customers date_of newId m now nodes s =
     Inr (s\<lparr>customers := fold (put_customer_node date_of newId m now) nodes (customers s)\<rparr>, ())"

section \<open>Orders\<close>

definition FINANCIAL_STATUS_MAP :: "(string \<times> string option) list" where
  "FINANCIAL_STATUS_MAP =
     [(''AUTHORIZED'', Some ''authorized''), (''EXPIRED'', None), (''PAID'', Some ''paid''),
      (''PARTIALLY_PAID'', Some ''partially_paid''), (''PARTIALLY_REFUNDED'', Some ''partially_refunded''),
      (''PENDING'', Some ''pending''), (''REFUNDED'', Some ''refunded''), (''VOIDED'', Some ''voided'')]"

definition KNOWN_GRAPHQL_FINANCIAL_STATUSES :: "string list" where
  "KNOWN_GRAPHQL_FINANCIAL_STATUSES = map fst FINANCIAL_STATUS_MAP"

definition map_financial_status :: "string option \<Rightarrow> string option" where
  "map_financial_status v = Option.bind v (\<lambda>x. Option.bind (map_of FINANCIAL_STATUS_MAP x) id)"

definition FULFILLMENT_STATUS_MAP :: "(string \<times> string) list" where
  "FULFILLMENT_STATUS_MAP =
     [(''FULFILLED'', ''fulfilled''), (''PARTIALLY_FULFILLED'', ''partial''),
      (''UNFULFILLED'', ''unfulfilled''), (''RESTOCKED'', ''restocked'')]"

definition map_fulfillment_status :: "string option \<Rightarrow> string option" where
  "map_fulfillment_status v = Option.bind v (map_of FULFILLMENT_STATUS_MAP)"

definition money_bag_to_webhook_set :: "money_bag \<Rightarrow> money_set" where
  "money_bag_to_webhook_set bag = \<lparr>
     mt_shop_money = \<lparr>mo_amount = gm_amount (mb_shopMoney bag), mo_currency_code = gm_currencyCode (mb_shopMoney bag)\<rparr>,
     mt_presentment_money = \<lparr>mo_amount = gm_amount (mb_presentmentMoney bag),
       mo_currency_code = gm_currencyCode (mb_presentmentMoney bag)\<rparr>\<rparr>"

definition map_line_item_node :: "line_item_node \<Rightarrow> line_item_body option" where
  "map_line_item_node li =
     map_option (\<lambda>n. \<lparr>lw_id = n, lw_product_id = Option.bind (ln_product li) extract_numeric_id_from_gid,
         lw_variant_id = Option.bind (ln_variant li) extract_numeric_id_from_gid, lw_title = ln_title li,
         lw_quantity = ln_quantity li, lw_price_set = money_bag_to_webhook_set (ln_originalUnitPriceSet li)\<rparr>)
       (extract_numeric_id_from_gid (ln_id li))"

definition map_order_node_to_webhook_body :: "order_node \<Rightarrow> order_body option" where
  "map_order_node_to_webhook_body node =
     (case extract_numeric_id_from_gid (on_id node) of
        None \<Rightarrow> None
      | Some n \<Rightarrow> Some \<lparr>ow_id = n, ow_name = on_name node, ow_test = on_test node,
          ow_financial_status = map_financial_status (on_displayFinancialStatus node),
          ow_fulfillment_status = map_fulfillment_status (on_displayFulfillmentStatus node),
          ow_customer = Option.bind (on_customer node) extract_numeric_id_from_gid,
          ow_currency = on_currencyCode node, ow_presentment_currency = on_presentmentCurrencyCode node,
          ow_subtotal_price_set = money_bag_to_webhook_set (on_subtotalPriceSet node),
          ow_total_price_set = money_bag_to_webhook_set (on_totalPriceSet node),
          ow_total_tax_set = map_option money_bag_to_webhook_set (on_totalTaxSet node),
          ow_total_discounts_set = map_option money_bag_to_webhook_set (on_totalDiscountsSet node),
          ow_created_at = on_createdAt node, ow_updated_at = on_updatedAt node,
          ow_processed_at = on_processedAt node, ow_cancelled_at = on_cancelledAt node,
          ow_line_items = List.map_filter map_line_item_node (on_lineItems node)\<rparr>)"

text \<open>What the body schema can still reject in a mapped order: a negative quantity.\<close>

definition check_order_body :: "order_body \<Rightarrow> exn + order_body" where
  "check_order_body b = (if list_all (\<lambda>l. 0 \<le> lw_quantity l) (ow_line_items b) then Inr b else Inl zod_error)"

fun process_orders ::
  "(string \<Rightarrow> time option) \<Rightarrow> (string \<Rightarrow> string) \<Rightarrow> merchant_id \<Rightarrow> order_node page_processor" where
  "process_orders date_of newId m now [] s = Inr (s, ())"
| "process_orders date_of newId m now (node # nodes) s =
     (case map_order_node_to_webhook_body node of
        None \<Rightarrow> process_orders date_of newId m now nodes s
      | Some mapped \<Rightarrow>
          rbind (check_order_body mapped) (\<lambda>b.
          rbind (upsert_order_from_webhook date_of (newId (on_id node)) m b s) (\<lambda>(s1, _).
            process_orders date_of newId m now nodes s1)))"

end
