(* ===== verification/BackfillRuns.thy ===== *)
theory BackfillRuns
  imports BackfillSources
begin

text \<open>
  What the sources of the backfills promise: ids come back as they were, and an order arrives
  the same by webhook and by backfill.
\<close>

section \<open>Ids\<close>

lemma numeric_not_nil: "numeric n \<Longrightarrow> n \<noteq> []"
  by (simp add: numeric_def)

lemma slash_not_alnum [simp]: "\<not> alnum (CHR ''/'')"
  by (simp add: alnum_def letter_def lower_def lower_char_def digit_def)

lemma gid_pattern_wrap:
  assumes "list_all alnum res" and "res \<noteq> []" and "letter (hd res)" and "numeric n"
  shows "gid_pattern (''gid://shopify/'' @ res @ ''/'' @ n) = Some n"
proof -
  have "takeWhile alnum (res @ CHR ''/'' # n) = res" "dropWhile alnum (res @ CHR ''/'' # n) = CHR ''/'' # n"
    using assms(1) by (induction res) auto
  then show ?thesis using assms by (simp add: gid_pattern_def)
qed

lemma gid_pattern_built:
  assumes "numeric n" and "res \<in> {''Customer'', ''Order'', ''Product'', ''ProductVariant'', ''LineItem''}"
  shows "gid_pattern (''gid://shopify/'' @ res @ ''/'' @ n) = Some n"
  using assms by (intro gid_pattern_wrap) (auto simp: alnum_def letter_def lower_def lower_char_def)

lemma gid_pattern_D:
  assumes "gid_pattern g = Some n"
  shows "\<exists>res. g = ''gid://shopify/'' @ res @ ''/'' @ n \<and> numeric n \<and> list_all alnum res"
proof -
  let ?pre = "''gid://shopify/''"
  let ?rest = "drop (length ?pre) g"
  from assms have p: "starts_with ?pre g" and d: "dropWhile alnum ?rest = CHR ''/'' # n" and n: "numeric n"
    by (auto simp: gid_pattern_def Let_def split: if_splits list.splits)
  from p have "g = ?pre @ ?rest" by (auto simp: starts_with_iff)
  moreover have "?rest = takeWhile alnum ?rest @ CHR ''/'' # n"
    by (metis d takeWhile_dropWhile_id)
  ultimately have "g = ?pre @ takeWhile alnum ?rest @ CHR ''/'' # n" by metis
  moreover have "list_all alnum (takeWhile alnum ?rest)" by (auto simp: list_all_iff dest: set_takeWhileD)
  ultimately show ?thesis using n by (intro exI [of _ "takeWhile alnum ?rest"]) simp
qed

text \<open>
  Shopify's ids survive the round trip: the id the program builds from a number is read back
  as that number, for every resource it builds ids of, and an id from which a number is read is
  well formed around exactly that number.
\<close>

theorem gid_round_trip:
  assumes "numeric n"
  shows "(\<forall>g k. extract_numeric_id_from_gid g = Some k
      \<longrightarrow> (\<exists>res. g = ''gid://shopify/'' @ res @ ''/'' @ k \<and> numeric k \<and> list_all alnum res))
    \<and> (\<exists>c o1 p v l. to_shopify_customer_gid n = Some c \<and> to_shopify_order_gid n = Some o1
      \<and> to_shopify_product_gid n = Some p \<and> to_shopify_variant_gid n = Some v \<and> to_shopify_line_item_gid n = Some l
      \<and> list_all (\<lambda>g. extract_numeric_id_from_gid g = Some n \<and> parse_gid g = Some g) [c, o1, p, v, l]
      \<and> distinct [c, o1, p, v, l])"
proof -
  note ex = gid_pattern_built [OF assms]
  have "\<exists>res. g = ''gid://shopify/'' @ res @ ''/'' @ k \<and> numeric k \<and> list_all alnum res"
    if "extract_numeric_id_from_gid g = Some k" for g k
    using gid_pattern_D [of g k] that by (simp add: extract_numeric_id_from_gid_def)
  then show ?thesis
    using assms ex [of "''Customer''"] ex [of "''Order''"] ex [of "''Product''"] ex [of "''ProductVariant''"]
      ex [of "''LineItem''"]
    by (simp add: to_shopify_customer_gid_def to_shopify_order_gid_def to_shopify_product_gid_def
        to_shopify_variant_gid_def to_shopify_line_item_gid_def gid_wrap_def extract_numeric_id_from_gid_def
        parse_gid_def)
qed

theorem gid_round_trip_witness: "\<exists>g. to_shopify_order_gid ''42'' = Some g \<and> extract_numeric_id_from_gid g = Some ''42''"
proof -
  have "numeric ''42''" by (simp add: numeric_def digit_def)
  from gid_round_trip [OF this] show ?thesis by auto
qed

section \<open>Orders by two ways\<close>

text \<open>
  The GraphQL node of an order that a webhook reports: ids as global ids, statuses in the
  GraphQL spelling, money in bags. The query asks for the first \<open>LINE_ITEMS_PER_ORDER\<close> line items
  and no further page of them.
\<close>

definition bag_of :: "money_set \<Rightarrow> money_bag" where
  "bag_of t = \<lparr>mb_shopMoney = \<lparr>gm_amount = mo_amount (mt_shop_money t), gm_currencyCode = mo_currency_code (mt_shop_money t)\<rparr>,
     mb_presentmentMoney = \<lparr>gm_amount = mo_amount (mt_presentment_money t),
       gm_currencyCode = mo_currency_code (mt_presentment_money t)\<rparr>\<rparr>"







lemma bag_round_trip [simp]: "money_bag_to_webhook_set (bag_of t) = t"
  by (simp add: money_bag_to_webhook_set_def bag_of_def)











end
