(* ===== verification/CustomerBackfill.thy ===== *)
theory CustomerBackfill
  imports BackfillRuns
begin

text \<open>
  The customer backfill as a whole: the runner, its jobs, the Admin client and the customer
  processor, over a Shopify that pages a fixed list of customers. However many runs it takes,
  every customer is stored exactly once.
\<close>

section \<open>What a request leaves alone\<close>

lemma mark_token_revoked_frame:
  "mark_token_revoked eid now m s = Inr (s', u) \<Longrightarrow> customers s' = customers s \<and> backfill_jobs s' = backfill_jobs s"
  by (auto simp: mark_token_revoked_def create_outbox_def split: if_splits)

lemma graphql_loop_frame:
  assumes "graphql_loop e m shop token q cost attempt st = (st', res)"
  shows "customers (ad_db st') = customers (ad_db st) \<and> backfill_jobs (ad_db st') = backfill_jobs (ad_db st)
    \<and> (\<forall>d. res = Inr d \<longrightarrow> ad_db st' = ad_db st \<and> (\<exists>w w' t status header body.
        ae_fetch e w shop token q = (w', t, HttpResponse status header (Some body)) \<and> rp_data body = Some d))"
  using assms
proof (induction e m shop token q cost attempt st rule: graphql_loop.induct)
  case (1 e m shop token q cost attempt st)
  obtain st1 response where s: "send_request e shop token q cost st = (st1, response)" by (metis surj_pair)
  obtain st2 v where j: "judge e shop attempt response st1 = (st2, v)" by (metis surj_pair)
  have db: "ad_db st2 = ad_db st" using send_request_db [OF s] judge_errors [OF j] by simp
  show ?case
  proof (cases v)
    case (Stop r)
    have "\<exists>w w' t. ae_fetch e w shop token q = (w', t, response)"
      using s by (auto simp: send_request_def Let_def split: prod.splits)
    moreover have "\<exists>status header body. response = HttpResponse status header (Some body) \<and> rp_data body = Some d"
      if "r = Inr d" for d
      using j Stop that by (auto simp: judge_def judge_body_def Let_def split: http_result.splits if_splits option.splits)
    ultimately show ?thesis using Stop 1(2) db
      by (subst (asm) graphql_loop.simps) (fastforce simp: s j)
  next
    case (RetryAfter ms err')
    show ?thesis
    proof (cases "attempt \<ge> ae_maxRetries e")
      case True
      with RetryAfter 1(2) db show ?thesis by (subst (asm) graphql_loop.simps) (auto simp: s j)
    next
      case False
      with 1(2) RetryAfter have "graphql_loop e m shop token q cost (attempt + 1) (sleep ms st2) = (st', res)"
        by (subst (asm) graphql_loop.simps) (simp add: s j)
      from 1(1) [OF s [symmetric] j [symmetric] RetryAfter False this] db show ?thesis by (simp add: sleep_def)
    qed
  next
    case Unauthorized
    show ?thesis
    proof (cases "mark_token_revoked (ae_eventId e) (ad_now st2) m (ad_db st)")
      case (Inl err')
      with Unauthorized 1(2) db show ?thesis
        by (subst (asm) graphql_loop.simps) (auto simp: s j transaction_def)
    next
      case (Inr su)
      obtain s' u where "su = (s', u)" by (cases su)
      with Inr Unauthorized 1(2) db mark_token_revoked_frame show ?thesis
        by (subst (asm) graphql_loop.simps) (auto simp: s j transaction_def)
    qed
  qed
qed

lemma graphql_frame:
  assumes "graphql e m q cost st = (st', res)"
  shows "customers (ad_db st') = customers (ad_db st)" "backfill_jobs (ad_db st') = backfill_jobs (ad_db st)"
    "res = Inr d \<Longrightarrow> ad_db st' = ad_db st \<and> (\<exists>w w' t shop token status header body.
        ae_fetch e w shop token q = (w', t, HttpResponse status header (Some body)) \<and> rp_data body = Some d)"
  using assms graphql_loop_frame by (fastforce simp: graphql_def split: option.splits)+

section \<open>The source\<close>

text \<open>
  Shopify pages the list \<open>items\<close>: \<open>pos c\<close> is the number of items up to the cursor \<open>c\<close>, and an
  answer to a query of \<open>n\<close> items after a cursor holds exactly these items, says whether more
  follow, and gives as its end cursor one that is behind them.
\<close>

definition cursor_pos :: "(string \<Rightarrow> nat) \<Rightarrow> string option \<Rightarrow> nat" where
  "cursor_pos pos c = (case c of None \<Rightarrow> 0 | Some x \<Rightarrow> pos x)"

definition right_page :: "'i list \<Rightarrow> (string \<Rightarrow> nat) \<Rightarrow> int \<Rightarrow> string option \<Rightarrow> 'i resource_page \<Rightarrow> bool" where
  "right_page items pos n c p \<longleftrightarrow> pg_items p = take (nat n) (drop (cursor_pos pos c) items)
     \<and> (pg_hasNextPage p \<longleftrightarrow> cursor_pos pos c + nat n < length items)
     \<and> (pg_items p \<noteq> [] \<longrightarrow> cursor_pos pos (pg_endCursor p) = cursor_pos pos c + length (pg_items p))"

text \<open>An answer that breaks the contract; no such answer comes from a Shopify that keeps it.\<close>

definition wrong_answer ::
  "customer_node list \<Rightarrow> (string \<Rightarrow> nat) \<Rightarrow> int \<Rightarrow> admin_query \<Rightarrow> admin_data http_result \<Rightarrow> bool" where
  "wrong_answer nodes pos n q response = (case q of
       CustomersPage k c \<Rightarrow> k = n \<and> (case response of
          NetworkError \<Rightarrow> False
        | HttpResponse status header json \<Rightarrow> (case Option.bind json rp_data of
             None \<Rightarrow> False
           | Some d \<Rightarrow> \<not> right_page nodes pos n c (or_default (rd_customers d) no_page)))
     | _ \<Rightarrow> False)"

definition serves_customers :: "customer_node list \<Rightarrow> (string \<Rightarrow> nat) \<Rightarrow> int \<Rightarrow> 'w backfill_env \<Rightarrow> bool" where
  "serves_customers nodes pos n e \<longleftrightarrow>
     (\<forall>w shop token q. \<not> wrong_answer nodes pos n q (snd (snd (ae_fetch e w shop token q))))"

definition vetted :: "customer_node list \<Rightarrow> (string \<Rightarrow> nat) \<Rightarrow> int \<Rightarrow> 'w backfill_env \<Rightarrow> 'w backfill_env" where
  "vetted nodes pos n e = e\<lparr>ae_fetch := (\<lambda>w shop token q. case ae_fetch e w shop token q of
     (w', t, response) \<Rightarrow> (w', t, if wrong_answer nodes pos n q response then NetworkError else response))\<rparr>"

lemma serves_vetted: "serves_customers nodes pos n (vetted nodes pos n e)"
  by (auto simp: serves_customers_def vetted_def wrong_answer_def split: prod.splits admin_query.splits)

lemma vetted_serves:
  assumes "serves_customers nodes pos n e"
  shows "vetted nodes pos n e = e"
proof -
  have "ae_fetch (vetted nodes pos n e) w shop token q = ae_fetch e w shop token q" for w shop token q
  proof -
    obtain w' t response where f: "ae_fetch e w shop token q = (w', t, response)" by (metis surj_pair)
    with assms have "\<not> wrong_answer nodes pos n q response" unfolding serves_customers_def by (metis snd_conv)
    with f show ?thesis by (simp add: vetted_def)
  qed
  then have "ae_fetch (vetted nodes pos n e) = ae_fetch e" by (intro ext)
  then show ?thesis by (simp add: vetted_def)
qed

lemma customer_fetch_page:
  assumes "serves_customers nodes pos n e" and "customer_page_fetch e m c n st = (st', Inr p)"
  shows "right_page nodes pos n c p" and "ad_db st' = ad_db st"
proof -
  from assms(2) obtain d where g: "graphql e m (CustomersPage n c)
      (Some (max 10 (of_int \<lceil>of_int n / (5 :: rat)\<rceil>))) st = (st', Inr d)" and p: "p = or_default (rd_customers d) no_page"
    by (auto simp: customer_page_fetch_def or_default_def split: prod.splits sum.splits option.splits)
  from graphql_frame(3) [OF g refl] obtain w w' t shop token status header body
    where "ad_db st' = ad_db st"
      and f: "ae_fetch e w shop token (CustomersPage n c) = (w', t, HttpResponse status header (Some body))"
        "rp_data body = Some d" by blast
  then show "ad_db st' = ad_db st" by simp
  from assms(1) have "\<not> wrong_answer nodes pos n (CustomersPage n c) (HttpResponse status header (Some body))"
    unfolding serves_customers_def by (metis f(1) snd_conv)
  with f(2) p show "right_page nodes pos n c p" by (simp add: wrong_answer_def)
qed

section \<open>The processor\<close>

definition customer_key :: "customer_row \<Rightarrow> merchant_id \<times> string" where
  "customer_key c = (cu_merchantId c, cu_shopifyCustomerId c)"

lemma customer_key_write [simp]: "customer_key (write_customer_node date_of node c) = customer_key c"
  by (simp add: customer_key_def write_customer_node_def)

interpretation customer_upsert: overwriting_upsert customer_key "\<lambda>i. (m, cn_id (snd i))"
  "\<lambda>i. write_customer_node date_of (snd i)" "\<lambda>i. new_customer date_of newId (fst i) m (snd i)"
  for date_of newId m
  by unfold_locales
    (simp_all add: customer_key_def write_customer_node_def new_customer_def fresh_customer_def)

lemma put_customer_node_upsert:
  "parse_gid (cn_id node) \<noteq> None \<Longrightarrow> put_customer_node date_of newId m now node
    = upsert_row (\<lambda>c. customer_key c = (m, cn_id node)) (write_customer_node date_of node) (new_customer date_of newId now m node)"
  by (auto simp: put_customer_node_def parse_gid_def customer_key_def fun_eq_iff split: if_splits)

text \<open>The first \<open>k\<close> nodes are stored, each once, over the customers \<open>cs\<close> there were before.\<close>

definition put_nodes ::
  "(string \<Rightarrow> time option) \<Rightarrow> (string \<Rightarrow> string) \<Rightarrow> merchant_id \<Rightarrow> (time \<times> customer_node) list \<Rightarrow> customer_row list \<Rightarrow> customer_row list" where
  "put_nodes date_of newId m = fold (\<lambda>(now, node). put_customer_node date_of newId m now node)"

definition nodes_stored ::
  "(string \<Rightarrow> time option) \<Rightarrow> (string \<Rightarrow> string) \<Rightarrow> merchant_id \<Rightarrow> customer_node list \<Rightarrow> customer_row list \<Rightarrow> nat \<Rightarrow> db \<Rightarrow> bool" where
  "nodes_stored date_of newId m nodes cs k s \<longleftrightarrow>
     (\<exists>timed. map snd timed = take k nodes \<and> customers s = put_nodes date_of newId m timed cs)"

lemma process_customers_stored:
  assumes "nodes_stored date_of newId m nodes cs k s" and "xs = take j (drop k nodes)"
    and "process_customers date_of newId m now xs s = Inr (s', u)"
  shows "nodes_stored date_of newId m nodes cs (k + length xs) s'" and "backfill_jobs s' = backfill_jobs s"
proof -
  from assms(1) obtain timed where t: "map snd timed = take k nodes" "customers s = put_nodes date_of newId m timed cs"
    by (auto simp: nodes_stored_def)
  have "put_nodes date_of newId m (map (Pair now) xs) rows = fold (put_customer_node date_of newId m now) xs rows" for rows
    by (simp add: put_nodes_def fold_map o_def)
  then have "customers s' = put_nodes date_of newId m (timed @ map (Pair now) xs) cs"
    using assms(3) t(2) by (auto simp: process_customers_def put_nodes_def)
  moreover have "take (length xs) (drop k nodes) = xs" using assms(2) by (auto simp: min_def)
  then have "map snd (timed @ map (Pair now) xs) = take (k + length xs) nodes"
    using t(1) by (simp add: take_add o_def)
  ultimately show "nodes_stored date_of newId m nodes cs (k + length xs) s'" unfolding nodes_stored_def by metis
  show "backfill_jobs s' = backfill_jobs s" using assms(3) by (auto simp: process_customers_def)
qed

interpretation customer_backfill: paged_backfill "customer_page_fetch (vetted nodes pos (max 1 n) e) m"
  "process_customers date_of newId m" m BackfillCustomers nodes "cursor_pos pos" "nodes_stored date_of newId m nodes cs" "max 1 n"
  for nodes pos n e m date_of newId cs
proof unfold_locales
  fix c st st' p assume f: "customer_page_fetch (vetted nodes pos (max 1 n) e) m c (max 1 n) st = (st', Inr p)"
  show "pg_items p = take (nat (max 1 n)) (drop (cursor_pos pos c) nodes)
      \<and> (pg_hasNextPage p \<longleftrightarrow> cursor_pos pos c + nat (max 1 n) < length nodes)
      \<and> (pg_items p \<noteq> [] \<longrightarrow> cursor_pos pos (pg_endCursor p) = cursor_pos pos c + length (pg_items p))"
    using customer_fetch_page(1) [OF serves_vetted f] unfolding right_page_def .
next
  fix c st st' res k
  assume "customer_page_fetch (vetted nodes pos (max 1 n) e) m c (max 1 n) st = (st', res)"
  then obtain r where "graphql (vetted nodes pos (max 1 n) e) m (CustomersPage (max 1 n) c)
      (Some (max 10 (of_int \<lceil>of_int (max 1 n) / (5 :: rat)\<rceil>))) st = (st', r)"
    by (auto simp: customer_page_fetch_def split: prod.splits sum.splits)
  from graphql_frame(1,2) [OF this]
  show "backfill_jobs (ad_db st') = backfill_jobs (ad_db st)
      \<and> (nodes_stored date_of newId m nodes cs k (ad_db st) \<longrightarrow> nodes_stored date_of newId m nodes cs k (ad_db st'))"
    by (simp add: nodes_stored_def)
next
  fix k s xs j now s' u
  assume "nodes_stored date_of newId m nodes cs k s" "xs = take j (drop k nodes)"
    "process_customers date_of newId m now xs s = Inr (s', u)"
  from process_customers_stored [OF this] show "nodes_stored date_of newId m nodes cs (k + length xs) s'
      \<and> backfill_jobs s' = backfill_jobs s" by simp
qed (simp_all add: cursor_pos_def nodes_stored_def)

section \<open>Every customer once\<close>

lemma put_nodes_upserts:
  assumes "\<forall>node \<in> snd ` set timed. parse_gid (cn_id node) \<noteq> None"
  shows "put_nodes date_of newId m timed cs = fold (\<lambda>i. upsert_row (\<lambda>c. customer_key c = (m, cn_id (snd i)))
      (write_customer_node date_of (snd i)) (new_customer date_of newId (fst i) m (snd i))) timed cs"
  using assms by (induction timed arbitrary: cs) (auto simp: put_nodes_def put_customer_node_upsert)

abbreviation customer_runs where
  "customer_runs e date_of newId m n eid gs st \<equiv> backfill_runs MAX_PAGES_HARD_LIMIT eid (customer_page_fetch e m)
     (process_customers date_of newId m) m BackfillCustomers (Some n) gs st"

lemma vetted_id:
  assumes "serves_customers nodes pos n e" and "0 < n"
  shows "vetted nodes pos (max 1 n) e = e" "vetted nodes pos n e = e" "max 1 n = n"
  using assms vetted_serves by (simp_all add: max_def)

lemma customer_runs_step:
  assumes "serves_customers nodes pos n e" and "0 < n"
    and "find_by_resource m BackfillCustomers (ad_db st) = None"
    and "st' = customer_runs e date_of newId m n eid gs st"
  shows "customer_backfill.underway m nodes pos date_of newId (customers (ad_db st)) n (ad_db st')
    \<or> customer_backfill.finished m nodes date_of newId (customers (ad_db st)) n (ad_db st')"
proof -
  let ?cs = "customers (ad_db st)"
  note e = vetted_id [OF assms(1,2)]
  have "nodes_stored date_of newId m nodes ?cs 0 (ad_db st)" by (simp add: nodes_stored_def put_nodes_def)
  then have u: "customer_backfill.underway m nodes pos date_of newId ?cs n (ad_db st)"
    using assms(3) customer_backfill.underway_def [of m nodes pos date_of newId ?cs n "ad_db st"] by simp
  show ?thesis
    using customer_backfill.runs_step [of m nodes pos date_of newId ?cs n st "Some n" MAX_PAGES_HARD_LIMIT eid e gs] u
    unfolding assms(4) by (simp add: or_default_def MAX_PAGES_HARD_LIMIT_def e)
qed

lemma put_nodes_exact:
  assumes "distinct (map cn_id nodes)" and "\<forall>node \<in> set nodes. parse_gid (cn_id node) \<noteq> None"
    and "distinct (map customer_key cs)" and "map snd timed = nodes"
  shows "\<And>node. node \<in> set nodes \<Longrightarrow> \<exists>c. filter (\<lambda>c. customer_key c = (m, cn_id node)) (put_nodes date_of newId m timed cs) = [c]
         \<and> write_customer_node date_of node c = c"
    and "\<And>k. k \<notin> (\<lambda>node. (m, cn_id node)) ` set nodes \<Longrightarrow>
         filter (\<lambda>c. customer_key c = k) (put_nodes date_of newId m timed cs) = filter (\<lambda>c. customer_key c = k) cs"
proof -
  have nodes: "snd ` set timed = set nodes" "distinct (map (\<lambda>i. (m, cn_id (snd i))) timed)"
  proof -
    show "snd ` set timed = set nodes" using assms(4) by (metis set_map)
    have "map (cn_id \<circ> snd) timed = map cn_id nodes" using assms(4) by (metis map_map)
    with assms(1) have d: "distinct (map (cn_id \<circ> snd) timed)" by simp
    have "map (\<lambda>i. (m, cn_id (snd i))) timed = map (Pair m) (map (cn_id \<circ> snd) timed)" by simp
    then show "distinct (map (\<lambda>i. (m, cn_id (snd i))) timed)"
      using d by (simp only: distinct_map [of "Pair m"]) (simp add: inj_on_def)
  qed
  note put = put_nodes_upserts [of timed date_of newId m cs]
  show "\<exists>c. filter (\<lambda>c. customer_key c = (m, cn_id node)) (put_nodes date_of newId m timed cs) = [c]
         \<and> write_customer_node date_of node c = c" if n: "node \<in> set nodes" for node
  proof -
    from n nodes(1) obtain i where i: "i \<in> set timed" "snd i = node" by force
    show ?thesis
      using customer_upsert.put_all_exact [OF assms(3) nodes(2) i(1), of date_of newId] put nodes(1) assms(2) i(2)
      by simp
  qed
  show "filter (\<lambda>c. customer_key c = k) (put_nodes date_of newId m timed cs) = filter (\<lambda>c. customer_key c = k) cs"
    if k: "k \<notin> (\<lambda>node. (m, cn_id node)) ` set nodes" for k
  proof -
    from k nodes(1) have "k \<notin> (\<lambda>i. (m, cn_id (snd i))) ` set timed" by force
    from customer_upsert.put_all_other [OF this] put nodes(1) assms(2) show ?thesis by simp
  qed
qed

text \<open>
  C15. A customer backfill stores every customer exactly once. Shopify pages the customers
  \<open>nodes\<close>, with ids of their own; the job has not started; rows have distinct keys. After any
  number of runs, each of which may end early at any page for whatever reason, a job that says
  it is completed has counted every customer, there is exactly one row for each of them and it
  holds what Shopify said, and every other row of the table is as it was.
\<close>

theorem customer_backfill_exact:
  assumes "serves_customers nodes pos n e" and "0 < n"
    and "distinct (map cn_id nodes)" and "\<forall>node \<in> set nodes. parse_gid (cn_id node) \<noteq> None"
    and "distinct (map customer_key (customers (ad_db st)))"
    and "find_by_resource m BackfillCustomers (ad_db st) = None"
    and "st' = backfill_runs MAX_PAGES_HARD_LIMIT eid (customer_page_fetch e m) (process_customers date_of newId m)
      m BackfillCustomers (Some n) gs st"
    and "find_by_resource m BackfillCustomers (ad_db st') = Some j" and "bf_status j = BfCompleted"
  shows "bf_itemsProcessed j = int (length nodes)
    \<and> (\<forall>node \<in> set nodes. \<exists>c. filter (\<lambda>c. customer_key c = (m, cn_id node)) (customers (ad_db st')) = [c]
         \<and> write_customer_node date_of node c = c)
    \<and> (\<forall>k. k \<notin> (\<lambda>node. (m, cn_id node)) ` set nodes \<longrightarrow>
         filter (\<lambda>c. customer_key c = k) (customers (ad_db st')) = filter (\<lambda>c. customer_key c = k) (customers (ad_db st)))"
proof -
  let ?cs = "customers (ad_db st)"
  from customer_runs_step [OF assms(1,2,6,7)] have "customer_backfill.finished m nodes date_of newId ?cs n (ad_db st')"
    using assms(8,9) customer_backfill.underway_def [of m nodes pos date_of newId ?cs n "ad_db st'"]
      customer_backfill.in_step_def [of m nodes pos date_of newId ?cs n j "ad_db st'"] by auto
  with assms(8) have "nodes_stored date_of newId m nodes ?cs (length nodes) (ad_db st')" "bf_itemsProcessed j = int (length nodes)"
    by (auto simp: customer_backfill.finished_def customer_backfill.all_stored_def)
  then obtain timed where t: "map snd timed = nodes" "customers (ad_db st') = put_nodes date_of newId m timed ?cs"
    and "bf_itemsProcessed j = int (length nodes)" by (auto simp: nodes_stored_def)
  with put_nodes_exact [where m = m and date_of = date_of and newId = newId, OF assms(3-5) t(1)] show ?thesis by simp
qed

text \<open>A Shopify that answers every request.\<close>

definition answers :: "'w backfill_env \<Rightarrow> bool" where
  "answers e \<longleftrightarrow> (\<forall>w shop token q. \<exists>w' t status header body.
     ae_fetch e w shop token q = (w', t, HttpResponse status header (Some body)) \<and> 200 \<le> status \<and> status \<le> 299
     \<and> or_default (rp_errors body) [] = [] \<and> rp_data body \<noteq> None)"

lemma graphql_answers:
  assumes "answers e" and "get_offline_token (ae_decrypt e) m (ad_db st) \<noteq> None"
  shows "\<exists>st' d. graphql e m q c st = (st', Inr d) \<and> ad_db st' = ad_db st"
proof -
  from assms(2) obtain shop token where t: "get_offline_token (ae_decrypt e) m (ad_db st) = Some (shop, token)" by auto
  let ?cost = "or_default c DEFAULT_ESTIMATED_COST"
  obtain st1 response where s: "send_request e shop token q ?cost st = (st1, response)" by (metis surj_pair)
  then obtain w w' d where "ae_fetch e w shop token q = (w', d, response)"
    by (auto simp: send_request_def Let_def split: prod.splits)
  with assms(1) obtain status header body where r: "response = HttpResponse status header (Some body)"
    "200 \<le> status" "status \<le> 299" "or_default (rp_errors body) [] = []" "rp_data body \<noteq> None"
    unfolding answers_def by (metis prod.inject)
  then obtain st2 x where j: "judge e shop 0 response st1 = (st2, Stop (Inr x))"
    by (auto simp: judge_def judge_body_def Let_def)
  have "graphql e m q c st = (st2, Inr x)"
    using t s j by (simp add: graphql_def graphql_loop.simps)
  with send_request_db [OF s] judge_errors [OF j] show ?thesis by auto
qed

lemma token_frame:
  "get_offline_token decrypt m (s\<lparr>customers := cs\<rparr>) = get_offline_token decrypt m s"
  "get_offline_token decrypt m (s\<lparr>backfill_jobs := js\<rparr>) = get_offline_token decrypt m s"
  by (simp_all add: get_offline_token_def find_merchant_def cong: option.case_cong if_cong)

lemma customer_run_completes:
  assumes "serves_customers nodes pos n e" and "0 < n"
    and "customer_backfill.underway m nodes pos date_of newId cs n (ad_db st)"
    and "answers e" and "get_offline_token (ae_decrypt e) m (ad_db st) \<noteq> None"
    and "length nodes \<le> 9999 * nat n"
  shows "\<exists>st2 b. run_backfill MAX_PAGES_HARD_LIMIT eid (customer_page_fetch e m) (process_customers date_of newId m)
      m BackfillCustomers (Some n) st = (st2, Inr b)
    \<and> br_finalStatus b = BfCompleted \<and> br_itemsProcessed b = int (length nodes)
    \<and> customer_backfill.finished m nodes date_of newId cs n (ad_db st2)"
proof -
  note e = vetted_id [OF assms(1,2)]
  let ?usable = "\<lambda>s. get_offline_token (ae_decrypt e) m s \<noteq> None"
  have fetches: "\<exists>st' p. customer_page_fetch e m c n st = (st', Inr p) \<and> ?usable (ad_db st')"
    if "?usable (ad_db st)" for c st
    using graphql_answers [OF assms(4) that, of "CustomersPage n c" "Some (max 10 (of_int \<lceil>of_int n / (5 :: rat)\<rceil>))"] that
    by (auto simp: customer_page_fetch_def)
  have stores: "\<exists>s'. process_customers date_of newId m now xs s = Inr (s', ()) \<and> ?usable s'" if "?usable s" for now xs s
    using that by (simp add: process_customers_def token_frame)
  have jobs: "?usable (s\<lparr>backfill_jobs := js\<rparr>) = ?usable s" for s js by (simp add: token_frame)
  have "\<exists>st2 b. run_backfill MAX_PAGES_HARD_LIMIT eid (customer_page_fetch e m) (process_customers date_of newId m)
      m BackfillCustomers (Some n) st = (st2, Inr b) \<and> br_finalStatus b = BfCompleted"
    using customer_backfill.run_completes [where usable = ?usable and nodes = nodes and pos = pos and n = n and e = e
        and m = m and date_of = date_of and newId = newId and cs = cs and st = st and ps = "Some n"
        and limit = MAX_PAGES_HARD_LIMIT and eid = eid] fetches stores jobs assms(3,5,6)
    unfolding e by (simp add: or_default_def MAX_PAGES_HARD_LIMIT_def)
  then obtain st2 b where run: "run_backfill MAX_PAGES_HARD_LIMIT eid (customer_page_fetch e m)
      (process_customers date_of newId m) m BackfillCustomers (Some n) st = (st2, Inr b)"
    and b: "br_finalStatus b = BfCompleted" by blast
  from customer_backfill.run_step [of MAX_PAGES_HARD_LIMIT eid nodes pos n e m date_of newId "Some n" st st2 "Inr b" cs]
    run b assms(3) have "br_itemsProcessed b = int (length nodes)"
      "customer_backfill.finished m nodes date_of newId cs n (ad_db st2)"
    unfolding e by (simp_all add: or_default_def MAX_PAGES_HARD_LIMIT_def)
  with run b show ?thesis by blast
qed

text \<open>
  C16. A customer backfill can always be finished: whatever runs went before it, with whatever
  failures, one more run with a token that is usable and a Shopify that answers completes, if
  the customers fit in 9,999 pages, and reports every customer. (With exactly 10,000 pages the
  runner reports its page limit although it has stored everything.)
\<close>

theorem customer_backfill_completes:
  assumes "serves_customers nodes pos n e" and "serves_customers nodes pos n e'" and "0 < n"
    and "find_by_resource m BackfillCustomers (ad_db st) = None"
    and "st1 = customer_runs e date_of newId m n eid gs st"
    and "answers e'" and "get_offline_token (ae_decrypt e') m (ad_db st1) \<noteq> None"
    and "length nodes \<le> 9999 * nat n"
  shows "\<exists>st2 b. run_backfill MAX_PAGES_HARD_LIMIT eid' (customer_page_fetch e' m) (process_customers date_of newId m)
      m BackfillCustomers (Some n) st1 = (st2, Inr b)
    \<and> br_finalStatus b = BfCompleted \<and> br_itemsProcessed b = int (length nodes)"
  using customer_runs_step [OF assms(1,3,4,5)]
proof
  assume "customer_backfill.underway m nodes pos date_of newId (customers (ad_db st)) n (ad_db st1)"
  from customer_run_completes [OF assms(2,3) this assms(6-8)] show ?thesis by blast
next
  assume "customer_backfill.finished m nodes date_of newId (customers (ad_db st)) n (ad_db st1)"
  then show ?thesis
    by (auto simp: customer_backfill.finished_def customer_backfill.all_stored_def run_backfill_def get_or_create_def)
qed

section \<open>An example\<close>

text \<open>Two customers in pages of one; a cursor of length \<open>j\<close> is behind \<open>j\<close> customers.\<close>

definition page_at :: "'i list \<Rightarrow> int \<Rightarrow> string option \<Rightarrow> 'i resource_page" where
  "page_at items n c = (let k = cursor_pos length c; xs = take (nat n) (drop k items) in
     \<lparr>pg_items = xs, pg_endCursor = Some (replicate (k + length xs) (CHR ''x'')),
      pg_hasNextPage = (k + nat n < length items)\<rparr>)"

definition paging_env :: "customer_node list \<Rightarrow> unit backfill_env" where
  "paging_env nodes = \<lparr>ae_fetch = (\<lambda>w shop token q. ((), 100, HttpResponse 200 None (Some \<lparr>
       rp_data = Some \<lparr>rd_customers = (case q of CustomersPage n c \<Rightarrow> Some (page_at nodes n c) | _ \<Rightarrow> None),
         rd_orders = None, rd_shop = None, rd_subscription = None\<rparr>, rp_errors = None, rp_throttleStatus = None\<rparr>))),
     ae_decrypt = Some, ae_jitter = (\<lambda>_. 0), ae_eventId = ''e1'', ae_maxRetries = 3, ae_options = TRACKER_DEFAULTS\<rparr>"

definition sample_node :: "string \<Rightarrow> customer_node" where
  "sample_node k = \<lparr>cn_id = ''gid://shopify/Customer/'' @ k, cn_email = None, cn_phone = None, cn_firstName = None,
     cn_lastName = None, cn_emailMarketingState = None, cn_smsMarketingState = None, cn_numberOfOrders = Some ''2'',
     cn_tags = None, cn_createdAt = None, cn_updatedAt = None\<rparr>"

definition sample_nodes :: "customer_node list" where
  "sample_nodes = [sample_node ''1'', sample_node ''2'']"

definition empty_backfill :: "unit admin_state" where
  "empty_backfill = \<lparr>ad_db = sample_shop\<lparr>customers := []\<rparr>, ad_now = 0, ad_tracker = Map.empty, ad_world = (), ad_requests = []\<rparr>"

lemma right_page_at: "right_page items length n c (page_at items n c)"
  by (auto simp: right_page_def page_at_def Let_def cursor_pos_def)

lemma paging_env_serves: "serves_customers nodes length n (paging_env nodes)"
  by (auto simp: serves_customers_def wrong_answer_def paging_env_def or_default_def right_page_at
      split: admin_query.splits)

lemma paging_env_answers: "answers (paging_env nodes)"
  by (simp add: answers_def paging_env_def or_default_def)

lemma sample_nodes_ok:
  "distinct (map cn_id sample_nodes)" "\<forall>node \<in> set sample_nodes. parse_gid (cn_id node) \<noteq> None"
  by (simp_all add: sample_nodes_def sample_node_def parse_gid_def gid_pattern_built [of _ "''Customer''", simplified]
      numeric_def digit_def)

lemma empty_backfill_ok:
  "find_by_resource m r (ad_db empty_backfill) = None" "customers (ad_db empty_backfill) = []"
  "get_offline_token Some ''m'' (ad_db empty_backfill) \<noteq> None"
  by (simp_all add: empty_backfill_def sample_shop_def find_by_resource_def empty_db_def get_offline_token_def
      find_merchant_def find_row_Cons)

theorem customer_backfill_completes_witness:
  "\<exists>st2 b. run_backfill MAX_PAGES_HARD_LIMIT ''e2'' (customer_page_fetch (paging_env sample_nodes) ''m'')
      (process_customers (\<lambda>_. None) (\<lambda>_. ''c1'') ''m'') ''m'' BackfillCustomers (Some 1) empty_backfill = (st2, Inr b)
    \<and> br_finalStatus b = BfCompleted \<and> br_itemsProcessed b = 2"
proof -
  have "length sample_nodes = 2" "get_offline_token (ae_decrypt (paging_env sample_nodes)) ''m'' (ad_db empty_backfill) \<noteq> None"
    using empty_backfill_ok(3) by (simp_all add: sample_nodes_def paging_env_def)
  then show ?thesis
    using customer_backfill_completes [where gs = "[]" and n = 1 and m = "''m''" and st = empty_backfill and nodes = sample_nodes
        and date_of = "\<lambda>_. None" and newId = "\<lambda>_. ''c1''" and eid' = "''e2''", OF paging_env_serves paging_env_serves]
    by (simp add: paging_env_answers empty_backfill_ok)
qed

lemma sample_run_finishes:
  "\<exists>j. find_by_resource ''m'' BackfillCustomers (ad_db (customer_runs (paging_env sample_nodes) (\<lambda>_. None) (\<lambda>_. ''c1'') ''m'' 1
      ''e1'' [id] empty_backfill)) = Some j \<and> bf_status j = BfCompleted"
proof -
  have "length sample_nodes = 2" "get_offline_token (ae_decrypt (paging_env sample_nodes)) ''m'' (ad_db empty_backfill) \<noteq> None"
    using empty_backfill_ok(3) by (simp_all add: sample_nodes_def paging_env_def)
  moreover have "customer_backfill.underway ''m'' sample_nodes length (\<lambda>_. None) (\<lambda>_. ''c1'') [] 1 (ad_db empty_backfill)"
    using customer_backfill.underway_def [of "''m''" sample_nodes length "\<lambda>_. None" "\<lambda>_. ''c1''" "[]" 1 "ad_db empty_backfill"]
    by (simp add: empty_backfill_ok nodes_stored_def put_nodes_def)
  ultimately obtain st2 b where "run_backfill MAX_PAGES_HARD_LIMIT ''e1'' (customer_page_fetch (paging_env sample_nodes) ''m'')
      (process_customers (\<lambda>_. None) (\<lambda>_. ''c1'') ''m'') ''m'' BackfillCustomers (Some 1) empty_backfill = (st2, Inr b)"
    "customer_backfill.finished ''m'' sample_nodes (\<lambda>_. None) (\<lambda>_. ''c1'') [] 1 (ad_db st2)"
    using customer_run_completes [of sample_nodes length 1 "paging_env sample_nodes" "''m''" "\<lambda>_. None" "\<lambda>_. ''c1''" "[]"
        empty_backfill "''e1''"] paging_env_serves paging_env_answers by auto
  then show ?thesis unfolding customer_backfill.finished_def customer_backfill.all_stored_def by auto
qed

theorem customer_backfill_exact_witness:
  "\<exists>c. filter (\<lambda>c. customer_key c = (''m'', ''gid://shopify/Customer/2'')) (customers (ad_db
      (customer_runs (paging_env sample_nodes) (\<lambda>_. None) (\<lambda>_. ''c1'') ''m'' 1 ''e1'' [id] empty_backfill))) = [c]
    \<and> cu_ordersCount c = 2"
proof -
  obtain j where j: "find_by_resource ''m'' BackfillCustomers (ad_db (customer_runs (paging_env sample_nodes) (\<lambda>_. None)
      (\<lambda>_. ''c1'') ''m'' 1 ''e1'' [id] empty_backfill)) = Some j" "bf_status j = BfCompleted"
    using sample_run_finishes by blast
  have "distinct (map customer_key (customers (ad_db empty_backfill)))" by (simp add: empty_backfill_ok)
  from customer_backfill_exact [OF paging_env_serves _ sample_nodes_ok this empty_backfill_ok(1) refl j]
  have "\<forall>node \<in> set sample_nodes. \<exists>c. filter (\<lambda>c. customer_key c = (''m'', cn_id node)) (customers (ad_db
      (customer_runs (paging_env sample_nodes) (\<lambda>_. None) (\<lambda>_. ''c1'') ''m'' 1 ''e1'' [id] empty_backfill))) = [c]
      \<and> write_customer_node (\<lambda>_. None) node c = c" by simp
  then have "\<exists>c. filter (\<lambda>c. customer_key c = (''m'', cn_id (sample_node ''2''))) (customers (ad_db
      (customer_runs (paging_env sample_nodes) (\<lambda>_. None) (\<lambda>_. ''c1'') ''m'' 1 ''e1'' [id] empty_backfill))) = [c]
      \<and> write_customer_node (\<lambda>_. None) (sample_node ''2'') c = c" by (simp add: sample_nodes_def)
  then obtain c where c: "filter (\<lambda>c. customer_key c = (''m'', ''gid://shopify/Customer/2'')) (customers (ad_db
      (customer_runs (paging_env sample_nodes) (\<lambda>_. None) (\<lambda>_. ''c1'') ''m'' 1 ''e1'' [id] empty_backfill))) = [c]"
      "write_customer_node (\<lambda>_. None) (sample_node ''2'') c = c" by (auto simp: sample_node_def)
  have "parse_int_or_zero (Some ''2'') = 2" by code_simp
  then have "cu_ordersCount (write_customer_node (\<lambda>_. None) (sample_node ''2'') c) = 2"
    by (simp add: write_customer_node_def sample_node_def)
  with c show ?thesis by metis
qed

end
