(* ===== verification/EventHandlers.thy ===== *)
theory EventHandlers
  imports GdprFacts OrderRepo RecomputeFacts
begin

text \<open>
  What the drainer does with the events of Shopify's webhooks: the schemas of their payloads
  (\<open>packages/db/src/webhook-bodies.ts\<close>, \<open>apps/drainer/src/payload-schemas.ts\<close>) and the
  handlers of orders and customers (\<open>apps/drainer/src/handlers\<close>), each of which writes the
  row and scores the customer in one transaction. Numbers in a payload are integers.
\<close>

section \<open>Schemas\<close>

text \<open>\<open>z.union([z.number(), z.string()])\<close>, rendered by \<open>String\<close> where it is used.\<close>

fun parse_id :: "json \<Rightarrow> string option" where
  "parse_id (JNum n) = Some (int_string n)"
| "parse_id (JStr s) = Some s"
| "parse_id _ = None"

fun parse_string :: "json \<Rightarrow> string option" where
  "parse_string (JStr s) = Some s"
| "parse_string _ = None"

text \<open>\<open>.nullable().optional()\<close> and \<open>.optional()\<close> of a schema.\<close>

definition nullish :: "(json \<Rightarrow> 'a option) \<Rightarrow> json \<Rightarrow> 'a option option" where
  "nullish p j = (if j = JNull \<or> j = JUndef then Some None else map_option Some (p j))"

definition optional :: "(json \<Rightarrow> 'a option) \<Rightarrow> json \<Rightarrow> 'a option option" where
  "optional p j = (if j = JUndef then Some None else map_option Some (p j))"

fun parse_count :: "json \<Rightarrow> int option" where
  "parse_count (JNum n) = (if 0 \<le> n then Some n else None)"
| "parse_count _ = None"

fun parse_flag :: "json \<Rightarrow> bool option" where
  "parse_flag JUndef = Some False"
| "parse_flag (JBool b) = Some b"
| "parse_flag _ = None"

fun parse_all :: "(json \<Rightarrow> 'a option) \<Rightarrow> json list \<Rightarrow> 'a list option" where
  "parse_all p [] = Some []"
| "parse_all p (j # js) = Option.bind (p j) (\<lambda>x. map_option ((#) x) (parse_all p js))"

fun parse_money :: "json \<Rightarrow> money option" where
  "parse_money (JObj kvs) =
     Option.bind (parse_string (jget kvs ''amount'')) (\<lambda>a.
     Option.bind (parse_string (jget kvs ''currency_code'')) (\<lambda>c.
       Some \<lparr>mo_amount = a, mo_currency_code = c\<rparr>))"
| "parse_money _ = None"

fun parse_money_set :: "json \<Rightarrow> money_set option" where
  "parse_money_set (JObj kvs) =
     Option.bind (parse_money (jget kvs ''shop_money'')) (\<lambda>s.
     Option.bind (parse_money (jget kvs ''presentment_money'')) (\<lambda>p.
       Some \<lparr>mt_shop_money = s, mt_presentment_money = p\<rparr>))"
| "parse_money_set _ = None"

fun parse_embedded_customer :: "json \<Rightarrow> string option" where
  "parse_embedded_customer (JObj kvs) = parse_id (jget kvs ''id'')"
| "parse_embedded_customer _ = None"

fun parse_line_item :: "json \<Rightarrow> line_item_body option" where
  "parse_line_item (JObj kvs) =
     Option.bind (parse_id (jget kvs ''id'')) (\<lambda>i.
     Option.bind (nullish parse_id (jget kvs ''product_id'')) (\<lambda>product.
     Option.bind (nullish parse_id (jget kvs ''variant_id'')) (\<lambda>variant.
     Option.bind (parse_string (jget kvs ''title'')) (\<lambda>t.
     Option.bind (parse_count (jget kvs ''quantity'')) (\<lambda>q.
     Option.bind (parse_string (jget kvs ''price'')) (\<lambda>_.
     Option.bind (parse_money_set (jget kvs ''price_set'')) (\<lambda>p.
       Some \<lparr>lw_id = i, lw_product_id = product, lw_variant_id = variant, lw_title = t,
             lw_quantity = q, lw_price_set = p\<rparr>)))))))"
| "parse_line_item _ = None"

fun parse_line_items :: "json \<Rightarrow> line_item_body list option" where
  "parse_line_items (JArr js) = parse_all parse_line_item js"
| "parse_line_items _ = None"

fun parse_order_body :: "json \<Rightarrow> order_body option" where
  "parse_order_body (JObj kvs) =
     Option.bind (parse_id (jget kvs ''id'')) (\<lambda>i.
     Option.bind (nullish parse_string (jget kvs ''name'')) (\<lambda>n.
     Option.bind (parse_flag (jget kvs ''test'')) (\<lambda>test.
     Option.bind (nullish parse_string (jget kvs ''financial_status'')) (\<lambda>financial.
     Option.bind (nullish parse_string (jget kvs ''fulfillment_status'')) (\<lambda>fulfillment.
     Option.bind (nullish parse_embedded_customer (jget kvs ''customer'')) (\<lambda>customer.
     Option.bind (parse_string (jget kvs ''currency'')) (\<lambda>currency.
     Option.bind (nullish parse_string (jget kvs ''presentment_currency'')) (\<lambda>presentment.
     Option.bind (parse_all (nullish parse_string) (map (jget kvs)
       [''subtotal_price'', ''total_price'', ''total_tax'', ''total_discounts''])) (\<lambda>_.
     Option.bind (parse_money_set (jget kvs ''subtotal_price_set'')) (\<lambda>subtotal.
     Option.bind (parse_money_set (jget kvs ''total_price_set'')) (\<lambda>total.
     Option.bind (optional parse_money_set (jget kvs ''total_tax_set'')) (\<lambda>tax.
     Option.bind (optional parse_money_set (jget kvs ''total_discounts_set'')) (\<lambda>discounts.
     Option.bind (parse_string (jget kvs ''created_at'')) (\<lambda>created.
     Option.bind (parse_string (jget kvs ''updated_at'')) (\<lambda>updated.
     Option.bind (nullish parse_string (jget kvs ''processed_at'')) (\<lambda>processed.
     Option.bind (nullish parse_string (jget kvs ''cancelled_at'')) (\<lambda>cancelled.
     Option.bind (parse_line_items (jget kvs ''line_items'')) (\<lambda>items.
       Some \<lparr>ow_id = i, ow_name = n, ow_test = test, ow_financial_status = financial,
         ow_fulfillment_status = fulfillment, ow_customer = customer, ow_currency = currency,
         ow_presentment_currency = presentment, ow_subtotal_price_set = subtotal, ow_total_price_set = total,
         ow_total_tax_set = tax, ow_total_discounts_set = discounts, ow_created_at = created,
         ow_updated_at = updated, ow_processed_at = processed, ow_cancelled_at = cancelled,
         ow_line_items = items\<rparr>))))))))))))))))))"
| "parse_order_body _ = None"

text \<open>A consent object: its state, after its other fields are checked.\<close>

fun parse_consent :: "string list \<Rightarrow> json \<Rightarrow> string option" where
  "parse_consent others (JObj kvs) =
     Option.bind (parse_string (jget kvs ''state'')) (\<lambda>st.
     Option.bind (parse_all (nullish parse_string) (map (jget kvs) others)) (\<lambda>_. Some st))"
| "parse_consent others _ = None"

fun parse_customer_body :: "json \<Rightarrow> customer_body option" where
  "parse_customer_body (JObj kvs) =
     Option.bind (parse_id (jget kvs ''id'')) (\<lambda>i.
     Option.bind (nullish parse_string (jget kvs ''email'')) (\<lambda>email.
     Option.bind (nullish parse_string (jget kvs ''phone'')) (\<lambda>phone.
     Option.bind (nullish parse_string (jget kvs ''first_name'')) (\<lambda>firstName.
     Option.bind (nullish parse_string (jget kvs ''last_name'')) (\<lambda>lastName.
     Option.bind (parse_string (jget kvs ''created_at'')) (\<lambda>created.
     Option.bind (parse_string (jget kvs ''updated_at'')) (\<lambda>updated.
     Option.bind (nullish parse_count (jget kvs ''orders_count'')) (\<lambda>count.
     Option.bind (nullish parse_string (jget kvs ''tags'')) (\<lambda>tags.
     Option.bind (nullish (parse_consent [''opt_in_level'', ''consent_updated_at''])
       (jget kvs ''email_marketing_consent'')) (\<lambda>emailConsent.
     Option.bind (nullish (parse_consent [''opt_in_level'', ''consent_updated_at'', ''consent_collected_from''])
       (jget kvs ''sms_marketing_consent'')) (\<lambda>smsConsent.
       Some \<lparr>cb_id = i, cb_email = email, cb_phone = phone, cb_first_name = firstName, cb_last_name = lastName,
         cb_created_at = created, cb_updated_at = updated, cb_orders_count = count, cb_tags = tags,
         cb_email_consent = map_option Some emailConsent, cb_sms_consent = map_option Some smsConsent\<rparr>)))))))))))"
| "parse_customer_body _ = None"

text \<open>The envelope of a webhook event: its topic, the webhook's id and the body.\<close>

definition event_envelope :: "string list \<Rightarrow> outbox_payload \<Rightarrow> json option" where
  "event_envelope topics p =
     Option.bind (json_fields p) (\<lambda>kvs.
     Option.bind (parse_string (jget kvs ''topic'')) (\<lambda>topic.
     Option.bind (parse_string (jget kvs ''webhookId'')) (\<lambda>wid.
       if List.member topics topic \<and> wid \<noteq> [] then Some (jget kvs ''body'') else None)))"

definition or_zod :: "'a option \<Rightarrow> exn + 'a" where
  "or_zod x = (case x of None \<Rightarrow> Inl zod_error | Some y \<Rightarrow> Inr y)"

definition order_event_payload :: "outbox_payload \<Rightarrow> exn + order_body" where
  "order_event_payload p =
     or_zod (Option.bind (event_envelope [''orders/create'', ''orders/updated''] p) parse_order_body)"

definition customer_event_payload :: "outbox_payload \<Rightarrow> exn + customer_body" where
  "customer_event_payload p =
     or_zod (Option.bind (event_envelope [''customers/create'', ''customers/update'', ''customers/delete''] p)
       parse_customer_body)"

section \<open>Handlers\<close>

text \<open>
  What a handler draws on besides the database: the ids of the rows it creates, the clock, and
  the reading of dates.
\<close>

record handler_env =
  he_now :: time
  he_date_of :: "string \<Rightarrow> time option"
  he_orderId :: string
  he_customerId :: string
  he_eventId :: string

definition order_event_tx :: "handler_env \<Rightarrow> merchant_id \<Rightarrow> order_body \<Rightarrow> recompute_result option tx" where
  "order_event_tx h m b s =
     rbind (upsert_order_from_webhook (he_date_of h) (he_orderId h) m b s) (\<lambda>(s1, upsert).
       case uo_customerId upsert of
         None \<Rightarrow> Inr (s1, None)
       | Some cid \<Rightarrow> recompute (Tenant m) (he_eventId h) m cid (he_now h) s1)"

definition handle_order_event :: "handler_env \<Rightarrow> outbox_row \<Rightarrow> db \<Rightarrow> db \<times> (exn + unit)" where
  "handle_order_event h row s =
     (case order_event_payload (ob_payload row) of
        Inl e \<Rightarrow> (s, Inl e)
      | Inr b \<Rightarrow> (case transaction (order_event_tx h (ob_merchantId row) b) s of
          (s1, Inl e) \<Rightarrow> (s1, Inl e) | (s1, Inr _) \<Rightarrow> (s1, Inr ())))"

definition handle_order_noop :: "outbox_row \<Rightarrow> db \<Rightarrow> db \<times> (exn + unit)" where
  "handle_order_noop row s = (s, Inr ())"

definition handle_noop :: "outbox_row \<Rightarrow> db \<Rightarrow> db \<times> (exn + unit)" where
  "handle_noop row s = (s, Inr ())"

definition customer_event_tx :: "handler_env \<Rightarrow> merchant_id \<Rightarrow> customer_body \<Rightarrow> recompute_result option tx" where
  "customer_event_tx h m b s =
     rbind (upsert_from_webhook (he_date_of h) (Tenant m) (he_customerId h) (he_now h) m b s) (\<lambda>(s1, upsert).
       recompute (Tenant m) (he_eventId h) m (uc_customerId upsert) (he_now h) s1)"

definition run_upsert :: "handler_env \<Rightarrow> outbox_row \<Rightarrow> db \<Rightarrow> db \<times> (exn + unit)" where
  "run_upsert h row s =
     (case customer_event_payload (ob_payload row) of
        Inl e \<Rightarrow> (s, Inl e)
      | Inr b \<Rightarrow> (case transaction (customer_event_tx h (ob_merchantId row) b) s of
          (s1, Inl e) \<Rightarrow> (s1, Inl e) | (s1, Inr _) \<Rightarrow> (s1, Inr ())))"

definition invalid_deleted_customer :: "string \<Rightarrow> string \<Rightarrow> exn" where
  "invalid_deleted_customer i eid = AppErr (validation_error ''Customer delete webhook body.id is not a valid numeric id''
     (Some ''customer.invalid_id'') (Some [(''received'', i), (''eventId'', eid)]))"

definition handle_customer_deleted :: "handler_env \<Rightarrow> outbox_row \<Rightarrow> db \<Rightarrow> db \<times> (exn + unit)" where
  "handle_customer_deleted h row s =
     (case customer_event_payload (ob_payload row) of
        Inl e \<Rightarrow> (s, Inl e)
      | Inr b \<Rightarrow> (case to_shopify_customer_gid (cb_id b) of
          None \<Rightarrow> (s, Inl (invalid_deleted_customer (cb_id b) (ob_id row)))
        | Some gid \<Rightarrow>
            (case transaction (soft_delete (Tenant (ob_merchantId row)) (he_now h) (ob_merchantId row) gid) s of
               (s1, Inl e) \<Rightarrow> (s1, Inl e) | (s1, Inr _) \<Rightarrow> (s1, Inr ()))))"

section \<open>Events are delivered at least once\<close>

text \<open>What a recompute leaves alone: everything but scores, bands, audit rows and events.\<close>

definition same_customers :: "customer_row list \<Rightarrow> customer_row list \<Rightarrow> bool" where
  "same_customers cs cs' \<longleftrightarrow> (\<exists>band. cs' = map (\<lambda>c. c\<lparr>cu_state := band c\<rparr>) cs)"

lemma same_customers_refl [simp]: "same_customers cs cs"
  unfolding same_customers_def by (intro exI [of _ cu_state]) (simp add: map_idI)

lemma same_customers_band: "same_customers cs (set_band sc cid st cs)"
  unfolding same_customers_def set_band_def update_many_def
  by (rule exI [of _ "\<lambda>c. if cu_id c = cid \<and> in_scope sc (cu_merchantId c) then st else cu_state c"]) simp

lemma recompute_frame:
  assumes "recompute sc eid m cid now s = Inr (s', r)"
  shows "orders s' = orders s \<and> line_items s' = line_items s \<and> products s' = products s \<and> variants s' = variants s
    \<and> same_customers (customers s) (customers s')"
proof (cases r)
  case None
  with assms have "s' = s" by (auto simp: recompute_def split: option.splits)
  then show ?thesis by simp
next
  case (Some x)
  obtain c mr where c: "find_live_customer s cid = Some c" and mr: "find_merchant s m = Some mr"
    by (rule recompute_parts [OF assms [unfolded Some]])
  obtain cohort :: "cohort_row list" and rs scorable s1 isNew where
    u: "upsert_score sc m cid rs (currency_of mr) now s = Inr (s1, isNew)"
    and t: "apply_transition sc eid mr c rs (length cohort) scorable now s1 = Inr (s', ())"
    by (rule recompute_D [OF assms [unfolded Some] mr c]) (erule (1) that)
  obtain ss where s1: "s1 = s\<lparr>scores := ss\<rparr>" using upsert_score_frame [OF u] by blast
  from t show ?thesis
    by (cases rule: apply_transition_cases) (simp_all add: s1 same_customers_band)
qed

lemma same_customers_find:
  assumes "same_customers cs cs'" and "\<And>c st. P (c\<lparr>cu_state := st\<rparr>) = P c"
  shows "map_option cu_id (find_row P cs') = map_option cu_id (find_row P cs)"
proof -
  obtain band where cs': "cs' = map (\<lambda>c. c\<lparr>cu_state := band c\<rparr>) cs" using assms(1) by (auto simp: same_customers_def)
  show ?thesis unfolding cs' by (induction cs) (simp_all add: find_row_Cons assms(2))
qed

lemma recompute_later:
  assumes "recompute sc eid m cid now s = Inr (s', r)" and "distinct (map cu_id (customers s))"
  shows "\<exists>r'. recompute sc eid' m cid now s' = Inr (s', r')"
proof (cases r)
  case None
  with assms(1) have "s' = s" "find_live_customer s cid = None" "assert_scope_matches_merchant (Some sc) m = Inr ()"
    by (auto simp: recompute_def split: option.splits)
  then show ?thesis by (simp add: recompute_def)
next
  case (Some x)
  from recompute_again [OF assms(1) [unfolded Some] assms(2)] show ?thesis by blast
qed

lemma order_event_again:
  assumes "order_event_tx h m b s = Inr (s1, r)" and "distinct (map cu_id (customers s))"
    and "he_now h' = he_now h" and "he_date_of h' = he_date_of h"
  shows "\<exists>r'. order_event_tx h' m b s1 = Inr (s1, r')"
proof -
  from assms(1) obtain s0 upsert where u: "upsert_order_from_webhook (he_date_of h) (he_orderId h) m b s = Inr (s0, upsert)"
    and rest: "(case uo_customerId upsert of None \<Rightarrow> Inr (s0, None)
       | Some cid \<Rightarrow> recompute (Tenant m) (he_eventId h) m cid (he_now h) s0) = Inr (s1, r)"
    by (auto simp: order_event_tx_def)
  have cs: "customers s0 = customers s" using u by (auto elim!: upsert_orderE)
  have f: "orders s1 = orders s0 \<and> line_items s1 = line_items s0 \<and> products s1 = products s0 \<and> variants s1 = variants s0
      \<and> same_customers (customers s0) (customers s1)"
  proof (cases "uo_customerId upsert")
    case None
    with rest have "s1 = s0" by simp
    then show ?thesis by simp
  next
    case (Some cid)
    with rest show ?thesis using recompute_frame by simp
  qed
  have "map_option cu_id (find_by_shopify_id m gid s1) = map_option cu_id (find_by_shopify_id m gid s0)" for gid
    unfolding find_by_shopify_id_def using f by (intro same_customers_find) auto
  with f obtain r' where "upsert_order_from_webhook (he_date_of h) (he_orderId h') m b s1 = Inr (s1, r')"
    "uo_customerId r' = uo_customerId upsert"
    using order_settled [OF u, of s1 "he_orderId h'"] by blast
  then show ?thesis
    using rest recompute_later [of "Tenant m" "he_eventId h" m _ "he_now h" s0 s1 r "he_eventId h'"] assms(2-4) cs
    by (auto simp: order_event_tx_def split: option.splits)
qed

text \<open>The same for customers; the id of a new row is one no customer has.\<close>

lemma upsert_from_webhookE:
  assumes "upsert_from_webhook date_of sc newId now m b s = Inr (s', r)"
  obtains gid created updated where "assert_scope_matches_merchant (Some sc) m = Inr ()"
    and "to_shopify_customer_gid (cb_id b) = Some gid"
    and "need_date date_of (cb_created_at b) = Inr created" and "need_date date_of (cb_updated_at b) = Inr updated"
    and "s' = s\<lparr>customers := upsert_row (\<lambda>c. (cu_merchantId c, cu_shopifyCustomerId c) = (m, gid))
      (shared_fields b created updated) (fresh_customer newId m gid now) (customers s)\<rparr>"
    and "uc_customerId r = (case find_row (\<lambda>c. (cu_merchantId c, cu_shopifyCustomerId c) = (m, gid)) (customers s) of
      None \<Rightarrow> newId | Some c \<Rightarrow> cu_id c)"
  using assms by (auto simp: upsert_from_webhook_def Let_def split: option.splits)

lemma upsert_row_ids:
  assumes "\<And>c. cu_id (f c) = cu_id c" and "distinct (map cu_id cs)" and "cu_id blank \<notin> cu_id ` set cs"
  shows "distinct (map cu_id (upsert_row P f blank cs))"
proof (cases "find_row P cs = None")
  case True
  with assms show ?thesis by (simp add: upsert_row_def)
next
  case False
  have "map cu_id (update_many P f cs) = map cu_id cs" by (rule map_update_many) (simp add: assms(1))
  with False assms(2) show ?thesis by (auto simp: upsert_row_def)
qed

lemma shared_fields_band: "shared_fields b created updated (c\<lparr>cu_state := st\<rparr>) = (shared_fields b created updated c)\<lparr>cu_state := st\<rparr>"
  by (simp add: shared_fields_def split: option.split)

lemma customer_event_again:
  assumes "customer_event_tx h m b s = Inr (s1, r)" and "distinct (map cu_id (customers s))"
    and "he_customerId h \<notin> cu_id ` set (customers s)"
    and "he_now h' = he_now h" and "he_date_of h' = he_date_of h"
  shows "\<exists>r'. customer_event_tx h' m b s1 = Inr (s1, r')"
proof -
  from assms(1) obtain s0 upsert where u: "upsert_from_webhook (he_date_of h) (Tenant m) (he_customerId h) (he_now h) m b s
        = Inr (s0, upsert)"
    and rec: "recompute (Tenant m) (he_eventId h) m (uc_customerId upsert) (he_now h) s0 = Inr (s1, r)"
    by (auto simp: customer_event_tx_def)
  from u obtain gid created updated where
      sc: "assert_scope_matches_merchant (Some (Tenant m)) m = Inr ()" and gid: "to_shopify_customer_gid (cb_id b) = Some gid"
    and d: "need_date (he_date_of h) (cb_created_at b) = Inr created" "need_date (he_date_of h) (cb_updated_at b) = Inr updated"
    and s0: "s0 = s\<lparr>customers := upsert_row (\<lambda>c. (cu_merchantId c, cu_shopifyCustomerId c) = (m, gid))
      (shared_fields b created updated) (fresh_customer (he_customerId h) m gid (he_now h)) (customers s)\<rparr>"
    and cid: "uc_customerId upsert = (case find_row (\<lambda>c. (cu_merchantId c, cu_shopifyCustomerId c) = (m, gid)) (customers s) of
      None \<Rightarrow> he_customerId h | Some c \<Rightarrow> cu_id c)"
    by (rule upsert_from_webhookE)
  let ?mine = "\<lambda>c. (cu_merchantId c, cu_shopifyCustomerId c) = (m, gid)" and ?f = "shared_fields b created updated"
  let ?blank = "fresh_customer (he_customerId h) m gid (he_now h)"
  have found: "find_row ?mine (customers s0) = Some (?f (case find_row ?mine (customers s) of None \<Rightarrow> ?blank | Some c \<Rightarrow> c))"
    using webhook_upsert.find_put [of m gid "(b, created, updated)" "he_customerId h" "he_now h" "customers s"] by (simp add: s0)
  have filled: "?f c = c" if "c \<in> set (customers s0)" "?mine c" for c
    using webhook_upsert.put_filled [of c m gid "(b, created, updated)" "he_customerId h" "he_now h" "customers s"] that by (simp add: s0)
  from recompute_frame [OF rec] obtain band where cs1: "customers s1 = map (\<lambda>c. c\<lparr>cu_state := band c\<rparr>) (customers s0)"
    by (auto simp: same_customers_def)
  have "map_option cu_id (find_row ?mine (customers s1)) = map_option cu_id (find_row ?mine (customers s0))"
    using recompute_frame [OF rec] by (intro same_customers_find) auto
  then have id: "map_option cu_id (find_row ?mine (customers s1)) = Some (uc_customerId upsert)"
    using found cid by (simp add: fresh_customer_def split: option.splits)
  then obtain c1 where c1: "find_row ?mine (customers s1) = Some c1" "cu_id c1 = uc_customerId upsert" by auto
  have "update_many ?mine ?f (customers s1) = customers s1"
    unfolding cs1 update_many_def by (auto simp: shared_fields_band filled)
  then have "upsert_row ?mine ?f (fresh_customer (he_customerId h') m gid (he_now h)) (customers s1) = customers s1"
    using c1 by (simp add: upsert_row_def)
  then obtain r' where "upsert_from_webhook (he_date_of h) (Tenant m) (he_customerId h') (he_now h) m b s1 = Inr (s1, r')"
    "uc_customerId r' = uc_customerId upsert"
    using sc gid d c1 by (simp add: upsert_from_webhook_def)
  moreover have "distinct (map cu_id (customers s0))"
    unfolding s0 using assms(2,3) by (auto intro!: upsert_row_ids simp: fresh_customer_def)
  from recompute_later [OF rec this] obtain r''
    where "recompute (Tenant m) (he_eventId h') m (uc_customerId upsert) (he_now h) s1 = Inr (s1, r'')" by blast
  ultimately show ?thesis using assms(4,5) by (simp add: customer_event_tx_def)
qed

text \<open>
  C13. The order and customer events of webhooks can be delivered more than once. The drainer
  marks an event processed after its handler has committed, so a crash in between runs the
  handler again; at the same instant, with whatever new ids, the second run succeeds and
  leaves the whole database as it is: no second row, no second score, no second band change,
  audit row or event.
\<close>

theorem replayed_event_settles:
  assumes "handler = handle_order_event \<or> handler = run_upsert"
    and "handler h row s = (s1, Inr ())" and "he_now h' = he_now h" and "he_date_of h' = he_date_of h"
    and "distinct (map cu_id (customers s))" and "he_customerId h \<notin> cu_id ` set (customers s)"
  shows "handler h' row s1 = (s1, Inr ())"
  using assms(1)
proof
  assume h: "handler = handle_order_event"
  with assms(2) obtain b r where "order_event_payload (ob_payload row) = Inr b" "order_event_tx h (ob_merchantId row) b s = Inr (s1, r)"
    by (auto simp: handle_order_event_def transaction_def split: sum.splits prod.splits)
  with order_event_again [OF this(2) assms(5,3,4)] show ?thesis by (auto simp: h handle_order_event_def)
next
  assume h: "handler = run_upsert"
  with assms(2) obtain b r where "customer_event_payload (ob_payload row) = Inr b" "customer_event_tx h (ob_merchantId row) b s = Inr (s1, r)"
    by (auto simp: run_upsert_def transaction_def split: sum.splits prod.splits)
  with customer_event_again [OF this(2) assms(5,6,3,4)] show ?thesis by (auto simp: h run_upsert_def)
qed

definition sample_event :: "string \<Rightarrow> json \<Rightarrow> outbox_row" where
  "sample_event ty payload = \<lparr>ob_id = ''e'', ob_merchantId = ''m'', ob_type = ty, ob_payload = JsonPayload payload,
     ob_createdAt = 0, ob_processedAt = None, ob_attempts = 0, ob_lastError = None, ob_deadLetteredAt = None,
     ob_deferredFailedAt = None\<rparr>"

definition sample_customer_event :: outbox_row where
  "sample_customer_event = sample_event (event_string CustomerUpdated) (JObj [(''topic'', JStr ''customers/update''),
     (''webhookId'', JStr ''w1''), (''body'', JObj [(''id'', JNum 7), (''created_at'', JStr ''1''), (''updated_at'', JStr ''2'')])])"

definition sample_handler_env :: "string \<Rightarrow> handler_env" where
  "sample_handler_env i = \<lparr>he_now = 40 * ms_per_day, he_date_of = demo_date, he_orderId = i, he_customerId = i,
     he_eventId = i\<rparr>"

lemma sample_customer_event_ok:
  "case run_upsert (sample_handler_env ''x'') sample_customer_event sample_db of
     (s1, Inr _) \<Rightarrow> length (customers s1) = 3 | _ \<Rightarrow> False"
  by code_simp

theorem replayed_event_settles_witness:
  "\<exists>s1. run_upsert (sample_handler_env ''x'') sample_customer_event sample_db = (s1, Inr ())
    \<and> run_upsert (sample_handler_env ''y'') sample_customer_event s1 = (s1, Inr ()) \<and> length (customers s1) = 3"
proof -
  obtain s1 where r: "run_upsert (sample_handler_env ''x'') sample_customer_event sample_db = (s1, Inr ())"
    and l: "length (customers s1) = 3"
    using sample_customer_event_ok by (auto split: prod.splits sum.splits)
  have "distinct (map cu_id (customers sample_db))" by code_simp
  moreover have "he_customerId (sample_handler_env ''x'') \<notin> cu_id ` set (customers sample_db)" by code_simp
  ultimately show ?thesis
    using replayed_event_settles [of run_upsert "sample_handler_env ''x''" sample_customer_event sample_db s1
        "sample_handler_env ''y''"] r l by (simp add: sample_handler_env_def)
qed

end
