(* ===== verification/Install.thy ===== *)
theory Install
  imports BackfillRuns EventHandlers
begin

text \<open>
  A shop's life in the program: its domain (\<open>packages/shopify/src/shop-domain.ts\<close>), the
  merchant's row (\<open>merchant.repository.ts\<close>), the install (\<open>install.ts\<close>), its enrichment with
  the shop's details (\<open>install-enrichment.ts\<close>, \<open>admin/shop-details.ts\<close>), the merchant's
  settings (\<open>merchant-settings.repository.ts\<close>) and the drainer's merchant handlers.
\<close>

section \<open>Shop domains\<close>

text \<open>\<open>/^[a-z0-9][a-z0-9-]{0,98}[a-z0-9]\.myshopify\.com$/i\<close>\<close>

definition is_valid_shop_domain :: "string \<Rightarrow> bool" where
  "is_valid_shop_domain shop \<longleftrightarrow> shop \<noteq> [] \<and> length shop \<le> 255 \<and>
     (let t = map lower_char shop; n = length t - length ''.myshopify.com''; name = take n t in
      drop n t = ''.myshopify.com'' \<and> 2 \<le> n \<and> n \<le> 100 \<and> alnum (hd name) \<and> alnum (last name)
      \<and> list_all (\<lambda>c. alnum c \<or> c = CHR ''-'') name)"

definition normalize_shop_domain :: "string \<Rightarrow> string option" where
  "normalize_shop_domain shop = (if is_valid_shop_domain shop then Some (map lower_char shop) else None)"

definition shopify_invalid_shop_error :: "string \<Rightarrow> exn" where
  "shopify_invalid_shop_error shop = AppErr (mk_app_error ''ShopifyInvalidShopError'' \<lparr>
     opt_code = ''shopify.invalid_shop'', opt_message = ''Invalid shop domain: '' @ shop, opt_statusCode = Some 400,
     opt_retryable = Some False, opt_context = Some [''shop'' \<mapsto> CtxStr shop], opt_exposeMessage = Some False\<rparr>)"

section \<open>Merchants\<close>

definition find_by_shop :: "string \<Rightarrow> db \<Rightarrow> merchant_id option" where
  "find_by_shop shop s = map_option me_id (find_row (\<lambda>r. me_shop r = shop) (merchants s))"

definition fresh_merchant :: "merchant_id \<Rightarrow> string \<Rightarrow> time \<Rightarrow> merchant_row" where
  "fresh_merchant newId shop now = \<lparr>me_id = newId, me_shop = shop, me_name = None, me_currency = None,
     me_timezone = None, me_uninstalledAt = None, me_tokenRevokedAt = None, me_scoringInitializedAt = None,
     me_installedAt = now, me_email = None, me_country = None, me_shopifyPlan = None, me_shopDetailsFetchedAt = None\<rparr>"

definition reinstall :: "merchant_row \<Rightarrow> merchant_row" where
  "reinstall r = r\<lparr>me_tokenRevokedAt := None, me_uninstalledAt := None\<rparr>"

definition upsert_install :: "merchant_id \<Rightarrow> time \<Rightarrow> string \<Rightarrow> (merchant_id \<times> bool) tx" where
  "upsert_install newId now shop s =
     (case find_by_shop shop s of
        Some m \<Rightarrow> Inr (s\<lparr>merchants := update_many (\<lambda>r. me_shop r = shop) reinstall (merchants s)\<rparr>, (m, False))
      | None \<Rightarrow> Inr (s\<lparr>merchants := merchants s @ [fresh_merchant newId shop now]\<rparr>, (newId, True)))"

record shop_details =
  sd_email :: "string option"
  sd_name :: "string option"
  sd_country :: "string option"
  sd_currency :: "string option"
  sd_timezone :: "string option"
  sd_plan :: "string option"

definition update_enrichment :: "time \<Rightarrow> merchant_id \<Rightarrow> shop_details \<Rightarrow> unit tx" where
  "update_enrichment now m d s =
     (if find_merchant s m = None then Inl record_not_found
      else Inr (s\<lparr>merchants := update_many (\<lambda>r. me_id r = m) (\<lambda>r. r\<lparr>me_email := sd_email d, me_name := sd_name d,
        me_country := sd_country d, me_currency := sd_currency d, me_timezone := sd_timezone d,
        me_shopifyPlan := sd_plan d, me_shopDetailsFetchedAt := Some now\<rparr>) (merchants s)\<rparr>, ()))"

text \<open>The result is the number of rows updated.\<close>

definition mark_uninstalled :: "time \<Rightarrow> merchant_id \<Rightarrow> nat tx" where
  "mark_uninstalled now m s =
     (let guard = (\<lambda>r. me_id r = m \<and> me_uninstalledAt r = None) in
      Inr (s\<lparr>merchants := update_many guard (\<lambda>r. r\<lparr>me_uninstalledAt := Some now\<rparr>) (merchants s)\<rparr>,
           update_count guard (merchants s)))"

section \<open>Installing\<close>

text \<open>The defaults of the schema.\<close>

definition default_settings :: "merchant_id \<Rightarrow> settings_row" where
  "default_settings m = \<lparr>se_merchantId = m, se_attributionDirectWindowDays = 14,
     se_attributionAssistedWindowDays = 30, se_sendTimeStartHour = 9, se_sendTimeEndHour = 18,
     se_defaultCooldownHours = 168, se_maxDailySendsPerCustomer = 1, se_dailySendCap = 2000,
     se_monthlySendsCap = 50000, se_monthlyAiSpendCapCents = 50000, se_hourlyGenerationCap = 100,
     se_winbackDiscountEnabled = False, se_winbackDiscountPercent = 15, se_aiTone = JUndef\<rparr>"

definition ensure_defaults :: "merchant_id \<Rightarrow> db \<Rightarrow> db" where
  "ensure_defaults m s =
     (if find_settings s m = None then s\<lparr>settings := settings s @ [default_settings m]\<rparr> else s)"

definition ensure_billing :: "merchant_id \<Rightarrow> db \<Rightarrow> db" where
  "ensure_billing m s =
     (if find_row (\<lambda>b. bi_merchantId b = m) (billing s) = None
      then s\<lparr>billing := billing s @ [\<lparr>bi_merchantId = m, bi_status = Trialing\<rparr>]\<rparr> else s)"

record install_args =
  ia_shop :: string
  ia_accessToken :: string
  ia_scope :: string

definition install_tx :: "merchant_id \<Rightarrow> string \<Rightarrow> time \<Rightarrow> install_args \<Rightarrow> (merchant_id \<times> bool) tx" where
  "install_tx newId eid now a s =
     rbind (upsert_install newId now (ia_shop a) s) (\<lambda>(s1, (m, isNew)).
     rbind (create_outbox (System ''shopify.install'') eid m (event_string MerchantInstalled)
       (JsonPayload (JObj [(''shop'', JStr (ia_shop a)), (''scope'', JStr (ia_scope a)), (''reinstall'', JBool (\<not> isNew))]))
       now (ensure_billing m (ensure_defaults m s1))) (\<lambda>(s2, _). Inr (s2, (m, isNew))))"

definition complete_install ::
  "merchant_id \<Rightarrow> string \<Rightarrow> time \<Rightarrow> install_args \<Rightarrow> db \<Rightarrow> db \<times> (exn + merchant_id \<times> bool)" where
  "complete_install newId eid now a s =
     (if \<not> is_valid_shop_domain (ia_shop a) then (s, Inl (shopify_invalid_shop_error (ia_shop a)))
      else transaction (install_tx newId eid now a) s)"

section \<open>Details of the shop\<close>

definition normalize_plan :: "raw_plan option \<Rightarrow> string option" where
  "normalize_plan plan =
     (case plan of None \<Rightarrow> None
      | Some p \<Rightarrow>
          if pn_shopifyPlus p = Some True then Some ''plus''
          else if pn_partnerDevelopment p = Some True then Some ''partner_test''
          else (case pn_displayName p of None \<Rightarrow> None
             | Some dn \<Rightarrow> if dn \<noteq> [] then Some (map lower_char dn) else None))"

definition no_shop :: raw_shop where
  "no_shop = \<lparr>sh_email = None, sh_name = None, sh_countryCodeV2 = None, sh_currencyCode = None,
     sh_ianaTimezone = None, sh_plan = None\<rparr>"

definition fetch_shop_details ::
  "'w backfill_env \<Rightarrow> merchant_id \<Rightarrow> 'w admin_state \<Rightarrow> 'w admin_state \<times> (exn + shop_details)" where
  "fetch_shop_details e m st =
     (case graphql e m ShopDetailsQuery (Some 10) st of
        (st1, Inl err) \<Rightarrow> (st1, Inl err)
      | (st1, Inr d) \<Rightarrow>
          (let shop = or_default (rd_shop d) no_shop in
           (st1, Inr \<lparr>sd_email = sh_email shop, sd_name = sh_name shop, sd_country = sh_countryCodeV2 shop,
              sd_currency = sh_currencyCode shop, sd_timezone = sh_ianaTimezone shop,
              sd_plan = normalize_plan (sh_plan shop)\<rparr>)))"

fun json_or_null :: "string option \<Rightarrow> json" where
  "json_or_null None = JNull"
| "json_or_null (Some s) = JStr s"

definition enrich_tx :: "string \<Rightarrow> time \<Rightarrow> merchant_id \<Rightarrow> shop_details \<Rightarrow> unit tx" where
  "enrich_tx eid now m d s =
     rbind (update_enrichment now m d s) (\<lambda>(s1, _).
       create_outbox (Tenant m) eid m (event_string MerchantShopDetailsFetched)
         (JsonPayload (JObj [(''country'', json_or_null (sd_country d)), (''currency'', json_or_null (sd_currency d)),
            (''plan'', json_or_null (sd_plan d))])) now s1)"

text \<open>The result is the reason of the failure, if it failed; it never throws.\<close>

definition enrich_install ::
  "'w backfill_env \<Rightarrow> string \<Rightarrow> merchant_id \<Rightarrow> 'w admin_state \<Rightarrow> 'w admin_state \<times> string option" where
  "enrich_install e eid m st =
     (case fetch_shop_details e m st of
        (st1, Inl err) \<Rightarrow> (st1, Some (exn_message err))
      | (st1, Inr d) \<Rightarrow>
          (case transaction (enrich_tx eid (ad_now st1) m d) (ad_db st1) of
             (s2, Inl err) \<Rightarrow> (st1\<lparr>ad_db := s2\<rparr>, Some (exn_message err))
           | (s2, Inr _) \<Rightarrow> (st1\<lparr>ad_db := s2\<rparr>, None)))"

section \<open>The merchant events\<close>

definition merchant_installed_payload :: "outbox_payload \<Rightarrow> exn + unit" where
  "merchant_installed_payload p =
     or_zod (Option.bind (json_fields p) (\<lambda>kvs.
     Option.bind (parse_string (jget kvs ''shop'')) (\<lambda>shop.
     Option.bind (parse_string (jget kvs ''scope'')) (\<lambda>_.
       case jget kvs ''reinstall'' of JBool _ \<Rightarrow> if shop \<noteq> [] then Some () else None | _ \<Rightarrow> None))))"

text \<open>A failed enrichment does not stop the backfill; a backfill that throws fails the event.\<close>

definition handle_merchant_installed ::
  "'w backfill_env \<Rightarrow> (string \<Rightarrow> time option) \<Rightarrow> (string \<Rightarrow> string) \<Rightarrow> string \<Rightarrow> outbox_row \<Rightarrow> 'w admin_state \<Rightarrow>
   'w admin_state \<times> (exn + unit)" where
  "handle_merchant_installed e date_of newId eid row st =
     (case merchant_installed_payload (ob_payload row) of
        Inl err \<Rightarrow> (st, Inl err)
      | Inr _ \<Rightarrow>
          (let m = ob_merchantId row; st1 = fst (enrich_install e eid m (build_admin_client st)) in
           case run_backfill MAX_PAGES_HARD_LIMIT eid (customer_page_fetch e m) (process_customers date_of newId m)
                  m BackfillCustomers None st1 of
             (st2, Inl err) \<Rightarrow> (st2, Inl err)
           | (st2, Inr _) \<Rightarrow> (st2, Inr ())))"

definition handle_merchant_uninstalled :: "time \<Rightarrow> outbox_row \<Rightarrow> db \<Rightarrow> db \<times> (exn + unit)" where
  "handle_merchant_uninstalled now row s =
     (case mark_uninstalled now (ob_merchantId row) s of Inl e \<Rightarrow> (s, Inl e) | Inr (s1, _) \<Rightarrow> (s1, Inr ()))"

section \<open>Settings\<close>

text \<open>
  A patch: absent fields are left alone. \<open>su_aiTone\<close> is \<open>JUndef\<close> when absent and \<open>JNull\<close> to clear
  the tone, which the repository writes as \<open>Prisma.JsonNull\<close>: the parameter \<open>jsonNull\<close> is that
  object as the validation of the write hook sees it.
\<close>

record settings_update =
  su_attributionDirectWindowDays :: "int option"
  su_attributionAssistedWindowDays :: "int option"
  su_sendTimeStartHour :: "int option"
  su_sendTimeEndHour :: "int option"
  su_defaultCooldownHours :: "int option"
  su_maxDailySendsPerCustomer :: "int option"
  su_monthlyAiSpendCapCents :: "int option"
  su_monthlySendsCap :: "int option"
  su_aiTone :: json

definition invalid_ai_tone :: exn where
  "invalid_ai_tone = AppErr (validation_error ''Invalid aiTone configuration''
     (Some ''merchant_settings.ai_tone_invalid'') None)"

definition validated_tone :: "json \<Rightarrow> json \<Rightarrow> exn + json option" where
  "validated_tone jsonNull patch =
     (case patch of JUndef \<Rightarrow> Inr None
      | JNull \<Rightarrow> Inr (Some jsonNull)
      | _ \<Rightarrow> (case ai_tone_schema patch of None \<Rightarrow> Inl invalid_ai_tone | Some t \<Rightarrow> Inr (Some (ai_tone_json t))))"

text \<open>The hook's validation of a written tone.\<close>

definition hook_tone :: "json option \<Rightarrow> exn + json option" where
  "hook_tone v =
     (case v of None \<Rightarrow> Inr None
      | Some j \<Rightarrow> if j = JNull then Inr (Some j)
          else (case ai_tone_schema j of None \<Rightarrow> Inl invalid_ai_tone | Some t \<Rightarrow> Inr (Some (ai_tone_json t))))"

definition apply_patch :: "settings_update \<Rightarrow> json option \<Rightarrow> settings_row \<Rightarrow> settings_row" where
  "apply_patch p tone r = r\<lparr>
     se_attributionDirectWindowDays := or_default (su_attributionDirectWindowDays p) (se_attributionDirectWindowDays r),
     se_attributionAssistedWindowDays := or_default (su_attributionAssistedWindowDays p) (se_attributionAssistedWindowDays r),
     se_sendTimeStartHour := or_default (su_sendTimeStartHour p) (se_sendTimeStartHour r),
     se_sendTimeEndHour := or_default (su_sendTimeEndHour p) (se_sendTimeEndHour r),
     se_defaultCooldownHours := or_default (su_defaultCooldownHours p) (se_defaultCooldownHours r),
     se_maxDailySendsPerCustomer := or_default (su_maxDailySendsPerCustomer p) (se_maxDailySendsPerCustomer r),
     se_monthlyAiSpendCapCents := or_default (su_monthlyAiSpendCapCents p) (se_monthlyAiSpendCapCents r),
     se_monthlySendsCap := or_default (su_monthlySendsCap p) (se_monthlySendsCap r),
     se_aiTone := or_default tone (se_aiTone r)\<rparr>"

definition find_settings_of :: "tenant_scope \<Rightarrow> merchant_id \<Rightarrow> db \<Rightarrow> exn + settings_row option" where
  "find_settings_of sc m s =
     rbind (assert_scope_matches_merchant (Some sc) m) (\<lambda>_. Inr (find_settings s m))"

definition ensure_settings :: "tenant_scope \<Rightarrow> merchant_id \<Rightarrow> unit tx" where
  "ensure_settings sc m s =
     rbind (assert_scope_matches_merchant (Some sc) m) (\<lambda>_. Inr (ensure_defaults m s, ()))"

definition update_settings :: "json \<Rightarrow> tenant_scope \<Rightarrow> merchant_id \<Rightarrow> settings_update \<Rightarrow> unit tx" where
  "update_settings jsonNull sc m p s =
     rbind (assert_scope_matches_merchant (Some sc) m) (\<lambda>_.
     rbind (validated_tone jsonNull (su_aiTone p)) (\<lambda>v.
     rbind (hook_tone v) (\<lambda>tone.
       if find_settings s m = None then Inl record_not_found
       else Inr (s\<lparr>settings := update_many (\<lambda>r. se_merchantId r = m) (apply_patch p tone) (settings s)\<rparr>, ()))))"

text \<open>
  A tone cannot be cleared. Setting it to null passes the repository's validation as
  \<open>Prisma.JsonNull\<close>, an object without a style, which the write hook then validates as a tone
  and rejects; nothing is written.
\<close>

theorem clearing_tone_fails:
  assumes "su_aiTone p = JNull" and "jsonNull = JObj kvs" and "jget kvs ''style'' = JUndef"
  shows "is_error (update_settings jsonNull sc m p s) \<and> fst (transaction (update_settings jsonNull sc m p) s) = s"
proof -
  have "ai_tone_schema jsonNull = None" using assms(2,3) by simp
  with assms(1,2) have "is_error (update_settings jsonNull sc m p s)"
    by (cases "assert_scope_matches_merchant (Some sc) m")
      (simp_all add: update_settings_def validated_tone_def hook_tone_def)
  then show ?thesis by (cases "update_settings jsonNull sc m p s") simp_all
qed

definition empty_patch :: settings_update where
  "empty_patch = \<lparr>su_attributionDirectWindowDays = None, su_attributionAssistedWindowDays = None,
     su_sendTimeStartHour = None, su_sendTimeEndHour = None, su_defaultCooldownHours = None,
     su_maxDailySendsPerCustomer = None, su_monthlyAiSpendCapCents = None, su_monthlySendsCap = None, su_aiTone = JNull\<rparr>"

theorem clearing_tone_fails_witness:
  "is_error (update_settings (JObj []) (Tenant ''m'') ''m'' empty_patch (ensure_defaults ''m'' empty_db))"
  using clearing_tone_fails [of empty_patch "JObj []" "[]" "Tenant ''m''" "''m''" "ensure_defaults ''m'' empty_db"]
  by (simp add: empty_patch_def jget_def)

text \<open>The column holds nothing or a tone in the form the schema's parse gives it.\<close>

definition stored_tone :: "json \<Rightarrow> bool" where
  "stored_tone j \<longleftrightarrow> j = JUndef \<or> (case ai_tone_schema j of None \<Rightarrow> False | Some t \<Rightarrow> j = ai_tone_json t)"

definition settings_typed :: "db \<Rightarrow> bool" where
  "settings_typed s \<longleftrightarrow> list_all (\<lambda>r. stored_tone (se_aiTone r)) (settings s)"

lemma stored_tone_json: "ai_tone_schema j = Some t \<Longrightarrow> stored_tone (ai_tone_json t)"
  using ai_tone_schema_json [OF ai_tone_schema_ok] by (simp add: stored_tone_def)

lemma hook_tone_stored: "hook_tone v = Inr (Some j) \<Longrightarrow> v \<noteq> Some JNull \<Longrightarrow> stored_tone j"
  by (auto simp: hook_tone_def stored_tone_json split: option.splits if_splits)

lemma validated_tone_object: "validated_tone (JObj kvs) patch = Inr v \<Longrightarrow> v \<noteq> Some JNull"
  by (cases patch) (auto simp: validated_tone_def ai_tone_json_def split: option.splits)

lemma stored_tone_parses: "stored_tone j \<Longrightarrow> \<not> is_error (parse_ai_tone j)"
  by (cases j) (auto simp: stored_tone_def simp del: ai_tone_schema.simps split: option.splits)

text \<open>
  What a patch makes of a row, column by column: an absent field keeps the column, a present one
  sets it, and the columns no patch has stay. A tone that is present is stored in the form the
  schema gives it.
\<close>

definition patched_row :: "json \<Rightarrow> settings_update \<Rightarrow> settings_row \<Rightarrow> settings_row \<Rightarrow> bool" where
  "patched_row jsonNull p r r' \<longleftrightarrow>
     se_attributionDirectWindowDays r'
       = (case su_attributionDirectWindowDays p of None \<Rightarrow> se_attributionDirectWindowDays r | Some v \<Rightarrow> v)
   \<and> se_attributionAssistedWindowDays r'
       = (case su_attributionAssistedWindowDays p of None \<Rightarrow> se_attributionAssistedWindowDays r | Some v \<Rightarrow> v)
   \<and> se_sendTimeStartHour r' = (case su_sendTimeStartHour p of None \<Rightarrow> se_sendTimeStartHour r | Some v \<Rightarrow> v)
   \<and> se_sendTimeEndHour r' = (case su_sendTimeEndHour p of None \<Rightarrow> se_sendTimeEndHour r | Some v \<Rightarrow> v)
   \<and> se_defaultCooldownHours r' = (case su_defaultCooldownHours p of None \<Rightarrow> se_defaultCooldownHours r | Some v \<Rightarrow> v)
   \<and> se_maxDailySendsPerCustomer r'
       = (case su_maxDailySendsPerCustomer p of None \<Rightarrow> se_maxDailySendsPerCustomer r | Some v \<Rightarrow> v)
   \<and> se_monthlyAiSpendCapCents r'
       = (case su_monthlyAiSpendCapCents p of None \<Rightarrow> se_monthlyAiSpendCapCents r | Some v \<Rightarrow> v)
   \<and> se_monthlySendsCap r' = (case su_monthlySendsCap p of None \<Rightarrow> se_monthlySendsCap r | Some v \<Rightarrow> v)
   \<and> (if su_aiTone p = JUndef then se_aiTone r' = se_aiTone r
      else (case ai_tone_schema (if su_aiTone p = JNull then jsonNull else su_aiTone p) of
              None \<Rightarrow> False | Some t \<Rightarrow> se_aiTone r' = ai_tone_json t))
   \<and> se_merchantId r' = se_merchantId r \<and> se_dailySendCap r' = se_dailySendCap r
   \<and> se_hourlyGenerationCap r' = se_hourlyGenerationCap r
   \<and> se_winbackDiscountEnabled r' = se_winbackDiscountEnabled r
   \<and> se_winbackDiscountPercent r' = se_winbackDiscountPercent r"

lemma written_tone:
  assumes "validated_tone (JObj kvs) patch = Inr v" and "hook_tone v = Inr tone"
  shows "(patch = JUndef \<and> tone = None) \<or>
    (\<exists>t. patch \<noteq> JUndef \<and> ai_tone_schema (if patch = JNull then JObj kvs else patch) = Some t
       \<and> tone = Some (ai_tone_json t))"
proof -
  have parse: "ai_tone_schema (ai_tone_json t) = Some t" if "ai_tone_schema j = Some t" for j t
    by (rule ai_tone_schema_json [OF ai_tone_schema_ok [OF that]])
  have object: "ai_tone_json t \<noteq> JNull" for t by (simp add: ai_tone_json_def)
  show ?thesis using assms
    by (cases patch) (auto simp: validated_tone_def hook_tone_def parse object simp del: ai_tone_schema.simps(1)
        split: option.splits)
qed

lemma apply_patch_row:
  assumes "validated_tone (JObj kvs) (su_aiTone p) = Inr v" and "hook_tone v = Inr tone"
  shows "patched_row (JObj kvs) p r (apply_patch p tone r)"
  using written_tone [OF assms]
  by (elim disjE exE conjE) (simp_all add: patched_row_def apply_patch_def or_default_def del: ai_tone_schema.simps)

text \<open>
  C14. Settings stay typed. An update that succeeds is the merchant's own: in this merchant's row
  it sets the columns of the fields the patch has, each to its own field, and no others, leaves
  every other row and table alone, and keeps the tone column to tones of the schema, so that
  whoever reads a row can parse its tone.
\<close>

theorem settings_stay_typed:
  assumes "update_settings (JObj kvs) sc m p s = Inr (s', u)" and "settings_typed s"
  shows "settings_typed s' \<and> list_all (\<lambda>r. \<not> is_error (parse_ai_tone (se_aiTone r))) (settings s')
    \<and> in_scope sc m
    \<and> rel_option (patched_row (JObj kvs) p) (find_settings s m) (find_settings s' m)
    \<and> s' = s\<lparr>settings := settings s'\<rparr>
    \<and> filter (\<lambda>r. se_merchantId r \<noteq> m) (settings s') = filter (\<lambda>r. se_merchantId r \<noteq> m) (settings s)"
proof -
  from assms(1) obtain v tone where sc: "in_scope sc m" and v: "validated_tone (JObj kvs) (su_aiTone p) = Inr v"
    and tone: "hook_tone v = Inr tone"
    and s': "s' = s\<lparr>settings := update_many (\<lambda>r. se_merchantId r = m) (apply_patch p tone) (settings s)\<rparr>"
    by (cases sc) (auto simp: update_settings_def assert_scope_matches_merchant_def split: if_splits)
  have ok: "stored_tone j" if "tone = Some j" for j
    using hook_tone_stored [OF tone [unfolded that] validated_tone_object [OF v]] .
  have typed: "settings_typed s'"
    using assms(2) ok by (cases tone) (auto simp: settings_typed_def s' list_all_iff set_update_many apply_patch_def or_default_def)
  moreover have "list_all (\<lambda>r. \<not> is_error (parse_ai_tone (se_aiTone r))) (settings s')"
    using typed stored_tone_parses by (auto simp: settings_typed_def list_all_iff)
  moreover have "find_settings s' m = map_option (apply_patch p tone) (find_settings s m)"
    by (cases "find_row (\<lambda>r. se_merchantId r = m) (settings s)")
      (auto simp: s' find_settings_def find_update_many_key apply_patch_def dest: find_row_Some_D)
  then have "rel_option (patched_row (JObj kvs) p) (find_settings s m) (find_settings s' m)"
    by (simp add: option.rel_map apply_patch_row [OF v tone] option.rel_refl)
  moreover have "s' = s\<lparr>settings := settings s'\<rparr>" by (simp add: s')
  moreover have "filter (\<lambda>r. se_merchantId r \<noteq> m) (settings s') = filter (\<lambda>r. se_merchantId r \<noteq> m) (settings s)"
    by (simp add: s' filter_update_many_other apply_patch_def)
  ultimately show ?thesis using sc by blast
qed

theorem settings_stay_typed_witness:
  "list_all (\<lambda>r. stored_tone (se_aiTone r)) (settings (fst (transaction (update_settings (JObj []) (Tenant ''m'') ''m''
     (empty_patch\<lparr>su_aiTone := JObj [(''style'', JStr ''casual'')]\<rparr>)) (ensure_defaults ''m'' empty_db))))"
proof -
  obtain s' where run: "update_settings (JObj []) (Tenant ''m'') ''m'' (empty_patch\<lparr>su_aiTone := JObj [(''style'', JStr ''casual'')]\<rparr>)
      (ensure_defaults ''m'' empty_db) = Inr (s', ())"
    by (simp add: update_settings_def validated_tone_def hook_tone_def ensure_defaults_def find_settings_def find_row_def
        empty_db_def assert_scope_matches_merchant_def ai_tone_keys_def jget_def ai_tone_json_def default_settings_def)
  have "settings_typed (ensure_defaults ''m'' empty_db)"
    by (simp add: settings_typed_def ensure_defaults_def empty_db_def default_settings_def stored_tone_def find_settings_def find_row_def)
  with settings_stay_typed [OF run] have "settings_typed s'" by blast
  with run show ?thesis by (simp add: settings_typed_def transaction_def)
qed

section \<open>An installed shop\<close>

lemma find_row_filter: "filter p rows = [r] \<Longrightarrow> find_row p rows = Some r"
  by (induction rows) (auto simp: find_row_Cons split: if_splits)

lemma find_by_shop_Some: "find_by_shop shop s = Some m \<Longrightarrow> \<exists>r \<in> set (merchants s). me_shop r = shop \<and> me_id r = m"
  by (auto simp: find_by_shop_def dest: find_row_Some_D)

text \<open>What an install asks of the tables: keys that are unique, an id no merchant has.\<close>

definition installable :: "merchant_id \<Rightarrow> db \<Rightarrow> bool" where
  "installable newId s \<longleftrightarrow> distinct (map me_id (merchants s)) \<and> distinct (map me_shop (merchants s))
     \<and> newId \<notin> me_id ` set (merchants s)"

lemma upsert_install_D:
  assumes "upsert_install newId now shop s = Inr (s1, (m, isNew))" and "installable newId s"
  shows "filter (\<lambda>r. me_id r = m) (merchants s1) = filter (\<lambda>r. me_shop r = shop) (merchants s1)"
    and "\<exists>r. filter (\<lambda>r. me_shop r = shop) (merchants s1) = [r] \<and> me_id r = m \<and> me_uninstalledAt r = None
      \<and> me_tokenRevokedAt r = None"
    and "filter (\<lambda>r. me_shop r \<noteq> shop) (merchants s1) = filter (\<lambda>r. me_shop r \<noteq> shop) (merchants s)"
    and "s1 = s\<lparr>merchants := merchants s1\<rparr>" and "isNew = (find_by_shop shop s = None)"
proof -
  have ids: "distinct (map me_id (merchants s))" and shops: "distinct (map me_shop (merchants s))"
    and new: "newId \<notin> me_id ` set (merchants s)" using assms(2) by (auto simp: installable_def)
  have "(filter (\<lambda>r. me_id r = m) (merchants s1) = filter (\<lambda>r. me_shop r = shop) (merchants s1))
    \<and> (\<exists>r. filter (\<lambda>r. me_shop r = shop) (merchants s1) = [r] \<and> me_id r = m \<and> me_uninstalledAt r = None
      \<and> me_tokenRevokedAt r = None)
    \<and> filter (\<lambda>r. me_shop r \<noteq> shop) (merchants s1) = filter (\<lambda>r. me_shop r \<noteq> shop) (merchants s)
    \<and> s1 = s\<lparr>merchants := merchants s1\<rparr> \<and> isNew = (find_by_shop shop s = None)"
  proof (cases "find_by_shop shop s")
    case None
    with assms(1) have s1: "merchants s1 = merchants s @ [fresh_merchant newId shop now]" "m = newId" "isNew"
      "s1 = s\<lparr>merchants := merchants s @ [fresh_merchant newId shop now]\<rparr>" by (auto simp: upsert_install_def)
    have none: "filter (\<lambda>r. me_shop r = shop) (merchants s) = []" "filter (\<lambda>r. me_id r = newId) (merchants s) = []"
      using None new by (auto simp: find_by_shop_def filter_empty_conv find_row_None_iff)
    with s1 None show ?thesis by (simp add: fresh_merchant_def)
  next
    case (Some m')
    with assms(1) have s1: "merchants s1 = update_many (\<lambda>r. me_shop r = shop) reinstall (merchants s)" "m = m'" "\<not> isNew"
      "s1 = s\<lparr>merchants := update_many (\<lambda>r. me_shop r = shop) reinstall (merchants s)\<rparr>" by (auto simp: upsert_install_def)
    from find_by_shop_Some [OF Some] obtain r where r: "r \<in> set (merchants s)" "me_shop r = shop" "me_id r = m'" by blast
    have keep: "me_shop (reinstall x) = me_shop x" "me_id (reinstall x) = me_id x" for x by (simp_all add: reinstall_def)
    have one: "filter (\<lambda>x. me_shop x = shop) (merchants s) = [r]" "filter (\<lambda>x. me_id x = m') (merchants s) = [r]"
      using filter_key [OF shops r(1)] filter_key [OF ids r(1)] r(2,3) by simp_all
    have "filter P (update_many (\<lambda>r. me_shop r = shop) reinstall rows)
        = update_many (\<lambda>r. me_shop r = shop) reinstall (filter P rows)"
      if "\<And>x. P (reinstall x) = P x" for P rows
      using that by (induction rows) auto
    from this [of "\<lambda>x. me_shop x = shop"] this [of "\<lambda>x. me_id x = m'"] this [of "\<lambda>x. me_shop x \<noteq> shop"]
    have f: "filter (\<lambda>x. me_shop x = shop) (merchants s1) = [reinstall r]" "filter (\<lambda>x. me_id x = m') (merchants s1) = [reinstall r]"
      "filter (\<lambda>x. me_shop x \<noteq> shop) (merchants s1) = update_many (\<lambda>r. me_shop r = shop) reinstall
         (filter (\<lambda>x. me_shop x \<noteq> shop) (merchants s))"
      by (simp_all add: s1(1) keep one r(2))
    moreover have "update_many (\<lambda>r. me_shop r = shop) reinstall (filter (\<lambda>x. me_shop x \<noteq> shop) (merchants s))
        = filter (\<lambda>x. me_shop x \<noteq> shop) (merchants s)"
      unfolding update_many_def by (intro map_idI) auto
    ultimately show ?thesis using s1(2-4) r(3) Some by (simp add: reinstall_def)
  qed
  then show "filter (\<lambda>r. me_id r = m) (merchants s1) = filter (\<lambda>r. me_shop r = shop) (merchants s1)"
    and "\<exists>r. filter (\<lambda>r. me_shop r = shop) (merchants s1) = [r] \<and> me_id r = m \<and> me_uninstalledAt r = None
      \<and> me_tokenRevokedAt r = None"
    and "filter (\<lambda>r. me_shop r \<noteq> shop) (merchants s1) = filter (\<lambda>r. me_shop r \<noteq> shop) (merchants s)"
    and "s1 = s\<lparr>merchants := merchants s1\<rparr>" and "isNew = (find_by_shop shop s = None)" by blast+
qed

lemma complete_install_D:
  assumes "complete_install newId eid now a s = (s', Inr (m, isNew))"
  obtains s1 where "ia_shop a \<noteq> []" "upsert_install newId now (ia_shop a) s = Inr (s1, (m, isNew))"
    "s' = (ensure_billing m (ensure_defaults m s1))\<lparr>outbox := outbox (ensure_billing m (ensure_defaults m s1)) @
        [\<lparr>ob_id = eid, ob_merchantId = m, ob_type = event_string MerchantInstalled,
          ob_payload = JsonPayload (JObj [(''shop'', JStr (ia_shop a)), (''scope'', JStr (ia_scope a)), (''reinstall'', JBool (\<not> isNew))]),
          ob_createdAt = now, ob_processedAt = None, ob_attempts = 0, ob_lastError = None, ob_deadLetteredAt = None,
          ob_deferredFailedAt = None\<rparr>]\<rparr>"
    "merchants s' = merchants s1"
proof -
  have shop: "ia_shop a \<noteq> []" and t: "transaction (install_tx newId eid now a) s = (s', Inr (m, isNew))"
    using assms by (auto simp: complete_install_def is_valid_shop_domain_def split: if_splits)
  then have "install_tx newId eid now a s = Inr (s', (m, isNew))" by (auto simp: transaction_def split: sum.splits)
  with shop that show ?thesis by (auto simp: install_tx_def create_outbox_def ensure_billing_def ensure_defaults_def)
qed

text \<open>
  C12. An install leaves exactly one merchant for the shop, installed and with its token
  accepted, with settings and a billing row, and publishes the event that starts enrichment
  and backfill, which says whether the shop was here before; the other merchants are as they
  were. Installing again therefore adds no row but that event.
\<close>

theorem install_effects:
  assumes "complete_install newId eid now a s = (s', Inr (m, isNew))" and "installable newId s"
  shows "(\<exists>r. filter (\<lambda>r. me_shop r = ia_shop a) (merchants s') = [r] \<and> me_id r = m
        \<and> me_uninstalledAt r = None \<and> me_tokenRevokedAt r = None)
    \<and> filter (\<lambda>r. me_shop r \<noteq> ia_shop a) (merchants s') = filter (\<lambda>r. me_shop r \<noteq> ia_shop a) (merchants s)
    \<and> find_settings s' m = Some (or_default (find_settings s m) (default_settings m))
    \<and> find_row (\<lambda>b. bi_merchantId b = m) (billing s') \<noteq> None
    \<and> (\<exists>r. outbox s' = outbox s @ [r] \<and> ob_merchantId r = m \<and> ob_type r = event_string MerchantInstalled
         \<and> merchant_installed_payload (ob_payload r) = Inr ()
         \<and> ob_payload r = JsonPayload (JObj [(''shop'', JStr (ia_shop a)), (''scope'', JStr (ia_scope a)),
             (''reinstall'', JBool (find_by_shop (ia_shop a) s \<noteq> None))]))"
proof -
  from complete_install_D [OF assms(1)] obtain s1 where shop: "ia_shop a \<noteq> []"
    and u: "upsert_install newId now (ia_shop a) s = Inr (s1, (m, isNew))"
    and s': "s' = (ensure_billing m (ensure_defaults m s1))\<lparr>outbox := outbox (ensure_billing m (ensure_defaults m s1)) @
        [\<lparr>ob_id = eid, ob_merchantId = m, ob_type = event_string MerchantInstalled,
          ob_payload = JsonPayload (JObj [(''shop'', JStr (ia_shop a)), (''scope'', JStr (ia_scope a)), (''reinstall'', JBool (\<not> isNew))]),
          ob_createdAt = now, ob_processedAt = None, ob_attempts = 0, ob_lastError = None, ob_deadLetteredAt = None,
          ob_deferredFailedAt = None\<rparr>]\<rparr>" by blast
  note D = upsert_install_D [OF u assms(2)]
  have same: "settings s1 = settings s" "billing s1 = billing s" "outbox s1 = outbox s"
    using D(4) by (metis db.select_convs db.surjective db.update_convs(1))+
  have m': "merchants s' = merchants s1" by (simp add: s' ensure_billing_def ensure_defaults_def)
  have o': "outbox (ensure_billing m (ensure_defaults m s1)) = outbox s"
    by (simp add: ensure_billing_def ensure_defaults_def same)
  have "find_settings s' m = Some (or_default (find_settings s m) (default_settings m))"
    by (auto simp: s' ensure_billing_def ensure_defaults_def find_settings_def same find_row_append find_row_Cons
        default_settings_def or_default_def split: option.splits)
  moreover have "find_row (\<lambda>b. bi_merchantId b = m) (billing s') \<noteq> None"
    by (auto simp: s' ensure_billing_def ensure_defaults_def same find_row_append find_row_Cons split: option.splits)
  moreover have "outbox s' = outbox s @ [\<lparr>ob_id = eid, ob_merchantId = m, ob_type = event_string MerchantInstalled,
      ob_payload = JsonPayload (JObj [(''shop'', JStr (ia_shop a)), (''scope'', JStr (ia_scope a)),
        (''reinstall'', JBool (find_by_shop (ia_shop a) s \<noteq> None))]),
      ob_createdAt = now, ob_processedAt = None, ob_attempts = 0, ob_lastError = None, ob_deadLetteredAt = None,
      ob_deferredFailedAt = None\<rparr>]"
    by (simp add: s' o' D(5))
  ultimately show ?thesis
    using D(2,3) shop by (auto simp: m' merchant_installed_payload_def or_zod_def jget_def)
qed

definition demo_gone :: db where
  "demo_gone = empty_db\<lparr>merchants := [(fresh_merchant ''m1'' ''a1.myshopify.com'' 0)\<lparr>me_uninstalledAt := Some 2\<rparr>]\<rparr>"

definition demo_install :: "db \<times> (exn + merchant_id \<times> bool)" where
  "demo_install = complete_install ''m2'' ''e1'' 3 \<lparr>ia_shop = ''a1.myshopify.com'', ia_accessToken = ''t'', ia_scope = ''s''\<rparr> demo_gone"

lemma demo_install_ok: "is_valid_shop_domain ''a1.myshopify.com''"
  by code_simp

lemma demo_install_run: "\<exists>s. demo_install = (s, Inr (''m1'', False))"
  by (simp add: demo_install_def complete_install_def demo_install_ok install_tx_def upsert_install_def find_by_shop_def
      create_outbox_def find_row_def demo_gone_def fresh_merchant_def)

lemma demo_installable: "installable ''m2'' demo_gone"
  by (simp add: installable_def demo_gone_def fresh_merchant_def)

theorem install_effects_witness:
  "find_settings (fst demo_install) ''m1'' = Some (default_settings ''m1'')"
proof -
  obtain s where run: "demo_install = (s, Inr (''m1'', False))" using demo_install_run by blast
  have "find_settings demo_gone ''m1'' = None" by (simp add: find_settings_def find_row_def demo_gone_def empty_db_def)
  with install_effects [OF run [unfolded demo_install_def] demo_installable]
  have "find_settings s ''m1'' = Some (default_settings ''m1'')" by simp
  then show ?thesis unfolding run by simp
qed

section \<open>An uninstall that comes late\<close>

definition uninstalled_at :: "time \<Rightarrow> merchant_id \<Rightarrow> db \<Rightarrow> bool" where
  "uninstalled_at t m s \<longleftrightarrow> (case find_merchant s m of None \<Rightarrow> False | Some r \<Rightarrow> me_uninstalledAt r = Some t)"

lemma uninstalled_at_frame [simp]:
  "uninstalled_at t m (s\<lparr>backfill_jobs := js\<rparr>) = uninstalled_at t m s"
  "uninstalled_at t m (s\<lparr>outbox := ob\<rparr>) = uninstalled_at t m s"
  "uninstalled_at t m (s\<lparr>customers := cs\<rparr>) = uninstalled_at t m s"
  by (simp_all add: uninstalled_at_def find_merchant_def)

lemma uninstalled_at_update:
  assumes "uninstalled_at t m s" and "\<And>r. me_id (f r) = me_id r" and "\<And>r. me_uninstalledAt (f r) = me_uninstalledAt r"
  shows "uninstalled_at t m (s\<lparr>merchants := update_many P f (merchants s)\<rparr>)"
  using assms find_update_many_key [of "\<lambda>r. me_id r = m" f P "merchants s"]
  by (auto simp: uninstalled_at_def find_merchant_def split: option.splits)

lemma graphql_uninstalled:
  assumes "graphql e m' q c st = (st', res)" and "uninstalled_at t m (ad_db st)"
  shows "uninstalled_at t m (ad_db st')"
proof (rule graphql_keeps [of e m' q c st st' res "uninstalled_at t m", OF assms])
  fix eid now k s s' and u :: unit
  assume "mark_token_revoked eid now m' s = Inr (s', u)" and "uninstalled_at t m s"
  then show "uninstalled_at t m s'"
    by (auto simp: mark_token_revoked_def create_outbox_def intro!: uninstalled_at_update split: if_splits)
qed

lemma enrich_install_uninstalled:
  assumes "uninstalled_at t m (ad_db st)"
  shows "uninstalled_at t m (ad_db (fst (enrich_install e eid m' st)))"
proof -
  obtain st1 q where g: "graphql e m' ShopDetailsQuery (Some 10) st = (st1, q)" by (metis surj_pair)
  note p = graphql_uninstalled [OF g assms]
  show ?thesis
    using g p by (auto simp: enrich_install_def fetch_shop_details_def transaction_def enrich_tx_def update_enrichment_def
        create_outbox_def Let_def intro!: uninstalled_at_update split: sum.splits if_splits prod.splits)
qed

lemma handle_merchant_installed_uninstalled:
  assumes "handle_merchant_installed e date_of newId eid row st = (st', res)" and "uninstalled_at t m (ad_db st)"
  shows "uninstalled_at t m (ad_db st')"
proof -
  let ?m = "ob_merchantId row"
  define st1 where "st1 = fst (enrich_install e eid ?m (build_admin_client st))"
  have p1: "uninstalled_at t m (ad_db st1)" unfolding st1_def using assms(2)
    by (intro enrich_install_uninstalled) (simp add: build_admin_client_def)
  obtain st2 out where run: "run_backfill MAX_PAGES_HARD_LIMIT eid (customer_page_fetch e ?m) (process_customers date_of newId ?m)
      ?m BackfillCustomers None st1 = (st2, out)" by (metis surj_pair)
  have "uninstalled_at t m (ad_db st2)"
  proof (rule run_backfill_keeps [of _ _ _ _ _ _ _ _ _ _ "uninstalled_at t m", OF run p1])
    fix c n st st' res
    assume "customer_page_fetch e ?m c n st = (st', res)" and "uninstalled_at t m (ad_db st)"
    then show "uninstalled_at t m (ad_db st')"
      by (auto simp: customer_page_fetch_def dest: graphql_uninstalled split: prod.splits sum.splits)
  qed (simp_all add: process_customers_def)
  with assms run st1_def show ?thesis
    by (auto simp: handle_merchant_installed_def Let_def split: sum.splits)
qed

text \<open>
  C32. A late uninstall sticks. When the event of an uninstall is handled after the shop was
  installed again, it marks the merchant uninstalled at that time, for it compares nothing with
  the time of the install; and the handling of the install's own event, whatever Shopify
  answers and however far it gets, does not undo it.
\<close>

theorem late_uninstall_sticks:
  assumes "complete_install newId eid now a s = (s1, Inr (m, isNew))" and "installable newId s"
    and "handle_merchant_uninstalled t gone s1 = (s2, Inr ())" and "ob_merchantId gone = m"
    and "handle_merchant_installed e date_of customerId eid' back st = (st', res)" and "ad_db st = s2"
  shows "uninstalled_at t m (ad_db st')"
proof -
  from complete_install_D [OF assms(1)] obtain sa where
    u: "upsert_install newId now (ia_shop a) s = Inr (sa, (m, isNew))" and "merchants s1 = merchants sa" by blast
  with upsert_install_D(1,2) [OF u assms(2)] obtain r where
    r: "filter (\<lambda>r. me_id r = m) (merchants s1) = [r]" "me_uninstalledAt r = None" by auto
  then have "find_merchant s1 m = Some r" by (simp add: find_merchant_def find_row_filter)
  moreover from this have "me_id r = m" by (auto simp: find_merchant_def dest: find_row_Some_D)
  ultimately have "uninstalled_at t m s2" using r(2) assms(3,4)
    by (auto simp: handle_merchant_uninstalled_def mark_uninstalled_def uninstalled_at_def find_merchant_def
        find_update_many_key Let_def)
  with assms(5,6) show ?thesis by (auto intro: handle_merchant_installed_uninstalled)
qed

definition demo_event :: outbox_row where
  "demo_event = \<lparr>ob_id = ''e1'', ob_merchantId = ''m1'', ob_type = ''merchant.uninstalled'',
     ob_payload = JsonPayload (JObj [(''shop'', JStr ''a1.myshopify.com''), (''scope'', JStr ''s''), (''reinstall'', JBool False)]),
     ob_createdAt = 0, ob_processedAt = None, ob_attempts = 0, ob_lastError = None, ob_deadLetteredAt = None,
     ob_deferredFailedAt = None\<rparr>"

definition demo_back :: "unit admin_state" where
  "demo_back = \<lparr>ad_db = fst (handle_merchant_uninstalled 5 demo_event (fst demo_install)), ad_now = 6, ad_tracker = Map.empty,
     ad_world = (), ad_requests = []\<rparr>"

definition demo_offline :: "unit backfill_env" where
  "demo_offline = \<lparr>ae_fetch = (\<lambda>w shop token q. ((), 100, NetworkError)), ae_decrypt = Some, ae_jitter = (\<lambda>_. 0),
     ae_eventId = ''e3'', ae_maxRetries = 3, ae_options = TRACKER_DEFAULTS\<rparr>"

theorem late_uninstall_sticks_witness:
  "uninstalled_at 5 ''m1'' (ad_db (fst (handle_merchant_installed demo_offline (\<lambda>_. None) (\<lambda>_. ''c1'') ''e2'' demo_event demo_back)))"
proof -
  obtain s where run: "demo_install = (s, Inr (''m1'', False))" using demo_install_run by blast
  obtain s2 where gone: "handle_merchant_uninstalled 5 demo_event s = (s2, Inr ())"
    by (simp add: handle_merchant_uninstalled_def mark_uninstalled_def Let_def)
  obtain st' res where returned: "handle_merchant_installed demo_offline (\<lambda>_. None) (\<lambda>_. ''c1'') ''e2'' demo_event demo_back = (st', res)"
    by (metis surj_pair)
  have "ob_merchantId demo_event = ''m1''" by (simp add: demo_event_def)
  moreover have "ad_db demo_back = s2" by (simp add: demo_back_def run gone)
  ultimately show ?thesis
    using late_uninstall_sticks [OF run [unfolded demo_install_def] demo_installable gone _ returned] returned by simp
qed

end
