(* ===== verification/WebhookIngest.thy ===== *)
theory WebhookIngest
  imports Install
begin

text \<open>
  The intake of Shopify's webhooks: the topics and their events
  (\<open>packages/shopify/src/webhook-topics.ts\<close>), the signature (\<open>hmac.ts\<close>, \<open>packages/crypto/src/hmac.ts\<close>),
  the ingestion (\<open>apps/web/app/services/webhook-ingest.server.ts\<close>) and the route
  (\<open>routes/webhooks.tsx\<close>). HMAC-SHA256, the base64 decoder, \<open>JSON.parse\<close> and the reading of the
  configuration are parameters, and so is a fault of the database during the transaction.
\<close>

section \<open>Topics\<close>

definition WEBHOOK_TOPIC_TO_EVENT :: "(string \<times> outbox_event_type) list" where
  "WEBHOOK_TOPIC_TO_EVENT =
     [(''customers/create'', CustomerCreated), (''customers/update'', CustomerUpdated),
      (''customers/delete'', CustomerDeleted), (''orders/create'', OrderPlaced),
      (''orders/updated'', OrderUpdated), (''orders/cancelled'', OrderCancelled),
      (''products/create'', ProductCreated), (''products/update'', ProductUpdated),
      (''products/delete'', ProductDeleted), (''app/uninstalled'', MerchantUninstalled),
      (''app/scopes_update'', MerchantScopesUpdated)]"

definition GDPR_TOPIC_TO_EVENT :: "(string \<times> outbox_event_type) list" where
  "GDPR_TOPIC_TO_EVENT =
     [(''customers/data_request'', GdprCustomerDataRequested), (''customers/redact'', GdprCustomerRedacted),
      (''shop/redact'', GdprShopRedacted)]"

definition GDPR_TOPICS :: "string list" where "GDPR_TOPICS = map fst GDPR_TOPIC_TO_EVENT"

text \<open>
  The maps of the code are objects: a lookup there would also find an inherited property
  (\<open>constructor\<close>), which is no topic that Shopify sends and is left out.
\<close>

definition getOutboxEventForTopic :: "string \<Rightarrow> outbox_event_type option" where
  "getOutboxEventForTopic topic =
     (case map_of WEBHOOK_TOPIC_TO_EVENT topic of Some e \<Rightarrow> Some e | None \<Rightarrow> map_of GDPR_TOPIC_TO_EVENT topic)"

definition isGdprTopic :: "string \<Rightarrow> bool" where
  "isGdprTopic topic \<longleftrightarrow> map_of GDPR_TOPIC_TO_EVENT topic \<noteq> None"

definition isKnownTopic :: "string \<Rightarrow> bool" where
  "isKnownTopic topic \<longleftrightarrow> map_of WEBHOOK_TOPIC_TO_EVENT topic \<noteq> None \<or> map_of GDPR_TOPIC_TO_EVENT topic \<noteq> None"

section \<open>Signatures\<close>

text \<open>The decoder answers \<open>None\<close> where \<open>Buffer.from\<close> throws.\<close>

definition verify_hmac_digest ::
  "(string \<Rightarrow> string \<Rightarrow> nat list) \<Rightarrow> (string \<Rightarrow> nat list option) \<Rightarrow> string \<Rightarrow> string \<Rightarrow> string \<Rightarrow> bool" where
  "verify_hmac_digest mac decode secret message expected =
     (case decode expected of
        None \<Rightarrow> False
      | Some bytes \<Rightarrow> if length bytes \<noteq> length (mac secret message) then False else mac secret message = bytes)"

definition verify_shopify_webhook_hmac ::
  "(string \<Rightarrow> string \<Rightarrow> nat list) \<Rightarrow> (string \<Rightarrow> nat list option) \<Rightarrow> string \<Rightarrow> string \<Rightarrow> string \<Rightarrow> bool" where
  "verify_shopify_webhook_hmac mac decode secret rawBody headerValue =
     (if headerValue = [] then False else verify_hmac_digest mac decode secret rawBody headerValue)"

section \<open>Ingestion\<close>

datatype accept_reason = Processed | DuplicateDelivery | NoMerchant | UnknownTopic
datatype reject_reason = MissingHeaders | InvalidShop | BadHmac
datatype ingest_outcome = Accept accept_reason | Reject int reject_reason

record ingest_args =
  ig_topic :: "string option"
  ig_shop :: "string option"
  ig_webhookId :: "string option"
  ig_hmac :: "string option"
  ig_rawBody :: string

record webhook_log =
  wl_merchantId :: "merchant_id option"
  wl_shop :: string
  wl_topic :: string
  wl_shopifyWebhookId :: string
  wl_idempotencyKey :: "string option"
  wl_hmacOk :: bool
  wl_processed :: bool
  wl_errorCode :: "string option"
  wl_payload :: json
  wl_payloadSize :: nat
  wl_processedAt :: time

record intake =
  in_db :: db
  in_logs :: "webhook_log list"

record intake_env =
  ie_mac :: "string \<Rightarrow> string \<Rightarrow> nat list"
  ie_decode :: "string \<Rightarrow> nat list option"
  ie_parse :: "string \<Rightarrow> json option"
  ie_webhookSecret :: "string option"
  ie_apiSecret :: string
  ie_now :: time
  ie_eventId :: string
  ie_fault :: "exn option"

definition IDEMPOTENCY_TTL_MS :: int where "IDEMPOTENCY_TTL_MS = 7 * 86400000"

definition try_parse_json :: "(string \<Rightarrow> json option) \<Rightarrow> string \<Rightarrow> json" where
  "try_parse_json parse raw =
     (if raw = [] then JObj []
      else (case parse raw of
        Some j \<Rightarrow> j
      | None \<Rightarrow> JObj [(''_malformed'', JBool True), (''_raw_prefix'', JStr (take 500 raw))]))"

definition idempotency_key :: "string \<Rightarrow> string \<Rightarrow> string" where
  "idempotency_key topic wid = ''webhook:'' @ topic @ '':'' @ wid"

definition webhook_secret :: "intake_env \<Rightarrow> string" where
  "webhook_secret e = or_default (ie_webhookSecret e) (ie_apiSecret e)"

definition webhook_payload :: "string \<Rightarrow> string \<Rightarrow> json \<Rightarrow> outbox_payload" where
  "webhook_payload topic wid body = JsonPayload (JObj [(''topic'', JStr topic), (''webhookId'', JStr wid), (''body'', body)])"

fun is_unique_violation :: "exn \<Rightarrow> bool" where
  "is_unique_violation (PlainErr code) = (code = ''P2002'')"
| "is_unique_violation _ = False"

text \<open>The transaction: the key, the log row and, for a known topic, the event.\<close>

definition ingest_tx ::
  "intake_env \<Rightarrow> merchant_id \<Rightarrow> string \<Rightarrow> string \<Rightarrow> string \<Rightarrow> string \<Rightarrow> json \<Rightarrow> intake \<Rightarrow> exn + intake" where
  "ingest_tx e m shop topic wid rawBody body st =
     (let key = idempotency_key topic wid; s = in_db st; event = getOutboxEventForTopic topic in
      if find_row (\<lambda>r. ik_merchantId r = m \<and> ik_key r = key) (idempotency_keys s) \<noteq> None then Inl unique_violation
      else
        (let s1 = s\<lparr>idempotency_keys := idempotency_keys s @
               [\<lparr>ik_merchantId = m, ik_key = key, ik_expiresAt = ie_now e + IDEMPOTENCY_TTL_MS\<rparr>]\<rparr>;
             logs = in_logs st @ [\<lparr>wl_merchantId = Some m, wl_shop = shop, wl_topic = topic, wl_shopifyWebhookId = wid,
               wl_idempotencyKey = Some key, wl_hmacOk = True, wl_processed = True,
               wl_errorCode = (if event = None then Some ''unknown_topic_no_outbox'' else None),
               wl_payload = body, wl_payloadSize = length rawBody, wl_processedAt = ie_now e\<rparr>] in
         rbind (case event of
             None \<Rightarrow> Inr (s1, ())
           | Some ty \<Rightarrow> create_outbox (System ''webhook.ingest'') (ie_eventId e) m (event_string ty)
               (webhook_payload topic wid body) (ie_now e) s1)
           (\<lambda>(s2, _). case ie_fault e of Some err \<Rightarrow> Inl err | None \<Rightarrow> Inr \<lparr>in_db = s2, in_logs = logs\<rparr>)))"

definition ingest_webhook :: "intake_env \<Rightarrow> ingest_args \<Rightarrow> intake \<Rightarrow> intake \<times> (exn + ingest_outcome)" where
  "ingest_webhook e a st =
     (case (ig_topic a, ig_shop a, ig_webhookId a, ig_hmac a) of
        (Some topic, Some rawShop, Some wid, Some hmac) \<Rightarrow>
          (case normalize_shop_domain rawShop of
             None \<Rightarrow> (st, Inr (Reject 400 InvalidShop))
           | Some shop \<Rightarrow>
               if \<not> verify_shopify_webhook_hmac (ie_mac e) (ie_decode e) (webhook_secret e) (ig_rawBody a) hmac
               then (st, Inr (Reject 401 BadHmac))
               else
                 (let body = try_parse_json (ie_parse e) (ig_rawBody a) in
                  case find_by_shop shop (in_db st) of
                    None \<Rightarrow>
                      (st\<lparr>in_logs := in_logs st @ [\<lparr>wl_merchantId = None, wl_shop = shop, wl_topic = topic,
                          wl_shopifyWebhookId = wid, wl_idempotencyKey = None, wl_hmacOk = True, wl_processed = False,
                          wl_errorCode = Some ''merchant_not_found'', wl_payload = body,
                          wl_payloadSize = length (ig_rawBody a), wl_processedAt = ie_now e\<rparr>]\<rparr>,
                       Inr (Accept NoMerchant))
                  | Some m \<Rightarrow>
                      (case ingest_tx e m shop topic wid (ig_rawBody a) body st of
                         Inr st' \<Rightarrow> (st', Inr (Accept (if getOutboxEventForTopic topic = None then UnknownTopic else Processed)))
                       | Inl err \<Rightarrow>
                           if is_unique_violation err then (st, Inr (Accept DuplicateDelivery)) else (st, Inl err))))
      | _ \<Rightarrow> (st, Inr (Reject 400 MissingHeaders)))"

section \<open>The route\<close>

fun accept_string :: "accept_reason \<Rightarrow> string" where
  "accept_string Processed = ''processed''"
| "accept_string DuplicateDelivery = ''duplicate''"
| "accept_string NoMerchant = ''no_merchant''"
| "accept_string UnknownTopic = ''unknown_topic''"

fun reject_string :: "reject_reason \<Rightarrow> string" where
  "reject_string MissingHeaders = ''missing_headers''"
| "reject_string InvalidShop = ''invalid_shop''"
| "reject_string BadHmac = ''hmac''"

text \<open>An answer's body is a text or an error object; the last argument is the outcome header.\<close>

datatype webhook_response = TextResponse int string "string option" | ErrorResponse int http_error_body

definition webhook_action :: "intake_env \<Rightarrow> ingest_args \<Rightarrow> intake \<Rightarrow> intake \<times> webhook_response" where
  "webhook_action e a st =
     (case ingest_webhook e a st of
        (st', Inl err) \<Rightarrow>
          (st', case to_http err None (Some ''webhook handler failure'') of (status, body) \<Rightarrow> ErrorResponse status body)
      | (st', Inr (Reject status reason)) \<Rightarrow> (st', TextResponse status (reject_string reason) None)
      | (st', Inr (Accept reason)) \<Rightarrow> (st', TextResponse 200 ''ok'' (Some (accept_string reason))))"

section \<open>Deliveries\<close>

text \<open>Deliveries one after the other; Shopify repeats one until it is answered with a 200.\<close>

fun deliver_all :: "(intake_env \<times> ingest_args) list \<Rightarrow> intake \<Rightarrow> intake" where
  "deliver_all [] st = st"
| "deliver_all ((e, a) # ds) st = deliver_all ds (fst (ingest_webhook e a st))"

text \<open>A signed delivery of one webhook of a shop, during which the database does not fail.\<close>

definition genuine :: "string \<Rightarrow> string \<Rightarrow> string \<Rightarrow> intake_env \<times> ingest_args \<Rightarrow> bool" where
  "genuine shop topic wid d =
     (case d of (e, a) \<Rightarrow> ig_topic a = Some topic \<and> ig_webhookId a = Some wid \<and> ie_fault e = None \<and>
        (case (ig_shop a, ig_hmac a) of
           (Some raw, Some hmac) \<Rightarrow> normalize_shop_domain raw = Some shop \<and>
             verify_shopify_webhook_hmac (ie_mac e) (ie_decode e) (webhook_secret e) (ig_rawBody a) hmac
         | _ \<Rightarrow> False))"

definition carries :: "string \<Rightarrow> string \<Rightarrow> outbox_payload \<Rightarrow> bool" where
  "carries topic wid p =
     (case json_fields p of None \<Rightarrow> False
      | Some kvs \<Rightarrow> jget kvs ''topic'' = JStr topic \<and> jget kvs ''webhookId'' = JStr wid)"

definition webhook_events :: "merchant_id \<Rightarrow> string \<Rightarrow> string \<Rightarrow> intake \<Rightarrow> outbox_row list" where
  "webhook_events m topic wid st = filter (\<lambda>r. ob_merchantId r = m \<and> carries topic wid (ob_payload r)) (outbox (in_db st))"

definition key_taken :: "merchant_id \<Rightarrow> string \<Rightarrow> intake \<Rightarrow> bool" where
  "key_taken m key st \<longleftrightarrow> find_row (\<lambda>r. ik_merchantId r = m \<and> ik_key r = key) (idempotency_keys (in_db st)) \<noteq> None"

text \<open>No topic of Shopify has a colon, the separator of the keys.\<close>

definition plain_topic :: "intake_env \<times> ingest_args \<Rightarrow> bool" where
  "plain_topic d = (case ig_topic (snd d) of None \<Rightarrow> True | Some t \<Rightarrow> \<not> List.member t (CHR '':''))"

lemma idempotency_key_inject:
  assumes "idempotency_key t w = idempotency_key t' w'" and "CHR '':'' \<notin> set t" and "CHR '':'' \<notin> set t'"
  shows "t = t' \<and> w = w'"
proof -
  have cut: "takeWhile (\<lambda>c. c \<noteq> CHR '':'') (x @ CHR '':'' # y) = x" if "CHR '':'' \<notin> set x" for x y :: string
    using that by (subst takeWhile_append2) auto
  from assms(1) have eq: "t @ CHR '':'' # w = t' @ CHR '':'' # w'" by (simp add: idempotency_key_def)
  then have "t = t'" using cut [OF assms(2), of w] cut [OF assms(3), of w'] by simp
  with eq show ?thesis by simp
qed

lemma known_topic_plain: "getOutboxEventForTopic topic = Some ty \<Longrightarrow> CHR '':'' \<notin> set topic"
  by (auto simp: getOutboxEventForTopic_def WEBHOOK_TOPIC_TO_EVENT_def GDPR_TOPIC_TO_EVENT_def split: if_splits)

lemma carries_webhook_payload [simp]: "carries t w (webhook_payload t' w' body) \<longleftrightarrow> t = t' \<and> w = w'"
  by (auto simp: carries_def webhook_payload_def jget_def)

lemma find_by_shop_unique:
  assumes "distinct (map me_id (merchants s))" "find_by_shop shop s = Some m" "find_by_shop shop' s = Some m"
  shows "shop = shop'"
proof -
  from find_by_shop_Some [OF assms(2)] obtain r where r: "r \<in> set (merchants s)" "me_shop r = shop" "me_id r = m" by blast
  from find_by_shop_Some [OF assms(3)] obtain r' where r': "r' \<in> set (merchants s)" "me_shop r' = shop'" "me_id r' = m" by blast
  from assms(1) r r' have "r = r'" by (auto simp: distinct_map dest: inj_onD)
  with r r' show ?thesis by simp
qed

text \<open>What one delivery can do: nothing to the database, or what its transaction does.\<close>

lemma ingest_webhook_cases:
  assumes "ingest_webhook e a st = (st', res)"
  obtains (idle) "in_db st' = in_db st" "res \<noteq> Inr (Accept Processed)"
      "\<And>shop t w m. genuine shop t w (e, a) \<Longrightarrow> find_by_shop shop (in_db st) = Some m \<Longrightarrow> key_taken m (idempotency_key t w) st"
  | (stored) shop t w m where "genuine shop t w (e, a)" "find_by_shop shop (in_db st) = Some m"
      "\<not> key_taken m (idempotency_key t w) st" "res = Inr (Accept (if getOutboxEventForTopic t = None then UnknownTopic else Processed))"
      "ingest_tx e m shop t w (ig_rawBody a) (try_parse_json (ie_parse e) (ig_rawBody a)) st = Inr st'"
proof -
  show ?thesis
  proof (cases "\<exists>shop t w m. genuine shop t w (e, a) \<and> find_by_shop shop (in_db st) = Some m
      \<and> \<not> key_taken m (idempotency_key t w) st")
    case True
    then obtain shop t w m where g: "genuine shop t w (e, a)" "find_by_shop shop (in_db st) = Some m"
      "\<not> key_taken m (idempotency_key t w) st" by blast
    with assms show ?thesis
      by (intro stored [of shop t w m])
        (auto simp: genuine_def ingest_webhook_def ingest_tx_def key_taken_def create_outbox_def Let_def
          split: option.splits sum.splits if_splits)
  next
    case False
    have "in_db st' = in_db st \<and> res \<noteq> Inr (Accept Processed)"
      using assms False
      by (fastforce simp: genuine_def ingest_webhook_def ingest_tx_def key_taken_def create_outbox_def Let_def
          split: option.splits sum.splits if_splits)
    with False show ?thesis by (intro idle) auto
  qed
qed

lemma ingest_tx_D:
  assumes "ingest_tx e m' shop t w raw body st = Inr st'"
  shows "merchants (in_db st') = merchants (in_db st)"
    and "key_taken m k st' \<longleftrightarrow> key_taken m k st \<or> (m = m' \<and> k = idempotency_key t w)"
    and "outbox (in_db st') = outbox (in_db st) @ (case getOutboxEventForTopic t of None \<Rightarrow> []
      | Some ty \<Rightarrow> [\<lparr>ob_id = ie_eventId e, ob_merchantId = m', ob_type = event_string ty,
          ob_payload = webhook_payload t w body, ob_createdAt = ie_now e, ob_processedAt = None, ob_attempts = 0,
          ob_lastError = None, ob_deadLetteredAt = None, ob_deferredFailedAt = None\<rparr>])"
proof -
  have "merchants (in_db st') = merchants (in_db st) \<and> idempotency_keys (in_db st') = idempotency_keys (in_db st) @
      [\<lparr>ik_merchantId = m', ik_key = idempotency_key t w, ik_expiresAt = ie_now e + IDEMPOTENCY_TTL_MS\<rparr>]
    \<and> outbox (in_db st') = outbox (in_db st) @ (case getOutboxEventForTopic t of None \<Rightarrow> []
      | Some ty \<Rightarrow> [\<lparr>ob_id = ie_eventId e, ob_merchantId = m', ob_type = event_string ty,
          ob_payload = webhook_payload t w body, ob_createdAt = ie_now e, ob_processedAt = None, ob_attempts = 0,
          ob_lastError = None, ob_deadLetteredAt = None, ob_deferredFailedAt = None\<rparr>])"
    using assms by (auto simp: ingest_tx_def create_outbox_def Let_def split: option.splits if_splits)
  then show "merchants (in_db st') = merchants (in_db st)"
    and "key_taken m k st' \<longleftrightarrow> key_taken m k st \<or> (m = m' \<and> k = idempotency_key t w)"
    and "outbox (in_db st') = outbox (in_db st) @ (case getOutboxEventForTopic t of None \<Rightarrow> []
      | Some ty \<Rightarrow> [\<lparr>ob_id = ie_eventId e, ob_merchantId = m', ob_type = event_string ty,
          ob_payload = webhook_payload t w body, ob_createdAt = ie_now e, ob_processedAt = None, ob_attempts = 0,
          ob_lastError = None, ob_deadLetteredAt = None, ob_deferredFailedAt = None\<rparr>])"
    by (auto simp: key_taken_def find_row_append find_row_Cons split: option.splits if_splits)
qed

lemma genuine_topic: "genuine shop t w d \<Longrightarrow> ig_topic (snd d) = Some t"
  by (auto simp: genuine_def)

lemma genuine_unique: "genuine shop t w d \<Longrightarrow> genuine shop' t' w' d \<Longrightarrow> shop = shop' \<and> t = t' \<and> w = w'"
  by (auto simp: genuine_def split: option.splits)

lemma delivery_step:
  assumes "distinct (map me_id (merchants (in_db st)))" and "find_by_shop shop (in_db st) = Some m"
    and "getOutboxEventForTopic topic = Some ty" and "plain_topic (e, a)"
    and st': "st' = fst (ingest_webhook e a st)"
  shows "merchants (in_db st') = merchants (in_db st)"
    and "key_taken m (idempotency_key topic wid) st' \<longleftrightarrow>
      key_taken m (idempotency_key topic wid) st \<or> genuine shop topic wid (e, a)"
    and "map ob_type (webhook_events m topic wid st') = map ob_type (webhook_events m topic wid st) @
      (if genuine shop topic wid (e, a) \<and> \<not> key_taken m (idempotency_key topic wid) st then [event_string ty] else [])"
proof -
  obtain res where run: "ingest_webhook e a st = (st', res)" using st' by (metis prod.collapse)
  have "merchants (in_db st') = merchants (in_db st)
    \<and> (key_taken m (idempotency_key topic wid) st' \<longleftrightarrow>
      key_taken m (idempotency_key topic wid) st \<or> genuine shop topic wid (e, a))
    \<and> map ob_type (webhook_events m topic wid st') = map ob_type (webhook_events m topic wid st) @
      (if genuine shop topic wid (e, a) \<and> \<not> key_taken m (idempotency_key topic wid) st then [event_string ty] else [])"
    using run
  proof (cases rule: ingest_webhook_cases)
    case idle
    then have "webhook_events m topic wid st' = webhook_events m topic wid st"
      "key_taken m (idempotency_key topic wid) st' = key_taken m (idempotency_key topic wid) st"
      by (simp_all add: webhook_events_def key_taken_def)
    with idle(1) idle(3) [OF _ assms(2)] show ?thesis by auto
  next
    case (stored shop' t w m')
    note D = ingest_tx_D [OF stored(5)]
    show ?thesis
    proof (cases "m' = m \<and> t = topic \<and> w = wid")
      case True
      with stored(2) find_by_shop_unique [OF assms(1) assms(2)] have "shop' = shop" by blast
      with True stored(1,3) have "genuine shop topic wid (e, a)" "\<not> key_taken m (idempotency_key topic wid) st" by auto
      with True assms(3) D(1) D(2) [of m "idempotency_key topic wid"] show ?thesis
        by (simp add: webhook_events_def D(3))
    next
      case False
      have plain: "CHR '':'' \<notin> set t" using assms(4) genuine_topic [OF stored(1)] by (simp add: plain_topic_def)
      have "\<not> (m = m' \<and> idempotency_key topic wid = idempotency_key t w)"
        using False idempotency_key_inject [OF _ known_topic_plain [OF assms(3)] plain] by blast
      moreover have "\<not> genuine shop topic wid (e, a)"
        using False genuine_unique [OF stored(1), of shop topic wid] stored(2) assms(2) by auto
      moreover have "webhook_events m topic wid st' = webhook_events m topic wid st"
        using False by (auto simp: webhook_events_def D(3) split: option.splits)
      ultimately show ?thesis using D(1) D(2) [of m "idempotency_key topic wid"] by auto
    qed
  qed
  then show "merchants (in_db st') = merchants (in_db st)"
    and "key_taken m (idempotency_key topic wid) st' \<longleftrightarrow>
      key_taken m (idempotency_key topic wid) st \<or> genuine shop topic wid (e, a)"
    and "map ob_type (webhook_events m topic wid st') = map ob_type (webhook_events m topic wid st) @
      (if genuine shop topic wid (e, a) \<and> \<not> key_taken m (idempotency_key topic wid) st then [event_string ty] else [])"
    by blast+
qed

lemma deliver_all_events:
  assumes "distinct (map me_id (merchants (in_db st)))" and "find_by_shop shop (in_db st) = Some m"
    and "getOutboxEventForTopic topic = Some ty" and "list_all plain_topic ds"
  shows "map ob_type (webhook_events m topic wid (deliver_all ds st)) = map ob_type (webhook_events m topic wid st) @
    (if \<not> key_taken m (idempotency_key topic wid) st \<and> list_ex (genuine shop topic wid) ds then [event_string ty] else [])"
  using assms
proof (induction ds arbitrary: st)
  case Nil
  then show ?case by simp
next
  case (Cons d ds)
  obtain e a where d: "d = (e, a)" by (cases d)
  define st1 where "st1 = fst (ingest_webhook e a st)"
  from Cons.prems(4) d have "plain_topic (e, a)" by simp
  note step = delivery_step [OF Cons.prems(1-3) this st1_def]
  have "find_by_shop shop (in_db st1) = Some m" using Cons.prems(2) step(1) by (simp add: find_by_shop_def)
  with Cons.IH [of st1] Cons.prems step(1)
  have "map ob_type (webhook_events m topic wid (deliver_all ds st1)) = map ob_type (webhook_events m topic wid st1) @
    (if \<not> key_taken m (idempotency_key topic wid) st1 \<and> list_ex (genuine shop topic wid) ds then [event_string ty] else [])"
    by simp
  then show ?case using step(2,3) [of wid] by (auto simp: d st1_def)
qed

text \<open>
  C9. A webhook is published exactly once. Whatever deliveries arrive, in whatever order, of
  this webhook and of others, repeated, forged or cut short by the database, the outbox then
  has one event for it, of its topic's type, if one of the deliveries was genuine, and none if
  none was.
\<close>

theorem webhook_exactly_once:
  assumes "distinct (map me_id (merchants (in_db st)))" and "find_by_shop shop (in_db st) = Some m"
    and "getOutboxEventForTopic topic = Some ty" and "list_all plain_topic ds"
    and "\<not> key_taken m (idempotency_key topic wid) st" and "webhook_events m topic wid st = []"
  shows "map ob_type (webhook_events m topic wid (deliver_all ds st)) =
    (if list_ex (genuine shop topic wid) ds then [event_string ty] else [])"
  using deliver_all_events [OF assms(1-4), of wid] assms(5,6) by simp

definition demo_intake :: intake where
  "demo_intake = \<lparr>in_db = empty_db\<lparr>merchants := [fresh_merchant ''m1'' ''acme.myshopify.com'' 0]\<rparr>, in_logs = []\<rparr>"

definition demo_env :: "exn option \<Rightarrow> intake_env" where
  "demo_env f = \<lparr>ie_mac = (\<lambda>k msg. [7]), ie_decode = (\<lambda>h. if h = ''sig'' then Some [7] else Some []),
     ie_parse = (\<lambda>raw. Some (JStr raw)), ie_webhookSecret = None, ie_apiSecret = ''k'', ie_now = 0,
     ie_eventId = ''e1'', ie_fault = f\<rparr>"

definition demo_delivery :: "string \<Rightarrow> string \<Rightarrow> string \<Rightarrow> ingest_args" where
  "demo_delivery topic wid hmac = \<lparr>ig_topic = Some topic, ig_shop = Some ''acme.myshopify.com'',
     ig_webhookId = Some wid, ig_hmac = Some hmac, ig_rawBody = ''x''\<rparr>"

definition demo_deliveries :: "(intake_env \<times> ingest_args) list" where
  "demo_deliveries =
     [(demo_env (Some (PlainErr ''timeout'')), demo_delivery ''shop/redact'' ''w1'' ''sig''),
      (demo_env None, demo_delivery ''shop/redact'' ''w1'' ''forged''),
      (demo_env None, demo_delivery ''shop/redact'' ''w1'' ''sig''),
      (demo_env None, demo_delivery ''shop/redact'' ''w1'' ''sig'')]"

lemma demo_domain: "normalize_shop_domain ''acme.myshopify.com'' = Some ''acme.myshopify.com''"
  by code_simp

lemma demo_genuine: "genuine ''acme.myshopify.com'' ''shop/redact'' ''w1'' (demo_env None, demo_delivery ''shop/redact'' ''w1'' ''sig'')"
  by (simp add: genuine_def demo_env_def demo_delivery_def demo_domain verify_shopify_webhook_hmac_def verify_hmac_digest_def)

lemma demo_topic: "getOutboxEventForTopic ''shop/redact'' = Some GdprShopRedacted"
  by (simp add: getOutboxEventForTopic_def WEBHOOK_TOPIC_TO_EVENT_def GDPR_TOPIC_TO_EVENT_def)

lemma demo_merchant: "find_by_shop ''acme.myshopify.com'' (in_db demo_intake) = Some ''m1''"
  by (simp add: demo_intake_def find_by_shop_def find_row_def fresh_merchant_def)

theorem webhook_exactly_once_witness:
  "map ob_type (webhook_events ''m1'' ''shop/redact'' ''w1'' (deliver_all demo_deliveries demo_intake)) = [''gdpr.shop_redacted'']"
proof -
  have "list_all plain_topic demo_deliveries" by (simp add: demo_deliveries_def plain_topic_def demo_delivery_def)
  moreover have "list_ex (genuine ''acme.myshopify.com'' ''shop/redact'' ''w1'') demo_deliveries"
    using demo_genuine by (simp add: demo_deliveries_def)
  moreover have "distinct (map me_id (merchants (in_db demo_intake)))" "\<not> key_taken ''m1'' (idempotency_key ''shop/redact'' ''w1'') demo_intake"
    "webhook_events ''m1'' ''shop/redact'' ''w1'' demo_intake = []"
    by (simp_all add: demo_intake_def empty_db_def key_taken_def webhook_events_def find_row_def)
  ultimately show ?thesis
    using webhook_exactly_once [OF _ demo_merchant demo_topic, of demo_deliveries "''w1''"] by simp
qed

section \<open>Privacy webhooks\<close>

lemma gdpr_topic_event: "isGdprTopic t \<Longrightarrow> map_of GDPR_TOPIC_TO_EVENT t = getOutboxEventForTopic t"
  by (auto simp: isGdprTopic_def getOutboxEventForTopic_def WEBHOOK_TOPIC_TO_EVENT_def GDPR_TOPIC_TO_EVENT_def
      split: if_splits)

text \<open>
  C10. No privacy webhook is ever carried out. The event that the ingestion publishes for one
  of the three mandatory topics wraps the body with its topic and id, but the handlers of these
  events look for the shop's domain outside it: each rejects the event, whichever it is, and
  changes nothing, so no data is exported or redacted.
\<close>

theorem privacy_webhooks_fail:
  assumes "ingest_webhook e a st = (st', Inr (Accept Processed))" and "ig_topic a = Some topic" and "isGdprTopic topic"
  shows "\<exists>r. outbox (in_db st') = outbox (in_db st) @ [r] \<and> ob_processedAt r = None
    \<and> parse_event_type (ob_type r) = map_of GDPR_TOPIC_TO_EVENT topic
    \<and> (\<forall>s now. handle_customer_data_requested r s = (s, Inl zod_error)
        \<and> handle_customer_redacted now r s = (s, Inl zod_error)
        \<and> handle_shop_redacted r s = Some (s, Inl zod_error))"
  using assms(1)
proof (cases rule: ingest_webhook_cases)
  case idle
  then show ?thesis by simp
next
  case (stored shop t w m)
  from assms(2) genuine_topic [OF stored(1)] have t: "t = topic" by simp
  then obtain ty where ty: "getOutboxEventForTopic t = Some ty" using stored(4) by (auto split: if_splits)
  have "handle_customer_data_requested r s = (s, Inl zod_error)" "handle_customer_redacted now r s = (s, Inl zod_error)"
    "handle_shop_redacted r s = Some (s, Inl zod_error)" if "ob_payload r = webhook_payload t w body" for r s now body
    using that by (simp_all add: handle_customer_data_requested_def handle_customer_redacted_def handle_shop_redacted_def
        customer_data_request_payload_def customer_redact_payload_def shop_redact_payload_def webhook_payload_def
        gdpr_payload_of_def jget_def split: option.splits)
  with ingest_tx_D(3) [OF stored(5)] ty gdpr_topic_event [OF assms(3)] show ?thesis by (auto simp: t)
qed

theorem privacy_webhooks_fail_witness:
  "handle_shop_redacted (last (outbox (in_db (fst (ingest_webhook (demo_env None) (demo_delivery ''shop/redact'' ''w1'' ''sig'') demo_intake)))))
     empty_db = Some (empty_db, Inl zod_error)"
proof -
  obtain st' where run: "ingest_webhook (demo_env None) (demo_delivery ''shop/redact'' ''w1'' ''sig'') demo_intake
      = (st', Inr (Accept Processed))"
    using demo_domain demo_topic demo_merchant
    by (simp add: ingest_webhook_def demo_delivery_def demo_env_def verify_shopify_webhook_hmac_def
        verify_hmac_digest_def ingest_tx_def create_outbox_def Let_def demo_intake_def empty_db_def find_row_def)
  have "isGdprTopic ''shop/redact''" by (simp add: isGdprTopic_def GDPR_TOPIC_TO_EVENT_def)
  then show ?thesis using privacy_webhooks_fail [OF run, of "''shop/redact''"] run by (auto simp: demo_delivery_def)
qed

end
