(* ===== verification/Auth.thy ===== *)
theory Auth
  imports WebhookIngest
begin

text \<open>
  How a shop gets in: the cipher of stored tokens (\<open>packages/crypto/src/cipher.ts\<close>), the
  encrypted session storage (\<open>packages/shopify/src/session-storage.ts\<close>), the check of session
  tokens (\<open>auth/decode-session-token.ts\<close>), the token exchange (\<open>auth/token-exchange.ts\<close>), the
  subscription of webhooks (\<open>admin/webhook-subscriptions.ts\<close>), the guard of admin requests
  (\<open>apps/web/app/services/admin-auth.server.ts\<close>) and the install route (\<open>routes/auth.tsx\<close>).
  AES-GCM, base64, Shopify's SDK, the session table behind the storage, and URLs are parameters.
\<close>

section \<open>The cipher\<close>

definition KEY_LEN :: nat where "KEY_LEN = 32"
definition IV_LEN :: nat where "IV_LEN = 12"
definition TAG_LEN :: nat where "TAG_LEN = 16"

text \<open>
  Sealing a text under a key and an initialisation vector gives the tag and the ciphertext;
  opening may fail. The decoder of base64 answers \<open>None\<close> where it throws.
\<close>

record aead =
  gc_seal :: "nat list \<Rightarrow> nat list \<Rightarrow> string \<Rightarrow> nat list \<times> nat list"
  gc_open :: "nat list \<Rightarrow> nat list \<Rightarrow> nat list \<Rightarrow> nat list \<Rightarrow> string option"
  gc_base64 :: "nat list \<Rightarrow> string"
  gc_unbase64 :: "string \<Rightarrow> nat list option"

definition cipher_error :: "string \<Rightarrow> exn" where
  "cipher_error message = AppErr (mk_app_error ''CipherError'' \<lparr>
     opt_code = ''crypto.cipher_failed'', opt_message = message, opt_statusCode = Some 500,
     opt_retryable = Some False, opt_context = None, opt_exposeMessage = Some False\<rparr>)"

text \<open>The constructor: a cipher is its key.\<close>

definition make_cipher :: "nat list \<Rightarrow> exn + nat list" where
  "make_cipher key =
     (if length key \<noteq> KEY_LEN
      then Inl (AppErr (validation_error (''Cipher key must be exactly '' @ nat_string KEY_LEN @ '' bytes; got '' @
        nat_string (length key) @ ''.'') (Some ''crypto.invalid_key_length'') None))
      else Inr key)"

definition decode_key :: "aead \<Rightarrow> string \<Rightarrow> exn + nat list" where
  "decode_key c b64 =
     (case gc_unbase64 c b64 of
        None \<Rightarrow> Inl (AppErr (validation_error ''ENCRYPTION_KEY is not valid base64'' (Some ''crypto.invalid_key_format'') None))
      | Some buf \<Rightarrow>
          if length buf \<noteq> KEY_LEN
          then Inl (AppErr (validation_error (''ENCRYPTION_KEY must decode to '' @ nat_string KEY_LEN @ '' bytes; got '' @
            nat_string (length buf) @ ''.'') (Some ''crypto.invalid_key_length'') None))
          else Inr buf)"

text \<open>The vector is drawn at random; here it is given.\<close>

definition encrypt :: "aead \<Rightarrow> nat list \<Rightarrow> nat list \<Rightarrow> string \<Rightarrow> string" where
  "encrypt c key iv plaintext =
     (case gc_seal c key iv plaintext of (tag, ciphertext) \<Rightarrow> ''v1'' @ '':'' @ gc_base64 c (iv @ tag @ ciphertext))"

definition decrypt :: "aead \<Rightarrow> nat list \<Rightarrow> string \<Rightarrow> exn + string" where
  "decrypt c key value =
     (let version = takeWhile (\<lambda>x. x \<noteq> CHR '':'') value in
      if length version = length value then Inl (cipher_error ''Ciphertext missing version prefix'')
      else if version \<noteq> ''v1'' then Inl (cipher_error (''Unsupported ciphertext version: '' @ version))
      else (case gc_unbase64 c (drop (length version + 1) value) of
        None \<Rightarrow> Inl (cipher_error ''Ciphertext is not valid base64'')
      | Some payload \<Rightarrow>
          if length payload < IV_LEN + TAG_LEN then Inl (cipher_error ''Ciphertext payload too short'')
          else (case gc_open c key (take IV_LEN payload) (take TAG_LEN (drop IV_LEN payload)) (drop (IV_LEN + TAG_LEN) payload) of
            None \<Rightarrow> Inl (cipher_error ''Decryption failed (tampered or wrong key)'')
          | Some plaintext \<Rightarrow> Inr plaintext)))"

section \<open>Sessions\<close>

record session =
  sn_id :: string
  sn_shop :: string
  sn_scope :: "string option"
  sn_accessToken :: "string option"

text \<open>The storage inside: operations on the database that may throw.\<close>

record inner_storage =
  is_store :: "session \<Rightarrow> db \<Rightarrow> db \<times> (exn + bool)"
  is_load :: "string \<Rightarrow> db \<Rightarrow> exn + session option"
  is_delete :: "string list \<Rightarrow> db \<Rightarrow> db \<times> (exn + bool)"
  is_by_shop :: "string \<Rightarrow> db \<Rightarrow> exn + session list"

definition store_session ::
  "aead \<Rightarrow> nat list \<Rightarrow> nat list \<Rightarrow> inner_storage \<Rightarrow> session \<Rightarrow> db \<Rightarrow> db \<times> (exn + bool)" where
  "store_session c key iv inner sn =
     (case sn_accessToken sn of
        None \<Rightarrow> is_store inner sn
      | Some original \<Rightarrow>
          if original = [] then is_store inner sn
          else is_store inner (sn\<lparr>sn_accessToken := Some (encrypt c key iv original)\<rparr>))"

text \<open>A token that does not decrypt is dropped.\<close>

definition open_session :: "aead \<Rightarrow> nat list \<Rightarrow> session \<Rightarrow> session" where
  "open_session c key sn =
     (case sn_accessToken sn of
        None \<Rightarrow> sn
      | Some stored \<Rightarrow>
          if stored = [] then sn
          else (case decrypt c key stored of
            Inr token \<Rightarrow> sn\<lparr>sn_accessToken := Some token\<rparr>
          | Inl _ \<Rightarrow> sn\<lparr>sn_accessToken := None\<rparr>))"

definition load_session :: "aead \<Rightarrow> nat list \<Rightarrow> inner_storage \<Rightarrow> string \<Rightarrow> db \<Rightarrow> exn + session option" where
  "load_session c key inner i s = rbind (is_load inner i s) (\<lambda>r. Inr (map_option (open_session c key) r))"

definition find_sessions_by_shop :: "aead \<Rightarrow> nat list \<Rightarrow> inner_storage \<Rightarrow> string \<Rightarrow> db \<Rightarrow> exn + session list" where
  "find_sessions_by_shop c key inner shop s = rbind (is_by_shop inner shop s) (\<lambda>r. Inr (map (open_session c key) r))"

definition delete_sessions :: "inner_storage \<Rightarrow> string list \<Rightarrow> db \<Rightarrow> db \<times> (exn + bool)" where
  "delete_sessions inner ids s = (if ids = [] then (s, Inr True) else is_delete inner ids s)"

section \<open>Session tokens\<close>

datatype token_reason = InvalidJwt | WrongAudience | WrongDest | WrongIssuer | MissingClaim

fun reason_string :: "token_reason \<Rightarrow> string" where
  "reason_string InvalidJwt = ''invalid_jwt''"
| "reason_string WrongAudience = ''wrong_audience''"
| "reason_string WrongDest = ''wrong_dest''"
| "reason_string WrongIssuer = ''wrong_issuer''"
| "reason_string MissingClaim = ''missing_claim''"

definition session_token_error :: "token_reason \<Rightarrow> string \<Rightarrow> app_error" where
  "session_token_error reason message = mk_app_error ''ShopifySessionTokenError'' \<lparr>
     opt_code = ''shopify.session_token.'' @ reason_string reason, opt_message = message, opt_statusCode = Some 401,
     opt_retryable = Some False, opt_context = None, opt_exposeMessage = Some False\<rparr>"

record jwt_payload =
  jw_dest :: json
  jw_iss :: json

text \<open>What the SDK's decoder throws: an \<open>InvalidJwtError\<close> with its message, or anything else.\<close>

datatype decode_failure = InvalidJwtError string | OtherFailure exn

text \<open>
  The surroundings of the routes. \<open>au_decode\<close> checks the signature, the times and the audience of
  a token; \<open>au_host\<close> is the host name of a URL, if it is one; \<open>au_encode\<close> encodes a component.
\<close>

record exchange_failure =
  ef_providerStatus :: "int option"
  ef_message :: string

record auth_env =
  au_decode :: "string \<Rightarrow> decode_failure + jwt_payload"
  au_host :: "string \<Rightarrow> string option"
  au_encode :: "string \<Rightarrow> string"
  au_exchange :: "string \<Rightarrow> string \<Rightarrow> exchange_failure + session"
  au_aead :: aead
  au_key :: "nat list"
  au_iv :: "nat list"
  au_inner :: inner_storage
  au_newId :: merchant_id
  au_eventId :: string
  au_appUrl :: string

definition decode_and_verify_session_token ::
  "auth_env \<Rightarrow> string \<Rightarrow> string \<Rightarrow> (token_reason \<times> string) + jwt_payload" where
  "decode_and_verify_session_token e token expectedShop =
     (if \<not> is_valid_shop_domain expectedShop
      then Inl (WrongDest, ''Expected shop is not a valid Shopify shop domain: '' @ expectedShop)
      else case au_decode e token of
        Inl (InvalidJwtError message) \<Rightarrow>
          Inl (if occurs_in ''invalid API key'' message then WrongAudience else InvalidJwt, message)
      | Inl (OtherFailure err) \<Rightarrow>
          Inl (InvalidJwt, ''Session-token verification threw unexpectedly: '' @ exn_message err)
      | Inr payload \<Rightarrow>
          (case parse_domain (jw_dest payload) of
             None \<Rightarrow> Inl (MissingClaim, ''Session token missing required `dest` claim'')
           | Some dest \<Rightarrow>
               (case parse_domain (jw_iss payload) of
                  None \<Rightarrow> Inl (MissingClaim, ''Session token missing required `iss` claim'')
                | Some iss \<Rightarrow>
                    (case au_host e dest of
                       None \<Rightarrow> Inl (WrongDest, ''Session token `dest` is not a valid URL: '' @ dest)
                     | Some destShop \<Rightarrow>
                         if map lower_char destShop \<noteq> map lower_char expectedShop
                         then Inl (WrongDest, ''Session token issued for '' @ destShop @ '' but presented for '' @
                           expectedShop @ '' (cross-shop replay attempt)'')
                         else (case au_host e iss of
                             None \<Rightarrow> Inl (WrongIssuer, ''Session token `iss` is not a valid URL: '' @ iss)
                           | Some issShop \<Rightarrow>
                               if map lower_char issShop \<noteq> map lower_char expectedShop
                               then Inl (WrongIssuer, ''Session token `iss` shop '' @ issShop @
                                 '' does not match expected '' @ expectedShop)
                               else Inr payload)))))"

section \<open>Requests of the admin\<close>

record admin_request =
  aq_shop :: "string option"
  aq_host :: "string option"
  aq_idToken :: "string option"
  aq_authorization :: "string option"

record admin_context =
  ac_merchantId :: merchant_id
  ac_shop :: string
  ac_installedAt :: time
  ac_host :: string

datatype refusal = MissingShop | NoToken | TokenInvalid token_reason | RedirectToAuth string

text \<open>The token of the header, else that of the query.\<close>

definition presented_token :: "admin_request \<Rightarrow> string option" where
  "presented_token r =
     (let bearer = (case aq_authorization r of
           None \<Rightarrow> None
         | Some h \<Rightarrow> if starts_with ''Bearer '' h then
               (let b = trim (drop (length ''Bearer '') h) in if b \<noteq> [] then Some b else None)
             else None) in
      case bearer of Some b \<Rightarrow> Some b
      | None \<Rightarrow> (case aq_idToken r of None \<Rightarrow> None | Some t \<Rightarrow> if t \<noteq> [] then Some t else None))"

definition lookup_merchant_or_redirect :: "string \<Rightarrow> string \<Rightarrow> string \<Rightarrow> db \<Rightarrow> refusal + admin_context" where
  "lookup_merchant_or_redirect shop host redirect s =
     (case find_row (\<lambda>r. me_shop r = shop) (merchants s) of
        None \<Rightarrow> Inl (RedirectToAuth redirect)
      | Some m \<Rightarrow> Inr \<lparr>ac_merchantId = me_id m, ac_shop = me_shop m, ac_installedAt = me_installedAt m, ac_host = host\<rparr>)"

definition require_admin_auth :: "auth_env \<Rightarrow> admin_request \<Rightarrow> db \<Rightarrow> refusal + admin_context" where
  "require_admin_auth e r s =
     (case Option.bind (aq_shop r) normalize_shop_domain of
        None \<Rightarrow> Inl MissingShop
      | Some shop \<Rightarrow>
          (case presented_token r of
             None \<Rightarrow> Inl NoToken
           | Some token \<Rightarrow>
               (case decode_and_verify_session_token e token shop of
                  Inl (reason, _) \<Rightarrow> Inl (TokenInvalid reason)
                | Inr _ \<Rightarrow> lookup_merchant_or_redirect shop (or_default (aq_host r) [])
                    (''/auth?shop='' @ au_encode e shop @ ''&id_token='' @ au_encode e token) s)))"

section \<open>The token exchange\<close>

definition shopify_token_exchange_error :: "exchange_failure \<Rightarrow> exn" where
  "shopify_token_exchange_error f = AppErr ((integration_error (''Shopify token exchange failed: '' @ ef_message f)
     (Some ''shopify.token_exchange_failed'') (Some ''shopify'') (ef_providerStatus f) (Some False) None)
       \<lparr>err_name := ''ShopifyTokenExchangeError''\<rparr>)"

definition token_exchange_for_shop :: "auth_env \<Rightarrow> string \<Rightarrow> string \<Rightarrow> exn + session" where
  "token_exchange_for_shop e shop token =
     (if \<not> is_valid_shop_domain shop then Inl (shopify_invalid_shop_error shop)
      else case au_exchange e shop token of
        Inl f \<Rightarrow> Inl (shopify_token_exchange_error f)
      | Inr sn \<Rightarrow> Inr sn)"

section \<open>Webhook subscriptions\<close>

definition topic_header_to_graphql_enum :: "string \<Rightarrow> string" where
  "topic_header_to_graphql_enum topic = replace_all ''/'' ''_'' (map upper_char topic)"

definition SUBSCRIBE_EXCLUDED_TOPICS :: "string list" where
  "SUBSCRIBE_EXCLUDED_TOPICS = [''app/scopes_update'']"

record subscribe_result =
  sr_topic :: string
  sr_subscriptionId :: "string option"
  sr_errors :: "string list"

definition subscribe_one ::
  "'w backfill_env \<Rightarrow> merchant_id \<Rightarrow> string \<Rightarrow> string \<Rightarrow> 'w admin_state \<Rightarrow> 'w admin_state \<times> subscribe_result" where
  "subscribe_one e m callbackUrl topic st =
     (case graphql e m (SubscribeMutation (topic_header_to_graphql_enum topic) callbackUrl) (Some 10) st of
        (st1, Inl err) \<Rightarrow> (st1, \<lparr>sr_topic = topic, sr_subscriptionId = None, sr_errors = [exn_message err]\<rparr>)
      | (st1, Inr d) \<Rightarrow>
          (st1, \<lparr>sr_topic = topic, sr_subscriptionId = Option.bind (rd_subscription d) sb_id,
            sr_errors = (case rd_subscription d of None \<Rightarrow> [] | Some w \<Rightarrow> sb_userErrors w)\<rparr>))"

fun subscribe_each ::
  "'w backfill_env \<Rightarrow> merchant_id \<Rightarrow> string \<Rightarrow> string list \<Rightarrow> 'w admin_state \<Rightarrow> 'w admin_state \<times> subscribe_result list" where
  "subscribe_each e m callbackUrl [] st = (st, [])"
| "subscribe_each e m callbackUrl (t # ts) st =
     (case subscribe_one e m callbackUrl t st of
        (st1, r) \<Rightarrow> (case subscribe_each e m callbackUrl ts st1 of (st2, rs) \<Rightarrow> (st2, r # rs)))"

definition subscribe_all_webhooks ::
  "'w backfill_env \<Rightarrow> merchant_id \<Rightarrow> string \<Rightarrow> 'w admin_state \<Rightarrow> 'w admin_state \<times> subscribe_result list" where
  "subscribe_all_webhooks e m callbackUrl =
     subscribe_each e m callbackUrl
       (filter (\<lambda>t. \<not> List.member SUBSCRIBE_EXCLUDED_TOPICS t) (map fst WEBHOOK_TOPIC_TO_EVENT))"

section \<open>The install route\<close>

datatype auth_response =
    InvalidShopParameter
  | IdTokenRequired
  | SessionTokenInvalid token_reason
  | TokenExchangeFailed
  | InstallFailed
  | SessionStoreFailed
  | Redirect string

record auth_request =
  at_shop :: "string option"
  at_idToken :: "string option"
  at_host :: "string option"

definition redirect_to_app_root :: "auth_env \<Rightarrow> string \<Rightarrow> string option \<Rightarrow> auth_response" where
  "redirect_to_app_root e shop host =
     Redirect (au_appUrl e @ ''/?shop='' @ au_encode e shop @
       (case host of None \<Rightarrow> [] | Some h \<Rightarrow> if h \<noteq> [] then ''&host='' @ au_encode e h else []))"

text \<open>Both ways the subscription can end lead to the same redirect; only the log differs.\<close>

definition try_subscribe_all_webhooks ::
  "auth_env \<Rightarrow> 'w backfill_env \<Rightarrow> string \<Rightarrow> merchant_id \<Rightarrow> string option \<Rightarrow> 'w admin_state \<Rightarrow>
   'w admin_state \<times> auth_response option" where
  "try_subscribe_all_webhooks e a shop m host st =
     (case subscribe_all_webhooks a m (au_appUrl e @ ''/webhooks'') (build_admin_client st) of
        (st1, results) \<Rightarrow> (st1,
          if filter (\<lambda>r. 0 < length (sr_errors r)) results \<noteq> [] then Some (redirect_to_app_root e shop host) else None))"

definition run_token_exchange_bootstrap ::
  "auth_env \<Rightarrow> 'w backfill_env \<Rightarrow> string \<Rightarrow> string \<Rightarrow> string option \<Rightarrow> 'w admin_state \<Rightarrow> 'w admin_state \<times> auth_response" where
  "run_token_exchange_bootstrap e a shop idToken host st =
     (case decode_and_verify_session_token e idToken shop of
        Inl (reason, _) \<Rightarrow> (st, SessionTokenInvalid reason)
      | Inr _ \<Rightarrow>
          (case token_exchange_for_shop e shop idToken of
             Inl _ \<Rightarrow> (st, TokenExchangeFailed)
           | Inr sn \<Rightarrow>
               (case complete_install (au_newId e) (au_eventId e) (ad_now st)
                   \<lparr>ia_shop = shop, ia_accessToken = or_default (sn_accessToken sn) [], ia_scope = or_default (sn_scope sn) []\<rparr>
                   (ad_db st) of
                  (s1, Inl _) \<Rightarrow> (st\<lparr>ad_db := s1\<rparr>, InstallFailed)
                | (s1, Inr (m, isNew)) \<Rightarrow>
                    (case store_session (au_aead e) (au_key e) (au_iv e) (au_inner e) sn s1 of
                       (s2, Inl _) \<Rightarrow> (st\<lparr>ad_db := s2\<rparr>, SessionStoreFailed)
                     | (s2, Inr _) \<Rightarrow>
                         if isNew
                         then (case try_subscribe_all_webhooks e a shop m host (st\<lparr>ad_db := s2\<rparr>) of
                             (st3, Some response) \<Rightarrow> (st3, response)
                           | (st3, None) \<Rightarrow> (st3, redirect_to_app_root e shop host))
                         else (st\<lparr>ad_db := s2\<rparr>, redirect_to_app_root e shop host)))))"

definition auth_loader ::
  "auth_env \<Rightarrow> 'w backfill_env \<Rightarrow> auth_request \<Rightarrow> 'w admin_state \<Rightarrow> 'w admin_state \<times> auth_response" where
  "auth_loader e a r st =
     (case Option.bind (at_shop r) normalize_shop_domain of
        None \<Rightarrow> (st, InvalidShopParameter)
      | Some shop \<Rightarrow>
          (case at_idToken r of
             None \<Rightarrow> (st, IdTokenRequired)
           | Some idToken \<Rightarrow>
               if idToken = [] then (st, IdTokenRequired)
               else run_token_exchange_bootstrap e a shop idToken (at_host r) st))"

section \<open>One token, one shop\<close>

lemma lower_char_idem [simp]: "lower_char (lower_char c) = lower_char c"
  by (cases c rule: char.exhaust) (auto simp: lower_char_def)

lemma normalized_lower: "normalize_shop_domain raw = Some shop \<Longrightarrow> map lower_char shop = shop"
  by (auto simp: normalize_shop_domain_def split: if_splits)

lemma verified_token:
  assumes "decode_and_verify_session_token e token shop = Inr payload"
  shows "au_decode e token = Inr payload"
    and "\<exists>dest host. jw_dest payload = JStr dest \<and> au_host e dest = Some host \<and> map lower_char host = map lower_char shop"
    and "\<exists>iss host. jw_iss payload = JStr iss \<and> au_host e iss = Some host \<and> map lower_char host = map lower_char shop"
proof -
  have str: "parse_domain j = Some d \<Longrightarrow> j = JStr d" for j d by (cases j) (auto split: if_splits)
  from assms show "au_decode e token = Inr payload"
    and "\<exists>dest host. jw_dest payload = JStr dest \<and> au_host e dest = Some host \<and> map lower_char host = map lower_char shop"
    and "\<exists>iss host. jw_iss payload = JStr iss \<and> au_host e iss = Some host \<and> map lower_char host = map lower_char shop"
    by (auto simp: decode_and_verify_session_token_def dest!: str
        split: if_splits sum.splits decode_failure.splits option.splits)
qed

lemma require_admin_auth_D:
  assumes "require_admin_auth e r s = Inr ctx"
  obtains token payload dest host row where "presented_token r = Some token" "au_decode e token = Inr payload"
    "jw_dest payload = JStr dest" "au_host e dest = Some host" "map lower_char host = ac_shop ctx"
    "find_row (\<lambda>x. me_shop x = ac_shop ctx) (merchants s) = Some row" "me_id row = ac_merchantId ctx"
proof -
  from assms obtain shop token payload row where sh: "Option.bind (aq_shop r) normalize_shop_domain = Some shop"
    and t: "presented_token r = Some token" and d: "decode_and_verify_session_token e token shop = Inr payload"
    and row: "find_row (\<lambda>x. me_shop x = shop) (merchants s) = Some row"
    and ctx: "ac_merchantId ctx = me_id row" "ac_shop ctx = me_shop row"
    by (auto simp: require_admin_auth_def lookup_merchant_or_redirect_def split: option.splits sum.splits)
  from sh have low: "map lower_char shop = shop" by (cases "aq_shop r") (auto dest: normalized_lower)
  from row have "me_shop row = shop" by (auto dest: find_row_Some_D)
  with ctx row low t verified_token [OF d] that show ?thesis by metis
qed

text \<open>
  C11. A session token opens one shop only. Whoever is let in presented a token that the SDK
  accepts and that names, as its destination, the very shop of the merchant they are given;
  the same token never lets anyone into another shop, whatever else the request says.
\<close>

theorem token_opens_one_shop:
  assumes "require_admin_auth e r s = Inr ctx" and "require_admin_auth e r' s = Inr ctx'"
    and "presented_token r' = presented_token r"
  shows "ac_shop ctx' = ac_shop ctx \<and> ac_merchantId ctx' = ac_merchantId ctx
    \<and> (\<exists>token payload dest. presented_token r = Some token \<and> au_decode e token = Inr payload \<and> jw_dest payload = JStr dest
        \<and> map_option (map lower_char) (au_host e dest) = Some (ac_shop ctx))
    \<and> find_by_shop (ac_shop ctx) s = Some (ac_merchantId ctx)"
proof -
  from assms(1) obtain token payload dest host row where c: "presented_token r = Some token" "au_decode e token = Inr payload"
    "jw_dest payload = JStr dest" "au_host e dest = Some host" "map lower_char host = ac_shop ctx"
    "find_row (\<lambda>x. me_shop x = ac_shop ctx) (merchants s) = Some row" "me_id row = ac_merchantId ctx"
    by (rule require_admin_auth_D)
  from assms(2) obtain token' payload' dest' host' row' where c': "presented_token r' = Some token'" "au_decode e token' = Inr payload'"
    "jw_dest payload' = JStr dest'" "au_host e dest' = Some host'" "map lower_char host' = ac_shop ctx'"
    "find_row (\<lambda>x. me_shop x = ac_shop ctx') (merchants s) = Some row'" "me_id row' = ac_merchantId ctx'"
    by (rule require_admin_auth_D)
  have "ac_shop ctx' = ac_shop ctx" using c(1-5) c'(1-5) assms(3) by simp
  then show ?thesis using c c'(6,7) by (auto simp: find_by_shop_def)
qed

section \<open>Tokens at rest\<close>

text \<open>What the storage relies on of AES-GCM and base64, and of the table behind it.\<close>

definition sound_aead :: "aead \<Rightarrow> nat list \<Rightarrow> nat list \<Rightarrow> bool" where
  "sound_aead c key iv \<longleftrightarrow> length iv = IV_LEN \<and> list_all (\<lambda>x. x < 256) iv
     \<and> (\<forall>p. case gc_seal c key iv p of (tag, ct) \<Rightarrow> length tag = TAG_LEN \<and> list_all (\<lambda>x. x < 256) tag
          \<and> list_all (\<lambda>x. x < 256) ct \<and> gc_open c key iv tag ct = Some p)
     \<and> (\<forall>b. list_all (\<lambda>x. x < 256) b \<longrightarrow> gc_unbase64 c (gc_base64 c b) = Some b)"

text \<open>
  The table returns a session under its id as it was stored; the column of the token is not null,
  so an absent token may come back as an empty one (and an empty one as absent).
\<close>

definition token_present :: "session \<Rightarrow> bool" where
  "token_present x \<longleftrightarrow> sn_accessToken x \<noteq> None \<and> sn_accessToken x \<noteq> Some []"

definition remembers :: "inner_storage \<Rightarrow> bool" where
  "remembers inner \<longleftrightarrow> (\<forall>x s s'. is_store inner x s = (s', Inr True) \<longrightarrow>
     (\<exists>y. is_load inner (sn_id x) s' = Inr (Some y) \<and> y\<lparr>sn_accessToken := None\<rparr> = x\<lparr>sn_accessToken := None\<rparr>
        \<and> (if token_present x then sn_accessToken y = sn_accessToken x else \<not> token_present y)))"

lemma remembersD:
  assumes "remembers inner" and "is_store inner x s = (s', Inr True)"
  obtains y where "is_load inner (sn_id x) s' = Inr (Some y)"
    "y\<lparr>sn_accessToken := None\<rparr> = x\<lparr>sn_accessToken := None\<rparr>"
    "if token_present x then sn_accessToken y = sn_accessToken x else \<not> token_present y"
  using assms unfolding remembers_def by blast

lemma same_but_token:
  "y\<lparr>sn_accessToken := None\<rparr> = x\<lparr>sn_accessToken := None\<rparr> \<Longrightarrow> sn_accessToken y = sn_accessToken x \<Longrightarrow>
    y = (x :: session)"
  by (cases x; cases y) simp

lemma decrypt_payload:
  "gc_unbase64 c text64 = Some payload \<Longrightarrow> IV_LEN + TAG_LEN \<le> length payload \<Longrightarrow>
   decrypt c key (''v1:'' @ text64) =
     (case gc_open c key (take IV_LEN payload) (take TAG_LEN (drop IV_LEN payload)) (drop (IV_LEN + TAG_LEN) payload) of
        None \<Rightarrow> Inl (cipher_error ''Decryption failed (tampered or wrong key)'') | Some p \<Rightarrow> Inr p)"
  by (simp add: decrypt_def Let_def)

lemma decrypt_encrypt:
  assumes "sound_aead c key iv" and "gc_seal c key iv p = (tag, ct)"
  shows "decrypt c key' (encrypt c key iv p) =
    (case gc_open c key' iv tag ct of None \<Rightarrow> Inl (cipher_error ''Decryption failed (tampered or wrong key)'') | Some p \<Rightarrow> Inr p)"
proof -
  have len: "length iv = IV_LEN" "length tag = TAG_LEN" and bytes: "list_all (\<lambda>x. x < 256) (iv @ tag @ ct)"
    using assms by (auto simp: sound_aead_def dest: spec [of _ p])
  then have "gc_unbase64 c (gc_base64 c (iv @ tag @ ct)) = Some (iv @ tag @ ct)"
    using assms(1) by (simp add: sound_aead_def)
  with len assms(2) show ?thesis using decrypt_payload [of c "gc_base64 c (iv @ tag @ ct)" "iv @ tag @ ct" key']
    by (simp add: encrypt_def)
qed

text \<open>
  C21. Tokens at rest. A session with a token that was stored is loaded as it was, access token
  included, and what the table holds of the token is its sealed form; under a key that does not
  open it the session comes back without any token, never with the sealed one. A session stored
  without a token (or with an empty one) comes back the same but for the token, of which it has
  none or an empty one.
\<close>

theorem stored_token_round_trip:
  assumes "sound_aead c key iv" and "remembers inner"
    and "store_session c key iv inner sn s = (s', Inr True)"
  shows "(\<not> token_present sn \<longrightarrow>
        (\<exists>y. load_session c key inner (sn_id sn) s' = Inr (Some y)
          \<and> y\<lparr>sn_accessToken := None\<rparr> = sn\<lparr>sn_accessToken := None\<rparr> \<and> sn_accessToken y \<in> {None, Some []}))
    \<and> (\<forall>token. sn_accessToken sn = Some token \<longrightarrow> token \<noteq> [] \<longrightarrow>
        load_session c key inner (sn_id sn) s' = Inr (Some sn)
      \<and> is_load inner (sn_id sn) s' = Inr (Some (sn\<lparr>sn_accessToken := Some (encrypt c key iv token)\<rparr>))
      \<and> (\<forall>key'. (case gc_seal c key iv token of (tag, ct) \<Rightarrow> gc_open c key' iv tag ct = None) \<longrightarrow>
           load_session c key' inner (sn_id sn) s' = Inr (Some (sn\<lparr>sn_accessToken := None\<rparr>))))"
proof (cases "token_present sn")
  case False
  with assms(3) have "is_store inner sn s = (s', Inr True)"
    by (auto simp: store_session_def token_present_def split: option.splits)
  from remembersD [OF assms(2) this] False obtain y where y: "is_load inner (sn_id sn) s' = Inr (Some y)"
    "y\<lparr>sn_accessToken := None\<rparr> = sn\<lparr>sn_accessToken := None\<rparr>" "\<not> token_present y" by auto
  then have "load_session c key inner (sn_id sn) s' = Inr (Some y)"
    by (auto simp: load_session_def open_session_def token_present_def)
  with y False show ?thesis by (auto simp: token_present_def)
next
  case True
  then obtain token where t: "sn_accessToken sn = Some token" "token \<noteq> []" by (auto simp: token_present_def)
  let ?sealed = "sn\<lparr>sn_accessToken := Some (encrypt c key iv token)\<rparr>"
  obtain tag ct where seal: "gc_seal c key iv token = (tag, ct)" by (metis surj_pair)
  have opens: "gc_open c key iv tag ct = Some token"
    using assms(1) seal by (auto simp: sound_aead_def dest: spec [of _ token])
  have ne: "encrypt c key iv token \<noteq> []" by (simp add: encrypt_def seal)
  from assms(3) t have "is_store inner ?sealed s = (s', Inr True)" by (simp add: store_session_def)
  from remembersD [OF assms(2) this] obtain y where y: "is_load inner (sn_id sn) s' = Inr (Some y)"
    "y\<lparr>sn_accessToken := None\<rparr> = ?sealed\<lparr>sn_accessToken := None\<rparr>" "sn_accessToken y = sn_accessToken ?sealed"
    using ne by (auto simp: token_present_def)
  from y(1) same_but_token [OF y(2,3)] have load: "is_load inner (sn_id sn) s' = Inr (Some ?sealed)" by simp
  have "sn\<lparr>sn_accessToken := Some token\<rparr> = sn" using t(1) by simp
  then show ?thesis
    using load ne opens t True by (auto simp: load_session_def open_session_def decrypt_encrypt [OF assms(1) seal] seal)
qed

definition demo_aead :: aead where
  "demo_aead = \<lparr>gc_seal = (\<lambda>key iv p. (replicate TAG_LEN (length key), map of_char p)),
     gc_open = (\<lambda>key iv tag ct. if tag = replicate TAG_LEN (length key) then Some (map char_of ct) else None),
     gc_base64 = map char_of, gc_unbase64 = (\<lambda>t. Some (map of_char t))\<rparr>"

definition demo_inner :: inner_storage where
  "demo_inner = \<lparr>is_store = (\<lambda>x s. case (sn_scope x, sn_accessToken x) of
       (None, token) \<Rightarrow> (s\<lparr>sessions := \<lparr>ss_id = sn_id x, ss_shop = sn_shop x,
          ss_accessToken = or_default token []\<rparr> # sessions s\<rparr>, Inr True)
     | _ \<Rightarrow> (s, Inl (PlainErr ''column''))),
     is_load = (\<lambda>i s. Inr (map_option (\<lambda>r. \<lparr>sn_id = ss_id r, sn_shop = ss_shop r, sn_scope = None,
       sn_accessToken = Some (ss_accessToken r)\<rparr>) (find_row (\<lambda>r. ss_id r = i) (sessions s)))),
     is_delete = (\<lambda>ids s. (s\<lparr>sessions := filter (\<lambda>r. ss_id r \<notin> set ids) (sessions s)\<rparr>, Inr True)),
     is_by_shop = (\<lambda>shop s. Inr [])\<rparr>"

lemma demo_remembers: "remembers demo_inner"
  by (auto simp: remembers_def demo_inner_def find_row_Cons token_present_def or_default_def split: option.splits)

lemma demo_sound: "sound_aead demo_aead [1] (replicate IV_LEN 0)"
  by (auto simp: sound_aead_def demo_aead_def TAG_LEN_def IV_LEN_def list_all_iff comp_def map_idI)

definition demo_session :: session where
  "demo_session = \<lparr>sn_id = ''offline_a'', sn_shop = ''a'', sn_scope = None, sn_accessToken = Some ''secret''\<rparr>"

theorem stored_token_round_trip_witness:
  "\<exists>s'. store_session demo_aead [1] (replicate IV_LEN 0) demo_inner demo_session empty_db = (s', Inr True)
    \<and> load_session demo_aead [1] demo_inner ''offline_a'' s' = Inr (Some demo_session)"
proof -
  obtain s' where run: "store_session demo_aead [1] (replicate IV_LEN 0) demo_inner demo_session empty_db = (s', Inr True)"
    by (simp add: store_session_def demo_session_def demo_inner_def)
  have "sn_id demo_session = ''offline_a''" by (simp add: demo_session_def)
  with stored_token_round_trip [OF demo_sound demo_remembers run] run show ?thesis
    by (simp add: demo_session_def)
qed

section \<open>An install that failed half way\<close>

text \<open>Requests to the route one after the other, each in its own surroundings.\<close>

fun auth_requests :: "(auth_env \<times> 'w backfill_env \<times> auth_request) list \<Rightarrow> 'w admin_state \<Rightarrow> 'w admin_state" where
  "auth_requests [] st = st"
| "auth_requests ((e, a, r) # rs) st = auth_requests rs (fst (auth_loader e a r st))"

text \<open>Storing a session does not touch the merchants.\<close>

definition stores_only :: "inner_storage \<Rightarrow> bool" where
  "stores_only inner \<longleftrightarrow> (\<forall>x s. merchants (fst (is_store inner x s)) = merchants s)"

definition request_of :: "string \<Rightarrow> auth_env \<times> 'w backfill_env \<times> auth_request \<Rightarrow> bool" where
  "request_of shop q \<longleftrightarrow> Option.bind (at_shop (snd (snd q))) normalize_shop_domain = Some shop \<and> stores_only (au_inner (fst q))"

lemma store_session_merchants:
  "stores_only inner \<Longrightarrow> store_session c key iv inner sn s = (s', r) \<Longrightarrow> merchants s' = merchants s"
  unfolding stores_only_def store_session_def by (auto split: option.splits if_splits) (metis fst_conv)+

lemma upsert_install_known:
  assumes "upsert_install newId now shop s = Inr (s1, (m, isNew))"
  shows "find_by_shop shop s1 \<noteq> None" and "isNew \<longleftrightarrow> find_by_shop shop s = None"
  using assms by (auto simp: upsert_install_def find_by_shop_def fresh_merchant_def find_row_append find_row_Cons
      find_update_many_key reinstall_def split: option.splits)

lemma complete_install_known:
  assumes "complete_install newId eid now a s = (s1, Inr (m, isNew))"
  shows "find_by_shop (ia_shop a) s1 \<noteq> None" and "isNew \<longleftrightarrow> find_by_shop (ia_shop a) s = None"
proof -
  from complete_install_D [OF assms] obtain sa where "upsert_install newId now (ia_shop a) s = Inr (sa, (m, isNew))"
    "merchants s1 = merchants sa" by blast
  with upsert_install_known [OF this(1)] show "find_by_shop (ia_shop a) s1 \<noteq> None" "isNew \<longleftrightarrow> find_by_shop (ia_shop a) s = None"
    by (simp_all add: find_by_shop_def)
qed

lemma complete_install_error: "complete_install newId eid now a s = (s1, Inl err) \<Longrightarrow> s1 = s"
  by (auto simp: complete_install_def transaction_def split: if_splits sum.splits)

text \<open>A request for a shop that is known sends nothing to Shopify and leaves it known.\<close>

lemma bootstrap_known_shop:
  assumes "find_by_shop shop (ad_db st) \<noteq> None" and "stores_only (au_inner e)"
  shows "find_by_shop shop (ad_db (fst (run_token_exchange_bootstrap e a shop t h st))) \<noteq> None
    \<and> ad_requests (fst (run_token_exchange_bootstrap e a shop t h st)) = ad_requests st"
proof (cases "\<exists>p sn. decode_and_verify_session_token e t shop = Inr p \<and> token_exchange_for_shop e shop t = Inr sn")
  case False
  then show ?thesis using assms(1)
    by (cases "decode_and_verify_session_token e t shop"; cases "token_exchange_for_shop e shop t")
      (auto simp: run_token_exchange_bootstrap_def)
next
  case True
  then obtain p sn where ok: "decode_and_verify_session_token e t shop = Inr p" "token_exchange_for_shop e shop t = Inr sn" by blast
  obtain s1 q where i: "complete_install (au_newId e) (au_eventId e) (ad_now st)
     \<lparr>ia_shop = shop, ia_accessToken = or_default (sn_accessToken sn) [], ia_scope = or_default (sn_scope sn) []\<rparr> (ad_db st) = (s1, q)"
    by (metis surj_pair)
  show ?thesis
  proof (cases q)
    case (Inl err)
    with ok i complete_install_error [OF i [unfolded Inl]] assms(1) show ?thesis by (simp add: run_token_exchange_bootstrap_def)
  next
    case (Inr r)
    obtain m isNew where r: "r = (m, isNew)" by (cases r)
    note known = complete_install_known [OF i [unfolded Inr r], simplified]
    obtain s2 b where ss: "store_session (au_aead e) (au_key e) (au_iv e) (au_inner e) sn s1 = (s2, b)" by (metis surj_pair)
    have "find_by_shop shop s2 \<noteq> None"
      using known(1) store_session_merchants [OF assms(2) ss] by (simp add: find_by_shop_def)
    with ok i Inr r ss known(2) assms(1) show ?thesis
      by (cases b) (auto simp: run_token_exchange_bootstrap_def)
  qed
qed

lemma auth_requests_known_shop:
  assumes "find_by_shop shop (ad_db st) \<noteq> None" and "list_all (request_of shop) rs"
  shows "find_by_shop shop (ad_db (auth_requests rs st)) \<noteq> None \<and> ad_requests (auth_requests rs st) = ad_requests st"
  using assms
proof (induction rs arbitrary: st)
  case (Cons q rs)
  obtain e a r where q: "q = (e, a, r)" by (metis prod_cases3)
  from Cons.prems(2) q have sh: "Option.bind (at_shop r) normalize_shop_domain = Some shop" and so: "stores_only (au_inner e)"
    by (simp_all add: request_of_def)
  have "find_by_shop shop (ad_db (fst (auth_loader e a r st))) \<noteq> None \<and> ad_requests (fst (auth_loader e a r st)) = ad_requests st"
    using bootstrap_known_shop [OF Cons.prems(1) so] Cons.prems(1)
    by (auto simp: auth_loader_def sh split: option.splits)
  with Cons.IH [of "fst (auth_loader e a r st)"] Cons.prems(2) show ?case by (simp add: q)
qed simp

lemma bootstrap_store_failed:
  assumes "run_token_exchange_bootstrap e a shop t h st = (st1, SessionStoreFailed)" and "stores_only (au_inner e)"
  shows "find_by_shop shop (ad_db st1) \<noteq> None \<and> ad_requests st1 = ad_requests st"
proof -
  have no_redirect: "redirect_to_app_root e shop h \<noteq> SessionStoreFailed" by (simp add: redirect_to_app_root_def)
  have subscribed: "try_subscribe_all_webhooks e a shop m h st' \<noteq> (st'', Some SessionStoreFailed)" for m st' st''
    using no_redirect by (auto simp: try_subscribe_all_webhooks_def split: prod.splits if_splits)
  from assms(1) obtain sn m isNew s1 s2 err where
    i: "complete_install (au_newId e) (au_eventId e) (ad_now st) \<lparr>ia_shop = shop,
        ia_accessToken = or_default (sn_accessToken sn) [], ia_scope = or_default (sn_scope sn) []\<rparr> (ad_db st) = (s1, Inr (m, isNew))"
    and ss: "store_session (au_aead e) (au_key e) (au_iv e) (au_inner e) sn s1 = (s2, Inl err)" and st1: "st1 = st\<lparr>ad_db := s2\<rparr>"
    by (auto simp: run_token_exchange_bootstrap_def no_redirect subscribed split: sum.splits prod.splits if_splits option.splits)
  with complete_install_known(1) [OF i] store_session_merchants [OF assms(2) ss] show ?thesis by (simp add: find_by_shop_def)
qed

text \<open>
  C29. Half an install is never completed. When the request that installs a shop fails to store
  the session, after the install has been committed, it has not subscribed to any webhook, and
  no later request of that shop does: each finds the shop installed and takes the subscriptions
  to exist. The shop sends no webhooks, and no request ever reaches Shopify to change that.
\<close>

theorem failed_install_never_subscribes:
  assumes "auth_loader e a r st = (st1, SessionStoreFailed)" and "request_of shop (e, a, r)" and "list_all (request_of shop) rs"
  shows "ad_requests (auth_requests rs st1) = ad_requests st \<and> find_by_shop shop (ad_db (auth_requests rs st1)) \<noteq> None"
proof -
  from assms(2) have sh: "Option.bind (at_shop r) normalize_shop_domain = Some shop" and so: "stores_only (au_inner e)"
    by (simp_all add: request_of_def)
  from assms(1) sh obtain t where "run_token_exchange_bootstrap e a shop t (at_host r) st = (st1, SessionStoreFailed)"
    by (auto simp: auth_loader_def split: option.splits if_splits)
  from bootstrap_store_failed [OF this so] auth_requests_known_shop [of shop st1 rs] assms(3) show ?thesis by auto
qed

definition demo_auth :: "bool \<Rightarrow> auth_env" where
  "demo_auth works = \<lparr>au_decode = (\<lambda>t. Inr \<lparr>jw_dest = JStr t, jw_iss = JStr t\<rparr>), au_host = Some, au_encode = id,
     au_exchange = (\<lambda>shop t. Inr \<lparr>sn_id = ''offline_a'', sn_shop = shop, sn_scope = (if works then None else Some ''s''),
       sn_accessToken = Some ''secret''\<rparr>),
     au_aead = demo_aead, au_key = [1], au_iv = replicate IV_LEN 0, au_inner = demo_inner, au_newId = ''m1'',
     au_eventId = ''e1'', au_appUrl = ''https://app''\<rparr>"

definition demo_auth_request :: auth_request where
  "demo_auth_request = \<lparr>at_shop = Some ''a1.myshopify.com'', at_idToken = Some ''a1.myshopify.com'', at_host = None\<rparr>"

definition demo_start :: "unit admin_state" where
  "demo_start = \<lparr>ad_db = empty_db, ad_now = 0, ad_tracker = Map.empty, ad_world = (), ad_requests = []\<rparr>"

lemma demo_domain_lower: "normalize_shop_domain ''a1.myshopify.com'' = Some ''a1.myshopify.com''"
  by code_simp

lemma demo_request_of: "request_of ''a1.myshopify.com'' (demo_auth w, demo_offline, demo_auth_request)"
  by (auto simp: request_of_def demo_auth_def demo_auth_request_def demo_domain_lower stores_only_def demo_inner_def
      split: option.splits)

lemma demo_auth_fails: "\<exists>st1. auth_loader (demo_auth False) demo_offline demo_auth_request demo_start = (st1, SessionStoreFailed)"
  by (simp add: auth_loader_def demo_auth_request_def demo_domain_lower run_token_exchange_bootstrap_def
      decode_and_verify_session_token_def demo_install_ok demo_auth_def token_exchange_for_shop_def complete_install_def
      install_tx_def upsert_install_def find_by_shop_def find_row_def create_outbox_def demo_start_def empty_db_def
      store_session_def demo_inner_def)

theorem failed_install_never_subscribes_witness:
  "ad_requests (auth_requests [(demo_auth False, demo_offline, demo_auth_request), (demo_auth True, demo_offline, demo_auth_request)]
     demo_start) = []"
proof -
  obtain st1 where run: "auth_loader (demo_auth False) demo_offline demo_auth_request demo_start = (st1, SessionStoreFailed)"
    using demo_auth_fails by blast
  have "list_all (request_of ''a1.myshopify.com'') [(demo_auth True, demo_offline, demo_auth_request)]"
    using demo_request_of by simp
  from failed_install_never_subscribes [OF run demo_request_of this] run show ?thesis by (simp add: demo_start_def)
qed

definition demo_admin_request :: "string option \<Rightarrow> admin_request" where
  "demo_admin_request auth = \<lparr>aq_shop = Some ''a1.myshopify.com'', aq_host = None, aq_idToken = Some ''a1.myshopify.com'',
     aq_authorization = auth\<rparr>"

theorem token_opens_one_shop_witness:
  "\<exists>ctx. require_admin_auth (demo_auth True) (demo_admin_request None) demo_gone = Inr ctx \<and> ac_shop ctx = ''a1.myshopify.com''
    \<and> find_by_shop (ac_shop ctx) demo_gone = Some (ac_merchantId ctx)"
proof -
  obtain ctx where ok: "require_admin_auth (demo_auth True) (demo_admin_request None) demo_gone = Inr ctx" and "ac_shop ctx = ''a1.myshopify.com''"
    by (simp add: require_admin_auth_def demo_admin_request_def demo_domain_lower presented_token_def demo_auth_def
        decode_and_verify_session_token_def demo_install_ok lookup_merchant_or_redirect_def demo_gone_def find_row_def fresh_merchant_def)
  with token_opens_one_shop [OF ok ok refl] show ?thesis by blast
qed

end
