(* ===== verification/Operator.thy ===== *)
theory Operator
  imports Auth RescoreFacts OutboxFacts
begin

text \<open>
  The operator's commands (\<open>apps/cli/src\<close>): reading the arguments (\<open>argv.ts\<close>), replaying and
  dead-lettering an outbox event (\<open>commands/replay.ts\<close>, \<open>commands/dead-letter.ts\<close>, \<open>outbox.ts\<close>), the
  first scoring pass (\<open>commands/bulk-rescore.ts\<close>, \<open>scoring.ts\<close>) and the import of a shop's orders
  (\<open>commands/backfill-orders.ts\<close>, \<open>backfill.ts\<close>). A command's result is its exit code; what it
  prints is left out. And the periodic sweeps of the scheduler
  (\<open>apps/scheduler/src/handlers/decay-sweep.ts\<close>, \<open>enrichment-sweep.ts\<close>).
\<close>

section \<open>Arguments\<close>

text \<open>Every token that starts with two dashes takes the next one with it.\<close>

fun positionals :: "string list \<Rightarrow> string list" where
  "positionals [] = []"
| "positionals (t # ts) = (if starts_with ''--'' t then positionals (drop 1 ts) else t # positionals ts)"

definition get_positional :: "string list \<Rightarrow> nat \<Rightarrow> string option" where
  "get_positional args i = (let ps = positionals args in if i < length ps then Some (ps ! i) else None)"

fun get_flag :: "string list \<Rightarrow> string \<Rightarrow> string option" where
  "get_flag [] name = None"
| "get_flag (t # ts) name =
     (if t = ''--'' @ name
      then (case ts of [] \<Rightarrow> None | v # _ \<Rightarrow> if starts_with ''--'' v then None else Some v)
      else get_flag ts name)"

definition has_flag :: "string list \<Rightarrow> string \<Rightarrow> bool" where
  "has_flag args name \<longleftrightarrow> List.member args (''--'' @ name)"

definition get_required_flag :: "string list \<Rightarrow> string \<Rightarrow> string + string" where
  "get_required_flag args name =
     (case get_flag args name of
        None \<Rightarrow> Inl (''Missing required flag --'' @ name)
      | Some v \<Rightarrow> if v = [] then Inl (''Missing required flag --'' @ name) else Inr v)"

definition get_required_positional :: "string list \<Rightarrow> nat \<Rightarrow> string \<Rightarrow> string + string" where
  "get_required_positional args i name =
     (case get_positional args i of
        None \<Rightarrow> Inl (''Missing required positional argument <'' @ name @ ''>'') | Some v \<Rightarrow> Inr v)"

section \<open>Replaying and dead-lettering\<close>

record event_summary =
  es_id :: string
  es_merchantId :: merchant_id
  es_type :: string
  es_shop :: string

datatype replay_result = ReplayNotFound | NotInDlq event_summary | Replayed event_summary
datatype dead_letter_result = DeadLetterNotFound | EventAlreadyDeadLettered event_summary | EventDeadLettered event_summary

text \<open>The event with its merchant, whose row the foreign key guarantees.\<close>

definition summary_of :: "string \<Rightarrow> db \<Rightarrow> event_summary option" where
  "summary_of eid s =
     (case find_row (\<lambda>r. ob_id r = eid) (outbox s) of
        None \<Rightarrow> None
      | Some r \<Rightarrow> map_option (\<lambda>m. \<lparr>es_id = ob_id r, es_merchantId = ob_merchantId r, es_type = ob_type r, es_shop = me_shop m\<rparr>)
          (find_merchant s (ob_merchantId r)))"

definition operator_audit :: "audit_action \<Rightarrow> string \<Rightarrow> string \<Rightarrow> event_summary \<Rightarrow> audit_row" where
  "operator_audit action actorId reason ev = \<lparr>au_merchantId = Some (es_merchantId ev), au_shop = Some (es_shop ev),
     au_actorType = ActorOperator, au_actorId = actorId, au_action = action, au_targetType = ''outbox_event'',
     au_targetId = es_id ev, au_context = [(''reason'', AStr reason), (''eventType'', AStr (es_type ev))]\<rparr>"

definition replay_event :: "string \<Rightarrow> string \<Rightarrow> string \<Rightarrow> replay_result tx" where
  "replay_event eid reason actorId s =
     (let sc = System ''outbox.replay'' in
      case summary_of eid s of
        None \<Rightarrow> Inr (s, ReplayNotFound)
      | Some ev \<Rightarrow>
          rbind (requeue_dead_lettered sc eid s) (\<lambda>(s1, wasDeadLettered).
            if \<not> wasDeadLettered then Inr (s1, NotInDlq ev)
            else rbind (append_audit sc (operator_audit AuOutboxReplay actorId reason ev) s1) (\<lambda>(s2, _).
              Inr (s2, Replayed ev))))"

definition force_dead_letter :: "time \<Rightarrow> string \<Rightarrow> string \<Rightarrow> string \<Rightarrow> dead_letter_result tx" where
  "force_dead_letter now eid reason actorId s =
     (let sc = System ''outbox.dead_letter'' in
      case summary_of eid s of
        None \<Rightarrow> Inr (s, DeadLetterNotFound)
      | Some ev \<Rightarrow>
          rbind (mark_dead_lettered sc now eid (''operator-forced: '' @ reason) s) (\<lambda>(s1, wasAlready).
            if wasAlready then Inr (s1, EventAlreadyDeadLettered ev)
            else rbind (append_audit sc (operator_audit AuOutboxDeadLetterForced actorId reason ev) s1) (\<lambda>(s2, _).
              Inr (s2, EventDeadLettered ev))))"

definition EXIT_SUCCESS :: int where "EXIT_SUCCESS = 0"
definition EXIT_USER_ERROR :: int where "EXIT_USER_ERROR = 1"
definition EXIT_NOT_FOUND :: int where "EXIT_NOT_FOUND = 2"
definition EXIT_ALREADY_IN_STATE :: int where "EXIT_ALREADY_IN_STATE = 3"
definition EXIT_INTERNAL_ERROR :: int where "EXIT_INTERNAL_ERROR = 4"
definition EXIT_PAUSED :: int where "EXIT_PAUSED = 5"

text \<open>Whatever a command throws ends as an internal error.\<close>

definition exit_of :: "('a \<Rightarrow> int) \<Rightarrow> db \<times> (exn + 'a) \<Rightarrow> db \<times> int" where
  "exit_of f out = (case out of (s, Inl _) \<Rightarrow> (s, EXIT_INTERNAL_ERROR) | (s, Inr r) \<Rightarrow> (s, f r))"

definition run_replay :: "string \<Rightarrow> string list \<Rightarrow> db \<Rightarrow> db \<times> int" where
  "run_replay actorId args s =
     (case (get_required_positional args 0 ''eventId'', get_required_flag args ''reason'') of
        (Inr eid, Inr reason) \<Rightarrow>
          exit_of (\<lambda>r. case r of ReplayNotFound \<Rightarrow> EXIT_NOT_FOUND | NotInDlq _ \<Rightarrow> EXIT_ALREADY_IN_STATE | Replayed _ \<Rightarrow> EXIT_SUCCESS)
            (transaction (replay_event eid reason actorId) s)
      | _ \<Rightarrow> (s, EXIT_USER_ERROR))"

definition run_dead_letter :: "time \<Rightarrow> string \<Rightarrow> string list \<Rightarrow> db \<Rightarrow> db \<times> int" where
  "run_dead_letter now actorId args s =
     (case (get_required_positional args 0 ''eventId'', get_required_flag args ''reason'') of
        (Inr eid, Inr reason) \<Rightarrow>
          exit_of (\<lambda>r. case r of DeadLetterNotFound \<Rightarrow> EXIT_NOT_FOUND | EventAlreadyDeadLettered _ \<Rightarrow> EXIT_ALREADY_IN_STATE
              | EventDeadLettered _ \<Rightarrow> EXIT_SUCCESS)
            (transaction (force_dead_letter now eid reason actorId) s)
      | _ \<Rightarrow> (s, EXIT_USER_ERROR))"

definition help_token :: "string \<Rightarrow> bool" where
  "help_token t \<longleftrightarrow> t = ''--help'' \<or> t = ''-h'' \<or> t = ''help''"

definition outbox_main :: "time \<Rightarrow> string \<Rightarrow> string list \<Rightarrow> db \<Rightarrow> db \<times> int" where
  "outbox_main now actorId argv s =
     (case argv of
        [] \<Rightarrow> (s, EXIT_USER_ERROR)
      | sub # args \<Rightarrow>
          if sub = ''replay'' then run_replay actorId args s
          else if sub = ''dead-letter'' then run_dead_letter now actorId args s
          else if help_token sub then (s, EXIT_SUCCESS)
          else (s, EXIT_USER_ERROR))"

section \<open>The first scoring pass\<close>

datatype bulk_rescore_command_result =
    BulkMerchantNotFound
  | BulkAlreadyInitialized merchant_id time
  | BulkRescored merchant_id nat nat

text \<open>\<open>bulkRescore\<close> gets fuel, as in theory \<open>ScoreService\<close>.\<close>

definition BULK_RESCORE_BATCH_SIZE :: nat where "BULK_RESCORE_BATCH_SIZE = 500"

definition run_bulk_rescore ::
  "nat \<Rightarrow> pager \<Rightarrow> merchant_id \<Rightarrow> bool \<Rightarrow> string \<Rightarrow> time \<Rightarrow> db \<Rightarrow> (db \<times> (exn + bulk_rescore_command_result)) option" where
  "run_bulk_rescore fuel page m force actorId now s =
     (case find_merchant s m of
        None \<Rightarrow> Some (s, Inr BulkMerchantNotFound)
      | Some mr \<Rightarrow>
          (case (me_scoringInitializedAt mr, force) of
             (Some t0, False) \<Rightarrow> Some (s, Inr (BulkAlreadyInitialized m t0))
           | _ \<Rightarrow> map_option (\<lambda>(s1, out). (s1, rbind out (\<lambda>t. Inr (BulkRescored m (pt_customers t) (pt_batches t)))))
               (bulk_rescore fuel page (Tenant m) m actorId now BULK_RESCORE_BATCH_SIZE s)))"

definition run_bulk_rescore_cmd ::
  "nat \<Rightarrow> pager \<Rightarrow> string \<Rightarrow> time \<Rightarrow> string list \<Rightarrow> db \<Rightarrow> (db \<times> int) option" where
  "run_bulk_rescore_cmd fuel page actorId now args s =
     (case get_required_flag args ''merchant'' of
        Inl _ \<Rightarrow> Some (s, EXIT_USER_ERROR)
      | Inr m \<Rightarrow>
          map_option (exit_of (\<lambda>r. case r of BulkMerchantNotFound \<Rightarrow> EXIT_NOT_FOUND
              | BulkAlreadyInitialized _ _ \<Rightarrow> EXIT_ALREADY_IN_STATE | BulkRescored _ _ _ \<Rightarrow> EXIT_SUCCESS))
            (run_bulk_rescore fuel page m (has_flag args ''force'') actorId now s))"

section \<open>The import of orders\<close>

datatype backfill_orders_command_result =
    BackfillMerchantNotFound
  | Backfilled merchant_id int int backfill_status

definition run_backfill_orders ::
  "'w backfill_env \<Rightarrow> (string \<Rightarrow> time option) \<Rightarrow> (string \<Rightarrow> string) \<Rightarrow> string \<Rightarrow> merchant_id \<Rightarrow> 'w admin_state \<Rightarrow>
   'w admin_state \<times> (exn + backfill_orders_command_result)" where
  "run_backfill_orders e date_of newId eid m st =
     (case find_merchant (ad_db st) m of
        None \<Rightarrow> (st, Inr BackfillMerchantNotFound)
      | Some _ \<Rightarrow>
          (case run_backfill MAX_PAGES_HARD_LIMIT eid (order_page_fetch e m) (process_orders date_of newId m) m BackfillOrders None
                  (build_admin_client st) of
             (st1, Inl err) \<Rightarrow> (st1, Inl err)
           | (st1, Inr b) \<Rightarrow> (st1, Inr (Backfilled m (br_pagesProcessed b) (br_itemsProcessed b) (br_finalStatus b)))))"

definition run_backfill_orders_cmd ::
  "'w backfill_env \<Rightarrow> (string \<Rightarrow> time option) \<Rightarrow> (string \<Rightarrow> string) \<Rightarrow> string \<Rightarrow> string list \<Rightarrow> 'w admin_state \<Rightarrow>
   'w admin_state \<times> int" where
  "run_backfill_orders_cmd e date_of newId eid args st =
     (case get_required_flag args ''merchant'' of
        Inl _ \<Rightarrow> (st, EXIT_USER_ERROR)
      | Inr m \<Rightarrow>
          (case run_backfill_orders e date_of newId eid m st of
             (st1, Inl _) \<Rightarrow> (st1, EXIT_INTERNAL_ERROR)
           | (st1, Inr BackfillMerchantNotFound) \<Rightarrow> (st1, EXIT_NOT_FOUND)
           | (st1, Inr (Backfilled _ _ _ status)) \<Rightarrow> (st1, if status = BfPaused then EXIT_PAUSED else EXIT_SUCCESS)))"

section \<open>The sweeps of the scheduler\<close>

record sweep_totals =
  sw_swept :: nat
  sw_failed :: nat
  sw_transitions :: nat
  sw_emitted :: nat

definition DECAY_SWEEP_ACTOR_ID :: string where "DECAY_SWEEP_ACTOR_ID = ''scheduler''"
definition DECAY_RESCORE_BATCH_SIZE :: nat where "DECAY_RESCORE_BATCH_SIZE = 500"

definition decay_candidates :: "db \<Rightarrow> merchant_id list" where
  "decay_candidates s = map me_id (filter (\<lambda>r. me_scoringInitializedAt r \<noteq> None \<and> me_uninstalledAt r = None
     \<and> me_tokenRevokedAt r = None) (merchants s))"

text \<open>A merchant whose pass throws is counted and left for the next day.\<close>

fun decay_each ::
  "nat \<Rightarrow> pager \<Rightarrow> (string \<Rightarrow> string) \<Rightarrow> time \<Rightarrow> merchant_id list \<Rightarrow> db \<Rightarrow> sweep_totals \<Rightarrow> (db \<times> sweep_totals) option" where
  "decay_each fuel page newId now [] s t = Some (s, t)"
| "decay_each fuel page newId now (m # ms) s t =
     (case decay_rescore fuel page (Tenant m) newId m DECAY_SWEEP_ACTOR_ID now DECAY_RESCORE_BATCH_SIZE s of
        None \<Rightarrow> None
      | Some (s1, Inl _) \<Rightarrow> decay_each fuel page newId now ms s1 (t\<lparr>sw_failed := sw_failed t + 1\<rparr>)
      | Some (s1, Inr r) \<Rightarrow> decay_each fuel page newId now ms s1 (t\<lparr>sw_swept := sw_swept t + 1,
          sw_transitions := sw_transitions t + pt_transitions r, sw_emitted := sw_emitted t + pt_emitted r\<rparr>))"

definition run_decay_sweep :: "nat \<Rightarrow> pager \<Rightarrow> (string \<Rightarrow> string) \<Rightarrow> time \<Rightarrow> db \<Rightarrow> (db \<times> sweep_totals) option" where
  "run_decay_sweep fuel page newId now s =
     decay_each fuel page newId now (decay_candidates s) s \<lparr>sw_swept = 0, sw_failed = 0, sw_transitions = 0, sw_emitted = 0\<rparr>"

definition enrichment_candidate :: "time \<Rightarrow> merchant_row \<Rightarrow> bool" where
  "enrichment_candidate now r \<longleftrightarrow> me_shopDetailsFetchedAt r = None \<and> me_installedAt r < now - 10 * 60000
     \<and> me_tokenRevokedAt r = None \<and> me_uninstalledAt r = None"

text \<open>Each merchant gets a client of its own; the ids of the events are given per merchant.\<close>

fun enrich_each ::
  "'w backfill_env \<Rightarrow> (merchant_id \<Rightarrow> string) \<Rightarrow> merchant_id list \<Rightarrow> 'w admin_state \<Rightarrow> nat \<times> nat \<Rightarrow> 'w admin_state \<times> nat \<times> nat" where
  "enrich_each e newId [] st counts = (st, counts)"
| "enrich_each e newId (m # ms) st counts =
     (case enrich_install e (newId m) m (build_admin_client st) of
        (st1, None) \<Rightarrow> enrich_each e newId ms st1 (fst counts + 1, snd counts)
      | (st1, Some _) \<Rightarrow> enrich_each e newId ms st1 (fst counts, snd counts + 1))"

definition run_enrichment_sweep ::
  "'w backfill_env \<Rightarrow> (merchant_id \<Rightarrow> string) \<Rightarrow> 'w admin_state \<Rightarrow> 'w admin_state \<times> nat \<times> nat" where
  "run_enrichment_sweep e newId st =
     enrich_each e newId (map me_id (filter (enrichment_candidate (ad_now st)) (merchants (ad_db st)))) st (0, 0)"

section \<open>What a replay does\<close>

text \<open>
  C37. A replay of a finished event is empty. An operator can dead-letter an event that has been
  processed, and can then replay it; both commands succeed and leave their audit rows, but the
  event is still marked processed, so no tick ever claims it: the replay that was reported
  never delivers anything.
\<close>

theorem processed_replay_is_idle:
  assumes "find_row (\<lambda>r. ob_id r = eid) (outbox s) = Some r" and "distinct (map ob_id (outbox s))"
    and "ob_processedAt r \<noteq> None" and "ob_deadLetteredAt r = None" and "find_merchant s (ob_merchantId r) = Some mr"
  shows "\<exists>ev s1 s2. force_dead_letter now eid why actorId s = Inr (s1, EventDeadLettered ev)
    \<and> replay_event eid reason actorId s1 = Inr (s2, Replayed ev)
    \<and> audits s2 = audits s @ [operator_audit AuOutboxDeadLetterForced actorId why ev, operator_audit AuOutboxReplay actorId reason ev]
    \<and> list_all (\<lambda>x. ob_id x = eid \<longrightarrow> \<not> claimable x) (outbox s2)"
proof -
  define msg where "msg = ''operator-forced: '' @ why"
  let ?dead = "\<lambda>r. ob_id r = eid \<and> ob_deadLetteredAt r = None"
  let ?o1 = "update_many ?dead (dead_change now msg) (outbox s)"
  define ev where "ev = \<lparr>es_id = ob_id r, es_merchantId = ob_merchantId r, es_type = ob_type r, es_shop = me_shop mr\<rparr>"
  define s1 where "s1 = s\<lparr>outbox := ?o1, audits := audits s @ [operator_audit AuOutboxDeadLetterForced actorId why ev]\<rparr>"
  have r: "r \<in> set (outbox s)" "ob_id r = eid" using find_row_Some_D [OF assms(1)] by simp_all
  have "update_count ?dead (outbox s) \<noteq> 0" using r assms(4) by (auto simp: update_count_0_iff)
  then have dead: "force_dead_letter now eid why actorId s = Inr (s1, EventDeadLettered ev)"
    using assms(1,5) by (auto simp: force_dead_letter_def summary_of_def mark_dead_lettered_def require_system_def
        append_audit_def operator_audit_def s1_def ev_def msg_def Let_def)
  have key: "ob_id (dead_change now m x) = ob_id x" for m x by (simp add: dead_change_def)
  have found: "find_row (\<lambda>r. ob_id r = eid) ?o1 = Some (dead_change now msg r)"
    using assms(1,4) r(2) by (simp add: find_update_many_key key)
  then have row1: "dead_change now msg r \<in> set ?o1" by (blast dest: find_row_Some_D)
  have sum1: "summary_of eid s1 = Some ev"
    using found assms(5) by (simp add: summary_of_def s1_def ev_def dead_change_def find_merchant_def)
  let ?guard = "\<lambda>r. ob_id r = eid \<and> ob_deadLetteredAt r \<noteq> None"
  let ?o2 = "update_many ?guard requeue_change ?o1"
  have "\<exists>x \<in> set ?o1. ?guard x" by (rule bexI [OF _ row1]) (simp add: r(2) dead_change_def)
  then have "update_count ?guard (outbox s1) \<noteq> 0" unfolding update_count_0_iff by (simp add: s1_def)
  then have requeue: "requeue_dead_lettered (System ''outbox.replay'') eid s1 = Inr (s1\<lparr>outbox := ?o2\<rparr>, True)"
    by (simp add: requeue_dead_lettered_def require_system_def s1_def)
  have audit: "append_audit (System q) (operator_audit act who what ev) x = Inr (x\<lparr>audits := audits x @ [operator_audit act who what ev]\<rparr>, ())"
    for q act who what x by (simp add: append_audit_def operator_audit_def)
  have replay: "replay_event eid reason actorId s1 = Inr (s1\<lparr>outbox := ?o2,
      audits := audits s1 @ [operator_audit AuOutboxReplay actorId reason ev]\<rparr>, Replayed ev)"
    unfolding replay_event_def Let_def sum1 option.case requeue by (simp add: audit)
  have only: "x = r" if "x \<in> set (outbox s)" "ob_id x = eid" for x
    using that r assms(2) by (auto simp: distinct_map dest: inj_onD)
  have "\<not> claimable x" if x: "x \<in> set ?o2" "ob_id x = eid" for x
  proof -
    let ?k = "\<lambda>r. (ob_id r, ob_processedAt r)"
    have "?k ` set ?o2 = ?k ` set ?o1" by (rule image_update_many) (simp add: requeue_change_def)
    also have "\<dots> = ?k ` set (outbox s)" by (rule image_update_many) (simp add: dead_change_def)
    finally have "?k x \<in> ?k ` set (outbox s)" using imageI [OF x(1), of ?k] by (simp only:)
    then obtain y where "y \<in> set (outbox s)" "ob_id x = ob_id y" "ob_processedAt x = ob_processedAt y" by auto
    with only [of y] x(2) assms(3) show ?thesis by (simp add: claimable_def)
  qed
  then have "list_all (\<lambda>x. ob_id x = eid \<longrightarrow> \<not> claimable x) ?o2" by (simp add: list_all_iff)
  with dead replay show ?thesis by (auto simp: s1_def)
qed

definition demo_events :: db where
  "demo_events = demo_gone\<lparr>outbox := [demo_event\<lparr>ob_processedAt := Some 1\<rparr>]\<rparr>"

theorem processed_replay_is_idle_witness:
  "\<exists>ev s1 s2. force_dead_letter 2 ''e1'' ''stuck'' ''op'' demo_events = Inr (s1, EventDeadLettered ev)
    \<and> replay_event ''e1'' ''retry'' ''op'' s1 = Inr (s2, Replayed ev) \<and> list_all (\<lambda>x. ob_id x = ''e1'' \<longrightarrow> \<not> claimable x) (outbox s2)"
proof -
  have "find_row (\<lambda>r. ob_id r = ''e1'') (outbox demo_events) = Some (demo_event\<lparr>ob_processedAt := Some 1\<rparr>)"
    and "distinct (map ob_id (outbox demo_events))" and "\<exists>mr. find_merchant demo_events ''m1'' = Some mr"
    by (simp_all add: demo_events_def demo_event_def demo_gone_def find_row_def find_merchant_def fresh_merchant_def)
  then show ?thesis
    using processed_replay_is_idle [of "''e1''" demo_events "demo_event\<lparr>ob_processedAt := Some 1\<rparr>" _ 2 "''stuck''" "''op''" "''retry''"]
    by (auto simp: demo_event_def)
qed

end
