(* ===== verification/Spec2Isabelle.thy ===== *)
theory Spec2Isabelle
  imports TenantScope RecomputeFacts RescoreFacts OutboxFacts GateChain DispatchRuns DispatchSweep
    PromptBuilder Base32 RateLimiter AiLedger GdprFacts CustomerBackfill Operator
begin

text \<open>
  WinBack is a multi-tenant retention service for shops: it scores customers by recency,
  frequency and money, notices when a customer drifts into a worse band, generates a message
  for that customer and sends it by email under the merchant's sending policy. The program is
  a TypeScript monorepo. The parts modelled here, and how they interact:

  \<^item> \<open>packages/errors\<close> (theory \<open>Errors\<close>): the error classes as constructors of one record
    \<open>app_error\<close>, the classifiers and the HTTP serialisation. An exception is a value of
    \<open>exn\<close>; a function that can throw returns \<open>exn + 'a\<close>.
  \<^item> \<open>packages/contracts\<close> (\<open>Contracts\<close>, \<open>AiTone\<close>): event types, queues, job payloads, enums,
    and the schema of the merchant's tone of voice.
  \<^item> \<open>packages/db/src/tenant-scope.ts\<close> and \<open>extensions/hooks.ts\<close> (\<open>TenantScope\<close>): the scope a
    request runs in and the rewriting of every Prisma call by that scope. The asynchronous
    local storage is an argument of type \<open>tenant_scope\<close>.
  \<^item> \<open>packages/db/prisma/schema.prisma\<close>, \<open>unit-of-work.ts\<close>, \<open>audit-log.repository.ts\<close>
    (\<open>Store\<close>): one record per table with the columns that the modelled code uses, the
    database \<open>db\<close> as a record of tables, and transactions that commit all writes or none.
  \<^item> \<open>services/scoring-math.ts\<close> (\<open>ScoringMath\<close>) and \<open>services/customer-score.service.ts\<close> with
    its repository and event builder (\<open>ScoreService\<close>; facts in \<open>ScoreFacts\<close>,
    \<open>RecomputeFacts\<close>, \<open>RescoreFacts\<close>): the quintiles and bands, the scoring of one customer
    after an order event, the first pass over a merchant and the nightly decay pass.
  \<^item> \<open>outbox.repository.ts\<close> and \<open>apps/drainer/src/drainer.ts\<close> (\<open>Outbox\<close>, \<open>OutboxFacts\<close>): the
    transactional outbox, its drainer tick, the dead letters and their requeueing.
  \<^item> \<open>campaign.repository.ts\<close>, \<open>message.repository.ts\<close> (\<open>CampaignRepo\<close>),
    \<open>apps/drainer/src/dispatch\<close> (\<open>GateChain\<close>), \<open>packages/email\<close> (\<open>EmailProvider\<close>),
    \<open>workers/dispatch.worker.ts\<close> (\<open>DispatchWorker\<close>, \<open>DispatchSystem\<close>, \<open>DispatchRuns\<close>) and
    \<open>apps/scheduler/src/handlers/dispatch-sweep.ts\<close> (\<open>DispatchSweep\<close>): the sending of a draft,
    from the sweep that enqueues it through the six gates, the claim, the tombstone, the call
    of SES and the completion transaction.
  \<^item> \<open>packages/queue/src/rate-limiter.ts\<close> (\<open>RateLimiter\<close>), \<open>handlers/customer-state-changed.ts\<close>
    (\<open>StateChanged\<close>), the generation and spend repositories (\<open>AiStore\<close>), \<open>packages/ai\<close>
    (\<open>PromptBuilder\<close>, \<open>AiProviders\<close>, \<open>AiCost\<close>) and \<open>workers/ai-generate.worker.ts\<close> (\<open>AiWorker\<close>,
    \<open>AiLedger\<close>): from a worse band to a generation, its draft, its call of the model, its cost.
  \<^item> \<open>packages/shopify/src/admin\<close> (\<open>AdminClient\<close>, \<open>ShopDiscounts\<close>) and \<open>packages/crypto/src/base32.ts\<close>
    (\<open>Base32\<close>): the throttled and retrying client of the Admin API and the discount codes.
  \<^item> \<open>packages/db/src/gid.ts\<close>, \<open>money.ts\<close> and the customer and order repositories
    (\<open>CustomerRepo\<close>, \<open>Money\<close>, \<open>Upserts\<close>, \<open>OrderRepo\<close>): the rows that webhooks write.
  \<^item> \<open>backfill-job.repository.ts\<close> and \<open>packages/shopify/src/backfill\<close> (\<open>Backfill\<close>,
    \<open>BackfillFacts\<close>, \<open>BackfillSources\<close>, \<open>BackfillRuns\<close>, \<open>CustomerBackfill\<close>): the paged and
    resumable import of a shop's customers and orders.
  \<^item> \<open>compliance/gdpr-processor.ts\<close> and \<open>handlers/gdpr.ts\<close> (\<open>Gdpr\<close>, \<open>GdprFacts\<close>): the export and
    the redactions that privacy law asks for.
  \<^item> \<open>webhook-bodies.ts\<close>, \<open>payload-schemas.ts\<close> and the drainer's order, customer and merchant
    handlers (\<open>EventHandlers\<close>, \<open>Install\<close>); the install, its enrichment and the merchant's
    settings (\<open>Install\<close>).
  \<^item> \<open>webhook-topics.ts\<close>, \<open>hmac.ts\<close>, \<open>services/webhook-ingest.server.ts\<close> and
    \<open>routes/webhooks.tsx\<close> (\<open>WebhookIngest\<close>): the intake of webhooks into the outbox.
  \<^item> \<open>packages/crypto/src/cipher.ts\<close>, \<open>session-storage.ts\<close>, \<open>packages/shopify/src/auth\<close>,
    \<open>admin/webhook-subscriptions.ts\<close>, \<open>services/admin-auth.server.ts\<close> and \<open>routes/auth.tsx\<close>
    (\<open>Auth\<close>): tokens at rest, session tokens, the guard of admin requests and the route that
    installs a shop.
  \<^item> \<open>apps/cli/src\<close> and the decay and enrichment sweeps of \<open>apps/scheduler/src/handlers\<close>
    (\<open>Operator\<close>): the operator's commands and the periodic passes over all merchants.

  A signed webhook becomes an outbox event; the drainer hands the event to its handler, which
  writes customers and orders and rescores them; scoring writes \<open>customer.state_changed\<close> events
  to the same outbox; their handler creates a generation with a draft and queues the worker
  that fills it; the sweep turns drafts into jobs of the dispatch worker. All of them act on the
  one \<open>db\<close>, which each operation takes and returns.
\<close>

text \<open>
  What the lemmas show. \<open>TenantScope\<close>: reads and writes are confined to the tenant, and where
  they are not. \<open>ScoringMath\<close>: the quintiles mean what they say, all results are in range.
  \<open>RecomputeFacts\<close> and \<open>RescoreFacts\<close>: the effects of the three scoring operations, their
  completeness and termination. \<open>OutboxFacts\<close>: what a tick does to each row, and the attempts
  budget as an invariant. \<open>GateChain\<close>: the sending policy. \<open>DispatchSystem\<close>: the dispatch
  protocol as a step relation with an inductive invariant, whose abstraction maps each message
  to the status of its target; \<open>DispatchRuns\<close>: the worker refines that protocol. \<open>StateChanged\<close>:
  the admission policy of generations; \<open>AiLedger\<close>: the books of the pipeline as an invariant of
  its interleavings, and a job as a run of them. \<open>AdminClient\<close>: the budget of requests and the
  end of a revoked token; \<open>ShopDiscounts\<close>: a code is minted once. \<open>OrderRepo\<close>, \<open>BackfillRuns\<close>
  and \<open>EventHandlers\<close>: redelivery and the agreement of the two ways an order comes in.
  \<open>CustomerBackfill\<close>: a completed backfill is exact, and completes. \<open>GdprFacts\<close>: what a
  redaction erases and what it misses. \<open>Install\<close>: the effects of an install, the type of the
  settings, a late uninstall. \<open>WebhookIngest\<close>: a webhook is published exactly once, and the
  privacy webhooks never get through. \<open>Auth\<close>: a token opens one shop, stored tokens come back,
  and an install that fails half way never subscribes to webhooks. \<open>Operator\<close>: a replay of a
  processed event is empty.

  Interfaces. \<open>where_semantics\<close> is what the hooks rely on of the query engine; \<open>ranking\<close> what
  the quintiles rely on of the two rank functions; \<open>cursor_pager\<close> what the passes rely on of a
  paged query; \<open>guarded_update\<close> what every compare-and-set of the repositories provides;
  \<open>keyed_upsert\<close> and its extension \<open>overwriting_upsert\<close> what the webhook and backfill writes do
  to a table with a unique key; \<open>batched_table\<close> what the batched deletes rely on of a table;
  \<open>paged_backfill\<close> what the runner relies on of a fetcher and a processor. Each is interpreted
  on the definitions of the model.

  Parameters. Outside the repository and so arguments of the model: the match of a scalar
  filter, the cursor of a paged query, the clients of SES, of the language models, of Redis'
  scripts and of Shopify's HTTP API, hashes, HMAC and ciphers, \<open>JSON.parse\<close> and the reading of
  dates, the time zone database, jitter, fresh identifiers and the clock.

  Bounds. The scoring pass is given fuel, one round per batch; one more than the number of live
  customers is enough (\<open>bulk_rescore_ends\<close>). A backfill run stops at the program's own limit
  \<open>MAX_PAGES_HARD_LIMIT\<close>; \<open>customer_backfill_completes\<close> is for lists with fewer pages. The
  batched deletes have a partial definition and are shown to end. The request loop of the Admin
  client recurses on the attempts left; the loop of completion attempts runs over the list of
  its attempts. Doubles are exact: the ceilings of the percentile positions agree with double
  arithmetic for cohorts up to 400,000 customers. The numbers of JSON are whole.
\<close>

text \<open>
  Not modelled: the pages of the web application and their rendering, the dashboard reads and
  the health check, the configuration and logger packages, what commands print and the smoke
  test of the mail provider, the rollup tick (which only logs), the queues and processes
  themselves (a job is a call, a crash is a worker that leaves), isolation levels beyond the
  atomicity of a transaction, and transaction timeouts (one is a fault of the webhook intake).
  The errors of the Admin client and of the discount codes carry their message and status, not
  the context record that is only logged.
\<close>

end
